(* ===== verification/SP_Prelude.thy ===== *)
theory SP_Prelude
  imports Complex_Main "HOL-Library.AList" "HOL-Library.Multiset"
begin

text \<open>
  Shared vocabulary of the development: instants and durations, JavaScript's
  null handling and rounding, structured values (JSON objects) as the code
  stores them in jsonb columns, the application's HTTP errors, and the generic
  lemmas on lists and maps the components use.

  Numbers. Times are epoch milliseconds and durations are milliseconds: both are
  integers in every column and message of the program, so they are \<open>int\<close>.
  Similarities and log-likelihood ratios are JavaScript doubles; they are read as
  exact reals (\<open>real\<close>), that is, without rounding error, NaN or infinities.
  \<open>x ?? y\<close> is \<open>nullish x y\<close>; a nullable value is an \<open>option\<close>.
\<close>

section \<open>Automation collections\<close>

named_theorems sp_defs \<open>definitions unfolded by the proofs about single operations\<close>
named_theorems sp_frame \<open>what an operation leaves unchanged\<close>
named_theorems sp_inv \<open>invariant preservation\<close>

section \<open>Instants, null handling, rounding\<close>

type_synonym ms = int
type_synonym ident = string

definition nullish :: "'a option \<Rightarrow> 'a \<Rightarrow> 'a" where
  "nullish x y = (case x of None \<Rightarrow> y | Some v \<Rightarrow> v)"

definition orElse :: "'a option \<Rightarrow> 'a option \<Rightarrow> 'a option" where
  "orElse x y = (case x of None \<Rightarrow> y | Some v \<Rightarrow> Some v)"

lemma nullish_simps [simp]:
  "nullish None y = y"
  "nullish (Some v) y = v"
  by (simp_all add: nullish_def)

lemma orElse_simps [simp]:
  "orElse None y = y"
  "orElse (Some v) y = Some v"
  "orElse x None = x"
  by (simp_all add: orElse_def split: option.split)

lemma orElse_Some_iff: "orElse x y = Some v \<longleftrightarrow> x = Some v \<or> (x = None \<and> y = Some v)"
  by (cases x) auto

text \<open>\<open>Math.round\<close>: the nearest integer, halves upwards.\<close>

definition mathRound :: "real \<Rightarrow> int" where
  "mathRound x = \<lfloor>x + 1 / 2\<rfloor>"

lemma mathRound_of_int [simp]: "mathRound (of_int i) = i"
  by (simp add: mathRound_def floor_eq_iff)

lemma mathRound_mono: "x \<le> y \<Longrightarrow> mathRound x \<le> mathRound y"
  by (simp add: mathRound_def floor_mono)

lemma mathRound_bounds: "x - 1 / 2 < of_int (mathRound x) \<and> of_int (mathRound x) \<le> x + 1 / 2"
  unfolding mathRound_def by linarith

text \<open>\<open>Math.round(v * 10000) / 10000\<close>: four decimals.\<close>

definition round4 :: "real \<Rightarrow> real" where
  "round4 v = of_int (mathRound (v * 10000)) / 10000"

lemma round4_mono: "x \<le> y \<Longrightarrow> round4 x \<le> round4 y"
  by (simp add: round4_def divide_right_mono mathRound_mono)

lemma round4_error: "\<bar>round4 x - x\<bar> \<le> 1 / 20000"
proof -
  have "x * 10000 - 1 / 2 < of_int (mathRound (x * 10000))"
    "of_int (mathRound (x * 10000)) \<le> x * 10000 + 1 / 2"
    using mathRound_bounds[of "x * 10000"] by auto
  then show ?thesis unfolding round4_def by linarith
qed

lemma round4_fixed: "x * 10000 = of_int k \<Longrightarrow> round4 x = x"
  by (simp add: round4_def nonzero_divide_eq_eq flip: of_int_eq_iff)

lemma round4_le_iff:
  assumes "c * 10000 = of_int k" and "x \<le> c"
  shows "round4 x \<le> c"
  using round4_mono[OF assms(2)] round4_fixed[OF assms(1)] by simp

lemma round4_ge_iff:
  assumes "c * 10000 = of_int k" and "c \<le> x"
  shows "c \<le> round4 x"
  using round4_mono[OF assms(2)] round4_fixed[OF assms(1)] by simp

definition clamp :: "real \<Rightarrow> real \<Rightarrow> real \<Rightarrow> real" where
  "clamp v lo hi = (if v < lo then lo else if v > hi then hi else v)"

lemma clamp_bounds: "lo \<le> hi \<Longrightarrow> lo \<le> clamp v lo hi \<and> clamp v lo hi \<le> hi"
  by (auto simp: clamp_def)

lemma clamp_mono: "lo \<le> hi \<Longrightarrow> x \<le> y \<Longrightarrow> clamp x lo hi \<le> clamp y lo hi"
  by (auto simp: clamp_def)

section \<open>Structured values\<close>

text \<open>
  A JavaScript value as it is stored in a jsonb column. An object is an
  association list; \<open>{ ...a, ...b }\<close> is \<open>spread a b\<close>.
\<close>

datatype json =
    JNull
  | JBool bool
  | JInt int
  | JReal real
  | JStr string
  | JArr "json list"
  | JObj "(string \<times> json) list"

type_synonym jobj = "(string \<times> json) list"

definition spread :: "jobj \<Rightarrow> jobj \<Rightarrow> jobj" where
  "spread a b = AList.merge a b"

lemma map_of_spread: "map_of (spread a b) = map_of a ++ map_of b"
  by (simp add: spread_def merge_conv')

lemma spread_Nil [simp]: "spread a [] = a"
  by (simp add: spread_def)

definition jstr :: "string option \<Rightarrow> json" where
  "jstr x = (case x of None \<Rightarrow> JNull | Some s \<Rightarrow> JStr s)"

definition jint :: "int option \<Rightarrow> json" where
  "jint x = (case x of None \<Rightarrow> JNull | Some i \<Rightarrow> JInt i)"

section \<open>Errors\<close>

text \<open>
  \<open>HttpError\<close> (lib/errors.ts): the status code and the machine-readable code. The
  sentence shown to people and the optional details object do not influence any
  computation and are left out.
\<close>

record http_error =
  statusCode :: int
  code :: string

type_synonym 'a result = "http_error + 'a"

definition badRequest :: "string \<Rightarrow> http_error" where
  "badRequest c = \<lparr>statusCode = 400, code = c\<rparr>"
definition validationFailed :: http_error where
  "validationFailed = \<lparr>statusCode = 400, code = ''validation_failed''\<rparr>"
definition notFound :: "string \<Rightarrow> http_error" where
  "notFound c = \<lparr>statusCode = 404, code = c\<rparr>"
definition conflict :: "string \<Rightarrow> http_error" where
  "conflict c = \<lparr>statusCode = 409, code = c\<rparr>"
definition invalidState :: http_error where
  "invalidState = \<lparr>statusCode = 409, code = ''invalid_state''\<rparr>"

text \<open>Sequencing of computations that may throw.\<close>

definition bindR :: "'a result \<Rightarrow> ('a \<Rightarrow> 'b result) \<Rightarrow> 'b result" where
  "bindR r f = (case r of Inl e \<Rightarrow> Inl e | Inr x \<Rightarrow> f x)"

definition guardR :: "bool \<Rightarrow> http_error \<Rightarrow> unit result" where
  "guardR b e = (if b then Inr () else Inl e)"

lemma bindR_simps [simp]:
  "bindR (Inl e) f = Inl e"
  "bindR (Inr x) f = f x"
  by (simp_all add: bindR_def)

lemma bindR_Inr_iff: "bindR r f = Inr y \<longleftrightarrow> (\<exists>x. r = Inr x \<and> f x = Inr y)"
  by (cases r) auto

lemma guardR_Inr_iff [simp]: "guardR b e = Inr u \<longleftrightarrow> b"
  by (simp add: guardR_def)

lemma guardR_simps [simp]:
  "guardR True e = Inr ()"
  "guardR False e = Inl e"
  by (simp_all add: guardR_def)

section \<open>Lists\<close>

text \<open>\<open>a.slice(-n)\<close>: the last \<open>n\<close> elements.\<close>

definition lastN :: "nat \<Rightarrow> 'a list \<Rightarrow> 'a list" where
  "lastN n xs = drop (length xs - n) xs"

lemma length_lastN [simp]: "length (lastN n xs) = min n (length xs)"
  by (simp add: lastN_def)

lemma set_lastN: "set (lastN n xs) \<subseteq> set xs"
  by (simp add: lastN_def set_drop_subset)

lemma sorted_lastN: "sorted xs \<Longrightarrow> sorted (lastN n xs)"
  by (simp add: lastN_def sorted_wrt_drop)

lemma map_lastN: "map f (lastN n xs) = lastN n (map f xs)"
  by (simp add: lastN_def drop_map)

lemma lastN_append_single: "0 < n \<Longrightarrow> xs \<noteq> [] \<Longrightarrow> lastN n xs \<noteq> [] \<and> last (lastN n xs) = last xs"
  using diff_less[of n "length xs"] by (auto simp: lastN_def last_drop not_le)

text \<open>Stable sorting, as \<open>Array.prototype.sort\<close> with a numeric key.\<close>

lemma sort_key_sorted_id: "sorted (map f xs) \<Longrightarrow> sort_key f xs = xs"
proof (induction xs)
  case (Cons x xs)
  then show ?case by (cases xs) auto
qed simp

lemma sort_key_stable_last:
  assumes "sorted (map f xs)" "\<And>y. y \<in> set xs \<Longrightarrow> f y \<le> f x"
  shows "sort_key f (xs @ [x]) = xs @ [x]"
  by (rule sort_key_sorted_id) (use assms in \<open>auto simp: sorted_append\<close>)

lemma sum_list_filter_split:
  fixes f :: "'a \<Rightarrow> 'b::comm_monoid_add"
  shows "sum_list (map f xs) = sum_list (map f (filter P xs)) + sum_list (map f (filter (\<lambda>x. \<not> P x) xs))"
  by (induction xs) (auto simp: algebra_simps)

lemma fold_commute_mset:
  assumes com: "\<And>x y s. f x (f y s) = f y (f x s)" and eq: "mset xs = mset ys"
  shows "fold f xs s = fold f ys s"
proof -
  have "f x \<circ> f y = f y \<circ> f x" for x y
    using com by (simp add: fun_eq_iff)
  then have "fold f xs = fold f ys"
    using eq by (intro fold_multiset_equiv)
  then show ?thesis by simp
qed

end
