(* ===== verification/SP_Clock.thy ===== *)
theory SP_Clock
  imports SP_Prelude
begin

text \<open>
  packages/shared/src/session.ts: the vocabulary of the exam session lifecycle
  and the arithmetic of the server-authoritative exam clock.
\<close>

section \<open>Lifecycle vocabulary\<close>

datatype session_status = Invited | Ready | Active | Paused | On_hold | Submitted | Terminated

definition TERMINAL_STATUSES :: "session_status list" where
  "TERMINAL_STATUSES = [Submitted, Terminated]"

abbreviation terminal :: "session_status \<Rightarrow> bool" where
  "terminal st \<equiv> st \<in> set TERMINAL_STATUSES"

lemma terminal_simps [simp]:
  "terminal Submitted" "terminal Terminated"
  "\<not> terminal Invited" "\<not> terminal Ready" "\<not> terminal Active" "\<not> terminal Paused" "\<not> terminal On_hold"
  by (simp_all add: TERMINAL_STATUSES_def)

datatype connection_status = Online | Offline | Never_connected

datatype hold_reason =
    H_identity_mismatch | H_identity_unverifiable | H_id_photo_mismatch | H_pause_limit | H_staff
  | H_id_photo_unverifiable | H_staff_verification | H_resume_limit | H_recovery | H_additional_display

datatype end_reason =
    E_candidate_submitted | E_time_expired | E_staff_submitted | E_staff_terminated | E_candidate_withdrew
  | E_abandoned | E_resume_limit

definition END_REASONS :: "end_reason list" where
  "END_REASONS = [E_candidate_submitted, E_time_expired, E_staff_submitted, E_staff_terminated, E_candidate_withdrew]"
definition SYSTEM_END_REASONS :: "end_reason list" where
  "SYSTEM_END_REASONS = [E_abandoned, E_resume_limit]"
definition SESSION_END_REASONS :: "end_reason list" where
  "SESSION_END_REASONS = END_REASONS @ SYSTEM_END_REASONS"
definition CANDIDATE_END_REASONS :: "end_reason list" where
  "CANDIDATE_END_REASONS = END_REASONS @ [E_resume_limit]"

datatype period_kind = P_check_in | P_active | P_paused | P_disconnected | P_on_hold | P_resume_check

definition OBSERVED_PERIOD_KINDS :: "period_kind list" where
  "OBSERVED_PERIOD_KINDS = [P_check_in, P_active, P_resume_check]"

datatype check_purpose = C_initial | C_resume | C_reconnect | C_reverify

section \<open>The exam clock\<close>

record exam_clock =
  ck_durationMs :: ms
  ck_usedMs :: ms
  ck_runningSince :: "ms option"

definition clockRunning :: "exam_clock \<Rightarrow> ms \<Rightarrow> ms" where
  "clockRunning c now = (case ck_runningSince c of Some t \<Rightarrow> max 0 (now - t) | None \<Rightarrow> 0)"

definition clockRemainingMs :: "exam_clock \<Rightarrow> ms \<Rightarrow> ms" where
  "clockRemainingMs c now = max 0 (ck_durationMs c - ck_usedMs c - clockRunning c now)"

definition clockUsedMs :: "exam_clock \<Rightarrow> ms \<Rightarrow> ms" where
  "clockUsedMs c now = min (ck_durationMs c) (ck_usedMs c + clockRunning c now)"

definition clockStart :: "exam_clock \<Rightarrow> ms \<Rightarrow> exam_clock" where
  "clockStart c now = (if ck_runningSince c \<noteq> None then c else c\<lparr>ck_runningSince := Some now\<rparr>)"

definition clockStop :: "exam_clock \<Rightarrow> ms \<Rightarrow> exam_clock" where
  "clockStop c now = (if ck_runningSince c = None then c
     else c\<lparr>ck_usedMs := clockUsedMs c now, ck_runningSince := None\<rparr>)"

definition clockExpired :: "exam_clock \<Rightarrow> ms \<Rightarrow> bool" where
  "clockExpired c now \<longleftrightarrow> clockRemainingMs c now \<le> 0"

lemmas clock_defs = clockRunning_def clockRemainingMs_def clockUsedMs_def clockStart_def clockStop_def clockExpired_def

definition wf_clock :: "exam_clock \<Rightarrow> bool" where
  "wf_clock c \<longleftrightarrow> 0 \<le> ck_usedMs c \<and> ck_usedMs c \<le> ck_durationMs c"

lemma clockRunning_nonneg [simp]: "0 \<le> clockRunning c now"
  by (auto simp: clockRunning_def split: option.split)

lemma clockRunning_mono: "t \<le> t' \<Longrightarrow> clockRunning c t \<le> clockRunning c t'"
  by (auto simp: clockRunning_def split: option.split)

lemma clockRemainingMs_nonneg [simp]: "0 \<le> clockRemainingMs c now"
  by (simp add: clockRemainingMs_def)

lemma wf_clockStart [sp_inv]: "wf_clock c \<Longrightarrow> wf_clock (clockStart c now)"
  by (simp add: wf_clock_def clockStart_def)

lemma wf_clockStop [sp_inv]: "wf_clock c \<Longrightarrow> wf_clock (clockStop c now)"
  using clockRunning_nonneg[of c now] by (simp add: wf_clock_def clockStop_def clockUsedMs_def)

lemma clock_used_plus_remaining:
  "wf_clock c \<Longrightarrow> clockUsedMs c now + clockRemainingMs c now = ck_durationMs c"
  by (auto simp: wf_clock_def clockUsedMs_def clockRemainingMs_def)

lemma clockStop_stopped [simp]: "ck_runningSince (clockStop c now) = None"
  by (simp add: clockStop_def)

lemma clockStop_idem [simp]: "clockStop (clockStop c t) t' = clockStop c t"
  by (simp add: clockStop_def)

lemma clockStart_idem [simp]: "clockStart (clockStart c t) t' = clockStart c t"
  by (simp add: clockStart_def)

lemma clockStop_remaining:
  "wf_clock c \<Longrightarrow> clockRemainingMs (clockStop c now) later = (if ck_runningSince c = None then clockRemainingMs c later else clockRemainingMs c now)"
  by (auto simp: wf_clock_def clockStop_def clockUsedMs_def clockRemainingMs_def clockRunning_def split: option.split)

lemma clockExpired_mono: "clockExpired c t \<Longrightarrow> t \<le> t' \<Longrightarrow> clockExpired c t'"
  using clockRunning_mono[of t t' c] by (simp add: clockExpired_def clockRemainingMs_def)

section \<open>The clock as an interface\<close>

text \<open>
  What the handlers rely on: a stopped clock stands still, a running one loses exactly
  the time that passes, starting twice is starting once. \<open>left\<close> is the time remaining.
\<close>

locale stopwatch =
  fixes start :: "ms \<Rightarrow> 'c \<Rightarrow> 'c" and stop :: "ms \<Rightarrow> 'c \<Rightarrow> 'c"
    and left :: "'c \<Rightarrow> ms \<Rightarrow> ms" and running :: "'c \<Rightarrow> bool" and ok :: "'c \<Rightarrow> bool"
  assumes start_running: "running (start t c)"
    and stop_stopped: "\<not> running (stop t c)"
    and ok_start: "ok c \<Longrightarrow> ok (start t c)"
    and ok_stop: "ok c \<Longrightarrow> ok (stop t c)"
    and left_nonneg: "0 \<le> left c u"
    and left_stopped: "\<not> running c \<Longrightarrow> left c u = left c v"
    and left_start: "\<not> running c \<Longrightarrow> left (start t c) u = max 0 (left c t - max 0 (u - t))"
    and left_stop: "ok c \<Longrightarrow> running c \<Longrightarrow> left (stop t c) u = left c t"
begin

lemma section_costs:
  assumes "ok c" "\<not> running c" "t \<le> u"
  shows "left (stop u (start t c)) v = max 0 (left c v - (u - t))"
  using assms left_stop[OF ok_start[OF assms(1)] start_running] left_start[OF assms(2)] left_stopped[OF assms(2), of t v] by simp

lemma break_is_free:
  assumes "ok c" "running c"
  shows "left (start u (stop t c)) u = left c t"
  using left_start[OF stop_stopped[of t c], of u u] left_stop[OF assms, of t u] left_nonneg[of c t] by simp

lemma sections_cost:
  assumes "ok c" "\<not> running c" "\<And>t u. (t, u) \<in> set secs \<Longrightarrow> t \<le> u"
  shows "left (fold (\<lambda>(t, u) c. stop u (start t c)) secs c) v = max 0 (left c v - (\<Sum>(t, u)\<leftarrow>secs. u - t))"
  using assms
proof (induction secs arbitrary: c)
  case (Cons s secs)
  obtain t u where s: "s = (t, u)" by (cases s)
  have le: "t \<le> u" using Cons.prems(3)[of t u] by (simp add: s)
  have sum: "0 \<le> (\<Sum>(t, u)\<leftarrow>secs. u - t)" using Cons.prems(3) by (intro sum_list_nonneg) auto
  have "left (fold (\<lambda>(t, u) c. stop u (start t c)) secs (stop u (start t c))) v =
        max 0 (left (stop u (start t c)) v - (\<Sum>(t, u)\<leftarrow>secs. u - t))"
    using Cons by (intro Cons.IH) (auto simp: ok_start ok_stop stop_stopped)
  then show ?case using section_costs[OF Cons.prems(1,2) le, of v] sum by (simp add: s)
qed (simp add: left_nonneg)

end

interpretation exam_watch: stopwatch "\<lambda>t c. clockStart c t" "\<lambda>t c. clockStop c t" clockRemainingMs "\<lambda>c. ck_runningSince c \<noteq> None" wf_clock
  by unfold_locales (auto simp: wf_clock_def clock_defs split: option.splits)

section \<open>The clock over a run of starts and stops\<close>

text \<open>
  What the clock is for: over any sequence of starts and stops at non-decreasing
  instants, the used time is the length of the running intervals, cut at the exam's
  duration. \<open>runClock\<close> applies the operations; \<open>runningTime\<close> is the specification:
  it adds up the intervals between each effective start and the next stop.
\<close>

datatype clock_op = Start_at ms | Stop_at ms

fun opTime :: "clock_op \<Rightarrow> ms" where
  "opTime (Start_at t) = t"
| "opTime (Stop_at t) = t"

fun applyClockOp :: "clock_op \<Rightarrow> exam_clock \<Rightarrow> exam_clock" where
  "applyClockOp (Start_at t) c = clockStart c t"
| "applyClockOp (Stop_at t) c = clockStop c t"

definition runClock :: "clock_op list \<Rightarrow> exam_clock \<Rightarrow> exam_clock" where
  "runClock ops c = fold applyClockOp ops c"

fun runningTime :: "ms option \<Rightarrow> clock_op list \<Rightarrow> ms \<Rightarrow> ms" where
  "runningTime None [] now = 0"
| "runningTime (Some s) [] now = now - s"
| "runningTime None (Start_at t # ops) now = runningTime (Some t) ops now"
| "runningTime None (Stop_at t # ops) now = runningTime None ops now"
| "runningTime (Some s) (Start_at t # ops) now = runningTime (Some s) ops now"
| "runningTime (Some s) (Stop_at t # ops) now = (t - s) + runningTime None ops now"

definition since_before :: "ms option \<Rightarrow> ms list \<Rightarrow> bool" where
  "since_before s ts \<longleftrightarrow> (case s of None \<Rightarrow> True | Some t \<Rightarrow> (\<forall>u \<in> set ts. t \<le> u))"

lemma runningTime_nonneg:
  "sorted (map opTime ops @ [now]) \<Longrightarrow> since_before s (map opTime ops @ [now]) \<Longrightarrow> 0 \<le> runningTime s ops now"
proof (induction s ops now rule: runningTime.induct)
  case (3 t ops now)
  then show ?case by (auto simp: since_before_def)
qed (auto simp: since_before_def)

lemma runClock_used:
  assumes "wf_clock c"
    and "sorted (map opTime ops @ [now])"
    and "since_before (ck_runningSince c) (map opTime ops @ [now])"
  shows "clockUsedMs (runClock ops c) now = min (ck_durationMs c) (ck_usedMs c + runningTime (ck_runningSince c) ops now)"
  using assms
proof (induction ops arbitrary: c)
  case Nil
  then show ?case
    by (cases "ck_runningSince c") (auto simp: runClock_def clockUsedMs_def clockRunning_def since_before_def)
next
  case (Cons op ops)
  have srt: "sorted (map opTime ops @ [now])" and le: "\<forall>u \<in> set (map opTime ops @ [now]). opTime op \<le> u"
    using Cons.prems(2) by auto
  let ?c = "applyClockOp op c"
  have wf: "wf_clock ?c"
    using Cons.prems(1) by (cases op) (simp_all add: wf_clockStart wf_clockStop)
  have sb: "since_before (ck_runningSince ?c) (map opTime ops @ [now])"
    using Cons.prems(3) le by (cases op) (auto simp: since_before_def clockStart_def clockStop_def split: option.splits)
  have "clockUsedMs (runClock ops ?c) now = min (ck_durationMs ?c) (ck_usedMs ?c + runningTime (ck_runningSince ?c) ops now)"
    by (rule Cons.IH[OF wf srt sb])
  also have "\<dots> = min (ck_durationMs c) (ck_usedMs c + runningTime (ck_runningSince c) (op # ops) now)"
  proof (cases op)
    case (Start_at t)
    then show ?thesis by (cases "ck_runningSince c") (auto simp: clockStart_def)
  next
    case (Stop_at t)
    show ?thesis
    proof (cases "ck_runningSince c")
      case None
      then show ?thesis using Stop_at by (simp add: clockStop_def)
    next
      case (Some s)
      have nn: "0 \<le> runningTime None ops now"
        by (rule runningTime_nonneg[OF srt]) (simp add: since_before_def)
      have "s \<le> t" using Cons.prems(3) Stop_at Some by (simp add: since_before_def)
      then show ?thesis
        using Stop_at Some nn Cons.prems(1) by (auto simp: clockStop_def clockUsedMs_def clockRunning_def wf_clock_def)
    qed
  qed
  finally show ?case by (simp add: runClock_def)
qed

section \<open>Formatting\<close>

definition digitChar :: "nat \<Rightarrow> char" where
  "digitChar d = char_of (48 + d)"

fun showNat :: "nat \<Rightarrow> string" where
  "showNat n = (if n < 10 then [digitChar n] else showNat (n div 10) @ [digitChar (n mod 10)])"

declare showNat.simps [simp del]

definition showInt :: "int \<Rightarrow> string" where
  "showInt i = (if i < 0 then CHR ''-'' # showNat (nat (- i)) else showNat (nat i))"

text \<open>\<open>String(n).padStart(2, '0')\<close>.\<close>

definition padStart2 :: "string \<Rightarrow> string" where
  "padStart2 s = replicate (2 - length s) (CHR ''0'') @ s"

definition formatDuration :: "ms option \<Rightarrow> string option" where
  \<comment> \<open>\<open>None\<close> is the dash shown for a missing value\<close>
  "formatDuration d = (case d of None \<Rightarrow> None | Some t \<Rightarrow>
     (let total = max 0 (mathRound (of_int t / 1000));
          h = total div 3600; m = total mod 3600 div 60; s = total mod 60
      in Some (if h > 0 then showInt h @ ''h '' @ padStart2 (showInt m) @ ''m''
               else if m > 0 then showInt m @ ''m '' @ padStart2 (showInt s) @ ''s''
               else showInt s @ ''s'')))"

definition formatClock :: "ms \<Rightarrow> string" where
  "formatClock t =
     (let total = max 0 (t div 1000);
          h = total div 3600; m = total mod 3600 div 60; s = total mod 60;
          mm = padStart2 (showInt m); ss = padStart2 (showInt s)
      in if h > 0 then showInt h @ '':'' @ mm @ '':'' @ ss else mm @ '':'' @ ss)"

text \<open>Reading a countdown back: the specification \<open>formatClock\<close> is checked against.\<close>

definition charDigit :: "char \<Rightarrow> nat" where
  "charDigit c = of_char c - 48"

definition readNat :: "string \<Rightarrow> nat" where
  "readNat s = foldl (\<lambda>n c. 10 * n + charDigit c) 0 s"

fun splitColon :: "string \<Rightarrow> string list" where
  "splitColon [] = [[]]"
| "splitColon (c # cs) = (if c = CHR '':'' then [] # splitColon cs
     else (case splitColon cs of w # ws \<Rightarrow> (c # w) # ws | [] \<Rightarrow> [[c]]))"

definition readClock :: "string \<Rightarrow> nat" where
  "readClock s = foldl (\<lambda>n w. 60 * n + readNat w) 0 (splitColon s)"

lemma charDigit_digitChar [simp]: "d < 10 \<Longrightarrow> charDigit (digitChar d) = d"
  by (simp add: charDigit_def digitChar_def)

lemma readNat_snoc: "readNat (s @ [c]) = 10 * readNat s + charDigit c"
  by (simp add: readNat_def)

lemma readNat_showNat [simp]: "readNat (showNat n) = n"
proof (induction n rule: showNat.induct)
  case (1 n)
  show ?case
  proof (cases "n < 10")
    case True
    then show ?thesis by (subst showNat.simps) (simp add: readNat_def)
  next
    case False
    then show ?thesis using 1 by (subst showNat.simps) (simp add: readNat_snoc)
  qed
qed

lemma readNat_pad [simp]: "readNat (padStart2 s) = readNat s"
proof -
  have z: "charDigit (CHR ''0'') = 0" by (simp add: charDigit_def)
  have "foldl (\<lambda>n c. 10 * n + charDigit c) 0 (replicate k (CHR ''0'') @ s) = foldl (\<lambda>n c. 10 * n + charDigit c) 0 s" for k
    by (induction k) (simp_all add: z)
  then show ?thesis by (simp add: readNat_def padStart2_def)
qed

lemma digitChar_not_colon: "d < 10 \<Longrightarrow> digitChar d \<noteq> CHR '':''"
proof
  assume d: "d < 10" and "digitChar d = CHR '':''"
  then have "of_char (digitChar d) = (58 :: nat)" by simp
  then show False using d by (simp add: digitChar_def)
qed

lemma showNat_no_colon: "CHR '':'' \<notin> set (showNat n)"
proof (induction n rule: showNat.induct)
  case (1 n)
  show ?case
  proof (cases "n < 10")
    case True
    then show ?thesis using digitChar_not_colon[of n] by (subst showNat.simps) auto
  next
    case False
    then show ?thesis using 1 digitChar_not_colon[of "n mod 10"] by (subst showNat.simps) auto
  qed
qed

lemma pad_no_colon: "CHR '':'' \<notin> set s \<Longrightarrow> CHR '':'' \<notin> set (padStart2 s)"
  by (auto simp: padStart2_def)

lemma splitColon_single: "CHR '':'' \<notin> set s \<Longrightarrow> splitColon s = [s]"
  by (induction s) auto

lemma splitColon_append: "CHR '':'' \<notin> set s \<Longrightarrow> splitColon (s @ CHR '':'' # t) = s # splitColon t"
  by (induction s) auto

lemma readClock_formatClock: "readClock (formatClock t) = nat (max 0 (t div 1000))"
proof -
  define T where "T = max 0 (t div 1000)"
  define h where "h = T div 3600"
  define m where "m = T mod 3600 div 60"
  define s where "s = T mod 60"
  have T: "0 \<le> T" by (simp add: T_def)
  then have h: "0 \<le> h" unfolding h_def by (rule pos_imp_zdiv_nonneg_iff[THEN iffD2, rotated]) simp
  have "0 \<le> T mod 3600" by (rule pos_mod_sign) simp
  then have m: "0 \<le> m" unfolding m_def by (rule pos_imp_zdiv_nonneg_iff[THEN iffD2, rotated]) simp
  have "0 \<le> s" unfolding s_def by (rule pos_mod_sign) simp
  note nn = T h m this
  have hm: "3600 * h + 60 * m + s = T"
  proof -
    have "T mod 3600 mod 60 = T mod 60" by (rule mod_mod_cancel) simp
    moreover have "60 * (T mod 3600 div 60) + T mod 3600 mod 60 = T mod 3600" by (rule mult_div_mod_eq)
    moreover have "3600 * (T div 3600) + T mod 3600 = T" by (rule mult_div_mod_eq)
    ultimately show ?thesis unfolding h_def m_def s_def by linarith
  qed
  have si: "showInt i = showNat (nat i)" if "0 \<le> i" for i
    using that by (simp add: showInt_def)
  have sp: "splitColon (padStart2 (showNat a) @ '':'' @ padStart2 (showNat b)) = [padStart2 (showNat a), padStart2 (showNat b)]" for a b
    by (simp add: splitColon_append splitColon_single pad_no_colon showNat_no_colon)
  have sp3: "splitColon (showNat c @ '':'' @ padStart2 (showNat a) @ '':'' @ padStart2 (showNat b)) = [showNat c, padStart2 (showNat a), padStart2 (showNat b)]" for a b c
    using sp[of a b] by (simp add: splitColon_append splitColon_single pad_no_colon showNat_no_colon)
  show ?thesis
  proof (cases "h > 0")
    case True
    then have "formatClock t = showNat (nat h) @ '':'' @ padStart2 (showNat (nat m)) @ '':'' @ padStart2 (showNat (nat s))"
      using nn by (simp add: formatClock_def Let_def flip: T_def h_def m_def s_def) (simp add: si)
    then have "readClock (formatClock t) = 60 * (60 * nat h + nat m) + nat s"
      by (simp add: readClock_def sp3[simplified])
    moreover have "int (60 * (60 * nat h + nat m) + nat s) = T" using hm nn by simp
    ultimately show ?thesis unfolding T_def[symmetric] by (metis nat_int)
  next
    case False
    then have "h = 0" using nn by simp
    then have "formatClock t = padStart2 (showNat (nat m)) @ '':'' @ padStart2 (showNat (nat s))"
      using nn by (simp add: formatClock_def Let_def flip: T_def h_def m_def s_def) (simp add: si)
    then have "readClock (formatClock t) = 60 * nat m + nat s"
      by (simp add: readClock_def sp[simplified])
    moreover have "int (60 * nat m + nat s) = T" using hm nn \<open>h = 0\<close> by simp
    ultimately show ?thesis unfolding T_def[symmetric] by (metis nat_int)
  qed
qed

section \<open>Properties\<close>

text \<open>C6. The exam clock measures exactly the time it ran: after any sequence of starts and stops at
  non-decreasing instants (repeated starts and stops included), the used time read at \<open>now\<close> is what was used
  before plus the lengths of the running intervals, never more than the exam's duration.\<close>

theorem exam_clock_measures_running_time:
  assumes "wf_clock c" "sorted (map opTime ops @ [now])" "since_before (ck_runningSince c) (map opTime ops @ [now])"
  shows "clockUsedMs (runClock ops c) now = min (ck_durationMs c) (ck_usedMs c + runningTime (ck_runningSince c) ops now)"
  by (rule runClock_used[OF assms])

theorem exam_clock_measures_running_time_witness:
  "clockUsedMs (runClock [Start_at 10, Start_at 20, Stop_at 50, Stop_at 60, Start_at 100] \<lparr>ck_durationMs = 1000, ck_usedMs = 5, ck_runningSince = None\<rparr>) 130 = 75"
  by (subst exam_clock_measures_running_time) (simp_all add: wf_clock_def since_before_def)

text \<open>C25. The countdown shown to the candidate can be read back: its hours, minutes and seconds are the
  whole seconds left, for every remaining time, and nothing is lost or doubled at the minute and hour carries.\<close>

theorem countdown_reads_back: "readClock (formatClock t) = nat (max 0 (t div 1000))"
  by (rule readClock_formatClock)

end
