(* ===== verification/SP_Policy.thy ===== *)
theory SP_Policy
  imports SP_Clock
begin

text \<open>
  packages/shared/src/policy.ts: an exam's proctoring rules. Each section of the
  schema is a record of its resolved settings, the constant holding the schema's
  defaults and the predicate with the schema's bounds; \<open>identityTransform\<close> and
  \<open>enforceModes\<close> are the schema's two transforms. Whole-number settings are \<open>int\<close>,
  the others \<open>real\<close>.
\<close>

section \<open>Identity\<close>

datatype verification_mode = V_automatic | V_staff
datatype liveness_mode = L_active | L_off
datatype id_photo_mode = IP_off | IP_advisory | IP_required
datatype sampling_profile = Maximum | Balanced | Custom
datatype mismatch_action = Hold_for_review | Flag_only

record sampling_values =
  sv_burstSize :: int
  sv_routineBurstSize :: int
  sv_startupIntervalSec :: int
  sv_startupWindowSec :: int
  sv_periodicCheckIntervalSec :: int

record identity_policy =
  ip_verification :: verification_mode
  ip_staffReverifyOnContinue :: bool
  ip_liveness :: liveness_mode
  ip_livenessSteps :: int
  ip_idPhotoComparison :: id_photo_mode
  ip_sampling :: sampling_values
  ip_samplingProfile :: sampling_profile
  ip_onMismatch :: mismatch_action
  ip_maxVerificationAttempts :: int

abbreviation ip_burstSize :: "identity_policy \<Rightarrow> int" where
  "ip_burstSize p \<equiv> sv_burstSize (ip_sampling p)"
abbreviation ip_routineBurstSize :: "identity_policy \<Rightarrow> int" where
  "ip_routineBurstSize p \<equiv> sv_routineBurstSize (ip_sampling p)"
abbreviation ip_startupIntervalSec :: "identity_policy \<Rightarrow> int" where
  "ip_startupIntervalSec p \<equiv> sv_startupIntervalSec (ip_sampling p)"
abbreviation ip_startupWindowSec :: "identity_policy \<Rightarrow> int" where
  "ip_startupWindowSec p \<equiv> sv_startupWindowSec (ip_sampling p)"
abbreviation ip_periodicCheckIntervalSec :: "identity_policy \<Rightarrow> int" where
  "ip_periodicCheckIntervalSec p \<equiv> sv_periodicCheckIntervalSec (ip_sampling p)"

definition SAMPLING_MAXIMUM :: sampling_values where
  "SAMPLING_MAXIMUM = \<lparr>sv_burstSize = 3, sv_routineBurstSize = 3, sv_startupIntervalSec = 6,
     sv_startupWindowSec = 180, sv_periodicCheckIntervalSec = 15\<rparr>"
definition SAMPLING_BALANCED :: sampling_values where
  "SAMPLING_BALANCED = \<lparr>sv_burstSize = 3, sv_routineBurstSize = 2, sv_startupIntervalSec = 12,
     sv_startupWindowSec = 180, sv_periodicCheckIntervalSec = 30\<rparr>"

text \<open>\<open>SAMPLING_PROFILES\<close>, in the order \<open>samplingProfileOf\<close> tries the presets.\<close>

definition SAMPLING_PROFILES :: "(sampling_profile \<times> sampling_values) list" where
  "SAMPLING_PROFILES = [(Maximum, SAMPLING_MAXIMUM), (Balanced, SAMPLING_BALANCED)]"

definition samplingProfileOf :: "sampling_values \<Rightarrow> sampling_profile" where
  "samplingProfileOf v = (case find (\<lambda>(_, preset). v = preset) SAMPLING_PROFILES of Some (n, _) \<Rightarrow> n | None \<Rightarrow> Custom)"

definition IDENTITY_DEFAULTS :: identity_policy where
  "IDENTITY_DEFAULTS = \<lparr>ip_verification = V_automatic, ip_staffReverifyOnContinue = False, ip_liveness = L_active,
     ip_livenessSteps = 2, ip_idPhotoComparison = IP_advisory, ip_sampling = SAMPLING_MAXIMUM,
     ip_samplingProfile = Maximum, ip_onMismatch = Hold_for_review, ip_maxVerificationAttempts = 5\<rparr>"

definition identity_ok :: "identity_policy \<Rightarrow> bool" where
  "identity_ok p \<longleftrightarrow>
     ip_livenessSteps p \<in> {2..4} \<and> ip_periodicCheckIntervalSec p \<in> {5..600} \<and>
     ip_startupIntervalSec p \<in> {3..120} \<and> ip_startupWindowSec p \<in> {0..1800} \<and>
     ip_burstSize p \<in> {1..5} \<and> ip_routineBurstSize p \<in> {1..5} \<and> ip_maxVerificationAttempts p \<in> {1..20}"

text \<open>
  The identity section's transform: the routine burst size follows the burst size
  unless it is set, and the profile label always describes the numbers.
\<close>

definition identityTransform :: "int option \<Rightarrow> identity_policy \<Rightarrow> identity_policy" where
  "identityTransform routine p =
     (let sv = (ip_sampling p)\<lparr>sv_routineBurstSize := nullish routine (ip_burstSize p)\<rparr>
      in p\<lparr>ip_sampling := sv, ip_samplingProfile := samplingProfileOf sv\<rparr>)"

text \<open>\<open>IDENTITY_CHECK_TRIGGERS\<close> (packages/shared/src/identity.ts).\<close>

datatype sample_trigger =
    T_check_in | T_resume | T_reconnect | T_reverify | T_periodic | T_face_return | T_camera_reconnect
  | T_after_multiple_people | T_after_obstruction | T_follow_up | T_id_photo | T_exam_start | T_track_break
  | T_appearance_change | T_server_request

definition ROUTINE_SAMPLE_TRIGGERS :: "sample_trigger list" where
  "ROUTINE_SAMPLE_TRIGGERS = [T_periodic]"

definition burstSizeFor :: "sample_trigger \<Rightarrow> identity_policy \<Rightarrow> int" where
  "burstSizeFor t p = (if t \<in> set ROUTINE_SAMPLE_TRIGGERS then ip_routineBurstSize p else ip_burstSize p)"

lemma samplingProfileOf_Custom_iff:
  "samplingProfileOf v = Custom \<longleftrightarrow> v \<noteq> SAMPLING_MAXIMUM \<and> v \<noteq> SAMPLING_BALANCED"
  by (auto simp: samplingProfileOf_def SAMPLING_PROFILES_def)

lemma samplingProfileOf_preset:
  "(n, v) \<in> set SAMPLING_PROFILES \<Longrightarrow> samplingProfileOf v = n"
  by (auto simp: samplingProfileOf_def SAMPLING_PROFILES_def SAMPLING_MAXIMUM_def SAMPLING_BALANCED_def)

lemma identityTransform_label: "ip_samplingProfile (identityTransform r p) = samplingProfileOf (ip_sampling (identityTransform r p))"
  by (simp add: identityTransform_def Let_def)

lemma identityTransform_idem:
  "identityTransform (Some (ip_routineBurstSize (identityTransform r p))) (identityTransform r p) = identityTransform r p"
  by (simp add: identityTransform_def Let_def)

section \<open>Pause, connection, resume, browser\<close>

datatype timer_behavior = Timer_stop | Timer_continue
datatype on_limit = Limit_hold | Limit_end

record pause_policy =
  pp_allowed :: bool
  pp_requireReason :: bool
  pp_requireApproval :: bool
  pp_timerBehavior :: timer_behavior
  pp_maxPauses :: "int option"
  pp_maxPauseDurationSec :: "int option"

definition PAUSE_DEFAULTS :: pause_policy where
  "PAUSE_DEFAULTS = \<lparr>pp_allowed = True, pp_requireReason = False, pp_requireApproval = False,
     pp_timerBehavior = Timer_stop, pp_maxPauses = None, pp_maxPauseDurationSec = None\<rparr>"

definition pause_ok :: "pause_policy \<Rightarrow> bool" where
  "pause_ok p \<longleftrightarrow> pred_option (\<lambda>n. 0 \<le> n) (pp_maxPauses p) \<and> pred_option (\<lambda>n. 60 \<le> n) (pp_maxPauseDurationSec p)"

record connection_policy =
  cp_disconnectTimerBehavior :: timer_behavior
  cp_heartbeatTimeoutSec :: int

definition CONNECTION_DEFAULTS :: connection_policy where
  "CONNECTION_DEFAULTS = \<lparr>cp_disconnectTimerBehavior = Timer_continue, cp_heartbeatTimeoutSec = 20\<rparr>"

definition connection_ok :: "connection_policy \<Rightarrow> bool" where
  "connection_ok p \<longleftrightarrow> cp_heartbeatTimeoutSec p \<in> {10..300}"

record resume_policy =
  rp_maxReconnects :: "int option"
  rp_maxOfflineMinutes :: "int option"
  rp_onLimit :: on_limit

definition RESUME_DEFAULTS :: resume_policy where
  "RESUME_DEFAULTS = \<lparr>rp_maxReconnects = None, rp_maxOfflineMinutes = None, rp_onLimit = Limit_hold\<rparr>"

definition resume_ok :: "resume_policy \<Rightarrow> bool" where
  "resume_ok p \<longleftrightarrow> pred_option (\<lambda>n. n \<in> {0..100}) (rp_maxReconnects p) \<and> pred_option (\<lambda>n. n \<in> {1..1440}) (rp_maxOfflineMinutes p)"

record browser_policy =
  bp_requireFullscreen :: bool
  bp_requireSingleDisplay :: bool
  bp_blockClipboard :: bool
  bp_flagTabHidden :: bool
  bp_flagWindowBlur :: bool
  bp_windowBlurMinSec :: real

definition BROWSER_DEFAULTS :: browser_policy where
  "BROWSER_DEFAULTS = \<lparr>bp_requireFullscreen = True, bp_requireSingleDisplay = False, bp_blockClipboard = True,
     bp_flagTabHidden = True, bp_flagWindowBlur = True, bp_windowBlurMinSec = 2\<rparr>"

section \<open>Detection\<close>

record detection_enabled =
  de_absence :: bool
  de_multiplePeople :: bool
  de_lookingAway :: bool
  de_movement :: bool
  de_obstruction :: bool
  de_objects :: bool
  de_cameraIntegrity :: bool

datatype attention_reference = AR_learned | AR_calibration

record detection_policy =
  dp_enabled :: detection_enabled
  dp_absenceSec :: real
  dp_multiplePeopleSec :: real
  dp_lookAwaySec :: real
  dp_lookAwayYawDeg :: real
  dp_lookDownPitchDeg :: real
  dp_lookUpPitchDeg :: real
  dp_lookUpSec :: real
  dp_attentionReference :: attention_reference
  dp_typingExcuseSec :: real
  dp_glanceMinSec :: real
  dp_repeatedLookAwayCount :: int
  dp_repeatedLookAwayWindowSec :: real
  dp_sameDirectionCount :: int
  dp_obstructionSec :: real
  dp_phoneMinConfidence :: real
  dp_objectMinConfidence :: real
  dp_objectPersistSec :: real
  dp_frozenSec :: real
  dp_coveredSec :: real
  dp_lightingSec :: real
  dp_movementExitCount :: int
  dp_movementWindowSec :: real
  dp_farFromBaselineSec :: real
  dp_mergeGapSec :: real
  dp_clearSec :: real

definition ALL_DETECTORS_ON :: detection_enabled where
  "ALL_DETECTORS_ON = \<lparr>de_absence = True, de_multiplePeople = True, de_lookingAway = True, de_movement = True,
     de_obstruction = True, de_objects = True, de_cameraIntegrity = True\<rparr>"
definition ALL_DETECTORS_OFF :: detection_enabled where
  "ALL_DETECTORS_OFF = \<lparr>de_absence = False, de_multiplePeople = False, de_lookingAway = False, de_movement = False,
     de_obstruction = False, de_objects = False, de_cameraIntegrity = False\<rparr>"

definition DETECTION_DEFAULTS :: detection_policy where
  "DETECTION_DEFAULTS = \<lparr>dp_enabled = ALL_DETECTORS_ON, dp_absenceSec = 8, dp_multiplePeopleSec = 1, dp_lookAwaySec = 5,
     dp_lookAwayYawDeg = 28, dp_lookDownPitchDeg = 20, dp_lookUpPitchDeg = 35, dp_lookUpSec = 15,
     dp_attentionReference = AR_learned, dp_typingExcuseSec = 3, dp_glanceMinSec = 12 / 10,
     dp_repeatedLookAwayCount = 5, dp_repeatedLookAwayWindowSec = 120, dp_sameDirectionCount = 4,
     dp_obstructionSec = 6, dp_phoneMinConfidence = 1 / 2, dp_objectMinConfidence = 6 / 10, dp_objectPersistSec = 2,
     dp_frozenSec = 6, dp_coveredSec = 4, dp_lightingSec = 10, dp_movementExitCount = 3, dp_movementWindowSec = 300,
     dp_farFromBaselineSec = 15, dp_mergeGapSec = 10, dp_clearSec = 25 / 10\<rparr>"

definition detection_ok :: "detection_policy \<Rightarrow> bool" where
  "detection_ok p \<longleftrightarrow>
     2 \<le> dp_absenceSec p \<and> 3 / 10 \<le> dp_multiplePeopleSec p \<and> 1 \<le> dp_lookAwaySec p \<and>
     dp_lookAwayYawDeg p \<in> {10..80} \<and> dp_lookDownPitchDeg p \<in> {8..60} \<and> dp_lookUpPitchDeg p \<in> {10..80} \<and>
     1 \<le> dp_lookUpSec p \<and> dp_typingExcuseSec p \<in> {0..10} \<and> 3 / 10 \<le> dp_glanceMinSec p \<and>
     2 \<le> dp_repeatedLookAwayCount p \<and> 10 \<le> dp_repeatedLookAwayWindowSec p \<and> 2 \<le> dp_sameDirectionCount p \<and>
     1 \<le> dp_obstructionSec p \<and> dp_phoneMinConfidence p \<in> {1 / 10..1} \<and> dp_objectMinConfidence p \<in> {1 / 10..1} \<and>
     1 / 2 \<le> dp_objectPersistSec p \<and> 2 \<le> dp_frozenSec p \<and> 1 \<le> dp_coveredSec p \<and> 2 \<le> dp_lightingSec p \<and>
     2 \<le> dp_movementExitCount p \<and> 30 \<le> dp_movementWindowSec p \<and> 3 \<le> dp_farFromBaselineSec p \<and>
     0 \<le> dp_mergeGapSec p \<and> 1 / 2 \<le> dp_clearSec p"

section \<open>Evidence, camera, retention, recording\<close>

record evidence_policy =
  ep_screenshots :: bool
  ep_maxScreenshotsPerEvent :: int
  ep_periodicScreenshotSec :: real
  ep_keepMatchingIdentitySamples :: bool

definition EVIDENCE_DEFAULTS :: evidence_policy where
  "EVIDENCE_DEFAULTS = \<lparr>ep_screenshots = True, ep_maxScreenshotsPerEvent = 4, ep_periodicScreenshotSec = 30,
     ep_keepMatchingIdentitySamples = False\<rparr>"

definition evidence_ok :: "evidence_policy \<Rightarrow> bool" where
  "evidence_ok p \<longleftrightarrow> ep_maxScreenshotsPerEvent p \<in> {1..20} \<and> 5 \<le> ep_periodicScreenshotSec p"

record recording_policy =
  rec_enabled :: bool
  rec_audio :: bool
  rec_screen :: bool

definition RECORDING_DEFAULTS :: recording_policy where
  "RECORDING_DEFAULTS = \<lparr>rec_enabled = False, rec_audio = True, rec_screen = True\<rparr>"

record policy =
  pol_identity :: identity_policy
  pol_camera_enabled :: bool
  pol_pause :: pause_policy
  pol_connection :: connection_policy
  pol_resume :: resume_policy
  pol_browser :: browser_policy
  pol_detection :: detection_policy
  pol_evidence :: evidence_policy
  pol_retention_evidenceDays :: "int option"
  pol_recording :: recording_policy

definition policy_ok :: "policy \<Rightarrow> bool" where
  "policy_ok p \<longleftrightarrow> identity_ok (pol_identity p) \<and> pause_ok (pol_pause p) \<and> connection_ok (pol_connection p) \<and>
     resume_ok (pol_resume p) \<and> 0 \<le> bp_windowBlurMinSec (pol_browser p) \<and> detection_ok (pol_detection p) \<and>
     evidence_ok (pol_evidence p) \<and> pred_option (\<lambda>n. n \<in> {1..3650}) (pol_retention_evidenceDays p)"

definition enforceModes :: "policy \<Rightarrow> policy" where
  "enforceModes p =
     (if pol_camera_enabled p \<and> ip_verification (pol_identity p) = V_automatic then p
      else let identity = (pol_identity p)\<lparr>ip_verification := V_staff, ip_liveness := L_off, ip_idPhotoComparison := IP_off\<rparr>
      in if pol_camera_enabled p then p\<lparr>pol_identity := identity\<rparr>
         else p\<lparr>pol_identity := identity,
                pol_detection := (pol_detection p)\<lparr>dp_enabled := ALL_DETECTORS_OFF\<rparr>,
                pol_evidence := (pol_evidence p)\<lparr>ep_screenshots := False, ep_keepMatchingIdentitySamples := False\<rparr>\<rparr>)"

text \<open>
  Parsing an input in which every setting but the routine burst size is given: the
  bounds are checked, then the section transform and the modes apply.
\<close>

definition resolvePolicy :: "int option \<Rightarrow> policy \<Rightarrow> policy option" where
  "resolvePolicy routine p =
     (let q = p\<lparr>pol_identity := identityTransform routine (pol_identity p)\<rparr>
      in if policy_ok q then Some (enforceModes q) else None)"

definition DEFAULT_INPUT :: policy where
  "DEFAULT_INPUT = \<lparr>pol_identity = IDENTITY_DEFAULTS, pol_camera_enabled = True, pol_pause = PAUSE_DEFAULTS,
     pol_connection = CONNECTION_DEFAULTS, pol_resume = RESUME_DEFAULTS, pol_browser = BROWSER_DEFAULTS,
     pol_detection = DETECTION_DEFAULTS, pol_evidence = EVIDENCE_DEFAULTS, pol_retention_evidenceDays = None,
     pol_recording = RECORDING_DEFAULTS\<rparr>"

definition DEFAULT_POLICY :: policy where
  "DEFAULT_POLICY = DEFAULT_INPUT"

record recording_plan =
  plan_any :: bool
  plan_camera :: bool
  plan_audio :: bool
  plan_screen :: bool

definition recordingPlan :: "policy \<Rightarrow> recording_plan" where
  "recordingPlan p =
     (let r = pol_recording p; on = rec_enabled r; camera = (on \<and> pol_camera_enabled p);
          audio = (camera \<and> rec_audio r); screen = (on \<and> rec_screen r)
      in \<lparr>plan_any = (camera \<or> screen), plan_camera = camera, plan_audio = audio, plan_screen = screen\<rparr>)"

text \<open>packages/shared/src/privacy.ts: which notice an exam with this plan needs.\<close>

definition PRIVACY_NOTICE_VERSION :: string where
  "PRIVACY_NOTICE_VERSION = ''2026-10-21''"
definition RECORDING_NOTICE_VERSION :: string where
  "RECORDING_NOTICE_VERSION = ''2026-10-22-recording''"

definition noticeVersionFor :: "recording_plan \<Rightarrow> string" where
  "noticeVersionFor plan = (if plan_any plan then RECORDING_NOTICE_VERSION else PRIVACY_NOTICE_VERSION)"

definition consentCoversRecording :: "string option \<Rightarrow> recording_plan \<Rightarrow> bool" where
  "consentCoversRecording version plan \<longleftrightarrow> \<not> plan_any plan \<or> version = Some RECORDING_NOTICE_VERSION"

section \<open>What resolved policies satisfy\<close>

text \<open>The modes' invariants: the picture every reader of a resolved policy relies on.\<close>

definition modes_consistent :: "policy \<Rightarrow> bool" where
  "modes_consistent p \<longleftrightarrow>
     (ip_verification (pol_identity p) = V_staff \<longrightarrow>
        ip_liveness (pol_identity p) = L_off \<and> ip_idPhotoComparison (pol_identity p) = IP_off) \<and>
     (\<not> pol_camera_enabled p \<longrightarrow>
        ip_verification (pol_identity p) = V_staff \<and> dp_enabled (pol_detection p) = ALL_DETECTORS_OFF \<and>
        \<not> ep_screenshots (pol_evidence p) \<and> \<not> ep_keepMatchingIdentitySamples (pol_evidence p))"

lemma enforceModes_consistent: "modes_consistent (enforceModes p)"
  by (cases "ip_verification (pol_identity p)") (auto simp: enforceModes_def modes_consistent_def Let_def)

lemma enforceModes_fixed: "modes_consistent p \<Longrightarrow> enforceModes p = p"
  by (cases "ip_verification (pol_identity p)")
    (auto simp: enforceModes_def modes_consistent_def Let_def intro!: policy.equality identity_policy.equality detection_policy.equality evidence_policy.equality)

lemma enforceModes_idem: "enforceModes (enforceModes p) = enforceModes p"
  by (rule enforceModes_fixed[OF enforceModes_consistent])

lemma policy_ok_enforceModes: "policy_ok p \<Longrightarrow> policy_ok (enforceModes p)"
  by (auto simp: policy_ok_def enforceModes_def identity_ok_def detection_ok_def evidence_ok_def Let_def)

lemma resolvePolicy_resolved:
  assumes "resolvePolicy r p = Some q"
  shows "policy_ok q \<and> modes_consistent q \<and> ip_samplingProfile (pol_identity q) = samplingProfileOf (ip_sampling (pol_identity q))"
proof -
  let ?q = "p\<lparr>pol_identity := identityTransform r (pol_identity p)\<rparr>"
  from assms have "policy_ok ?q" and q: "q = enforceModes ?q"
    by (auto simp: resolvePolicy_def Let_def split: if_splits)
  moreover have "ip_samplingProfile (pol_identity q) = samplingProfileOf (ip_sampling (pol_identity q))"
    unfolding q by (simp add: enforceModes_def Let_def identityTransform_label)
  ultimately show ?thesis by (simp add: policy_ok_enforceModes enforceModes_consistent)
qed

lemma enforceModes_sampling [simp]:
  "ip_sampling (pol_identity (enforceModes p)) = ip_sampling (pol_identity p)"
  "ip_samplingProfile (pol_identity (enforceModes p)) = ip_samplingProfile (pol_identity p)"
  by (simp_all add: enforceModes_def Let_def)

lemma resolvePolicy_idem:
  assumes "resolvePolicy r p = Some q"
  shows "resolvePolicy (Some (ip_routineBurstSize (pol_identity q))) q = Some q"
proof -
  from resolvePolicy_resolved[OF assms]
  have ok: "policy_ok q" "modes_consistent q" "ip_samplingProfile (pol_identity q) = samplingProfileOf (ip_sampling (pol_identity q))"
    by auto
  have "identityTransform (Some (ip_routineBurstSize (pol_identity q))) (pol_identity q) = pol_identity q"
    by (auto simp: identityTransform_def Let_def ok(3) intro!: identity_policy.equality sampling_values.equality)
  then show ?thesis using ok enforceModes_fixed by (simp add: resolvePolicy_def)
qed

lemmas policy_default_defs = DEFAULT_INPUT_def IDENTITY_DEFAULTS_def PAUSE_DEFAULTS_def CONNECTION_DEFAULTS_def
  RESUME_DEFAULTS_def BROWSER_DEFAULTS_def DETECTION_DEFAULTS_def EVIDENCE_DEFAULTS_def RECORDING_DEFAULTS_def
  SAMPLING_MAXIMUM_def

lemma DEFAULT_POLICY_resolved: "resolvePolicy None DEFAULT_INPUT = Some DEFAULT_POLICY"
proof -
  have tr: "identityTransform None IDENTITY_DEFAULTS = IDENTITY_DEFAULTS"
    by (simp add: identityTransform_def Let_def IDENTITY_DEFAULTS_def samplingProfileOf_def SAMPLING_PROFILES_def SAMPLING_MAXIMUM_def)
  have ok: "policy_ok DEFAULT_INPUT"
    by (simp add: policy_ok_def policy_default_defs identity_ok_def pause_ok_def connection_ok_def resume_ok_def detection_ok_def evidence_ok_def)
  have em: "enforceModes DEFAULT_INPUT = DEFAULT_INPUT"
    by (simp add: enforceModes_def DEFAULT_INPUT_def IDENTITY_DEFAULTS_def)
  have upd: "DEFAULT_INPUT\<lparr>pol_identity := IDENTITY_DEFAULTS\<rparr> = DEFAULT_INPUT" and pid: "pol_identity DEFAULT_INPUT = IDENTITY_DEFAULTS"
    by (simp_all add: DEFAULT_INPUT_def)
  show ?thesis
    unfolding resolvePolicy_def Let_def DEFAULT_POLICY_def pid tr upd em using ok by simp
qed

section \<open>Properties\<close>

text \<open>C13. Resolving a policy gives a policy within every bound of the schema, consistent with its modes (no
  face checks when staff verify identity, nothing that needs a camera without one) and labelled by its numbers;
  resolving the stored result again changes nothing, so a stored policy means the same whenever it is read.\<close>

theorem resolved_policy_sound_and_stable:
  assumes "resolvePolicy r p = Some q"
  shows "policy_ok q \<and> modes_consistent q \<and> ip_samplingProfile (pol_identity q) = samplingProfileOf (ip_sampling (pol_identity q)) \<and>
         resolvePolicy (Some (ip_routineBurstSize (pol_identity q))) q = Some q"
  using resolvePolicy_resolved[OF assms] resolvePolicy_idem[OF assms] by blast

theorem resolved_policy_sound_and_stable_witness:
  "policy_ok DEFAULT_POLICY \<and> modes_consistent DEFAULT_POLICY"
  using resolved_policy_sound_and_stable[OF DEFAULT_POLICY_resolved] by blast

end
