(* ===== verification/SP_Accommodations.thy ===== *)
theory SP_Accommodations
  imports SP_Policy "HOL-Library.Sublist"
begin

text \<open>
  packages/shared/src/accommodations.ts: approved exceptions to an exam's rules, the
  policy they result in, and the record of what they changed. The pure helpers of
  apps/server/src/services/accommodations.ts are here too.
\<close>

section \<open>Kinds and parameters\<close>

datatype accommodation_kind =
    K_extra_time | K_rest_breaks | K_no_liveness_challenge | K_assistive_technology
  | K_detection_exemptions | K_support_person | K_staff_identity_verification | K_no_camera

fun kindName :: "accommodation_kind \<Rightarrow> string" where
  "kindName K_extra_time = ''extra_time''" | "kindName K_rest_breaks = ''rest_breaks''"
| "kindName K_no_liveness_challenge = ''no_liveness_challenge''" | "kindName K_assistive_technology = ''assistive_technology''"
| "kindName K_detection_exemptions = ''detection_exemptions''" | "kindName K_support_person = ''support_person''"
| "kindName K_staff_identity_verification = ''staff_identity_verification''" | "kindName K_no_camera = ''no_camera''"

datatype detector = D_absence | D_lookingAway | D_movement | D_obstruction | D_objects | D_multiplePeople

definition EXEMPTIBLE_DETECTORS :: "detector list" where
  "EXEMPTIBLE_DETECTORS = [D_absence, D_lookingAway, D_movement, D_obstruction, D_objects, D_multiplePeople]"

datatype support_role = Reader | Scribe | Interpreter | Assistant | Other_role

datatype accommodation_spec =
    Extra_time (et_percent: int) (et_minutes: int)
  | Rest_breaks (rb_maxPauses: "int option") (rb_maxPauseMinutes: "int option")
  | No_liveness_challenge
  | Assistive_technology
  | Detection_exemptions "detector \<Rightarrow> bool"
  | Support_person support_role
  | Staff_identity_verification bool
  | No_camera bool

fun kindOf :: "accommodation_spec \<Rightarrow> accommodation_kind" where
  "kindOf (Extra_time _ _) = K_extra_time"
| "kindOf (Rest_breaks _ _) = K_rest_breaks"
| "kindOf No_liveness_challenge = K_no_liveness_challenge"
| "kindOf Assistive_technology = K_assistive_technology"
| "kindOf (Detection_exemptions _) = K_detection_exemptions"
| "kindOf (Support_person _) = K_support_person"
| "kindOf (Staff_identity_verification _) = K_staff_identity_verification"
| "kindOf (No_camera _) = K_no_camera"

text \<open>The bounds of \<open>accommodationSpecSchema\<close>.\<close>

fun accommodationSpec_ok :: "accommodation_spec \<Rightarrow> bool" where
  "accommodationSpec_ok (Extra_time p m) \<longleftrightarrow> p \<in> {0..300} \<and> m \<in> {0..600} \<and> (p > 0 \<or> m > 0)"
| "accommodationSpec_ok (Rest_breaks n l) \<longleftrightarrow> pred_option (\<lambda>x. x \<in> {1..50}) n \<and> pred_option (\<lambda>x. x \<in> {1..240}) l"
| "accommodationSpec_ok (Detection_exemptions ds) \<longleftrightarrow> list_ex ds EXEMPTIBLE_DETECTORS"
| "accommodationSpec_ok _ \<longleftrightarrow> True"

section \<open>Application\<close>

text \<open>\<open>generous\<close>: a limit applies only where the exam's own rule is tighter; null is no limit.\<close>

definition generous :: "int option \<Rightarrow> int option \<Rightarrow> int option" where
  "generous exam granted = (case (exam, granted) of (Some a, Some b) \<Rightarrow> Some (max a b) | _ \<Rightarrow> None)"

fun disableDetector :: "detector \<Rightarrow> detection_enabled \<Rightarrow> detection_enabled" where
  "disableDetector D_absence e = e\<lparr>de_absence := False\<rparr>"
| "disableDetector D_lookingAway e = e\<lparr>de_lookingAway := False\<rparr>"
| "disableDetector D_movement e = e\<lparr>de_movement := False\<rparr>"
| "disableDetector D_obstruction e = e\<lparr>de_obstruction := False\<rparr>"
| "disableDetector D_objects e = e\<lparr>de_objects := False\<rparr>"
| "disableDetector D_multiplePeople e = e\<lparr>de_multiplePeople := False\<rparr>"

definition setEnabled :: "(detection_enabled \<Rightarrow> detection_enabled) \<Rightarrow> policy \<Rightarrow> policy" where
  "setEnabled f p = p\<lparr>pol_detection := (pol_detection p)\<lparr>dp_enabled := f (dp_enabled (pol_detection p))\<rparr>\<rparr>"

definition verifyByStaff :: "bool \<Rightarrow> policy \<Rightarrow> policy" where
  "verifyByStaff reverify p = p\<lparr>pol_identity := (pol_identity p)\<lparr>ip_verification := V_staff,
     ip_staffReverifyOnContinue := (ip_staffReverifyOnContinue (pol_identity p) \<or> reverify)\<rparr>\<rparr>"

text \<open>One round of the loop in \<open>applyAccommodations\<close>.\<close>

fun applyAccommodation :: "accommodation_spec \<Rightarrow> policy \<Rightarrow> policy" where
  "applyAccommodation (Rest_breaks maxPauses maxPauseMinutes) p =
     (let examMax = (if pp_allowed (pol_pause p) then pp_maxPauses (pol_pause p) else Some 0);
          examLen = (if pp_allowed (pol_pause p) then pp_maxPauseDurationSec (pol_pause p) else Some 0)
      in p\<lparr>pol_pause := (pol_pause p)\<lparr>pp_allowed := True, pp_requireApproval := False, pp_requireReason := False,
             pp_timerBehavior := Timer_stop, pp_maxPauses := generous examMax maxPauses,
             pp_maxPauseDurationSec := generous examLen (map_option (\<lambda>m. m * 60) maxPauseMinutes)\<rparr>\<rparr>)"
| "applyAccommodation No_liveness_challenge p = p\<lparr>pol_identity := (pol_identity p)\<lparr>ip_liveness := L_off\<rparr>\<rparr>"
| "applyAccommodation Assistive_technology p =
     p\<lparr>pol_browser := (pol_browser p)\<lparr>bp_requireFullscreen := False, bp_blockClipboard := False,
         bp_flagWindowBlur := False, bp_requireSingleDisplay := False\<rparr>\<rparr>"
| "applyAccommodation (Detection_exemptions ds) p =
     setEnabled (\<lambda>e. fold (\<lambda>d e. if ds d then disableDetector d e else e) EXEMPTIBLE_DETECTORS e) p"
| "applyAccommodation (Support_person _) p = setEnabled (disableDetector D_multiplePeople) p"
| "applyAccommodation (Staff_identity_verification reverify) p = verifyByStaff reverify p"
| "applyAccommodation (No_camera reverify) p = verifyByStaff reverify (p\<lparr>pol_camera_enabled := False\<rparr>)"
| "applyAccommodation (Extra_time _ _) p = p"

definition enforceModesOf :: "policy \<Rightarrow> policy" where
  "enforceModesOf p =
     (if pol_camera_enabled p \<and> ip_verification (pol_identity p) = V_automatic then p
      else let p1 = p\<lparr>pol_identity := (pol_identity p)\<lparr>ip_verification := V_staff, ip_liveness := L_off, ip_idPhotoComparison := IP_off\<rparr>\<rparr>
      in if \<not> pol_camera_enabled p1
         then p1\<lparr>pol_detection := (pol_detection p1)\<lparr>dp_enabled := ALL_DETECTORS_OFF\<rparr>,
                 pol_evidence := (pol_evidence p1)\<lparr>ep_screenshots := False, ep_keepMatchingIdentitySamples := False\<rparr>\<rparr>
         else p1)"

definition applyAccommodations :: "policy \<Rightarrow> accommodation_spec list \<Rightarrow> policy" where
  "applyAccommodations p items = (if items = [] then p else enforceModesOf (fold applyAccommodation items p))"

definition accommodationExtraTimeMs :: "ms \<Rightarrow> accommodation_spec list \<Rightarrow> ms" where
  "accommodationExtraTimeMs base items = fold (\<lambda>a extra. case a of
       Extra_time percent minutes \<Rightarrow> extra + (mathRound (of_int (base * percent) / 100) + minutes * 60000)
     | _ \<Rightarrow> extra) items 0"

text \<open>Whether an accommodation record applies to an exam at a time, and its status.\<close>

definition accommodationApplies :: "ident option \<Rightarrow> ms option \<Rightarrow> ms option \<Rightarrow> ident \<Rightarrow> ms \<Rightarrow> bool" where
  "accommodationApplies a_examId validUntil revokedAt examId now \<longleftrightarrow>
     revokedAt = None \<and> (case validUntil of None \<Rightarrow> True | Some t \<Rightarrow> t > now) \<and> (a_examId = None \<or> a_examId = Some examId)"

datatype accommodation_status = AS_active | AS_expired | AS_revoked

definition accommodationStatus :: "ms option \<Rightarrow> ms option \<Rightarrow> ms \<Rightarrow> accommodation_status" where
  "accommodationStatus revokedAt validUntil now =
     (if revokedAt \<noteq> None then AS_revoked
      else if (case validUntil of Some t \<Rightarrow> t \<le> now | None \<Rightarrow> False) then AS_expired else AS_active)"

section \<open>Order does not matter\<close>

lemma enforceModesOf_eq: "enforceModesOf p = enforceModes p"
  by (simp add: enforceModesOf_def enforceModes_def Let_def)

lemma disableDetector_commute: "disableDetector a (disableDetector b e) = disableDetector b (disableDetector a e)"
  by (cases a; cases b) simp_all

lemma disableDetectors_eq:
  "fold (\<lambda>d e. if ds d then disableDetector d e else e) EXEMPTIBLE_DETECTORS e =
     e\<lparr>de_absence := (de_absence e \<and> \<not> ds D_absence), de_lookingAway := (de_lookingAway e \<and> \<not> ds D_lookingAway),
       de_movement := (de_movement e \<and> \<not> ds D_movement), de_obstruction := (de_obstruction e \<and> \<not> ds D_obstruction),
       de_objects := (de_objects e \<and> \<not> ds D_objects), de_multiplePeople := (de_multiplePeople e \<and> \<not> ds D_multiplePeople)\<rparr>"
  by (cases e) (simp add: EXEMPTIBLE_DETECTORS_def)

lemma generous_generous: "generous (generous e a) b = generous (generous e b) a"
  by (cases e; cases a; cases b) (auto simp: generous_def)

lemma applyAccommodation_commute:
  "applyAccommodation a (applyAccommodation b p) = applyAccommodation b (applyAccommodation a p)"
  by (cases a; cases b)
    (simp_all add: setEnabled_def verifyByStaff_def disableDetectors_eq generous_generous Let_def disj_ac conj_ac)

lemma applyAccommodations_mset:
  assumes "mset xs = mset ys"
  shows "applyAccommodations p xs = applyAccommodations p ys"
proof -
  have "fold applyAccommodation xs p = fold applyAccommodation ys p"
    by (rule fold_commute_mset[where f = applyAccommodation, OF _ assms]) (rule applyAccommodation_commute)
  moreover have "xs = [] \<longleftrightarrow> ys = []" using assms by (metis mset_zero_iff_right)
  ultimately show ?thesis by (simp add: applyAccommodations_def)
qed

section \<open>Accommodations only relax\<close>

text \<open>
  \<open>relaxes p q\<close>: policy \<open>q\<close> asks no more of the candidate than \<open>p\<close>, and differs
  from it nowhere else: fewer observations, fewer browser rules, more generous
  pauses, fewer automated face checks.
\<close>

fun limit_le :: "int option \<Rightarrow> int option \<Rightarrow> bool" where
  "limit_le _ None = True"
| "limit_le None (Some _) = False"
| "limit_le (Some a) (Some b) = (a \<le> b)"

definition pauseLimit :: "pause_policy \<Rightarrow> int option" where
  "pauseLimit p = (if pp_allowed p then pp_maxPauses p else Some 0)"
definition pauseLength :: "pause_policy \<Rightarrow> int option" where
  "pauseLength p = (if pp_allowed p then pp_maxPauseDurationSec p else Some 0)"

definition pause_relaxes :: "pause_policy \<Rightarrow> pause_policy \<Rightarrow> bool" where
  "pause_relaxes p q \<longleftrightarrow> (pp_allowed p \<longrightarrow> pp_allowed q) \<and> (pp_requireApproval q \<longrightarrow> pp_requireApproval p) \<and>
     (pp_requireReason q \<longrightarrow> pp_requireReason p) \<and> (pp_timerBehavior p = Timer_stop \<longrightarrow> pp_timerBehavior q = Timer_stop) \<and>
     limit_le (pauseLimit p) (pauseLimit q) \<and> limit_le (pauseLength p) (pauseLength q)"

definition identity_relaxes :: "identity_policy \<Rightarrow> identity_policy \<Rightarrow> bool" where
  "identity_relaxes p q \<longleftrightarrow>
     (ip_verification q = V_automatic \<longrightarrow> ip_verification p = V_automatic) \<and>
     (ip_liveness q = L_active \<longrightarrow> ip_liveness p = L_active) \<and>
     (ip_idPhotoComparison q = IP_off \<or> ip_idPhotoComparison q = ip_idPhotoComparison p) \<and>
     ip_sampling q = ip_sampling p \<and> ip_samplingProfile q = ip_samplingProfile p \<and> ip_livenessSteps q = ip_livenessSteps p \<and>
     ip_onMismatch q = ip_onMismatch p \<and> ip_maxVerificationAttempts q = ip_maxVerificationAttempts p"

definition browser_relaxes :: "browser_policy \<Rightarrow> browser_policy \<Rightarrow> bool" where
  "browser_relaxes p q \<longleftrightarrow> (bp_requireFullscreen q \<longrightarrow> bp_requireFullscreen p) \<and> (bp_blockClipboard q \<longrightarrow> bp_blockClipboard p) \<and>
     (bp_flagWindowBlur q \<longrightarrow> bp_flagWindowBlur p) \<and> (bp_requireSingleDisplay q \<longrightarrow> bp_requireSingleDisplay p) \<and>
     bp_flagTabHidden q = bp_flagTabHidden p \<and> bp_windowBlurMinSec q = bp_windowBlurMinSec p"

definition enabled_le :: "detection_enabled \<Rightarrow> detection_enabled \<Rightarrow> bool" where
  "enabled_le d e \<longleftrightarrow> (de_absence d \<longrightarrow> de_absence e) \<and> (de_multiplePeople d \<longrightarrow> de_multiplePeople e) \<and>
     (de_lookingAway d \<longrightarrow> de_lookingAway e) \<and> (de_movement d \<longrightarrow> de_movement e) \<and> (de_obstruction d \<longrightarrow> de_obstruction e) \<and>
     (de_objects d \<longrightarrow> de_objects e) \<and> (de_cameraIntegrity d \<longrightarrow> de_cameraIntegrity e)"

definition relaxes :: "policy \<Rightarrow> policy \<Rightarrow> bool" where
  "relaxes p q \<longleftrightarrow> pause_relaxes (pol_pause p) (pol_pause q) \<and> identity_relaxes (pol_identity p) (pol_identity q) \<and>
     browser_relaxes (pol_browser p) (pol_browser q) \<and> (pol_camera_enabled q \<longrightarrow> pol_camera_enabled p) \<and>
     enabled_le (dp_enabled (pol_detection q)) (dp_enabled (pol_detection p)) \<and>
     pol_detection q = (pol_detection p)\<lparr>dp_enabled := dp_enabled (pol_detection q)\<rparr> \<and>
     (ep_screenshots (pol_evidence q) \<longrightarrow> ep_screenshots (pol_evidence p)) \<and>
     (ep_keepMatchingIdentitySamples (pol_evidence q) \<longrightarrow> ep_keepMatchingIdentitySamples (pol_evidence p)) \<and>
     ep_maxScreenshotsPerEvent (pol_evidence q) = ep_maxScreenshotsPerEvent (pol_evidence p) \<and>
     ep_periodicScreenshotSec (pol_evidence q) = ep_periodicScreenshotSec (pol_evidence p) \<and>
     pol_connection q = pol_connection p \<and> pol_resume q = pol_resume p \<and>
     pol_retention_evidenceDays q = pol_retention_evidenceDays p \<and> pol_recording q = pol_recording p"

lemmas relax_defs = relaxes_def pause_relaxes_def identity_relaxes_def browser_relaxes_def enabled_le_def

lemma limit_le_refl [simp]: "limit_le x x"
  by (cases x) auto

lemma limit_le_trans: "limit_le x y \<Longrightarrow> limit_le y z \<Longrightarrow> limit_le x z"
  by (cases x; cases y; cases z) auto

lemma limit_le_generous: "limit_le x (generous x g)"
  by (cases x; cases g) (auto simp: generous_def)

lemma relaxes_refl: "relaxes p p"
  by (simp add: relax_defs)

lemma pause_relaxes_trans: "pause_relaxes p q \<Longrightarrow> pause_relaxes q r \<Longrightarrow> pause_relaxes p r"
  unfolding pause_relaxes_def by (meson limit_le_trans)

lemma identity_relaxes_trans: "identity_relaxes p q \<Longrightarrow> identity_relaxes q r \<Longrightarrow> identity_relaxes p r"
  unfolding identity_relaxes_def by metis

lemma browser_relaxes_trans: "browser_relaxes p q \<Longrightarrow> browser_relaxes q r \<Longrightarrow> browser_relaxes p r"
  unfolding browser_relaxes_def by simp

lemma enabled_le_trans: "enabled_le d e \<Longrightarrow> enabled_le e f \<Longrightarrow> enabled_le d f"
  unfolding enabled_le_def by simp

lemma relaxes_trans:
  assumes pq: "relaxes p q" and qr: "relaxes q r"
  shows "relaxes p r"
proof -
  have "pause_relaxes (pol_pause p) (pol_pause r)" "identity_relaxes (pol_identity p) (pol_identity r)"
    "browser_relaxes (pol_browser p) (pol_browser r)"
    "enabled_le (dp_enabled (pol_detection r)) (dp_enabled (pol_detection p))"
    using pq qr unfolding relaxes_def
    by (blast intro: pause_relaxes_trans identity_relaxes_trans browser_relaxes_trans enabled_le_trans)+
  moreover have "pol_detection r = (pol_detection p)\<lparr>dp_enabled := dp_enabled (pol_detection r)\<rparr>"
  proof -
    obtain e where "pol_detection q = (pol_detection p)\<lparr>dp_enabled := e\<rparr>"
      using pq unfolding relaxes_def by blast
    moreover have "pol_detection r = (pol_detection q)\<lparr>dp_enabled := dp_enabled (pol_detection r)\<rparr>"
      using qr unfolding relaxes_def by blast
    ultimately show ?thesis by simp
  qed
  ultimately show ?thesis using pq qr unfolding relaxes_def by simp
qed

lemma relaxes_applyAccommodation: "relaxes p (applyAccommodation a p)"
proof (cases a)
  case (Rest_breaks n l)
  then show ?thesis
    by (auto simp: relax_defs Let_def pauseLimit_def pauseLength_def intro: limit_le_generous)
qed (auto simp: relax_defs setEnabled_def verifyByStaff_def disableDetectors_eq)

lemma relaxes_enforceModes: "relaxes p (enforceModes p)"
  by (auto simp: relax_defs enforceModes_def Let_def ALL_DETECTORS_OFF_def)

lemma relaxes_fold: "relaxes p (fold applyAccommodation items p)"
  by (induction items arbitrary: p) (auto intro: relaxes_refl relaxes_trans relaxes_applyAccommodation)

lemma applyAccommodations_relaxes: "relaxes p (applyAccommodations p items)"
  by (auto simp: applyAccommodations_def enforceModesOf_eq intro: relaxes_refl relaxes_trans[OF relaxes_fold relaxes_enforceModes])

lemma applyAccommodations_consistent: "modes_consistent p \<Longrightarrow> modes_consistent (applyAccommodations p items)"
  by (simp add: applyAccommodations_def enforceModesOf_eq enforceModes_consistent)

section \<open>Extra time\<close>

fun extraTimeOf :: "ms \<Rightarrow> accommodation_spec \<Rightarrow> ms" where
  "extraTimeOf base (Extra_time percent minutes) = mathRound (of_int (base * percent) / 100) + minutes * 60000"
| "extraTimeOf base _ = 0"

lemma accommodationExtraTimeMs_sum: "accommodationExtraTimeMs base items = sum_list (map (extraTimeOf base) items)"
proof -
  have "fold (\<lambda>a extra. case a of Extra_time percent minutes \<Rightarrow> extra + (mathRound (of_int (base * percent) / 100) + minutes * 60000)
       | _ \<Rightarrow> extra) items e = e + sum_list (map (extraTimeOf base) items)" for e
    by (induction items arbitrary: e) (auto split: accommodation_spec.split)
  then show ?thesis by (simp add: accommodationExtraTimeMs_def)
qed

lemma extraTimeOf_nonneg: "0 \<le> base \<Longrightarrow> accommodationSpec_ok a \<Longrightarrow> 0 \<le> extraTimeOf base a"
proof (cases a)
  case (Extra_time p m)
  assume b: "0 \<le> base" and ok: "accommodationSpec_ok a"
  then have "0 \<le> real_of_int (base * p) / 100" using Extra_time by simp
  then have "0 \<le> mathRound (of_int (base * p) / 100)" using mathRound_mono[of 0] mathRound_of_int[of 0] by force
  then show ?thesis using Extra_time ok by simp
qed auto

section \<open>What the accommodations changed\<close>

text \<open>
  \<open>policyExceptions\<close> compares the leaves of two policies as JSON values, \<open>revertExceptions\<close>
  puts the exam's values back. A path is the dotted list of keys. \<open>setPath\<close> is the
  assignment at the end of a path: missing or null nodes on the way become objects,
  assigning into another value throws (\<open>None\<close>).
\<close>

fun joinPath :: "string \<Rightarrow> string \<Rightarrow> string" where
  "joinPath pre k = (if pre = [] then k else pre @ ''.'' @ k)"

lemma json_child_size: "(k, x) \<in> set kvs \<Longrightarrow> size x < size (JObj kvs)"
  by (induction kvs) auto

function leaves :: "json \<Rightarrow> string \<Rightarrow> (string \<times> json) list" where
  "leaves (JObj kvs) pre = concat (map (\<lambda>(k, x). leaves x (joinPath pre k)) kvs)"
| "leaves JNull pre = [(pre, JNull)]"
| "leaves (JBool b) pre = [(pre, JBool b)]"
| "leaves (JInt i) pre = [(pre, JInt i)]"
| "leaves (JReal r) pre = [(pre, JReal r)]"
| "leaves (JStr s) pre = [(pre, JStr s)]"
| "leaves (JArr xs) pre = [(pre, JArr xs)]"
  by pat_completeness auto
termination
  by (relation "measure (\<lambda>(j, _). size j)") (simp, metis in_measure case_prod_conv json_child_size)

definition KINDS_FOR_PATH :: "(string \<times> accommodation_kind list) list" where
  "KINDS_FOR_PATH = [
     (''pause.'', [K_rest_breaks]),
     (''identity.liveness'', [K_no_liveness_challenge, K_staff_identity_verification, K_no_camera]),
     (''identity.idPhotoComparison'', [K_staff_identity_verification, K_no_camera]),
     (''identity.'', [K_staff_identity_verification, K_no_camera]),
     (''camera.'', [K_no_camera]),
     (''browser.'', [K_assistive_technology]),
     (''detection.enabled.multiplePeople'', [K_support_person, K_detection_exemptions, K_no_camera]),
     (''detection.enabled.'', [K_detection_exemptions, K_no_camera]),
     (''evidence.'', [K_no_camera])]"

record policy_exception =
  px_path :: string
  px_from :: "json option"
  px_to :: json
  px_kinds :: "accommodation_kind list"

definition kindsForPath :: "string \<Rightarrow> accommodation_spec list \<Rightarrow> accommodation_kind list" where
  "kindsForPath path items =
     filter (\<lambda>k. k \<in> kindOf ` set items) (case find (\<lambda>(pre, _). prefix pre path) KINDS_FOR_PATH of Some (_, ks) \<Rightarrow> ks | None \<Rightarrow> [])"

definition policyExceptions :: "json \<Rightarrow> json \<Rightarrow> accommodation_spec list \<Rightarrow> (ms \<times> ms) option \<Rightarrow> policy_exception list" where
  "policyExceptions examPolicy applied items durations =
     (let before = map_of (rev (leaves examPolicy []))
      in (case durations of Some (base, extra) \<Rightarrow>
            (if extra > 0 then [\<lparr>px_path = ''durationMs'', px_from = Some (JInt base), px_to = JInt (base + extra), px_kinds = [K_extra_time]\<rparr>] else [])
          | None \<Rightarrow> []) @
         map (\<lambda>(path, to). \<lparr>px_path = path, px_from = before path, px_to = to, px_kinds = kindsForPath path items\<rparr>)
           (filter (\<lambda>(path, to). before path \<noteq> Some to) (leaves applied [])))"

fun splitDot :: "string \<Rightarrow> string list" where
  "splitDot [] = [[]]"
| "splitDot (c # cs) = (if c = CHR ''.'' then [] # splitDot cs
     else (case splitDot cs of w # ws \<Rightarrow> (c # w) # ws | [] \<Rightarrow> [[c]]))"

fun assign :: "string \<Rightarrow> json option \<Rightarrow> jobj \<Rightarrow> jobj" where
  "assign k (Some v) kvs = AList.update k v kvs"
| "assign k None kvs = AList.delete k kvs"

text \<open>An absent or null child becomes an empty object before it is entered.\<close>

definition childOf :: "string \<Rightarrow> jobj \<Rightarrow> json" where
  "childOf k kvs = (case map_of kvs k of None \<Rightarrow> JObj [] | Some JNull \<Rightarrow> JObj [] | Some c \<Rightarrow> c)"

fun setPath :: "string list \<Rightarrow> json option \<Rightarrow> json \<Rightarrow> json option" where
  "setPath [k] v (JObj kvs) = Some (JObj (assign k v kvs))"
| "setPath (k # k' # ks) v (JObj kvs) =
     map_option (\<lambda>c. JObj (AList.update k c kvs)) (setPath (k' # ks) v (childOf k kvs))"
| "setPath _ v _ = None"

fun revertExceptions :: "json \<Rightarrow> policy_exception list \<Rightarrow> json option" where
  "revertExceptions p [] = Some p"
| "revertExceptions p (e # es) =
     (if px_path e = ''durationMs'' then revertExceptions p es
      else (case setPath (splitDot (px_path e)) (px_from e) p of None \<Rightarrow> None | Some q \<Rightarrow> revertExceptions q es))"

text \<open>
  Two policies written by the same schema have the same shape: the same keys in the
  same order at every level (unique, non-empty and without dots) and plain values at
  the same places. \<open>leafPaths\<close> are the leaves with their paths as key lists.
\<close>

fun isObj :: "json \<Rightarrow> bool" where
  "isObj (JObj _) = True"
| "isObj _ = False"

definition goodKey :: "string \<Rightarrow> bool" where
  "goodKey k \<longleftrightarrow> k \<noteq> [] \<and> CHR ''.'' \<notin> set k"

function same_shape :: "json \<Rightarrow> json \<Rightarrow> bool" where
  "same_shape (JObj xs) (JObj ys) \<longleftrightarrow> map fst xs = map fst ys \<and> distinct (map fst xs) \<and> (\<forall>k \<in> set (map fst xs). goodKey k) \<and>
     list_all2 (\<lambda>(_, x) (_, y). same_shape x y) xs ys"
| "\<not> isObj x \<Longrightarrow> same_shape x y \<longleftrightarrow> \<not> isObj y"
| "\<not> isObj y \<Longrightarrow> same_shape (JObj xs) y \<longleftrightarrow> False"
  subgoal for P x by (cases "fst x"; cases "snd x") (cases x; fastforce)+
  by auto
termination
  by (relation "measure (\<lambda>(j, _). size j)") (simp, metis in_measure case_prod_conv json_child_size)

function leafPaths :: "json \<Rightarrow> (string list \<times> json) list" where
  "leafPaths (JObj kvs) = concat (map (\<lambda>(k, x). map (\<lambda>(p, v). (k # p, v)) (leafPaths x)) kvs)"
| "\<not> isObj x \<Longrightarrow> leafPaths x = [([], x)]"
  by (metis isObj.elims(2)) auto
termination
  by (relation "measure size") (simp, metis in_measure json_child_size)

subsection \<open>Reverting gives the exam's own policy back\<close>

declare joinPath.simps [simp del]

lemma splitDot_nonempty [simp]: "splitDot s \<noteq> []"
  by (induction s) (auto split: list.split)

lemma same_shape_isObj: "same_shape x y \<Longrightarrow> isObj x = isObj y"
  by (cases x; cases y) auto

lemma leafPaths_leaves:
  "pre \<noteq> [] \<or> isObj j \<Longrightarrow> same_shape j j \<Longrightarrow> leaves j pre = map (\<lambda>(p, v). (foldl joinPath pre p, v)) (leafPaths j)"
proof (induction j pre rule: leaves.induct)
  case (1 kvs pre)
  have "leaves x (joinPath pre k) = map (\<lambda>(p, v). (foldl joinPath pre (k # p), v)) (leafPaths x)" if kx: "(k, x) \<in> set kvs" for k x
  proof -
    have "joinPath pre k \<noteq> []" using 1(3) kx by (auto simp: goodKey_def joinPath.simps)
    moreover have "same_shape x x" using 1(3) kx by (force simp: list_all2_same)
    ultimately show ?thesis using 1(1)[OF kx refl] by simp
  qed
  then have "map (\<lambda>(k, x). leaves x (joinPath pre k)) kvs = map (\<lambda>(k, x). map (\<lambda>(p, v). (foldl joinPath pre (k # p), v)) (leafPaths x)) kvs"
    by (intro map_cong) auto
  then show ?case unfolding leaves.simps leafPaths.simps map_concat
    by (simp add: comp_def case_prod_unfold cong: map_cong)
qed auto

lemma leafPaths_keys: "same_shape j j \<Longrightarrow> (p, v) \<in> set (leafPaths j) \<Longrightarrow> \<forall>k \<in> set p. goodKey k"
proof (induction j arbitrary: p v rule: leafPaths.induct)
  case (1 kvs)
  then obtain k x q where kx: "(k, x) \<in> set kvs" and p: "p = k # q" "(q, v) \<in> set (leafPaths x)" by auto
  then have "same_shape x x" "goodKey k" using 1(2) by (force simp: list_all2_same)+
  then show ?case using 1(1)[OF kx refl _ p(2)] p by simp
qed auto

lemma leafPaths_nonempty: "isObj j \<Longrightarrow> (p, v) \<in> set (leafPaths j) \<Longrightarrow> p \<noteq> []"
  by (cases j) auto

lemma leafPaths_leaf: "(p, v) \<in> set (leafPaths j) \<Longrightarrow> \<not> isObj v"
  by (induction j arbitrary: p v rule: leafPaths.induct) auto

text \<open>Splitting a dotted path gives its keys back.\<close>

lemma splitDot_plain: "CHR ''.'' \<notin> set k \<Longrightarrow> splitDot k = [k]"
  by (induction k) auto

lemma splitDot_append: "CHR ''.'' \<notin> set k \<Longrightarrow> splitDot (s @ ''.'' @ k) = splitDot s @ [k]"
proof (induction s)
  case (Cons c s)
  then show ?case by (cases "splitDot s") auto
qed (simp add: splitDot_plain)

lemma splitDot_join: "pre \<noteq> [] \<Longrightarrow> \<forall>k \<in> set p. goodKey k \<Longrightarrow> splitDot (foldl joinPath pre p) = splitDot pre @ p"
proof (induction p arbitrary: pre)
  case (Cons k p)
  then show ?case using splitDot_append[of k pre] by (simp add: goodKey_def joinPath.simps)
qed simp

lemma splitDot_path: "p \<noteq> [] \<Longrightarrow> \<forall>k \<in> set p. goodKey k \<Longrightarrow> splitDot (foldl joinPath [] p) = p"
  by (cases p) (auto simp: splitDot_join splitDot_plain goodKey_def joinPath.simps)

lemma foldl_joinPath_inj:
  "p \<noteq> [] \<Longrightarrow> q \<noteq> [] \<Longrightarrow> \<forall>k \<in> set p \<union> set q. goodKey k \<Longrightarrow> foldl joinPath [] p = foldl joinPath [] q \<longleftrightarrow> p = q"
  by (metis splitDot_path UnCI)

text \<open>Same shape is an equivalence on the values that have a shape; the leaves determine such a value.\<close>

lemma same_shape_children:
  "same_shape (JObj xs) b \<longleftrightarrow> (\<exists>ys. b = JObj ys \<and> distinct (map fst xs) \<and> (\<forall>k \<in> set (map fst xs). goodKey k) \<and>
     list_all2 (\<lambda>x y. fst x = fst y \<and> same_shape (snd x) (snd y)) xs ys)"
proof -
  have "map fst xs = map fst ys \<and> list_all2 (\<lambda>(_, x) (_, y). same_shape x y) xs ys \<longleftrightarrow>
     list_all2 (\<lambda>x y. fst x = fst y \<and> same_shape (snd x) (snd y)) xs ys" for ys
    by (simp add: case_prod_unfold list_eq_iff_nth_eq list_all2_conv_all_nth) auto
  then show ?thesis by (cases b) auto
qed

lemma leafPaths_shape_paths: "same_shape a b \<Longrightarrow> map fst (leafPaths a) = map fst (leafPaths b)"
proof (induction a arbitrary: b rule: leafPaths.induct)
  case (1 xs)
  obtain ys where b: "b = JObj ys" and r: "list_all2 (\<lambda>x y. fst x = fst y \<and> same_shape (snd x) (snd y)) xs ys"
    using 1(2) unfolding same_shape_children by auto
  have "list_all2 (\<lambda>x y. fst x = fst y \<and> map fst (leafPaths (snd x)) = map fst (leafPaths (snd y))) xs ys"
    by (rule list.rel_mono_strong[OF r]) (use 1(1) in \<open>metis prod.collapse\<close>)
  then have "map fst (leafPaths (JObj xs)) = map fst (leafPaths (JObj ys))"
  proof (induction rule: list_all2_induct)
    case (Cons x xs y ys)
    have "map fst (map (\<lambda>(p, v). (k # p, v)) l) = map ((#) k) (map fst l)" for k and l :: "(string list \<times> json) list"
      by (simp add: comp_def case_prod_unfold)
    then show ?case using Cons by (simp add: case_prod_unfold del: map_map)
  qed simp
  then show ?case unfolding b .
next
  case (2 x)
  then show ?case by simp
qed

lemma same_shape_sym: "same_shape a b \<Longrightarrow> same_shape b a"
proof (induction a arbitrary: b rule: leafPaths.induct)
  case (1 xs)
  obtain ys where b: "b = JObj ys" and k: "distinct (map fst xs)" "\<forall>k \<in> set (map fst xs). goodKey k"
    and r: "list_all2 (\<lambda>x y. fst x = fst y \<and> same_shape (snd x) (snd y)) xs ys"
    using 1(2) unfolding same_shape_children by auto
  have "list_all2 (\<lambda>x y. fst y = fst x \<and> same_shape (snd y) (snd x)) xs ys"
    by (rule list.rel_mono_strong[OF r]) (use 1(1) in \<open>metis prod.collapse\<close>)
  then have "list_all2 (\<lambda>x y. fst x = fst y \<and> same_shape (snd x) (snd y)) ys xs"
    by (simp add: list_all2_conv_all_nth)
  moreover have "map fst xs = map fst ys" using r by (simp add: list_eq_iff_nth_eq list_all2_conv_all_nth)
  ultimately show ?case using k unfolding b same_shape_children by simp
next
  case (2 x)
  then show ?case using same_shape_isObj[of x b] by simp
qed

lemma same_shape_trans: "same_shape a b \<Longrightarrow> same_shape b c \<Longrightarrow> same_shape a c"
proof (induction a arbitrary: b c rule: leafPaths.induct)
  case (1 xs)
  obtain ys where b: "b = JObj ys" and k: "distinct (map fst xs)" "\<forall>k \<in> set (map fst xs). goodKey k"
    and r: "list_all2 (\<lambda>x y. fst x = fst y \<and> same_shape (snd x) (snd y)) xs ys"
    using 1(2) unfolding same_shape_children by auto
  obtain zs where c: "c = JObj zs" and r': "list_all2 (\<lambda>x y. fst x = fst y \<and> same_shape (snd x) (snd y)) ys zs"
    using 1(3) unfolding b same_shape_children by auto
  have "list_all2 (\<lambda>x y. fst x = fst y \<and> same_shape (snd x) (snd y)) xs zs"
    unfolding list_all2_conv_all_nth
  proof (intro conjI allI impI)
    show "length xs = length zs" using list_all2_lengthD[OF r] list_all2_lengthD[OF r'] by simp
    fix i assume i: "i < length xs"
    then have "xs ! i \<in> set xs" by simp
    moreover have "fst (xs ! i) = fst (ys ! i)" "same_shape (snd (xs ! i)) (snd (ys ! i))"
      "fst (ys ! i) = fst (zs ! i)" "same_shape (snd (ys ! i)) (snd (zs ! i))"
      using r r' i by (auto simp: list_all2_conv_all_nth)
    ultimately show "fst (xs ! i) = fst (zs ! i)" "same_shape (snd (xs ! i)) (snd (zs ! i))"
      using 1(1)[OF _ prod.collapse] by auto
  qed
  then show ?case using k unfolding c same_shape_children by auto
next
  case (2 x)
  then show ?case by simp
qed

lemma leafPaths_distinct: "same_shape a a \<Longrightarrow> distinct (map fst (leafPaths a))"
proof (induction a rule: leafPaths.induct)
  case (1 xs)
  have ch: "distinct (map fst (leafPaths x))" if "(k, x) \<in> set xs" for k x
    using 1 that unfolding same_shape_children by (auto simp: list_all2_same)
  have "distinct (map fst xs)" using 1(2) by auto
  then show ?case using ch
  proof (induction xs)
    case (Cons kx xs)
    obtain k x where kx: "kx = (k, x)" by force
    have rest: "distinct (map fst (leafPaths (JObj xs)))" by (rule Cons.IH) (use Cons.prems in auto)
    have this_child: "distinct (map ((#) k) (map fst (leafPaths x)))"
      using Cons.prems(2)[of k x] kx by (subst distinct_map) auto
    have k: "k \<notin> fst ` set xs" using Cons.prems(1) kx by simp
    have paths: "map fst (leafPaths (JObj (kx # xs))) = map ((#) k) (map fst (leafPaths x)) @ map fst (leafPaths (JObj xs))"
      by (simp add: kx comp_def case_prod_unfold)
    have "set (map ((#) k) (map fst (leafPaths x))) \<inter> set (map fst (leafPaths (JObj xs))) = {}"
    proof (rule ccontr)
      assume "\<not> ?thesis"
      then obtain p where p: "p \<in> set (map ((#) k) (map fst (leafPaths x)))" "p \<in> set (map fst (leafPaths (JObj xs)))"
        by blast
      from p(1) have "hd p = k" by auto
      moreover from p(2) have "hd p \<in> fst ` set xs" by force
      ultimately show False using k by simp
    qed
    then show ?case unfolding paths distinct_append using rest this_child by simp
  qed simp
qed (simp)


definition overridePath :: "string list \<Rightarrow> json \<Rightarrow> string list \<times> json \<Rightarrow> string list \<times> json" where
  "overridePath p v = (\<lambda>(q, x). (q, if q = p then v else x))"

lemma update_as_map:
  "distinct (map fst kvs) \<Longrightarrow> k \<in> fst ` set kvs \<Longrightarrow> AList.update k v kvs = map (\<lambda>(k', y). (k', if k' = k then v else y)) kvs"
proof (induction kvs)
  case (Cons a kvs)
  have "map (\<lambda>(k', y). (k', if k' = k then v else y)) kvs = kvs" if "k \<notin> fst ` set kvs"
    using that by (intro map_idI) (auto simp: rev_image_eqI)
  then show ?case using Cons by (cases a) auto
qed simp

lemma update_child:
  assumes sh: "same_shape (JObj kvs) (JObj kvs)" and kx: "(k, x) \<in> set kvs" and x': "same_shape x x'"
    and lp: "leafPaths x' = map (overridePath q v) (leafPaths x)"
  shows "same_shape (JObj kvs) (JObj (AList.update k x' kvs)) \<and>
         leafPaths (JObj (AList.update k x' kvs)) = map (overridePath (k # q) v) (leafPaths (JObj kvs))"
proof
  have d: "distinct (map fst kvs)" and g: "\<forall>k \<in> set (map fst kvs). goodKey k"
    and r: "list_all2 (\<lambda>x y. fst x = fst y \<and> same_shape (snd x) (snd y)) kvs kvs"
    using sh unfolding same_shape_children by auto
  have u: "AList.update k x' kvs = map (\<lambda>(k', y). (k', if k' = k then x' else y)) kvs"
    by (rule update_as_map[OF d]) (use kx in force)
  have uniq: "y = x" if "(k, y) \<in> set kvs" for y using that kx d by (metis map_of_eq_Some_iff option.inject)
  have self: "same_shape y y" if "(k', y) \<in> set kvs" for k' y using that r by (force simp: list_all2_same)
  have "list_all2 (\<lambda>x y. fst x = fst y \<and> same_shape (snd x) (snd y)) kvs (AList.update k x' kvs)"
    unfolding u list_all2_map2
    by (rule list.rel_mono_strong[of "(=)"]) (use self x' uniq in \<open>auto simp: list.rel_eq\<close>)
  then show "same_shape (JObj kvs) (JObj (AList.update k x' kvs))"
    unfolding same_shape_children using d g by blast
  have "(case (case ky of (k', y) \<Rightarrow> (k', if k' = k then x' else y)) of (k, x) \<Rightarrow> map (\<lambda>(p, v). (k # p, v)) (leafPaths x)) =
      map (overridePath (k # q) v) (case ky of (k, x) \<Rightarrow> map (\<lambda>(p, v). (k # p, v)) (leafPaths x))"
    if "ky \<in> set kvs" for ky
  proof -
    obtain k' y where ky: "ky = (k', y)" by force
    show ?thesis using uniq[of y] that unfolding ky by (cases "k' = k") (auto simp: lp overridePath_def)
  qed
  then show "leafPaths (JObj (AList.update k x' kvs)) = map (overridePath (k # q) v) (leafPaths (JObj kvs))"
    unfolding u leafPaths.simps map_concat map_map
    by (intro arg_cong[of _ _ concat] map_cong[OF refl]) (simp add: comp_def)
qed

lemma leafPaths_self_nil: "([], w) \<in> set (leafPaths x) \<Longrightarrow> \<not> isObj x"
  by (cases x) auto

lemma setPath_leaf:
  assumes "same_shape j j" "(p, w) \<in> set (leafPaths j)" "p \<noteq> []" "\<not> isObj v"
  shows "\<exists>j'. setPath p (Some v) j = Some j' \<and> same_shape j j' \<and> leafPaths j' = map (overridePath p v) (leafPaths j)"
  using assms
proof (induction p arbitrary: j)
  case (Cons k q)
  have "isObj j" using Cons.prems(2) by (cases j) auto
  then obtain kvs where j: "j = JObj kvs" by (cases j) auto
  obtain x where kx: "(k, x) \<in> set kvs" and q: "(q, w) \<in> set (leafPaths x)"
    using Cons.prems(2) unfolding j by auto
  have d: "distinct (map fst kvs)" using Cons.prems(1) unfolding j by auto
  have x: "same_shape x x" using Cons.prems(1) kx unfolding j same_shape_children by (auto simp: list_all2_same)
  show ?case
  proof (cases q)
    case Nil
    then have "\<not> isObj x" using q leafPaths_self_nil by simp
    then have "leafPaths v = map (overridePath [] v) (leafPaths x)" "same_shape x v"
      using Cons.prems(4) by (auto simp: overridePath_def)
    from update_child[OF _ kx this(2,1)] Cons.prems(1) show ?thesis
      unfolding j Nil by (simp del: same_shape.simps leafPaths.simps)
  next
    case (Cons k' ks)
    have "isObj x" using q Cons by (cases x) auto
    moreover have "map_of kvs k = Some x" using kx d by simp
    ultimately have child: "childOf k kvs = x" by (cases x) (auto simp: childOf_def)
    obtain x' where x': "setPath q (Some v) x = Some x'" "same_shape x x'" "leafPaths x' = map (overridePath q v) (leafPaths x)"
      using Cons.IH[OF x q] Cons Cons.prems(4) by auto
    from update_child[OF _ kx x'(2,3)] \<open>same_shape j j\<close> show ?thesis
      unfolding j using x'(1) child Cons by (simp del: same_shape.simps leafPaths.simps)
  qed
qed simp


lemma leafPaths_determine: "same_shape a b \<Longrightarrow> leafPaths a = leafPaths b \<Longrightarrow> a = b"
proof (induction a arbitrary: b rule: leafPaths.induct)
  case (1 xs)
  obtain ys where b: "b = JObj ys" and r: "list_all2 (\<lambda>x y. fst x = fst y \<and> same_shape (snd x) (snd y)) xs ys"
    using 1(2) unfolding same_shape_children by auto
  let ?f = "\<lambda>(k, x). map (\<lambda>(p, v). (k # p, v)) (leafPaths x)"
  have len: "length xs = length ys" by (rule list_all2_lengthD[OF r])
  have plen: "length (leafPaths x) = length (leafPaths y)" if "same_shape x y" for x y
    using leafPaths_shape_paths[OF that] by (metis length_map)
  have "map ?f xs = map ?f ys"
  proof (rule concat_injective)
    show "concat (map ?f xs) = concat (map ?f ys)" using 1(3) unfolding b by simp
    show "\<forall>(x, y) \<in> set (zip (map ?f xs) (map ?f ys)). length x = length y"
      using r plen by (auto simp: set_zip list_all2_conv_all_nth case_prod_unfold)
  qed (simp add: len)
  then have eq: "?f (xs ! i) = ?f (ys ! i)" if "i < length xs" for i
  proof -
    have "map ?f xs ! i = map ?f ys ! i" using \<open>map ?f xs = map ?f ys\<close> by (rule arg_cong)
    then show ?thesis unfolding nth_map[OF that] nth_map[OF that[unfolded len]] .
  qed
  have inj: "inj (\<lambda>(p, v :: json). (k # p, v))" for k :: string by (auto simp: inj_on_def)
  have "xs ! i = ys ! i" if i: "i < length xs" for i
  proof -
    have f: "fst (xs ! i) = fst (ys ! i)" and s: "same_shape (snd (xs ! i)) (snd (ys ! i))"
      using r i by (auto simp: list_all2_conv_all_nth)
    have "leafPaths (snd (xs ! i)) = leafPaths (snd (ys ! i))"
      using eq[OF i] f inj_mapI[OF inj, THEN injD] by (simp add: case_prod_unfold)
    with 1(1)[OF nth_mem[OF i] prod.collapse[symmetric, THEN sym] s] have "snd (xs ! i) = snd (ys ! i)" .
    with f show ?thesis by (simp add: prod_eq_iff)
  qed
  then show ?case unfolding b using len by (simp add: list_eq_iff_nth_eq)
next
  case (2 x)
  then show ?case using same_shape_isObj[of x b] by simp
qed

lemma leaves_dotted: "isObj j \<Longrightarrow> same_shape j j \<Longrightarrow> leaves j [] = map (\<lambda>(p, v). (foldl joinPath [] p, v)) (leafPaths j)"
  by (rule leafPaths_leaves) auto

lemma dotted_lookup:
  assumes "isObj a" "same_shape a a" "p \<noteq> []" "\<forall>k \<in> set p. goodKey k"
  shows "map_of (rev (leaves a [])) (foldl joinPath [] p) = map_of (leafPaths a) p"
proof -
  have good: "q \<noteq> []" "\<forall>k \<in> set q. goodKey k" if "(q, v) \<in> set (leafPaths a)" for q v
    using that assms leafPaths_nonempty leafPaths_keys by auto
  have inj: "inj_on (foldl joinPath []) (fst ` set (leafPaths a))"
    by (rule inj_onI) (use good splitDot_path in \<open>metis (no_types, lifting) image_iff prod.collapse\<close>)
  have "distinct (map fst (leaves a []))"
    using leafPaths_distinct[OF assms(2)] inj unfolding leaves_dotted[OF assms(1,2)]
    by (simp add: distinct_map comp_def case_prod_unfold inj_on_def)
  then have dist: "distinct (map fst (rev (leaves a [])))" by (simp add: rev_map[symmetric])
  have "(foldl joinPath [] p, v) \<in> set (rev (leaves a [])) \<longleftrightarrow> (p, v) \<in> set (leafPaths a)" for v
  proof -
    have "q = p" if "(q, v) \<in> set (leafPaths a)" "foldl joinPath [] q = foldl joinPath [] p" for q
      using splitDot_path[OF good[OF that(1)]] splitDot_path[OF assms(3,4)] unfolding that(2) by (rule trans[OF sym])
    moreover have "(foldl joinPath [] p, v) \<in> set (rev (leaves a [])) \<longleftrightarrow>
        (\<exists>q. (q, v) \<in> set (leafPaths a) \<and> foldl joinPath [] q = foldl joinPath [] p)"
      unfolding leaves_dotted[OF assms(1,2)] set_rev set_map by (simp only: image_iff Bex_def split_paired_Ex prod.case prod.inject) metis
    ultimately show ?thesis by blast
  qed
  then have "map_of (rev (leaves a [])) (foldl joinPath [] p) = Some v \<longleftrightarrow> map_of (leafPaths a) p = Some v" for v
    using map_of_eq_Some_iff[OF dist] map_of_eq_Some_iff[OF leafPaths_distinct[OF assms(2)]] by simp
  then show ?thesis by (cases "map_of (leafPaths a) p") (metis not_None_eq, simp)
qed

definition exceptionAt :: "(string list \<Rightarrow> json) \<Rightarrow> accommodation_spec list \<Rightarrow> string list \<times> json \<Rightarrow> policy_exception" where
  "exceptionAt A items = (\<lambda>(p, to). \<lparr>px_path = foldl joinPath [] p, px_from = Some (A p), px_to = to, px_kinds = kindsForPath (foldl joinPath [] p) items\<rparr>)"

lemma revert_list:
  assumes "same_shape b j" "set L \<subseteq> set (leafPaths b)" "isObj b" "\<And>p. \<not> isObj (A p)"
    and nd: "\<And>p. p \<in> fst ` set (leafPaths b) \<Longrightarrow> foldl joinPath [] p \<noteq> ''durationMs''"
  shows "\<exists>j'. revertExceptions j (map (exceptionAt A items) L) = Some j' \<and> same_shape b j' \<and>
           leafPaths j' = map (\<lambda>(q, x). (q, if q \<in> fst ` set L then A q else x)) (leafPaths j)"
  using assms(1,2)
proof (induction L arbitrary: j)
  case (Cons e L)
  obtain p to where e: "e = (p, to)" by force
  have pb: "(p, to) \<in> set (leafPaths b)" using Cons.prems(2) e by simp
  have sb: "same_shape b b" "same_shape j j" using Cons.prems(1) same_shape_sym same_shape_trans by blast+
  have "p \<in> set (map fst (leafPaths j))" using pb unfolding leafPaths_shape_paths[OF Cons.prems(1), symmetric] by force
  then obtain w where w: "(p, w) \<in> set (leafPaths j)" by auto
  have p: "p \<noteq> []" "\<forall>k \<in> set p. goodKey k" using leafPaths_nonempty[OF assms(3) pb] leafPaths_keys[OF sb(1) pb] by auto
  obtain j1 where j1: "setPath p (Some (A p)) j = Some j1" "same_shape j j1" "leafPaths j1 = map (overridePath p (A p)) (leafPaths j)"
    using setPath_leaf[OF sb(2) w p(1) assms(4)] by blast
  have "same_shape b j1" using Cons.prems(1) j1(2) same_shape_trans by blast
  from Cons.IH[OF this] Cons.prems(2) obtain j' where j':
    "revertExceptions j1 (map (exceptionAt A items) L) = Some j'" "same_shape b j'"
    "leafPaths j' = map (\<lambda>(q, x). (q, if q \<in> fst ` set L then A q else x)) (leafPaths j1)" by auto
  have "revertExceptions j (map (exceptionAt A items) (e # L)) = Some j'"
    using j1(1) j'(1) nd[OF image_eqI[OF _ pb]] splitDot_path[OF p] by (simp add: exceptionAt_def e)
  moreover have "leafPaths j' = map (\<lambda>(q, x). (q, if q \<in> fst ` set (e # L) then A q else x)) (leafPaths j)"
    unfolding j'(3) j1(3) by (auto simp: overridePath_def e)
  ultimately show ?case using j'(2) by blast
qed (simp add: case_prod_unfold)


lemma revert_policyExceptions:
  assumes sh: "same_shape a b" and obj: "isObj a"
    and nd: "\<And>p. p \<in> fst ` set (leafPaths b) \<Longrightarrow> foldl joinPath [] p \<noteq> ''durationMs''"
  shows "revertExceptions b (policyExceptions a b items durations) = Some a"
proof -
  have ob: "isObj b" using obj same_shape_isObj[OF sh] by simp
  have sa: "same_shape a a" and sb: "same_shape b b" and ba: "same_shape b a"
    using sh same_shape_sym same_shape_trans by blast+
  define A where "A p = (case map_of (leafPaths a) p of Some v \<Rightarrow> v | None \<Rightarrow> JNull)" for p
  have A_leaf: "\<not> isObj (A p)" for p
    by (auto simp: A_def split: option.split dest: map_of_SomeD leafPaths_leaf)
  have A_known: "map_of (leafPaths a) p = Some (A p)" if "(p, v) \<in> set (leafPaths b)" for p v
  proof -
    have "p \<in> set (map fst (leafPaths a))" unfolding leafPaths_shape_paths[OF sh] using that by force
    then show ?thesis unfolding A_def by (cases "map_of (leafPaths a) p") (auto simp: map_of_eq_None_iff)
  qed
  have look: "map_of (rev (leaves a [])) (foldl joinPath [] p) = Some (A p)" if "(p, v) \<in> set (leafPaths b)" for p v
    using dotted_lookup[OF obj sa] leafPaths_nonempty[OF ob that] leafPaths_keys[OF sb that] A_known[OF that] by simp
  let ?L = "filter (\<lambda>(p, to). A p \<noteq> to) (leafPaths b)"
  let ?d = "case durations of Some (base, extra) \<Rightarrow>
            (if extra > 0 then [\<lparr>px_path = ''durationMs'', px_from = Some (JInt base), px_to = JInt (base + extra), px_kinds = [K_extra_time]\<rparr>] else [])
          | None \<Rightarrow> []"
  have filt: "filter (\<lambda>(path, to). map_of (rev (leaves a [])) path \<noteq> Some to) (leaves b []) = map (\<lambda>(p, v). (foldl joinPath [] p, v)) ?L"
    unfolding leaves_dotted[OF ob sb] filter_map
    by (intro arg_cong[of _ _ "map _"] filter_cong refl) (auto simp: look)
  have "policyExceptions a b items durations = ?d @ map (exceptionAt A items) ?L"
    unfolding policyExceptions_def Let_def filt
    by (auto simp: exceptionAt_def look)
  moreover have "revertExceptions b (?d @ es) = revertExceptions b es" for es
    by (auto split: option.split)
  moreover obtain j' where j': "revertExceptions b (map (exceptionAt A items) ?L) = Some j'" "same_shape b j'"
    "leafPaths j' = map (\<lambda>(q, x). (q, if q \<in> fst ` set ?L then A q else x)) (leafPaths b)"
    using revert_list[where A = A and L = ?L and items = items, OF sb filter_is_subset ob A_leaf nd] by blast
  moreover have "leafPaths j' = map (\<lambda>q. (q, A q)) (map fst (leafPaths b))"
    unfolding j'(3) by (auto simp: image_iff)
  moreover have "map (\<lambda>q. (q, A q)) (map fst (leafPaths a)) = leafPaths a"
    using leafPaths_distinct[OF sa] by (auto simp: A_def intro!: map_idI)
  ultimately have "leafPaths j' = leafPaths a" using leafPaths_shape_paths[OF sh] by simp
  then have "j' = a" using leafPaths_determine j'(2) ba same_shape_sym same_shape_trans by metis
  then show ?thesis using \<open>policyExceptions a b items durations = _\<close> \<open>\<And>es. revertExceptions b (?d @ es) = revertExceptions b es\<close> j'(1) by simp
qed


text \<open>A resolved policy as the JSON value it is stored as: the schema's keys, in the schema's order.\<close>

fun verificationJson :: "verification_mode \<Rightarrow> json" where
  "verificationJson V_automatic = JStr ''automatic''"
| "verificationJson V_staff = JStr ''staff''"
fun livenessJson :: "liveness_mode \<Rightarrow> json" where
  "livenessJson L_active = JStr ''active''"
| "livenessJson L_off = JStr ''off''"
fun idPhotoJson :: "id_photo_mode \<Rightarrow> json" where
  "idPhotoJson IP_off = JStr ''off''"
| "idPhotoJson IP_advisory = JStr ''advisory''"
| "idPhotoJson IP_required = JStr ''required''"
fun profileJson :: "sampling_profile \<Rightarrow> json" where
  "profileJson Maximum = JStr ''maximum''"
| "profileJson Balanced = JStr ''balanced''"
| "profileJson Custom = JStr ''custom''"
fun onMismatchJson :: "mismatch_action \<Rightarrow> json" where
  "onMismatchJson Hold_for_review = JStr ''hold_for_review''"
| "onMismatchJson Flag_only = JStr ''flag_only''"
fun timerJson :: "timer_behavior \<Rightarrow> json" where
  "timerJson Timer_stop = JStr ''stop''"
| "timerJson Timer_continue = JStr ''continue''"
fun onLimitJson :: "on_limit \<Rightarrow> json" where
  "onLimitJson Limit_hold = JStr ''hold''"
| "onLimitJson Limit_end = JStr ''end''"
fun attentionJson :: "attention_reference \<Rightarrow> json" where
  "attentionJson AR_learned = JStr ''learned''"
| "attentionJson AR_calibration = JStr ''calibration''"

definition identity_json :: "identity_policy \<Rightarrow> json" where
  "identity_json p = JObj [
     (''verification'', verificationJson (ip_verification p)),
     (''staffReverifyOnContinue'', JBool (ip_staffReverifyOnContinue p)),
     (''liveness'', livenessJson (ip_liveness p)),
     (''livenessSteps'', JInt (ip_livenessSteps p)),
     (''idPhotoComparison'', idPhotoJson (ip_idPhotoComparison p)),
     (''periodicCheckIntervalSec'', JInt (ip_periodicCheckIntervalSec p)),
     (''startupIntervalSec'', JInt (ip_startupIntervalSec p)),
     (''startupWindowSec'', JInt (ip_startupWindowSec p)),
     (''burstSize'', JInt (ip_burstSize p)),
     (''routineBurstSize'', JInt (ip_routineBurstSize p)),
     (''samplingProfile'', profileJson (ip_samplingProfile p)),
     (''onMismatch'', onMismatchJson (ip_onMismatch p)),
     (''maxVerificationAttempts'', JInt (ip_maxVerificationAttempts p))]"

definition pause_json :: "pause_policy \<Rightarrow> json" where
  "pause_json p = JObj [(''allowed'', JBool (pp_allowed p)), (''requireReason'', JBool (pp_requireReason p)),
     (''requireApproval'', JBool (pp_requireApproval p)), (''timerBehavior'', timerJson (pp_timerBehavior p)),
     (''maxPauses'', jint (pp_maxPauses p)), (''maxPauseDurationSec'', jint (pp_maxPauseDurationSec p))]"

definition browser_json :: "browser_policy \<Rightarrow> json" where
  "browser_json p = JObj [(''requireFullscreen'', JBool (bp_requireFullscreen p)),
     (''requireSingleDisplay'', JBool (bp_requireSingleDisplay p)), (''blockClipboard'', JBool (bp_blockClipboard p)),
     (''flagTabHidden'', JBool (bp_flagTabHidden p)), (''flagWindowBlur'', JBool (bp_flagWindowBlur p)),
     (''windowBlurMinSec'', JReal (bp_windowBlurMinSec p))]"

definition detection_json :: "detection_policy \<Rightarrow> json" where
  "detection_json p = JObj [
     (''enabled'', JObj [(''absence'', JBool (de_absence (dp_enabled p))), (''multiplePeople'', JBool (de_multiplePeople (dp_enabled p))),
        (''lookingAway'', JBool (de_lookingAway (dp_enabled p))), (''movement'', JBool (de_movement (dp_enabled p))),
        (''obstruction'', JBool (de_obstruction (dp_enabled p))), (''objects'', JBool (de_objects (dp_enabled p))),
        (''cameraIntegrity'', JBool (de_cameraIntegrity (dp_enabled p)))]),
     (''absenceSec'', JReal (dp_absenceSec p)), (''multiplePeopleSec'', JReal (dp_multiplePeopleSec p)),
     (''lookAwaySec'', JReal (dp_lookAwaySec p)), (''lookAwayYawDeg'', JReal (dp_lookAwayYawDeg p)),
     (''lookDownPitchDeg'', JReal (dp_lookDownPitchDeg p)), (''lookUpPitchDeg'', JReal (dp_lookUpPitchDeg p)),
     (''lookUpSec'', JReal (dp_lookUpSec p)), (''attentionReference'', attentionJson (dp_attentionReference p)),
     (''typingExcuseSec'', JReal (dp_typingExcuseSec p)), (''glanceMinSec'', JReal (dp_glanceMinSec p)),
     (''repeatedLookAwayCount'', JInt (dp_repeatedLookAwayCount p)), (''repeatedLookAwayWindowSec'', JReal (dp_repeatedLookAwayWindowSec p)),
     (''sameDirectionCount'', JInt (dp_sameDirectionCount p)), (''obstructionSec'', JReal (dp_obstructionSec p)),
     (''phoneMinConfidence'', JReal (dp_phoneMinConfidence p)), (''objectMinConfidence'', JReal (dp_objectMinConfidence p)),
     (''objectPersistSec'', JReal (dp_objectPersistSec p)), (''frozenSec'', JReal (dp_frozenSec p)),
     (''coveredSec'', JReal (dp_coveredSec p)), (''lightingSec'', JReal (dp_lightingSec p)),
     (''movementExitCount'', JInt (dp_movementExitCount p)), (''movementWindowSec'', JReal (dp_movementWindowSec p)),
     (''farFromBaselineSec'', JReal (dp_farFromBaselineSec p)), (''mergeGapSec'', JReal (dp_mergeGapSec p)),
     (''clearSec'', JReal (dp_clearSec p))]"

definition policy_json :: "policy \<Rightarrow> json" where
  "policy_json p = JObj [
     (''identity'', identity_json (pol_identity p)),
     (''camera'', JObj [(''enabled'', JBool (pol_camera_enabled p))]),
     (''pause'', pause_json (pol_pause p)),
     (''connection'', JObj [(''disconnectTimerBehavior'', timerJson (cp_disconnectTimerBehavior (pol_connection p))),
        (''heartbeatTimeoutSec'', JInt (cp_heartbeatTimeoutSec (pol_connection p)))]),
     (''resume'', JObj [(''maxReconnects'', jint (rp_maxReconnects (pol_resume p))),
        (''maxOfflineMinutes'', jint (rp_maxOfflineMinutes (pol_resume p))), (''onLimit'', onLimitJson (rp_onLimit (pol_resume p)))]),
     (''browser'', browser_json (pol_browser p)),
     (''detection'', detection_json (pol_detection p)),
     (''evidence'', JObj [(''screenshots'', JBool (ep_screenshots (pol_evidence p))),
        (''maxScreenshotsPerEvent'', JInt (ep_maxScreenshotsPerEvent (pol_evidence p))),
        (''periodicScreenshotSec'', JReal (ep_periodicScreenshotSec (pol_evidence p))),
        (''keepMatchingIdentitySamples'', JBool (ep_keepMatchingIdentitySamples (pol_evidence p)))]),
     (''retention'', JObj [(''evidenceDays'', jint (pol_retention_evidenceDays p))]),
     (''recording'', JObj [(''enabled'', JBool (rec_enabled (pol_recording p))), (''audio'', JBool (rec_audio (pol_recording p))),
        (''screen'', JBool (rec_screen (pol_recording p)))])]"

lemma plain_values [simp]:
  "\<not> isObj (verificationJson a)" "\<not> isObj (livenessJson b)" "\<not> isObj (idPhotoJson c)" "\<not> isObj (profileJson d)"
  "\<not> isObj (onMismatchJson e)" "\<not> isObj (timerJson f)" "\<not> isObj (onLimitJson g)" "\<not> isObj (attentionJson h)" "\<not> isObj (jint i)"
  subgoal by (cases a) simp_all
  subgoal by (cases b) simp_all
  subgoal by (cases c) simp_all
  subgoal by (cases d) simp_all
  subgoal by (cases e) simp_all
  subgoal by (cases f) simp_all
  subgoal by (cases g) simp_all
  subgoal by (cases h) simp_all
  subgoal by (cases i) (simp_all add: jint_def)
  done

lemmas policy_json_defs = policy_json_def identity_json_def pause_json_def browser_json_def detection_json_def

lemma same_shape_identity_json: "same_shape (identity_json p) (identity_json q)"
  by (simp add: identity_json_def goodKey_def)
lemma same_shape_pause_json: "same_shape (pause_json p) (pause_json q)"
  by (simp add: pause_json_def goodKey_def)
lemma same_shape_browser_json: "same_shape (browser_json p) (browser_json q)"
  by (simp add: browser_json_def goodKey_def)
lemma same_shape_detection_json: "same_shape (detection_json p) (detection_json q)"
  by (simp add: detection_json_def goodKey_def)

lemma same_shape_policy_json: "same_shape (policy_json p) (policy_json q)"
  by (simp add: policy_json_def same_shape_identity_json same_shape_pause_json same_shape_browser_json same_shape_detection_json goodKey_def)

lemma policy_json_path_length: "p \<in> fst ` set (leafPaths (policy_json q)) \<Longrightarrow> 2 \<le> length p"
  by (auto simp: policy_json_defs Suc_le_eq)

lemma policy_json_no_durationMs:
  assumes "p \<in> fst ` set (leafPaths (policy_json q))"
  shows "foldl joinPath [] p \<noteq> ''durationMs''"
proof
  assume eq: "foldl joinPath [] p = ''durationMs''"
  have "\<forall>k \<in> set p. goodKey k" using assms leafPaths_keys[OF same_shape_policy_json] by fastforce
  moreover have "p \<noteq> []" using policy_json_path_length[OF assms] by auto
  ultimately have "splitDot ''durationMs'' = p" using splitDot_path eq by metis
  then show False using policy_json_path_length[OF assms] by auto
qed

lemma revert_policy:
  "revertExceptions (policy_json applied) (policyExceptions (policy_json exam) (policy_json applied) items durations) = Some (policy_json exam)"
  by (rule revert_policyExceptions[OF same_shape_policy_json]) (simp add: policy_json_def, rule policy_json_no_durationMs)

section \<open>Properties\<close>

text \<open>C9. Accommodations only relax an exam's rules, whatever the rules and the accommodations: no pause
  limit gets tighter, no detector or browser rule is switched on, no automated face check is added and
  every setting accommodations are not about stays as it was.\<close>

theorem accommodations_only_relax: "relaxes p (applyAccommodations p items)"
  by (rule applyAccommodations_relaxes)

text \<open>C18. The order in which a candidate's accommodations are applied does not matter: any two
  arrangements of the same accommodations give the same policy.\<close>

theorem accommodations_any_order:
  "mset xs = mset ys \<Longrightarrow> applyAccommodations p xs = applyAccommodations p ys"
  by (rule applyAccommodations_mset)

theorem accommodations_any_order_witness:
  "applyAccommodations DEFAULT_POLICY [Rest_breaks (Some 2) None, No_camera True] = applyAccommodations DEFAULT_POLICY [No_camera True, Rest_breaks (Some 2) None]"
  by (rule accommodations_any_order) simp

text \<open>C7. The recorded exceptions describe the change completely: putting the recorded exam values back
  into the applied policy gives exactly the exam's own policy, for every policy, every set of
  accommodations and with or without a changed duration.\<close>

theorem exceptions_revert_to_exam_policy:
  "revertExceptions (policy_json (applyAccommodations p items))
     (policyExceptions (policy_json p) (policy_json (applyAccommodations p items)) items durations) = Some (policy_json p)"
  by (rule revert_policy)

end
