(* ===== verification/SP_Calibration.thy ===== *)
theory SP_Calibration
  imports SP_Policy
begin

text \<open>
  apps/server/src/vision/calibration.ts and the per-sample decision of
  apps/server/src/vision/identity.ts: quality buckets, calibrated log-likelihood
  ratios of one face comparison, and the decision label.
\<close>

section \<open>Quality\<close>

datatype quality_bucket = Good | Fair | Poor

record face_quality =
  fq_usable :: bool
  fq_interEyePx :: real
  fq_contrast :: real
  fq_brightness :: real
  fq_sharpness :: real
  fq_yawDeg :: real
  fq_detectionScore :: real

record bucket_thresholds =
  bt_goodInterEyePx :: real
  bt_poorInterEyePx :: real
  bt_goodContrast :: real
  bt_poorContrast :: real
  bt_goodMinBrightness :: real
  bt_goodMaxBrightness :: real
  bt_poorMinBrightness :: real
  bt_poorMaxBrightness :: real
  bt_goodSharpness :: real
  bt_poorSharpness :: real
  bt_goodMaxAbsYawDeg :: real
  bt_poorMaxAbsYawDeg :: real
  bt_goodDetectionScore :: real
  bt_poorDetectionScore :: real

definition BUCKET_THRESHOLDS :: bucket_thresholds where
  "BUCKET_THRESHOLDS = \<lparr>bt_goodInterEyePx = 32, bt_poorInterEyePx = 24, bt_goodContrast = 18, bt_poorContrast = 12,
     bt_goodMinBrightness = 70, bt_goodMaxBrightness = 200, bt_poorMinBrightness = 50, bt_poorMaxBrightness = 225,
     bt_goodSharpness = 0, bt_poorSharpness = 0, bt_goodMaxAbsYawDeg = 18, bt_poorMaxAbsYawDeg = 25,
     bt_goodDetectionScore = 88 / 100, bt_poorDetectionScore = 8 / 10\<rparr>"

definition poorFrame :: "bucket_thresholds \<Rightarrow> face_quality \<Rightarrow> bool" where
  "poorFrame t q \<longleftrightarrow> fq_interEyePx q < bt_poorInterEyePx t \<or> fq_contrast q < bt_poorContrast t \<or>
     fq_brightness q < bt_poorMinBrightness t \<or> fq_brightness q > bt_poorMaxBrightness t \<or>
     fq_sharpness q < bt_poorSharpness t \<or> \<bar>fq_yawDeg q\<bar> > bt_poorMaxAbsYawDeg t \<or>
     fq_detectionScore q < bt_poorDetectionScore t"

definition goodFrame :: "bucket_thresholds \<Rightarrow> face_quality \<Rightarrow> bool" where
  "goodFrame t q \<longleftrightarrow> fq_interEyePx q \<ge> bt_goodInterEyePx t \<and> fq_contrast q \<ge> bt_goodContrast t \<and>
     fq_brightness q \<ge> bt_goodMinBrightness t \<and> fq_brightness q \<le> bt_goodMaxBrightness t \<and>
     fq_sharpness q \<ge> bt_goodSharpness t \<and> \<bar>fq_yawDeg q\<bar> \<le> bt_goodMaxAbsYawDeg t \<and>
     fq_detectionScore q \<ge> bt_goodDetectionScore t"

definition qualityBucketWith :: "bucket_thresholds \<Rightarrow> face_quality \<Rightarrow> quality_bucket" where
  "qualityBucketWith t q = (if poorFrame t q then Poor else if goodFrame t q then Good else Fair)"

definition qualityBucket :: "face_quality \<Rightarrow> quality_bucket" where
  "qualityBucket q = qualityBucketWith BUCKET_THRESHOLDS q"

datatype reference_class = RC_good | RC_poor

definition referenceClass :: "quality_bucket option \<Rightarrow> reference_class" where
  "referenceClass r = (if r = Some Poor then RC_poor else RC_good)"

definition referenceBucket :: "face_quality list \<Rightarrow> quality_bucket" where
  "referenceBucket qs =
     (let bs = map qualityBucket (filter fq_usable qs);
          poor = length (filter (\<lambda>b. b = Poor) bs);
          fairOrPoor = length (filter (\<lambda>b. b \<noteq> Good) bs)
      in if bs = [] then Good
         else if poor * 2 \<ge> length bs then Poor else if fairOrPoor * 2 \<ge> length bs then Fair else Good)"

section \<open>Constants and score models\<close>

definition CAL_match :: real where "CAL_match = 45 / 100"
definition CAL_mismatch :: real where "CAL_mismatch = 3 / 10"
definition CAL_prior :: real where "CAL_prior = 1 / 1000"
definition SPRT_suspect :: real where "SPRT_suspect = 3"
definition SPRT_confirm :: real where "SPRT_confirm = 7"
definition SPRT_clear :: real where "SPRT_clear = -6"
definition SPRT_maxSamples :: nat where "SPRT_maxSamples = 8"
definition SPRT_maxPoorEvidence :: real where "SPRT_maxPoorEvidence = 4"
definition LLR_CLAMP :: real where "LLR_CLAMP = 5"
definition MIN_FRAMES_FOR_DECISION :: nat where "MIN_FRAMES_FOR_DECISION = 3"
definition LLR_TAIL_EPS :: real where "LLR_TAIL_EPS = 1 / 100"

lemmas sprt_defs = SPRT_suspect_def SPRT_confirm_def SPRT_clear_def SPRT_maxSamples_def SPRT_maxPoorEvidence_def

record gauss =
  g_mean :: real
  g_sd :: real

record bucket_model =
  bm_genuine :: gauss
  bm_impostor :: gauss

definition model :: "real \<Rightarrow> real \<Rightarrow> real \<Rightarrow> real \<Rightarrow> bucket_model" where
  "model gm gs im is = \<lparr>bm_genuine = \<lparr>g_mean = gm, g_sd = gs\<rparr>, bm_impostor = \<lparr>g_mean = im, g_sd = is\<rparr>\<rparr>"

fun BUCKET_MODELS :: "quality_bucket \<Rightarrow> bucket_model" where
  "BUCKET_MODELS Good = model (67 / 100) (13 / 100) (1 / 10) (1 / 10)"
| "BUCKET_MODELS Fair = model (65 / 100) (12 / 100) (1 / 10) (1 / 10)"
| "BUCKET_MODELS Poor = model (49 / 100) (18 / 100) (8 / 100) (11 / 100)"

fun REFERENCE_MODELS :: "reference_class \<Rightarrow> quality_bucket \<Rightarrow> bucket_model" where
  "REFERENCE_MODELS RC_good b = BUCKET_MODELS b"
| "REFERENCE_MODELS RC_poor Good = model (49 / 100) (155 / 1000) (7 / 100) (107 / 1000)"
| "REFERENCE_MODELS RC_poor Fair = model (52 / 100) (15 / 100) (8 / 100) (11 / 100)"
| "REFERENCE_MODELS RC_poor Poor = model (47 / 100) (165 / 1000) (1 / 10) (125 / 1000)"

definition bucketModel :: "quality_bucket \<Rightarrow> quality_bucket option \<Rightarrow> bucket_model" where
  "bucketModel b reference = REFERENCE_MODELS (referenceClass reference) b"

datatype comparison_context = Continuous | Relaxed

fun GENUINE_DRIFT :: "comparison_context \<Rightarrow> quality_bucket \<Rightarrow> gauss" where
  "GENUINE_DRIFT Continuous Good = \<lparr>g_mean = 2 / 100, g_sd = 4 / 100\<rparr>"
| "GENUINE_DRIFT Continuous Fair = \<lparr>g_mean = 6 / 100, g_sd = 9 / 100\<rparr>"
| "GENUINE_DRIFT Continuous Poor = \<lparr>g_mean = 21 / 100, g_sd = 2 / 10\<rparr>"
| "GENUINE_DRIFT Relaxed Good = \<lparr>g_mean = 28 / 100, g_sd = 11 / 100\<rparr>"
| "GENUINE_DRIFT Relaxed Fair = \<lparr>g_mean = 3 / 10, g_sd = 11 / 100\<rparr>"
| "GENUINE_DRIFT Relaxed Poor = \<lparr>g_mean = 43 / 100, g_sd = 18 / 100\<rparr>"

section \<open>The evidence window\<close>

record window_entry =
  we_llr :: real
  we_bucket :: "quality_bucket option"

definition poorPositive :: "window_entry \<Rightarrow> bool" where
  "poorPositive e \<longleftrightarrow> we_bucket e = Some Poor \<and> we_llr e > 0"

definition windowEvidence :: "window_entry list \<Rightarrow> real" where
  "windowEvidence w =
     (let (sum, poor) = fold (\<lambda>e (sum, poor). if poorPositive e then (sum, poor + we_llr e) else (sum + we_llr e, poor)) w (0, 0)
      in sum + min SPRT_maxPoorEvidence poor)"

text \<open>The loop's two sums, written as sums.\<close>

lemma windowEvidence_sums:
  "windowEvidence w = sum_list (map we_llr (filter (\<lambda>e. \<not> poorPositive e) w)) +
     min SPRT_maxPoorEvidence (sum_list (map we_llr (filter poorPositive w)))"
proof -
  have "fold (\<lambda>e (sum, poor). if poorPositive e then (sum, poor + we_llr e) else (sum + we_llr e, poor)) w (a, b) =
      (a + sum_list (map we_llr (filter (\<lambda>e. \<not> poorPositive e) w)), b + sum_list (map we_llr (filter poorPositive w)))" for a b
    by (induction w arbitrary: a b) auto
  then show ?thesis by (simp add: windowEvidence_def)
qed

lemma windowEvidence_le_sum: "windowEvidence w \<le> sum_list (map we_llr w)"
  using sum_list_filter_split[of we_llr w poorPositive] by (simp add: windowEvidence_sums)

lemma sum_list_nonpos: "\<forall>e \<in> set w. f e \<le> (0 :: real) \<Longrightarrow> sum_list (map f w) \<le> 0"
  by (induction w) auto

lemma windowEvidence_poor_only:
  assumes "\<forall>e \<in> set w. we_llr e > 0 \<longrightarrow> we_bucket e = Some Poor"
  shows "windowEvidence w \<le> SPRT_maxPoorEvidence"
proof -
  have "sum_list (map we_llr (filter (\<lambda>e. \<not> poorPositive e) w)) \<le> 0"
    using assms by (intro sum_list_nonpos) (auto simp: poorPositive_def)
  then show ?thesis by (simp add: windowEvidence_sums)
qed

lemma sum_list_mset_eq:
  fixes f :: "'a \<Rightarrow> real"
  assumes "mset v = mset w"
  shows "sum_list (map f (filter P v)) = sum_list (map f (filter P w))"
proof -
  have "sum_mset (mset (map f (filter P v))) = sum_mset (mset (map f (filter P w)))"
    using assms by (simp only: mset_map mset_filter)
  then show ?thesis by (simp only: sum_mset_sum_list)
qed

lemma windowEvidence_mset:
  assumes "mset v = mset w"
  shows "windowEvidence v = windowEvidence w"
  unfolding windowEvidence_sums
  by (intro arg_cong2[of _ _ _ _ "(+)"] arg_cong[of _ _ "min SPRT_maxPoorEvidence"] sum_list_mset_eq[OF assms])

section \<open>Log-likelihood ratios\<close>

definition logNormal :: "real \<Rightarrow> real \<Rightarrow> real \<Rightarrow> real" where
  "logNormal s mean sd = (let z = (s - mean) / sd in - (1 / 2) * z * z - ln sd - (1 / 2) * ln (2 * pi))"

definition logMixture :: "real \<Rightarrow> real \<Rightarrow> real \<Rightarrow> real" where
  "logMixture s mean sd =
     (let a = ln (1 - LLR_TAIL_EPS) + logNormal s mean sd; b = ln LLR_TAIL_EPS + ln (1 / 2); m = max a b
      in m + ln (exp (a - m) + exp (b - m)))"

definition limit1 :: "real \<Rightarrow> real" where
  "limit1 s = max (-1) (min 1 s)"

definition rawLLR :: "real \<Rightarrow> bucket_model \<Rightarrow> real" where
  "rawLLR similarity m =
     (let s = limit1 similarity
      in logMixture s (g_mean (bm_impostor m)) (g_sd (bm_impostor m)) - logMixture s (g_mean (bm_genuine m)) (g_sd (bm_genuine m)))"

text \<open>The grid of \<open>llrTable\<close>: step 0.001, 2001 points, each the running minimum.\<close>

definition LLR_GRID_STEP :: real where
  "LLR_GRID_STEP = 1 / 1000"
definition LLR_GRID_POINTS :: nat where
  "LLR_GRID_POINTS = 2001"

definition gridLLR :: "bucket_model \<Rightarrow> nat \<Rightarrow> real" where
  "gridLLR m i = rawLLR (min (g_mean (bm_genuine m)) (max (g_mean (bm_impostor m)) (-1 + real i * LLR_GRID_STEP))) m"

primrec llrTable :: "bucket_model \<Rightarrow> nat \<Rightarrow> real" where
  "llrTable m 0 = gridLLR m 0"
| "llrTable m (Suc i) = min (llrTable m i) (gridLLR m (Suc i))"

definition tableLLR :: "real \<Rightarrow> bucket_model \<Rightarrow> real" where
  "tableLLR similarity m =
     (let x = limit1 similarity; f = (x + 1) / LLR_GRID_STEP;
          i = min (LLR_GRID_POINTS - 2) (nat \<lfloor>f\<rfloor>); w = f - real i
      in llrTable m i * (1 - w) + llrTable m (i + 1) * w)"

definition logAdd :: "real \<Rightarrow> real \<Rightarrow> real" where
  "logAdd a b = (let m = max a b in m + ln (exp (a - m) + exp (b - m)))"

text \<open>The candidate's enrolment self-similarity, with the bucket of the enrolment gallery.\<close>

record baseline =
  bl_mean :: real
  bl_sd :: real
  bl_n :: int
  bl_bucket :: "quality_bucket option"

definition MIN_BASELINE_FRAMES :: int where
  "MIN_BASELINE_FRAMES = 3"

definition usableReferenceBaseline :: "baseline option \<Rightarrow> bool" where
  "usableReferenceBaseline b = (case b of None \<Rightarrow> False | Some b \<Rightarrow> bl_n b \<ge> MIN_BASELINE_FRAMES)"

record evidence_context =
  ec_reference :: "quality_bucket option"
  ec_baseline :: "baseline option"
  ec_context :: comparison_context
  ec_frames :: int

definition continuousApplies :: "quality_bucket \<Rightarrow> evidence_context \<Rightarrow> bool" where
  "continuousApplies b ctx \<longleftrightarrow> ec_context ctx = Continuous \<and> b = Poor \<and> referenceClass (ec_reference ctx) = RC_poor \<and>
     usableReferenceBaseline (ec_baseline ctx)"

definition continuousLLR :: "real \<Rightarrow> baseline \<Rightarrow> int \<Rightarrow> real" where
  "continuousLLR similarity b frames =
     (let dm = (if frames \<ge> 2 then \<lparr>g_mean = -6 / 100, g_sd = 78 / 1000\<rparr> else \<lparr>g_mean = 4 / 100, g_sd = 9 / 100\<rparr>);
          mu = bl_mean b - g_mean dm;
          sd = sqrt (g_sd dm * g_sd dm + (bl_sd b * bl_sd b) / max 1 (real_of_int (bl_n b)));
          impMean = 16 / 100; impSd = 13 / 100; wt = 2 / 10;
          x = max (min impMean mu) (min mu (limit1 similarity));
          logGen = logMixture x mu sd;
          width = max (5 / 100) (mu + 1 / 10);
          logAlt = logAdd (ln (1 - wt) + logMixture x impMean impSd) (ln wt - ln width)
      in logAlt - logGen)"

definition clampLLR :: "real \<Rightarrow> real" where
  "clampLLR l = max (- LLR_CLAMP) (min LLR_CLAMP l)"

definition sampleLLR :: "real \<Rightarrow> quality_bucket \<Rightarrow> evidence_context option \<Rightarrow> real" where
  "sampleLLR similarity b ctx = clampLLR (case ctx of
       None \<Rightarrow> tableLLR similarity (BUCKET_MODELS b)
     | Some c \<Rightarrow> (case (continuousApplies b c, ec_baseline c) of
         (True, Some bl) \<Rightarrow> continuousLLR similarity bl (ec_frames c)
       | _ \<Rightarrow> tableLLR similarity (REFERENCE_MODELS (referenceClass (ec_reference c)) b)))"

definition posteriorSwap :: "real \<Rightarrow> real \<Rightarrow> real" where
  "posteriorSwap llrSum prior =
     (let p = min (1 - 1 / 10 ^ 12) (max (1 / 10 ^ 12) prior); logit = ln (p / (1 - p)) + llrSum
      in if logit > 40 then 1 else if logit < -40 then 0 else 1 / (1 + exp (- logit)))"

subsection \<open>The stable sum is the mixture density\<close>

lemma logAdd_exp: "logAdd a b = ln (exp a + exp b)"
proof -
  define m where "m = max a b"
  have "exp a + exp b = exp m * (exp (a - m) + exp (b - m))"
    by (simp add: distrib_left exp_diff)
  moreover have "0 < exp (a - m) + exp (b - m)" by (simp add: add_pos_pos)
  ultimately have "ln (exp a + exp b) = m + ln (exp (a - m) + exp (b - m))"
    by (simp add: ln_mult)
  then show ?thesis by (simp add: logAdd_def Let_def m_def)
qed

lemma logAdd_mono: "a \<le> a' \<Longrightarrow> b \<le> b' \<Longrightarrow> logAdd a b \<le> logAdd a' b'"
  unfolding logAdd_exp by (subst ln_le_cancel_iff) (auto intro: add_pos_pos add_mono)

lemma logMixture_logAdd:
  "logMixture s mean sd = logAdd (ln (1 - LLR_TAIL_EPS) + logNormal s mean sd) (ln LLR_TAIL_EPS + ln (1 / 2))"
  by (simp add: logMixture_def logAdd_def Let_def)

lemma logNormal_closer: "\<bar>s - mean\<bar> \<le> \<bar>t - mean\<bar> \<Longrightarrow> logNormal t mean sd \<le> logNormal s mean sd"
proof -
  assume "\<bar>s - mean\<bar> \<le> \<bar>t - mean\<bar>"
  then have "\<bar>(s - mean) / sd\<bar> \<le> \<bar>(t - mean) / sd\<bar>" by (simp add: divide_right_mono)
  then have "((s - mean) / sd)\<^sup>2 \<le> ((t - mean) / sd)\<^sup>2" by (simp only: abs_le_square_iff)
  then show ?thesis by (simp add: logNormal_def Let_def power2_eq_square)
qed

lemma logMixture_closer: "\<bar>s - mean\<bar> \<le> \<bar>t - mean\<bar> \<Longrightarrow> logMixture t mean sd \<le> logMixture s mean sd"
  unfolding logMixture_logAdd by (intro logAdd_mono add_left_mono logNormal_closer) auto

subsection \<open>Monotone in the similarity\<close>

lemma limit1_mono: "x \<le> y \<Longrightarrow> limit1 x \<le> limit1 y"
  by (auto simp: limit1_def)

lemma limit1_range: "-1 \<le> limit1 x \<and> limit1 x \<le> 1"
  by (auto simp: limit1_def)

lemma llrTable_antimono: "i \<le> j \<Longrightarrow> llrTable m j \<le> llrTable m i"
  by (induction rule: dec_induct) (auto simp: min.coboundedI1)

text \<open>Linear interpolation of a non-increasing table is non-increasing.\<close>

definition interp :: "(nat \<Rightarrow> real) \<Rightarrow> nat \<Rightarrow> real \<Rightarrow> real" where
  "interp t i f = t i * (1 - (f - real i)) + t (i + 1) * (f - real i)"

lemma interp_bounds:
  assumes "t (i + 1) \<le> t i" "real i \<le> f" "f \<le> real i + 1"
  shows "t (i + 1) \<le> interp t i f \<and> interp t i f \<le> t i"
proof -
  have eq: "interp t i f = t i - (t i - t (i + 1)) * (f - real i)" by (simp add: interp_def algebra_simps)
  have "0 \<le> (t i - t (i + 1)) * (f - real i)" using assms by (intro mult_nonneg_nonneg) auto
  moreover have "(t i - t (i + 1)) * (f - real i) \<le> (t i - t (i + 1)) * 1" using assms by (intro mult_left_mono) auto
  ultimately show ?thesis unfolding eq by auto
qed

lemma interp_antimono_step:
  assumes "t (i + 1) \<le> t i" "f \<le> g"
  shows "interp t i g \<le> interp t i f"
proof -
  have "(t i - t (i + 1)) * (f - real i) \<le> (t i - t (i + 1)) * (g - real i)" using assms by (intro mult_left_mono) auto
  then show ?thesis by (simp add: interp_def algebra_simps)
qed

definition cellOf :: "real \<Rightarrow> nat" where
  "cellOf f = min (LLR_GRID_POINTS - 2) (nat \<lfloor>f\<rfloor>)"

lemma cellOf_bounds:
  assumes "0 \<le> f" "f \<le> 2000"
  shows "real (cellOf f) \<le> f \<and> f \<le> real (cellOf f) + 1"
proof (cases "f < 1999")
  case True
  then have "nat \<lfloor>f\<rfloor> \<le> 1999" using assms by linarith
  then have "cellOf f = nat \<lfloor>f\<rfloor>" by (simp add: cellOf_def LLR_GRID_POINTS_def)
  then show ?thesis using assms by simp
next
  case False
  then have "1999 \<le> nat \<lfloor>f\<rfloor>" by linarith
  then have "cellOf f = 1999" by (simp add: cellOf_def LLR_GRID_POINTS_def)
  then show ?thesis using False assms by simp
qed

lemma cellOf_mono: "f \<le> g \<Longrightarrow> cellOf f \<le> cellOf g"
  unfolding cellOf_def using floor_mono[of f g] by (simp add: min.coboundedI2 nat_mono)

lemma tableLLR_interp: "tableLLR s m = interp (llrTable m) (cellOf ((limit1 s + 1) / LLR_GRID_STEP)) ((limit1 s + 1) / LLR_GRID_STEP)"
  by (simp add: tableLLR_def interp_def cellOf_def Let_def)

lemma tableLLR_antimono:
  assumes "s \<le> s'"
  shows "tableLLR s' m \<le> tableLLR s m"
proof -
  let ?t = "llrTable m"
  define f g where "f = (limit1 s + 1) / LLR_GRID_STEP" and "g = (limit1 s' + 1) / LLR_GRID_STEP"
  have fg: "f \<le> g" and f: "0 \<le> f" "f \<le> 2000" and g: "0 \<le> g" "g \<le> 2000"
    using limit1_mono[OF assms] limit1_range[of s] limit1_range[of s'] by (auto simp: f_def g_def LLR_GRID_STEP_def)
  have dec: "?t (k + 1) \<le> ?t k" for k by (rule llrTable_antimono) simp
  have "interp ?t (cellOf g) g \<le> interp ?t (cellOf f) f"
  proof (cases "cellOf f = cellOf g")
    case True
    then show ?thesis using interp_antimono_step[where t = ?t and i = "cellOf g", OF dec fg] by simp
  next
    case False
    then have "cellOf f + 1 \<le> cellOf g" using cellOf_mono[OF fg] by simp
    then have "?t (cellOf g) \<le> ?t (cellOf f + 1)" by (rule llrTable_antimono)
    moreover have "interp ?t (cellOf g) g \<le> ?t (cellOf g)" using interp_bounds[of ?t "cellOf g" g] dec cellOf_bounds[OF g] by simp
    moreover have "?t (cellOf f + 1) \<le> interp ?t (cellOf f) f" using interp_bounds[of ?t "cellOf f" f] dec cellOf_bounds[OF f] by simp
    ultimately show ?thesis by linarith
  qed
  then show ?thesis by (simp add: tableLLR_interp f_def g_def)
qed

lemma continuousLLR_antimono:
  assumes "s \<le> s'"
  shows "continuousLLR s' b n \<le> continuousLLR s b n"
proof -
  define dm where "dm = (if n \<ge> 2 then \<lparr>g_mean = -6 / 100, g_sd = 78 / 1000\<rparr> else \<lparr>g_mean = 4 / 100, g_sd = 9 / 100\<rparr>)"
  define mu where "mu = bl_mean b - g_mean dm"
  define sd where "sd = sqrt (g_sd dm * g_sd dm + (bl_sd b * bl_sd b) / max 1 (real_of_int (bl_n b)))"
  define x x' where "x = max (min (16 / 100) mu) (min mu (limit1 s))" and "x' = max (min (16 / 100) mu) (min mu (limit1 s'))"
  have xx: "x \<le> x'" using limit1_mono[OF assms] by (auto simp: x_def x'_def)
  have le: "x \<le> mu" "x' \<le> mu" by (auto simp: x_def x'_def)
  have gen: "logMixture x mu sd \<le> logMixture x' mu sd"
    using xx le by (intro logMixture_closer) auto
  have alt: "logMixture x' (16 / 100) (13 / 100) \<le> logMixture x (16 / 100) (13 / 100)"
  proof (cases "16 / 100 \<le> mu")
    case True
    then have "16 / 100 \<le> x" by (simp add: x_def)
    then show ?thesis using xx by (intro logMixture_closer) auto
  next
    case False
    then have "x = mu" "x' = mu" using le by (auto simp: x_def x'_def)
    then show ?thesis by simp
  qed
  define lw where "lw = ln (2 / 10) - ln (max (5 / 100) (mu + 1 / 10))"
  have "logAdd (ln (1 - 2 / 10) + logMixture x' (16 / 100) (13 / 100)) lw \<le> logAdd (ln (1 - 2 / 10) + logMixture x (16 / 100) (13 / 100)) lw"
    using alt by (intro logAdd_mono) auto
  moreover have "continuousLLR s b n = logAdd (ln (1 - 2 / 10) + logMixture x (16 / 100) (13 / 100)) lw - logMixture x mu sd"
    "continuousLLR s' b n = logAdd (ln (1 - 2 / 10) + logMixture x' (16 / 100) (13 / 100)) lw - logMixture x' mu sd"
    unfolding continuousLLR_def Let_def dm_def[symmetric] mu_def[symmetric] sd_def[symmetric] x_def[symmetric] x'_def[symmetric] lw_def[symmetric]
    by simp_all
  ultimately show ?thesis using gen by linarith
qed

lemma clampLLR_mono: "a \<le> b \<Longrightarrow> clampLLR a \<le> clampLLR b"
  by (auto simp: clampLLR_def)

lemma sampleLLR_bounds: "\<bar>sampleLLR s b ctx\<bar> \<le> LLR_CLAMP"
  by (simp add: sampleLLR_def clampLLR_def LLR_CLAMP_def)

lemma sampleLLR_antimono: "s \<le> s' \<Longrightarrow> sampleLLR s' b ctx \<le> sampleLLR s b ctx"
  unfolding sampleLLR_def
  by (rule clampLLR_mono) (simp add: tableLLR_antimono continuousLLR_antimono split: option.split bool.split)

definition logistic :: "real \<Rightarrow> real" where
  "logistic x = (if x > 40 then 1 else if x < -40 then 0 else 1 / (1 + exp (- x)))"

lemma posteriorSwap_logistic:
  "posteriorSwap l p = logistic (ln (min (1 - 1 / 10 ^ 12) (max (1 / 10 ^ 12) p) / (1 - min (1 - 1 / 10 ^ 12) (max (1 / 10 ^ 12) p))) + l)"
  by (simp add: posteriorSwap_def logistic_def Let_def)

lemma sigmoid_bounds: "0 < 1 / (1 + exp (- x :: real)) \<and> 1 / (1 + exp (- x)) < 1"
  by (simp add: add_pos_pos)

lemma sigmoid_mono: "x \<le> y \<Longrightarrow> 1 / (1 + exp (- x :: real)) \<le> 1 / (1 + exp (- y))"
  by (rule divide_left_mono) (simp_all add: add_pos_pos)

lemma logistic_mono: "x \<le> y \<Longrightarrow> logistic x \<le> logistic y"
  using sigmoid_bounds[of x] sigmoid_bounds[of y] sigmoid_mono[of x y] by (auto simp: logistic_def)

lemma logistic_bounds: "0 \<le> logistic x \<and> logistic x \<le> 1"
  using sigmoid_bounds[of x] by (auto simp: logistic_def)

lemma posteriorSwap_bounds: "0 \<le> posteriorSwap l p \<and> posteriorSwap l p \<le> 1"
  unfolding posteriorSwap_logistic by (rule logistic_bounds)

lemma posteriorSwap_mono: "l \<le> l' \<Longrightarrow> posteriorSwap l p \<le> posteriorSwap l' p"
  unfolding posteriorSwap_logistic by (intro logistic_mono add_left_mono)


section \<open>The per-sample decision\<close>

text \<open>
  \<open>decideIdentity\<close> (vision/identity.ts). The guidance texts are left out; the decision, the
  rounded similarity, the confidence and the human-review flag are kept. The evidence
  argument is a computed LLR, a context to compute it, or absent.
\<close>

datatype identity_decision = D_match | D_mismatch | D_inconclusive | D_unable_to_verify
datatype comparison_target = Reference | Id_photo
datatype decision_evidence = Given_llr real | With_context evidence_context

record identity_thresholds =
  it_match :: real
  it_mismatch :: real
  it_idPhotoMatch :: real
  it_idPhotoMismatch :: real

record identity_comparison =
  ic_decision :: identity_decision
  ic_similarity :: "real option"
  ic_confidence :: real
  ic_needsHumanReview :: bool

definition CONFIDENCE_MARGIN :: real where "CONFIDENCE_MARGIN = 25 / 100"
definition MISMATCH_MIN_LLR :: real where "MISMATCH_MIN_LLR = 2"
definition MATCH_MAX_LLR :: real where "MATCH_MAX_LLR = 1"

definition clamp01 :: "real \<Rightarrow> real" where
  "clamp01 v = (if v < 0 then 0 else if v > 1 then 1 else v)"

definition thresholdsFor :: "identity_thresholds \<Rightarrow> comparison_target \<Rightarrow> real \<times> real" where
  "thresholdsFor t against =
     (let m = (if against = Id_photo then it_idPhotoMatch t else it_match t);
          mm = (if against = Id_photo then it_idPhotoMismatch t else it_mismatch t)
      in (m, min mm m))"

definition comparison :: "identity_decision \<Rightarrow> real option \<Rightarrow> real \<Rightarrow> bool \<Rightarrow> identity_comparison" where
  "comparison d s c r = \<lparr>ic_decision = d, ic_similarity = s, ic_confidence = c, ic_needsHumanReview = r\<rparr>"

definition decideIdentity ::
  "real option \<Rightarrow> face_quality option \<Rightarrow> identity_thresholds \<Rightarrow> comparison_target \<Rightarrow> decision_evidence option \<Rightarrow> identity_comparison" where
  "decideIdentity similarity quality thresholds against evidence =
     (let sim = map_option round4 similarity in
      case (quality, sim) of
        (Some q, Some s) \<Rightarrow>
          if \<not> fq_usable q then comparison D_unable_to_verify sim 1 False
          else let (tm, tmm) = thresholdsFor thresholds against;
                   bucket = qualityBucket q;
                   ev = (if against = Reference then evidence else None);
                   llr = (case ev of Some (Given_llr l) \<Rightarrow> l | Some (With_context c) \<Rightarrow> sampleLLR s bucket (Some c) | None \<Rightarrow> sampleLLR s bucket None)
               in if s \<ge> tm then
                    (if ev \<noteq> None \<and> llr > - MATCH_MAX_LLR then comparison D_inconclusive sim (1 / 2) False
                     else comparison D_match sim (round4 (1 / 2 + 1 / 2 * clamp01 ((s - tm) / CONFIDENCE_MARGIN))) False)
                  else if s < tmm then
                    (if bucket = Poor \<or> llr < MISMATCH_MIN_LLR then comparison D_inconclusive sim (1 / 2) (against = Id_photo)
                     else comparison D_mismatch sim (round4 (1 / 2 + 1 / 2 * clamp01 ((tmm - s) / CONFIDENCE_MARGIN))) False)
                  else let mid = (tm + tmm) / 2; half = max (1 / 1000000) ((tm - tmm) / 2)
                       in comparison D_inconclusive sim (round4 (1 / 2 + 1 / 2 * clamp01 (1 - \<bar>s - mid\<bar> / half))) False
      | _ \<Rightarrow> comparison D_unable_to_verify sim 1 False)"

lemma decideIdentity_mismatch:
  "ic_decision (decideIdentity s q t a e) = D_mismatch \<Longrightarrow>
     \<exists>quality v. q = Some quality \<and> fq_usable quality \<and> qualityBucket quality \<noteq> Poor \<and> s = Some v \<and>
       round4 v < snd (thresholdsFor t a)"
  by (cases q; cases s) (auto simp: decideIdentity_def comparison_def Let_def split: if_splits prod.splits option.splits)

lemma clamp01_bounds: "0 \<le> clamp01 v \<and> clamp01 v \<le> 1"
  by (auto simp: clamp01_def)

lemma confidence_bounds: "1 / 2 \<le> round4 (1 / 2 + 1 / 2 * clamp01 v) \<and> round4 (1 / 2 + 1 / 2 * clamp01 v) \<le> 1"
  using clamp01_bounds[of v]
    round4_ge_iff[where c = "1 / 2" and k = 5000 and x = "1 / 2 + 1 / 2 * clamp01 v"]
    round4_le_iff[where c = 1 and k = 10000 and x = "1 / 2 + 1 / 2 * clamp01 v"] by auto

lemma decideIdentity_confidence: "1 / 2 \<le> ic_confidence (decideIdentity s q t a e) \<and> ic_confidence (decideIdentity s q t a e) \<le> 1"
  using confidence_bounds
  by (simp add: decideIdentity_def comparison_def Let_def split: option.split prod.split decision_evidence.split)

section \<open>Properties\<close>

text \<open>C14. The evidence of one face comparison is bounded and never contradicts the similarity: whatever the
  frame quality, the reference's quality and the comparison context (the same-session model included), the log-likelihood
  ratio stays within the clamp and a more similar face is never stronger evidence of a different person.\<close>

theorem evidence_bounded_and_monotone:
  "\<bar>sampleLLR s b ctx\<bar> \<le> LLR_CLAMP \<and> sampleLLR (max s s') b ctx \<le> sampleLLR s b ctx"
  by (simp add: sampleLLR_bounds sampleLLR_antimono)

text \<open>C15. A frame is labelled a mismatch only on a usable image that is not of poor quality, with the
  similarity below the threshold: poor light alone never says ``a different person''.\<close>

theorem mismatch_label_needs_quality:
  assumes "ic_decision (decideIdentity s q t a e) = D_mismatch"
  shows "\<exists>quality v. q = Some quality \<and> fq_usable quality \<and> qualityBucket quality \<noteq> Poor \<and> s = Some v \<and>
           round4 v < snd (thresholdsFor t a)"
  by (rule decideIdentity_mismatch[OF assms])

definition sharpFace :: face_quality where
  "sharpFace = \<lparr>fq_usable = True, fq_interEyePx = 60, fq_contrast = 40, fq_brightness = 120, fq_sharpness = 5,
     fq_yawDeg = 0, fq_detectionScore = 95 / 100\<rparr>"

theorem mismatch_label_needs_quality_witness:
  "\<exists>quality v. Some sharpFace = Some quality \<and> fq_usable quality \<and> qualityBucket quality \<noteq> Poor \<and> Some 0 = Some v \<and>
     round4 v < snd (thresholdsFor \<lparr>it_match = 45 / 100, it_mismatch = 3 / 10, it_idPhotoMatch = 42 / 100, it_idPhotoMismatch = 24 / 100\<rparr> Reference)"
  by (rule mismatch_label_needs_quality[where e = "Some (Given_llr 3)"])
    (simp add: decideIdentity_def sharpFace_def thresholdsFor_def comparison_def qualityBucket_def qualityBucketWith_def
      poorFrame_def goodFrame_def BUCKET_THRESHOLDS_def round4_def mathRound_def MISMATCH_MIN_LLR_def MATCH_MAX_LLR_def)

end
