(* ===== verification/SP_Evidence.thy ===== *)
theory SP_Evidence
  imports SP_Calibration
begin

text \<open>
  apps/server/src/services/identity-evidence.ts: per-session normalisation of a
  similarity, the sequential evidence accumulator of the mid-exam samples, the
  assessment of a check's frames, and the server-driven sampling cadence with its watchdog.
\<close>

section \<open>Per-session normalisation\<close>

definition MEAN_BAND_BELOW :: real where "MEAN_BAND_BELOW = 8 / 100"
definition MEAN_BAND_ABOVE :: real where "MEAN_BAND_ABOVE = 4 / 100"
definition SHRINK_FRAMES :: real where "SHRINK_FRAMES = 3"

fun maxSharpen :: "quality_bucket \<Rightarrow> real" where
  "maxSharpen Good = 135 / 100"
| "maxSharpen Fair = 12 / 10"
| "maxSharpen Poor = 1"

definition usableBaseline :: "baseline option \<Rightarrow> bool" where
  "usableBaseline b = (case b of None \<Rightarrow> False | Some b \<Rightarrow> bl_n b \<ge> MIN_BASELINE_FRAMES)"

fun bucketOrder :: "quality_bucket \<Rightarrow> nat" where
  "bucketOrder Good = 0"
| "bucketOrder Fair = 1"
| "bucketOrder Poor = 2"

record frame_score =
  fs_usable :: bool
  fs_similarity :: "real option"
  fs_bucket :: "quality_bucket option"

definition periodBaseline :: "frame_score list \<Rightarrow> quality_bucket option \<Rightarrow> baseline option" where
  "periodBaseline frames reference =
     (let usable = filter (\<lambda>f. fs_usable f \<and> fs_similarity f \<noteq> None) frames;
          sims = map (\<lambda>f. the (fs_similarity f)) usable;
          mean = sum_list sims / real (length sims);
          sd = sqrt (sum_list (map (\<lambda>v. (v - mean) * (v - mean)) sims) / real (max 1 (length sims - 1)));
          buckets = sort_key bucketOrder (map (\<lambda>f. nullish (fs_bucket f) Good) usable)
      in if length usable < 3 then None
         else let b = buckets ! (length buckets div 2)
              in if mean - g_mean (GENUINE_DRIFT Continuous b) < g_mean (bm_genuine (bucketModel b reference)) - MEAN_BAND_BELOW then None
                 else Some \<lparr>bl_mean = round4 mean, bl_sd = round4 sd, bl_n = int (length sims), bl_bucket = reference\<rparr>)"

definition personalGenuine :: "quality_bucket \<Rightarrow> baseline \<Rightarrow> comparison_context \<Rightarrow> gauss" where
  "personalGenuine b bl ctx =
     (let g = bm_genuine (bucketModel b (bl_bucket bl)); d = GENUINE_DRIFT ctx b;
          rawMean = clamp (bl_mean bl - g_mean d) (g_mean g - MEAN_BAND_BELOW) (g_mean g + MEAN_BAND_ABOVE);
          sharpen = (if ctx = Relaxed then 1 else maxSharpen b);
          rawSd = max (sqrt (bl_sd bl * bl_sd bl + g_sd d * g_sd d)) (g_sd g / sharpen);
          w = real_of_int (bl_n bl) / (real_of_int (bl_n bl) + SHRINK_FRAMES)
      in \<lparr>g_mean = w * rawMean + (1 - w) * g_mean g, g_sd = w * rawSd + (1 - w) * g_sd g\<rparr>)"

definition normaliseSimilarity :: "real \<Rightarrow> quality_bucket \<Rightarrow> baseline option \<Rightarrow> comparison_context \<Rightarrow> real" where
  "normaliseSimilarity similarity b baseline ctx = (case (usableBaseline baseline, baseline) of
       (True, Some bl) \<Rightarrow>
         (let g = bm_genuine (bucketModel b (bl_bucket bl)); p = personalGenuine b bl ctx
          in g_mean g + (similarity - g_mean p) * (g_sd g / g_sd p))
     | _ \<Rightarrow> similarity)"

definition comparisonLLR :: "real \<Rightarrow> quality_bucket \<Rightarrow> baseline option \<Rightarrow> comparison_context \<Rightarrow> int \<Rightarrow> real \<times> real" where
  \<comment> \<open>the LLR and the normalised similarity\<close>
  "comparisonLLR similarity b baseline ctx frames =
     (let reference = Option.bind baseline bl_bucket;
          ev = \<lparr>ec_reference = reference, ec_baseline = (if usableBaseline baseline then baseline else None), ec_context = ctx, ec_frames = frames\<rparr>
      in if continuousApplies b ev then (round4 (sampleLLR similarity b (Some ev)), round4 similarity)
         else let normContext = (if ctx = Continuous \<and> referenceClass reference = RC_poor \<and> b \<noteq> Poor then Relaxed else ctx);
                  normalised = normaliseSimilarity similarity b baseline normContext
              in (round4 (sampleLLR normalised b (Some \<lparr>ec_reference = reference, ec_baseline = None, ec_context = Relaxed, ec_frames = 1\<rparr>)),
                  round4 normalised))"

record frame_evidence =
  fe_usable :: bool
  fe_similarity :: "real option"
  fe_bucket :: "quality_bucket option"
  fe_llr :: real

definition frameEvidence :: "face_quality option \<Rightarrow> real option \<Rightarrow> baseline option \<Rightarrow> comparison_context \<Rightarrow> frame_evidence" where
  "frameEvidence quality similarity baseline ctx = (case (quality, similarity) of
       (Some q, Some s) \<Rightarrow>
         (if fq_usable q
          then \<lparr>fe_usable = True, fe_similarity = Some s, fe_bucket = Some (qualityBucket q), fe_llr = fst (comparisonLLR s (qualityBucket q) baseline ctx 1)\<rparr>
          else \<lparr>fe_usable = False, fe_similarity = similarity, fe_bucket = None, fe_llr = 0\<rparr>)
     | _ \<Rightarrow> \<lparr>fe_usable = False, fe_similarity = similarity, fe_bucket = None, fe_llr = 0\<rparr>)"

lemma round4_clampLLR: "\<bar>x\<bar> \<le> LLR_CLAMP \<Longrightarrow> \<bar>round4 x\<bar> \<le> LLR_CLAMP"
  using round4_le_iff[where c = 5 and k = 50000 and x = x] round4_ge_iff[where c = "-5" and k = "-50000" and x = x]
  by (auto simp: LLR_CLAMP_def abs_le_iff)

lemma frameEvidence_bounded: "\<bar>fe_llr (frameEvidence q s bl c)\<bar> \<le> LLR_CLAMP"
proof -
  have "\<bar>fst (comparisonLLR x b bl c n)\<bar> \<le> LLR_CLAMP" for x b n
    by (simp add: comparisonLLR_def Let_def round4_clampLLR[OF sampleLLR_bounds])
  then show ?thesis by (auto simp: frameEvidence_def LLR_CLAMP_def split: option.split)
qed

text \<open>The personal model is a proper, never over-sharp model of the candidate: its mean stays in the band around
  the global mean, its deviation is positive.\<close>

lemma convex_in_interval:
  fixes w :: real
  assumes "0 \<le> w" "w \<le> 1" "lo \<le> a" "a \<le> hi" "lo \<le> b" "b \<le> hi"
  shows "lo \<le> w * a + (1 - w) * b \<and> w * a + (1 - w) * b \<le> hi"
proof -
  have "w * lo + (1 - w) * lo \<le> w * a + (1 - w) * b" using assms by (intro add_mono mult_left_mono) auto
  moreover have "w * a + (1 - w) * b \<le> w * hi + (1 - w) * hi" using assms by (intro add_mono mult_left_mono) auto
  ultimately show ?thesis by (simp add: algebra_simps)
qed

lemma bucketModel_sd_pos: "0 < g_sd (bm_genuine (bucketModel b r))"
  by (cases b; cases "referenceClass r") (simp_all add: bucketModel_def model_def)

lemma personalGenuine_mean_band:
  assumes "0 \<le> bl_n bl"
  shows "g_mean (bm_genuine (bucketModel b (bl_bucket bl))) - MEAN_BAND_BELOW \<le> g_mean (personalGenuine b bl ctx) \<and>
         g_mean (personalGenuine b bl ctx) \<le> g_mean (bm_genuine (bucketModel b (bl_bucket bl))) + MEAN_BAND_ABOVE"
proof -
  let ?g = "g_mean (bm_genuine (bucketModel b (bl_bucket bl)))"
  let ?w = "real_of_int (bl_n bl) / (real_of_int (bl_n bl) + SHRINK_FRAMES)"
  have w: "0 \<le> ?w" "?w \<le> 1" using assms by (auto simp: SHRINK_FRAMES_def)
  have band: "?g - MEAN_BAND_BELOW \<le> ?g + MEAN_BAND_ABOVE" by (simp add: MEAN_BAND_BELOW_def MEAN_BAND_ABOVE_def)
  have c: "?g - MEAN_BAND_BELOW \<le> clamp x (?g - MEAN_BAND_BELOW) (?g + MEAN_BAND_ABOVE)"
    "clamp x (?g - MEAN_BAND_BELOW) (?g + MEAN_BAND_ABOVE) \<le> ?g + MEAN_BAND_ABOVE" for x
    using clamp_bounds[OF band] by auto
  have "?g - MEAN_BAND_BELOW \<le> ?g" "?g \<le> ?g + MEAN_BAND_ABOVE" by (simp_all add: MEAN_BAND_BELOW_def MEAN_BAND_ABOVE_def)
  from convex_in_interval[OF w c this] show ?thesis by (simp add: personalGenuine_def Let_def)
qed

lemma personalGenuine_sd_pos:
  assumes "0 \<le> bl_n bl"
  shows "0 < g_sd (personalGenuine b bl ctx)"
proof -
  let ?g = "g_sd (bm_genuine (bucketModel b (bl_bucket bl)))"
  let ?w = "real_of_int (bl_n bl) / (real_of_int (bl_n bl) + SHRINK_FRAMES)"
  define raw where "raw = max (sqrt (bl_sd bl * bl_sd bl + g_sd (GENUINE_DRIFT ctx b) * g_sd (GENUINE_DRIFT ctx b))) (?g / (if ctx = Relaxed then 1 else maxSharpen b))"
  have g: "0 < ?g" by (rule bucketModel_sd_pos)
  have "0 < ?g / (if ctx = Relaxed then 1 else maxSharpen b)" using g by (cases b) auto
  then have raw: "0 < raw" by (simp add: raw_def)
  have w: "0 \<le> ?w" "?w \<le> 1" using assms by (auto simp: SHRINK_FRAMES_def)
  have "min raw ?g \<le> ?w * raw + (1 - ?w) * ?g"
    using convex_in_interval[OF w, of "min raw ?g" raw "max raw ?g" ?g] by auto
  moreover have "g_sd (personalGenuine b bl ctx) = ?w * raw + (1 - ?w) * ?g"
    by (simp add: personalGenuine_def Let_def raw_def)
  ultimately show ?thesis using raw g by (simp add: min_less_iff_disj less_le_trans)
qed

section \<open>The accumulator\<close>

definition CLEAR_MATCH_LLR :: real where "CLEAR_MATCH_LLR = -3"
definition STRONG_MISMATCH_LLR :: real where "STRONG_MISMATCH_LLR = 4"
definition EVIDENCE_monitorLLR :: real where "EVIDENCE_monitorLLR = 1"
definition EVIDENCE_closeAfterClearSamples :: nat where "EVIDENCE_closeAfterClearSamples = 2"
definition EVIDENCE_maxAgeMs :: ms where "EVIDENCE_maxAgeMs = 10 * 60000"
definition EVIDENCE_discontinuityWeight :: real where "EVIDENCE_discontinuityWeight = 125 / 100"

lemmas evidence_consts = CLEAR_MATCH_LLR_def EVIDENCE_monitorLLR_def EVIDENCE_closeAfterClearSamples_def
  EVIDENCE_maxAgeMs_def EVIDENCE_discontinuityWeight_def

datatype evidence_state = Consistent | Monitoring | Suspect | Confirmed_mismatch

record evidence_entry =
  ee_id :: ident
  ee_at :: ms
  ee_llr :: real
  ee_similarity :: "real option"
  ee_bucket :: quality_bucket
  ee_trigger :: sample_trigger

record accumulator =
  ac_window :: "evidence_entry list"
  ac_state :: evidence_state
  ac_confirmedAt :: "ms option"
  ac_clearStreak :: nat
  ac_unusableStreak :: nat
  ac_lastSampleAt :: "ms option"
  ac_lastUsableAt :: "ms option"

definition EMPTY_ACCUMULATOR :: accumulator where
  "EMPTY_ACCUMULATOR = \<lparr>ac_window = [], ac_state = Consistent, ac_confirmedAt = None, ac_clearStreak = 0,
     ac_unusableStreak = 0, ac_lastSampleAt = None, ac_lastUsableAt = None\<rparr>"

definition DISCONTINUITY_TRIGGERS :: "sample_trigger set" where
  "DISCONTINUITY_TRIGGERS = {T_exam_start, T_track_break, T_appearance_change, T_face_return, T_camera_reconnect,
     T_after_multiple_people, T_after_obstruction}"

definition URGENT_TRIGGERS :: "sample_trigger set" where
  "URGENT_TRIGGERS = DISCONTINUITY_TRIGGERS \<union> {T_server_request, T_follow_up}"

definition windowEntry :: "evidence_entry \<Rightarrow> window_entry" where
  "windowEntry e = \<lparr>we_llr = ee_llr e, we_bucket = Some (ee_bucket e)\<rparr>"

definition windowSum :: "evidence_entry list \<Rightarrow> real" where
  "windowSum w = round4 (windowEvidence (map windowEntry w))"

definition poorPositiveEntry :: "evidence_entry \<Rightarrow> bool" where
  "poorPositiveEntry e \<longleftrightarrow> ee_bucket e = Poor \<and> ee_llr e > 0"

definition poorLightSuspect :: "accumulator \<Rightarrow> bool" where
  "poorLightSuspect acc \<longleftrightarrow> ac_state acc = Suspect \<and> list_ex poorPositiveEntry (ac_window acc) \<and>
     windowSum (filter (\<lambda>e. \<not> poorPositiveEntry e) (ac_window acc)) < SPRT_suspect"

record evidence_dto =
  ed_swapProbability :: real
  ed_state :: evidence_state
  ed_samples :: nat

definition toEvidenceDTO :: "accumulator \<Rightarrow> real \<Rightarrow> evidence_dto" where
  "toEvidenceDTO acc prior = \<lparr>ed_swapProbability = round4 (posteriorSwap (windowSum (ac_window acc)) prior),
     ed_state = ac_state acc, ed_samples = length (ac_window acc)\<rparr>"

record observation =
  ob_id :: ident
  ob_at :: ms
  ob_trigger :: sample_trigger
  ob_evidence :: frame_evidence

datatype evidence_transition = Tr_none | Tr_monitoring | Tr_suspect | Tr_confirmed | Tr_cleared | Tr_recovered

record accumulate_result =
  ar_acc :: accumulator
  ar_transition :: evidence_transition
  ar_contribution :: real
  ar_sum :: real
  ar_posterior :: real

text \<open>\<open>maxAt\<close> is \<open>Math.max\<close> over the instants that exist (\<open>-Infinity\<close> for none).\<close>

definition maxAt :: "ms option \<Rightarrow> ms option \<Rightarrow> ms option" where
  "maxAt a b = (case (a, b) of (Some x, Some y) \<Rightarrow> Some (max x y) | (None, y) \<Rightarrow> y | (x, None) \<Rightarrow> x)"

definition newestAt :: "evidence_entry list \<Rightarrow> ms option" where
  "newestAt w = fold (\<lambda>e mx. maxAt mx (Some (ee_at e))) w None"

definition doneWith :: "accumulator \<Rightarrow> evidence_transition \<Rightarrow> real \<Rightarrow> accumulate_result" where
  "doneWith acc t c =
     (let sum = windowSum (ac_window acc)
      in \<lparr>ar_acc = acc, ar_transition = t, ar_contribution = c, ar_sum = sum, ar_posterior = round4 (posteriorSwap sum CAL_prior)\<rparr>)"

text \<open>What the evidence after a usable sample makes of the state.\<close>

definition settle :: "accumulator \<Rightarrow> ms \<Rightarrow> real \<Rightarrow> accumulate_result" where
  "settle acc now contribution =
     (let prevState = ac_state acc; sum = windowSum (ac_window acc)
      in if prevState = Confirmed_mismatch then
           (let streak = (if contribution \<le> CLEAR_MATCH_LLR then ac_clearStreak acc + 1 else 0)
            in if streak \<ge> EVIDENCE_closeAfterClearSamples
               then doneWith (acc\<lparr>ac_window := [], ac_state := Consistent, ac_confirmedAt := None, ac_clearStreak := 0\<rparr>) Tr_recovered contribution
               else doneWith (acc\<lparr>ac_clearStreak := streak\<rparr>) Tr_none contribution)
         else if sum \<le> SPRT_clear then
           doneWith (acc\<lparr>ac_window := [], ac_state := Consistent\<rparr>) (if prevState = Consistent then Tr_none else Tr_cleared) contribution
         else if sum \<ge> SPRT_confirm then
           doneWith (acc\<lparr>ac_state := Confirmed_mismatch, ac_confirmedAt := Some now, ac_clearStreak := 0\<rparr>) Tr_confirmed contribution
         else if sum \<ge> SPRT_suspect then
           doneWith (acc\<lparr>ac_state := Suspect\<rparr>) (if prevState = Suspect then Tr_none else Tr_suspect) contribution
         else if sum > EVIDENCE_monitorLLR \<or> contribution > EVIDENCE_monitorLLR then
           doneWith (acc\<lparr>ac_state := Monitoring\<rparr>) (if prevState = Monitoring then Tr_none else Tr_monitoring) contribution
         else doneWith (acc\<lparr>ac_state := Consistent\<rparr>) (if prevState = Consistent then Tr_none else Tr_cleared) contribution)"

definition inOrderSample :: "accumulator \<Rightarrow> ms \<Rightarrow> bool" where
  "inOrderSample prev t = (case newestAt (ac_window prev) of None \<Rightarrow> True | Some n \<Rightarrow> t > n)"

definition latestAt :: "accumulator \<Rightarrow> ms \<Rightarrow> ms" where
  "latestAt prev t = nullish (maxAt (maxAt (Some t) (ac_lastSampleAt prev)) (newestAt (ac_window prev))) t"

definition freshWindow :: "accumulator \<Rightarrow> ms \<Rightarrow> evidence_entry list" where
  "freshWindow prev t = filter (\<lambda>e. latestAt prev t - ee_at e \<le> EVIDENCE_maxAgeMs) (ac_window prev)"

definition contributionOf :: "bool \<Rightarrow> real \<Rightarrow> real" where
  "contributionOf discontinuity llr = round4 (if llr > 0 \<and> discontinuity then llr * EVIDENCE_discontinuityWeight else llr)"

definition addEntry :: "evidence_entry list \<Rightarrow> bool \<Rightarrow> bool \<Rightarrow> evidence_entry \<Rightarrow> evidence_entry list" where
  "addEntry w discontinuity inOrder e =
     (let kept = (if discontinuity then filter (\<lambda>x. ee_llr x > 0) w else w);
          pushed = kept @ [e]; sorted = (if inOrder then pushed else sort_key ee_at pushed)
      in lastN SPRT_maxSamples sorted)"

definition accumulate :: "accumulator \<Rightarrow> observation \<Rightarrow> accumulate_result" where
  "accumulate prev obs =
     (let now = ob_at obs; inOrder = inOrderSample prev now; latest = latestAt prev now;
          acc = prev\<lparr>ac_lastSampleAt := Some latest, ac_window := freshWindow prev now\<rparr>
      in case (fe_usable (ob_evidence obs), fe_bucket (ob_evidence obs)) of
           (True, Some b) \<Rightarrow>
             (let discontinuity = (ob_trigger obs \<in> DISCONTINUITY_TRIGGERS \<and> inOrder);
                  contribution = contributionOf discontinuity (fe_llr (ob_evidence obs));
                  entry = \<lparr>ee_id = ob_id obs, ee_at = now, ee_llr = contribution, ee_similarity = fe_similarity (ob_evidence obs),
                           ee_bucket = b, ee_trigger = ob_trigger obs\<rparr>
              in settle (acc\<lparr>ac_unusableStreak := 0, ac_lastUsableAt := maxAt (Some now) (ac_lastUsableAt prev),
                            ac_window := addEntry (ac_window acc) discontinuity inOrder entry\<rparr>) now contribution)
         | _ \<Rightarrow> doneWith (acc\<lparr>ac_unusableStreak := ac_unusableStreak acc + 1\<rparr>) Tr_none 0)"

definition accumulateAll :: "observation list \<Rightarrow> accumulator" where
  "accumulateAll obs = foldl (\<lambda>acc ob. ar_acc (accumulate acc ob)) EMPTY_ACCUMULATOR obs"


subsection \<open>Invariant\<close>

definition wf_acc :: "accumulator \<Rightarrow> bool" where
  "wf_acc acc \<longleftrightarrow> sorted (map ee_at (ac_window acc)) \<and> length (ac_window acc) \<le> SPRT_maxSamples \<and>
     (\<forall>e \<in> set (ac_window acc). \<bar>ee_llr e\<bar> \<le> LLR_CLAMP * EVIDENCE_discontinuityWeight) \<and>
     (ac_state acc = Confirmed_mismatch \<longleftrightarrow> ac_confirmedAt acc \<noteq> None) \<and>
     ac_clearStreak acc < EVIDENCE_closeAfterClearSamples"

definition bounded_obs :: "observation \<Rightarrow> bool" where
  "bounded_obs obs \<longleftrightarrow> \<bar>fe_llr (ob_evidence obs)\<bar> \<le> LLR_CLAMP"

lemma wf_acc_EMPTY: "wf_acc EMPTY_ACCUMULATOR"
  by (simp add: wf_acc_def EMPTY_ACCUMULATOR_def evidence_consts)

lemma contributionOf_bounded: "\<bar>l\<bar> \<le> LLR_CLAMP \<Longrightarrow> \<bar>contributionOf d l\<bar> \<le> LLR_CLAMP * EVIDENCE_discontinuityWeight"
proof -
  assume l: "\<bar>l\<bar> \<le> LLR_CLAMP"
  define x where "x = (if l > 0 \<and> d then l * EVIDENCE_discontinuityWeight else l)"
  have "\<bar>x\<bar> \<le> 625 / 100" using l by (auto simp: x_def LLR_CLAMP_def evidence_consts abs_le_iff)
  then have "- (625 / 100) \<le> x" "x \<le> 625 / 100" by (auto simp: abs_le_iff)
  then have "- (625 / 100) \<le> round4 x" "round4 x \<le> 625 / 100"
    using round4_le_iff[where c = "625 / 100" and k = 62500 and x = x] round4_ge_iff[where c = "- (625 / 100)" and k = "-62500" and x = x] by auto
  then show ?thesis by (simp add: contributionOf_def x_def[symmetric] LLR_CLAMP_def evidence_consts abs_le_iff)
qed

lemma newestAt_max: "e \<in> set w \<Longrightarrow> \<exists>n. newestAt w = Some n \<and> ee_at e \<le> n"
proof -
  have "\<exists>n. fold (\<lambda>e mx. maxAt mx (Some (ee_at e))) w m = Some n \<and> (\<forall>k. m = Some k \<longrightarrow> k \<le> n) \<and> (\<forall>e \<in> set w. ee_at e \<le> n)"
    if "w \<noteq> [] \<or> m \<noteq> None" for m
    using that
  proof (induction w arbitrary: m)
    case (Cons a w)
    have "maxAt m (Some (ee_at a)) \<noteq> None" by (cases m) (auto simp: maxAt_def)
    from Cons.IH[OF disjI2, OF this] show ?case by (cases m) (auto simp: maxAt_def)
  qed auto
  then show "e \<in> set w \<Longrightarrow> \<exists>n. newestAt w = Some n \<and> ee_at e \<le> n"
    unfolding newestAt_def by (metis list.set_cases neq_Nil_conv)
qed

lemma addEntry_set: "set (addEntry w d i e) \<subseteq> insert e (set w)"
  unfolding addEntry_def Let_def by (rule order_trans[OF set_lastN]) auto

lemma addEntry_length: "length (addEntry w d i e) \<le> SPRT_maxSamples"
  by (simp add: addEntry_def Let_def)

lemma sorted_filter_at: "sorted (map ee_at w) \<Longrightarrow> sorted (map ee_at (filter P w))"
  by (induction w) auto

lemma addEntry_sorted:
  assumes "sorted (map ee_at w)" "i \<Longrightarrow> \<forall>x \<in> set w. ee_at x \<le> ee_at e"
  shows "sorted (map ee_at (addEntry w d i e))"
proof -
  let ?kept = "if d then filter (\<lambda>x. ee_llr x > 0) w else w"
  have kept: "sorted (map ee_at ?kept)" "set ?kept \<subseteq> set w" using assms(1) by (auto simp: sorted_filter_at)
  have "sorted (map ee_at (if i then ?kept @ [e] else sort_key ee_at (?kept @ [e])))"
    using kept assms(2) by (auto simp: sorted_append simp del: sort_key_simps)
  then show ?thesis unfolding addEntry_def Let_def map_lastN by (rule sorted_lastN)
qed

lemma freshWindow_subset: "set (freshWindow p t) \<subseteq> set (ac_window p)"
  by (auto simp: freshWindow_def)

lemma settle_acc:
  "ac_window (ar_acc (settle acc t c)) = ac_window acc \<or> ac_window (ar_acc (settle acc t c)) = []"
  by (auto simp: settle_def doneWith_def Let_def)

lemma wf_acc_settle:
  assumes "wf_acc acc"
  shows "wf_acc (ar_acc (settle acc t c))"
  using assms by (auto simp: settle_def doneWith_def Let_def wf_acc_def evidence_consts)

lemma wf_acc_accumulate:
  assumes wf: "wf_acc p" and ob: "bounded_obs obs"
  shows "wf_acc (ar_acc (accumulate p obs))"
proof -
  have fresh: "sorted (map ee_at (freshWindow p t))" "length (freshWindow p t) \<le> SPRT_maxSamples"
    "\<forall>e \<in> set (freshWindow p t). \<bar>ee_llr e\<bar> \<le> LLR_CLAMP * EVIDENCE_discontinuityWeight" for t
    using wf by (auto simp: wf_acc_def freshWindow_def sorted_filter_at intro: order_trans[OF length_filter_le])
  show ?thesis
  proof (cases "fe_usable (ob_evidence obs) \<and> fe_bucket (ob_evidence obs) \<noteq> None")
    case False
    then have "ar_acc (accumulate p obs) = p\<lparr>ac_lastSampleAt := Some (latestAt p (ob_at obs)), ac_window := freshWindow p (ob_at obs), ac_unusableStreak := ac_unusableStreak p + 1\<rparr>"
      by (cases "fe_bucket (ob_evidence obs)") (auto simp: accumulate_def Let_def doneWith_def split: bool.split)
    then show ?thesis using wf fresh by (simp add: wf_acc_def)
  next
    case True
    then obtain b where b: "fe_usable (ob_evidence obs)" "fe_bucket (ob_evidence obs) = Some b" by auto
    let ?i = "inOrderSample p (ob_at obs)"
    let ?d = "ob_trigger obs \<in> DISCONTINUITY_TRIGGERS \<and> ?i"
    let ?c = "contributionOf ?d (fe_llr (ob_evidence obs))"
    let ?e = "\<lparr>ee_id = ob_id obs, ee_at = ob_at obs, ee_llr = ?c, ee_similarity = fe_similarity (ob_evidence obs), ee_bucket = b, ee_trigger = ob_trigger obs\<rparr>"
    let ?w = "addEntry (freshWindow p (ob_at obs)) ?d ?i ?e"
    have older: "\<forall>x \<in> set (freshWindow p (ob_at obs)). ee_at x \<le> ee_at ?e" if ?i
    proof
      fix x assume "x \<in> set (freshWindow p (ob_at obs))"
      then have "x \<in> set (ac_window p)" using freshWindow_subset by blast
      then obtain n where "newestAt (ac_window p) = Some n" "ee_at x \<le> n" using newestAt_max by blast
      then show "ee_at x \<le> ee_at ?e" using that by (simp add: inOrderSample_def)
    qed
    have "sorted (map ee_at ?w)" by (rule addEntry_sorted[OF fresh(1) older])
    moreover have "\<forall>e \<in> set ?w. \<bar>ee_llr e\<bar> \<le> LLR_CLAMP * EVIDENCE_discontinuityWeight"
      using addEntry_set[of "freshWindow p (ob_at obs)" ?d ?i ?e] fresh(3) contributionOf_bounded[of "fe_llr (ob_evidence obs)" ?d] ob
      by (auto simp: bounded_obs_def)
    ultimately show ?thesis
      using wf b addEntry_length by (simp add: accumulate_def Let_def) (rule wf_acc_settle, simp add: wf_acc_def)
  qed
qed

lemma wf_acc_accumulateAll: "\<forall>ob \<in> set obs. bounded_obs ob \<Longrightarrow> wf_acc (accumulateAll obs)"
proof -
  have "wf_acc acc \<Longrightarrow> \<forall>ob \<in> set obs. bounded_obs ob \<Longrightarrow> wf_acc (foldl (\<lambda>acc ob. ar_acc (accumulate acc ob)) acc obs)" for acc
    by (induction obs arbitrary: acc) (auto simp: wf_acc_accumulate)
  then show "\<forall>ob \<in> set obs. bounded_obs ob \<Longrightarrow> ?thesis" by (simp add: accumulateAll_def wf_acc_EMPTY)
qed

subsection \<open>What a confirmation rests on\<close>

lemma settle_confirmed:
  "ar_transition (settle acc t c) = Tr_confirmed \<Longrightarrow>
     ac_state acc \<noteq> Confirmed_mismatch \<and> SPRT_confirm \<le> windowSum (ac_window acc) \<and>
     ac_window (ar_acc (settle acc t c)) = ac_window acc \<and> ac_state (ar_acc (settle acc t c)) = Confirmed_mismatch"
  by (auto simp: settle_def doneWith_def Let_def split: if_splits)

lemma accumulate_confirmed:
  assumes "ar_transition (accumulate p obs) = Tr_confirmed"
  shows "ac_state p \<noteq> Confirmed_mismatch \<and> SPRT_confirm \<le> windowSum (ac_window (ar_acc (accumulate p obs)))"
  using assms settle_confirmed
  by (fastforce simp: accumulate_def Let_def doneWith_def split: bool.splits option.splits)

lemma windowSum_le: "windowEvidence (map windowEntry w) \<le> c \<Longrightarrow> c * 10000 = of_int k \<Longrightarrow> windowSum w \<le> c"
  unfolding windowSum_def by (rule round4_le_iff)

lemma windowSum_needs_clear_image:
  assumes "SPRT_confirm \<le> windowSum w"
  shows "\<exists>e \<in> set w. ee_llr e > 0 \<and> ee_bucket e \<noteq> Poor"
proof (rule ccontr)
  assume "\<not> ?thesis"
  then have "windowEvidence (map windowEntry w) \<le> SPRT_maxPoorEvidence"
    by (intro windowEvidence_poor_only) (auto simp: windowEntry_def)
  then have "windowSum w \<le> 4" using windowSum_le[of w 4 40000] by (simp add: sprt_defs)
  then show False using assms by (simp add: sprt_defs)
qed

lemma windowSum_needs_two:
  assumes "SPRT_confirm \<le> windowSum w" "\<forall>e \<in> set w. \<bar>ee_llr e\<bar> \<le> LLR_CLAMP * EVIDENCE_discontinuityWeight"
  shows "2 \<le> length w"
proof (rule ccontr)
  assume "\<not> ?thesis"
  then consider "w = []" | e where "w = [e]" by (cases w) (auto simp: neq_Nil_conv not_le less_Suc_eq)
  then have "sum_list (map we_llr (map windowEntry w)) \<le> 625 / 100"
    by cases (use assms(2) in \<open>auto simp: windowEntry_def LLR_CLAMP_def evidence_consts abs_le_iff\<close>)
  then have "windowEvidence (map windowEntry w) \<le> 625 / 100" using windowEvidence_le_sum order_trans by blast
  then have "windowSum w \<le> 625 / 100" using windowSum_le[of w "625 / 100" 62500] by simp
  then show False using assms(1) by (simp add: sprt_defs)
qed


text \<open>Poor light alone: an accumulator fed only with poor or non-positive samples is never confirmed.\<close>

definition weak_obs :: "observation \<Rightarrow> bool" where
  "weak_obs obs \<longleftrightarrow> fe_bucket (ob_evidence obs) = Some Poor \<or> fe_llr (ob_evidence obs) \<le> 0 \<or> \<not> fe_usable (ob_evidence obs)"

definition weak_acc :: "accumulator \<Rightarrow> bool" where
  "weak_acc acc \<longleftrightarrow> (\<forall>e \<in> set (ac_window acc). ee_llr e > 0 \<longrightarrow> ee_bucket e = Poor) \<and> ac_state acc \<noteq> Confirmed_mismatch"

lemma weak_accI:
  "\<forall>e \<in> set (ac_window acc). ee_llr e > 0 \<longrightarrow> ee_bucket e = Poor \<Longrightarrow> ac_state acc \<noteq> Confirmed_mismatch \<Longrightarrow> weak_acc acc"
  by (simp add: weak_acc_def)

lemma contributionOf_nonpos: "l \<le> 0 \<Longrightarrow> contributionOf d l \<le> 0"
  using round4_le_iff[where c = 0 and k = 0 and x = l] by (simp add: contributionOf_def)

lemma weak_acc_settle: "weak_acc acc \<Longrightarrow> weak_acc (ar_acc (settle acc t c))"
  using windowSum_needs_clear_image[of "ac_window acc"]
  by (auto simp: settle_def doneWith_def Let_def weak_acc_def not_le)

lemma weak_acc_accumulate:
  assumes w: "weak_acc p" and ob: "weak_obs obs"
  shows "weak_acc (ar_acc (accumulate p obs))"
proof (cases "fe_usable (ob_evidence obs) \<and> fe_bucket (ob_evidence obs) \<noteq> None")
  case False
  then have "ar_acc (accumulate p obs) = p\<lparr>ac_lastSampleAt := Some (latestAt p (ob_at obs)), ac_window := freshWindow p (ob_at obs), ac_unusableStreak := ac_unusableStreak p + 1\<rparr>"
    by (cases "fe_bucket (ob_evidence obs)") (auto simp: accumulate_def Let_def doneWith_def split: bool.split)
  then show ?thesis using w freshWindow_subset[of p "ob_at obs"] by (auto simp: weak_acc_def)
next
  case True
  then obtain b where b: "fe_usable (ob_evidence obs)" "fe_bucket (ob_evidence obs) = Some b" by auto
  have new: "contributionOf d (fe_llr (ob_evidence obs)) > 0 \<Longrightarrow> b = Poor" for d
    using ob b contributionOf_nonpos[of "fe_llr (ob_evidence obs)" d] by (auto simp: weak_obs_def)
  have kept: "\<forall>x \<in> set (addEntry (freshWindow p (ob_at obs)) d i e). ee_llr x > 0 \<longrightarrow> ee_bucket x = Poor"
    if "ee_llr e > 0 \<Longrightarrow> ee_bucket e = Poor" for d i e
    using addEntry_set[of "freshWindow p (ob_at obs)" d i e] freshWindow_subset[of p "ob_at obs"] w that
    by (auto simp: weak_acc_def)
  have state: "ac_state p \<noteq> Confirmed_mismatch" using w by (simp add: weak_acc_def)
  show ?thesis
    using b by (simp add: accumulate_def Let_def)
      (rule weak_acc_settle, rule weak_accI, simp, rule kept, use new state in simp_all)
qed

lemma weak_acc_accumulateAll: "\<forall>ob \<in> set obs. weak_obs ob \<Longrightarrow> weak_acc (accumulateAll obs)"
proof -
  have "weak_acc acc \<Longrightarrow> \<forall>ob \<in> set obs. weak_obs ob \<Longrightarrow> weak_acc (foldl (\<lambda>acc ob. ar_acc (accumulate acc ob)) acc obs)" for acc
    by (induction obs arbitrary: acc) (auto simp: weak_acc_accumulate)
  moreover have "weak_acc EMPTY_ACCUMULATOR" by (simp add: weak_acc_def EMPTY_ACCUMULATOR_def)
  ultimately show "\<forall>ob \<in> set obs. weak_obs ob \<Longrightarrow> ?thesis" by (simp add: accumulateAll_def)
qed

text \<open>A confirmed mismatch ends only after two clear genuine samples in a row.\<close>

lemma settle_leaves_confirmed:
  assumes "ac_state acc = Confirmed_mismatch"
  shows "ac_state (ar_acc (settle acc t c)) \<noteq> Confirmed_mismatch \<longleftrightarrow>
     c \<le> CLEAR_MATCH_LLR \<and> EVIDENCE_closeAfterClearSamples \<le> ac_clearStreak acc + 1"
  using assms by (auto simp: settle_def doneWith_def Let_def evidence_consts)

section \<open>Assessment of a check's frames\<close>

definition CHECK_frameWeight :: real where "CHECK_frameWeight = 1 / 2"
definition CHECK_minFramesAtLimit :: nat where "CHECK_minFramesAtLimit = 2"
definition CHECK_clearFrameLLR :: real where "CHECK_clearFrameLLR = 4"

datatype check_status = CS_pending | CS_likely_match | CS_likely_mismatch | CS_uncertain

record check_assessment =
  ca_status :: check_status
  ca_llr :: real
  ca_usable :: nat
  ca_clearMatch :: nat
  ca_clearMismatch :: nat
  ca_posterior :: real
  ca_poorLight :: bool

definition weightedFrames :: "frame_evidence list \<Rightarrow> window_entry list" where
  "weightedFrames fs = map (\<lambda>f. \<lparr>we_llr = fe_llr f * CHECK_frameWeight, we_bucket = fe_bucket f\<rparr>) fs"

definition assessCheck :: "frame_evidence list \<Rightarrow> bool \<Rightarrow> check_assessment" where
  "assessCheck frames atLimit =
     (let usable = filter fe_usable frames; weighted = weightedFrames usable;
          llr = round4 (windowEvidence weighted);
          poorLimited = (list_ex poorPositive weighted \<and> windowEvidence (filter (\<lambda>f. \<not> poorPositive f) weighted) < SPRT_confirm);
          clearMatch = length (filter (\<lambda>f. fe_llr f \<le> - CHECK_clearFrameLLR) usable);
          clearMismatch = length (filter (\<lambda>f. fe_llr f \<ge> CHECK_clearFrameLLR) usable);
          minF = (if atLimit then CHECK_minFramesAtLimit else MIN_FRAMES_FOR_DECISION);
          status = (if usable = [] \<or> length usable < minF then CS_pending
                    else if clearMatch \<ge> 2 \<and> clearMismatch \<ge> 2 then CS_uncertain
                    else if llr \<le> SPRT_clear then CS_likely_match
                    else if llr \<ge> SPRT_confirm then CS_likely_mismatch else CS_uncertain)
      in \<lparr>ca_status = status, ca_llr = llr, ca_usable = length usable, ca_clearMatch = clearMatch, ca_clearMismatch = clearMismatch,
          ca_posterior = round4 (posteriorSwap llr CAL_prior), ca_poorLight = (status = CS_uncertain \<and> poorLimited)\<rparr>)"


lemma assessCheck_decides:
  "ca_status (assessCheck frames atLimit) \<in> {CS_likely_match, CS_likely_mismatch} \<Longrightarrow>
     2 \<le> length (filter fe_usable frames) \<and> (atLimit \<or> 3 \<le> length (filter fe_usable frames))"
  by (auto simp: assessCheck_def Let_def CHECK_minFramesAtLimit_def MIN_FRAMES_FOR_DECISION_def split: if_splits)

section \<open>Sampling cadence\<close>

definition CADENCE_suspectMs :: ms where "CADENCE_suspectMs = 2500"
definition CADENCE_monitoringMs :: ms where "CADENCE_monitoringMs = 5000"
definition CADENCE_unusableMs :: ms where "CADENCE_unusableMs = 10000"
definition CADENCE_lateAfterMs :: ms where "CADENCE_lateAfterMs = 6000"

lemmas cadence_defs = CADENCE_suspectMs_def CADENCE_monitoringMs_def CADENCE_unusableMs_def CADENCE_lateAfterMs_def

definition inStartupWindow :: "identity_policy \<Rightarrow> ms option \<Rightarrow> ms \<Rightarrow> bool" where
  "inStartupWindow p activeSince now = (case activeSince of None \<Rightarrow> False | Some t \<Rightarrow> now - t < ip_startupWindowSec p * 1000)"

definition nextSampleDelayMs :: "identity_policy \<Rightarrow> ms option \<Rightarrow> evidence_state \<Rightarrow> nat \<Rightarrow> ms \<Rightarrow> ms" where
  "nextSampleDelayMs p activeSince st unusableStreak now =
     (let t0 = (if inStartupWindow p activeSince now then ip_startupIntervalSec p else ip_periodicCheckIntervalSec p) * 1000;
          t1 = (if st = Suspect then min t0 CADENCE_suspectMs
                else if st = Monitoring \<or> st = Confirmed_mismatch then min t0 CADENCE_monitoringMs else t0)
      in if unusableStreak > 0 then min t1 CADENCE_unusableMs else t1)"

definition loadAwareDelayMs :: "identity_policy \<Rightarrow> ms option \<Rightarrow> evidence_state \<Rightarrow> nat \<Rightarrow> ms \<Rightarrow> real \<Rightarrow> ms" where
  "loadAwareDelayMs p activeSince st unusableStreak now pressure =
     (let base = nextSampleDelayMs p activeSince st unusableStreak now
      in if \<not> pressure > 0 \<or> st \<noteq> Consistent \<or> unusableStreak > 0 then base
         else let ceilingMs = (if inStartupWindow p activeSince now then sv_startupIntervalSec SAMPLING_BALANCED
                               else sv_periodicCheckIntervalSec SAMPLING_BALANCED) * 1000
              in if ceilingMs \<le> base then base
                 else mathRound (of_int base + of_int (ceilingMs - base) * min 1 pressure))"

lemma mathRound_between:
  assumes "of_int a \<le> x" "x \<le> of_int b"
  shows "a \<le> mathRound x \<and> mathRound x \<le> b"
  using mathRound_mono[OF assms(1)] mathRound_mono[OF assms(2)] by simp

lemma stretch_bounds:
  assumes "base < c" "0 < pressure"
  shows "base \<le> mathRound (of_int base + of_int (c - base) * min 1 pressure) \<and>
         mathRound (of_int base + of_int (c - base) * min 1 pressure) \<le> c"
proof (rule mathRound_between)
  have "0 \<le> of_int (c - base) * min 1 pressure" using assms by (intro mult_nonneg_nonneg) auto
  then show "of_int base \<le> of_int base + of_int (c - base) * min 1 pressure" by simp
  have "of_int (c - base) * min 1 pressure \<le> of_int (c - base) * (1 :: real)" using assms by (intro mult_left_mono) auto
  then show "of_int base + of_int (c - base) * min 1 pressure \<le> of_int c" by simp
qed

lemma loadAwareDelayMs_bounds:
  "nextSampleDelayMs p s st u now \<le> loadAwareDelayMs p s st u now pressure \<and>
   loadAwareDelayMs p s st u now pressure \<le> max (nextSampleDelayMs p s st u now) 30000"
proof -
  define base where "base = nextSampleDelayMs p s st u now"
  show ?thesis
    unfolding loadAwareDelayMs_def Let_def base_def[symmetric] SAMPLING_BALANCED_def
    using stretch_bounds[of base 12000 pressure] stretch_bounds[of base 30000 pressure] by auto
qed

lemma nextSampleDelayMs_bounds:
  assumes "identity_ok p"
  shows "2500 \<le> nextSampleDelayMs p s st u now \<and> nextSampleDelayMs p s st u now \<le> 600000 \<and>
         (st = Suspect \<longrightarrow> nextSampleDelayMs p s st u now = 2500)"
  using assms by (auto simp: identity_ok_def nextSampleDelayMs_def Let_def cadence_defs)

section \<open>The watchdog and the requested sample\<close>

definition WATCHDOG_requestAfterIntervals :: int where "WATCHDOG_requestAfterIntervals = 3"
definition WATCHDOG_observeAfterIntervals :: int where "WATCHDOG_observeAfterIntervals = 6"
definition WATCHDOG_minObserveMs :: ms where "WATCHDOG_minObserveMs = 60000"

lemmas watchdog_defs = WATCHDOG_requestAfterIntervals_def WATCHDOG_observeAfterIntervals_def WATCHDOG_minObserveMs_def

record pending_burst =
  pb_id :: ident
  pb_size :: int
  pb_trigger :: sample_trigger
  pb_firstReceivedAt :: ms
  pb_indexes :: "int list"

text \<open>
  \<open>IdentityEngineState\<close> (db/schema.ts): the identity aggregation state kept with the
  session. The open events are referred to by their ids.
\<close>

record identity_state =
  is_consecutiveMatch :: int
  is_consecutiveMismatch :: int
  is_consecutiveUnable :: int
  is_openMismatchEventId :: "ident option"
  is_openUnverifiableEventId :: "ident option"
  is_openFeedSuspectEventId :: "ident option"
  is_lastSampleDhash :: "string option"
  is_identicalDhashStreak :: int
  is_lastMatchAt :: "ms option"
  is_followUpRequestedAt :: "ms option"
  is_pendingMismatchCheckIds :: "ident list"
  is_evidence :: accumulator
  is_activeSince :: "ms option"
  is_sampleRequest :: "(sample_trigger \<times> ms) option"
  is_pendingBursts :: "pending_burst list"
  is_secondOpinionPending :: "(ident \<times> ms) option"
  is_secondOpinionVeto :: "(ident \<times> ms) option"
  is_normalisation :: comparison_context
  is_periodBaseline :: "baseline option"
  is_openNoSamplesEventId :: "ident option"
  is_lastSampleReceivedAt :: "ms option"
  is_cadenceMs :: "ms option"

datatype watchdog_result = W_ok | W_request | W_unanswered

definition sampleWatchdog :: "identity_policy \<Rightarrow> identity_state \<Rightarrow> ms \<Rightarrow> watchdog_result" where
  "sampleWatchdog p st now =
     (case maxAt (maxAt (is_lastSampleReceivedAt st) (ac_lastSampleAt (is_evidence st))) (is_activeSince st) of
        None \<Rightarrow> W_ok
      | Some latest \<Rightarrow>
          (let interval = max (nextSampleDelayMs p (is_activeSince st) (ac_state (is_evidence st)) (ac_unusableStreak (is_evidence st)) now)
                 (nullish (is_cadenceMs st) 0);
               quiet = now - latest
           in if quiet > max (WATCHDOG_observeAfterIntervals * interval) WATCHDOG_minObserveMs then W_unanswered
              else if quiet > WATCHDOG_requestAfterIntervals * interval then W_request else W_ok))"

record sample_request =
  sr_trigger :: sample_trigger
  sr_inMs :: ms
  sr_burstSize :: int

definition identitySampleRequest :: "session_status \<Rightarrow> identity_state option \<Rightarrow> identity_policy \<Rightarrow> ms \<Rightarrow> sample_request option" where
  "identitySampleRequest status state p now =
     (let request = (\<lambda>t. Some \<lparr>sr_trigger = t, sr_inMs = 0, sr_burstSize = burstSizeFor t p\<rparr>)
      in case state of None \<Rightarrow> None | Some st \<Rightarrow>
        (if status \<noteq> Active \<or> ip_verification p = V_staff then None
         else case is_sampleRequest st of Some (t, _) \<Rightarrow> request t
         | None \<Rightarrow>
            (if ac_state (is_evidence st) = Suspect \<and>
                (case ac_lastSampleAt (is_evidence st) of None \<Rightarrow> False | Some l \<Rightarrow> now - l \<ge> CADENCE_lateAfterMs)
             then request T_server_request
             else if sampleWatchdog p st now \<noteq> W_ok then request T_server_request else None)))"

lemma watchdog_ok_while_samples_arrive:
  assumes "identity_ok p" "is_lastSampleReceivedAt st = Some t"
    "now - t \<le> 3 * nextSampleDelayMs p (is_activeSince st) (ac_state (is_evidence st)) (ac_unusableStreak (is_evidence st)) now"
  shows "sampleWatchdog p st now = W_ok"
proof -
  obtain l where l: "maxAt (maxAt (is_lastSampleReceivedAt st) (ac_lastSampleAt (is_evidence st))) (is_activeSince st) = Some l" "t \<le> l"
    using assms(2) by (cases "ac_lastSampleAt (is_evidence st)"; cases "is_activeSince st") (auto simp: maxAt_def)
  then show ?thesis
    using assms(3) nextSampleDelayMs_bounds[OF assms(1)] by (auto simp: sampleWatchdog_def Let_def watchdog_defs max_def)
qed


section \<open>Properties\<close>

text \<open>C8. A swap is never confirmed on one sample or on bad light: whatever bounded observations arrived, in
  whatever order and with whatever triggers, when the evidence becomes \<open>confirmed\<close> the window holds at least two samples
  and a fair or good image with evidence of a different person.\<close>

theorem confirmation_needs_two_samples_and_a_clear_image:
  assumes "\<forall>ob \<in> set obs. bounded_obs ob" "bounded_obs ob'"
    and "ar_transition (accumulate (accumulateAll obs) ob') = Tr_confirmed"
  shows "2 \<le> length (ac_window (ar_acc (accumulate (accumulateAll obs) ob'))) \<and>
         (\<exists>e \<in> set (ac_window (ar_acc (accumulate (accumulateAll obs) ob'))). ee_llr e > 0 \<and> ee_bucket e \<noteq> Poor)"
proof -
  let ?w = "ac_window (ar_acc (accumulate (accumulateAll obs) ob'))"
  have sum: "SPRT_confirm \<le> windowSum ?w" using accumulate_confirmed[OF assms(3)] by simp
  have "wf_acc (ar_acc (accumulate (accumulateAll obs) ob'))"
    by (rule wf_acc_accumulate[OF wf_acc_accumulateAll[OF assms(1)] assms(2)])
  then have "\<forall>e \<in> set ?w. \<bar>ee_llr e\<bar> \<le> LLR_CLAMP * EVIDENCE_discontinuityWeight" by (simp add: wf_acc_def)
  with sum show ?thesis using windowSum_needs_two windowSum_needs_clear_image by blast
qed

definition sampleAt :: "ms \<Rightarrow> quality_bucket \<Rightarrow> real \<Rightarrow> observation" where
  "sampleAt t b l = \<lparr>ob_id = ''s'', ob_at = t, ob_trigger = T_periodic,
     ob_evidence = \<lparr>fe_usable = True, fe_similarity = None, fe_bucket = Some b, fe_llr = l\<rparr>\<rparr>"

lemmas accumulate_eval = accumulateAll_def EMPTY_ACCUMULATOR_def accumulate_def sampleAt_def inOrderSample_def newestAt_def
  latestAt_def maxAt_def freshWindow_def contributionOf_def DISCONTINUITY_TRIGGERS_def settle_def doneWith_def addEntry_def
  lastN_def sprt_defs evidence_consts windowSum_def windowEvidence_def windowEntry_def poorPositive_def round4_def mathRound_def Let_def

theorem confirmation_needs_two_samples_and_a_clear_image_witness:
  "2 \<le> length (ac_window (ar_acc (accumulate (accumulateAll [sampleAt 1000 Poor 4]) (sampleAt 7000 Fair 4))))"
proof -
  have "ar_transition (accumulate (accumulateAll [sampleAt 1000 Poor 4]) (sampleAt 7000 Fair 4)) = Tr_confirmed"
    by (simp add: accumulate_eval)
  moreover have "bounded_obs (sampleAt 1000 Poor 4)" "bounded_obs (sampleAt 7000 Fair 4)"
    by (simp_all add: bounded_obs_def sampleAt_def LLR_CLAMP_def)
  ultimately show ?thesis
    using confirmation_needs_two_samples_and_a_clear_image[of "[sampleAt 1000 Poor 4]" "sampleAt 7000 Fair 4"] by simp
qed

text \<open>C10. Poor light alone never confirms a swap: if every usable image seen so far was of poor quality or spoke
  for the candidate, the session is not in the confirmed state, however many samples there were.\<close>

theorem poor_light_never_confirms:
  "\<forall>ob \<in> set obs. weak_obs ob \<Longrightarrow> ac_state (accumulateAll obs) \<noteq> Confirmed_mismatch"
  using weak_acc_accumulateAll by (simp add: weak_acc_def)

theorem poor_light_never_confirms_witness:
  "ac_state (accumulateAll [sampleAt 1000 Poor 5, sampleAt 7000 Poor 5, sampleAt 13000 Poor 5]) \<noteq> Confirmed_mismatch"
  by (rule poor_light_never_confirms) (simp add: weak_obs_def sampleAt_def)




text \<open>C17. The routine sampling interval the client is told stays between 2.5 seconds and 10 minutes, is 2.5 seconds
  while the evidence is suspect, and load on the server only ever stretches it, to at most 30 seconds where it was shorter.\<close>

theorem sampling_interval_bounds:
  assumes "identity_ok p"
  shows "2500 \<le> loadAwareDelayMs p s st u now pressure \<and> loadAwareDelayMs p s st u now pressure \<le> 600000 \<and>
         loadAwareDelayMs p s Suspect u now pressure = 2500 \<and>
         nextSampleDelayMs p s st u now \<le> loadAwareDelayMs p s st u now pressure \<and>
         loadAwareDelayMs p s st u now pressure \<le> max (nextSampleDelayMs p s st u now) 30000"
proof -
  have "loadAwareDelayMs p s Suspect u now pressure = nextSampleDelayMs p s Suspect u now"
    by (simp add: loadAwareDelayMs_def Let_def)
  then show ?thesis
    using nextSampleDelayMs_bounds[OF assms, of s st u now] nextSampleDelayMs_bounds[OF assms, of s Suspect u now]
      loadAwareDelayMs_bounds[of p s st u now pressure] by (simp add: max_def split: if_splits)
qed

theorem sampling_interval_bounds_witness: "loadAwareDelayMs IDENTITY_DEFAULTS None Suspect 0 0 (1 / 2) = 2500"
  using sampling_interval_bounds[of IDENTITY_DEFAULTS None Consistent 0 0 "1 / 2"]
  by (simp add: identity_ok_def IDENTITY_DEFAULTS_def SAMPLING_MAXIMUM_def)

end
