(* ===== verification/SP_Events.thy ===== *)
theory SP_Events
  imports SP_Clock
begin

text \<open>
  packages/shared/src/events.ts: the event taxonomy. The catalog, not the client,
  decides an event's category, severity, admissible sources and whether it is a span.
  The texts of the catalog (titles, sentences, reviewer notes) influence nothing and are left out.
\<close>

datatype event_category = Cat_integrity | Cat_uncertain | Cat_technical | Cat_neutral | Cat_exception
datatype severity = Sev_info | Sev_low | Sev_medium | Sev_high
datatype event_source = Src_client_vision | Src_client_browser | Src_server_identity | Src_server_system | Src_staff

datatype event_type =
    Ev_identity_mismatch | Ev_multiple_people | Ev_candidate_absent | Ev_looking_away
    | Ev_repeated_looking_away | Ev_offscreen_attention_pattern | Ev_unusual_movement | Ev_phone_detected
    | Ev_unauthorized_object | Ev_camera_covered | Ev_camera_feed_suspect | Ev_tab_hidden
    | Ev_window_unfocused | Ev_fullscreen_exited | Ev_clipboard_attempt | Ev_multiple_instances
    | Ev_screen_share_stopped | Ev_identity_unverifiable | Ev_face_obstructed | Ev_lighting_unusable
    | Ev_camera_disconnected | Ev_camera_permission_lost | Ev_camera_frozen | Ev_reporting_interrupted
    | Ev_monitoring_degraded | Ev_recording_interrupted | Ev_session_started | Ev_checkin_completed
    | Ev_reference_created | Ev_id_photo_compared | Ev_identity_verified | Ev_pause_requested
    | Ev_pause_denied | Ev_session_paused | Ev_session_resumed | Ev_unobserved_period | Ev_camera_changed
    | Ev_environment_changed | Ev_additional_display_detected | Ev_session_held | Ev_hold_released
    | Ev_session_submitted | Ev_session_expired | Ev_session_terminated | Ev_time_extended | Ev_score_regraded
    | Ev_accommodations_applied | Ev_identity_verified_by_staff | Ev_review_completed | Ev_review_reopened
    | Ev_session_rescheduled | Ev_session_reopened

text \<open>The names of the event types, in the order of the constructors.\<close>

definition EVENT_TYPES :: "string list" where
  "EVENT_TYPES =
     [''identity_mismatch'', ''multiple_people'', ''candidate_absent'', ''looking_away'', ''repeated_looking_away'',
      ''offscreen_attention_pattern'', ''unusual_movement'', ''phone_detected'', ''unauthorized_object'',
      ''camera_covered'', ''camera_feed_suspect'', ''tab_hidden'', ''window_unfocused'', ''fullscreen_exited'',
      ''clipboard_attempt'', ''multiple_instances'', ''screen_share_stopped'', ''identity_unverifiable'',
      ''face_obstructed'', ''lighting_unusable'', ''camera_disconnected'', ''camera_permission_lost'',
      ''camera_frozen'', ''reporting_interrupted'', ''monitoring_degraded'', ''recording_interrupted'',
      ''session_started'', ''checkin_completed'', ''reference_created'', ''id_photo_compared'',
      ''identity_verified'', ''pause_requested'', ''pause_denied'', ''session_paused'', ''session_resumed'',
      ''unobserved_period'', ''camera_changed'', ''environment_changed'', ''additional_display_detected'',
      ''session_held'', ''hold_released'', ''session_submitted'', ''session_expired'', ''session_terminated'',
      ''time_extended'', ''score_regraded'', ''accommodations_applied'', ''identity_verified_by_staff'',
      ''review_completed'', ''review_reopened'', ''session_rescheduled'', ''session_reopened'']"

record event_catalog_entry =
  ce_category :: event_category
  ce_severity :: severity
  ce_sources :: "event_source list"
  ce_span :: bool

definition entry :: "event_category \<Rightarrow> severity \<Rightarrow> event_source list \<Rightarrow> bool \<Rightarrow> event_catalog_entry" where
  "entry c s src isSpan = \<lparr>ce_category = c, ce_severity = s, ce_sources = src, ce_span = isSpan\<rparr>"

definition INTEGRITY_EVENTS :: "(event_type \<times> event_catalog_entry) list" where
  "INTEGRITY_EVENTS = [
     (Ev_identity_mismatch, entry Cat_integrity Sev_high [Src_server_identity] True),
     (Ev_multiple_people, entry Cat_integrity Sev_high [Src_client_vision] True),
     (Ev_candidate_absent, entry Cat_integrity Sev_medium [Src_client_vision] True),
     (Ev_looking_away, entry Cat_integrity Sev_low [Src_client_vision] True),
     (Ev_repeated_looking_away, entry Cat_integrity Sev_low [Src_client_vision] True),
     (Ev_offscreen_attention_pattern, entry Cat_integrity Sev_medium [Src_client_vision] True),
     (Ev_unusual_movement, entry Cat_integrity Sev_low [Src_client_vision] True),
     (Ev_phone_detected, entry Cat_integrity Sev_high [Src_client_vision] True),
     (Ev_unauthorized_object, entry Cat_integrity Sev_medium [Src_client_vision] True),
     (Ev_camera_covered, entry Cat_integrity Sev_medium [Src_client_vision] True),
     (Ev_camera_feed_suspect, entry Cat_integrity Sev_high [Src_client_vision, Src_server_identity] True),
     (Ev_tab_hidden, entry Cat_integrity Sev_medium [Src_client_browser] True),
     (Ev_window_unfocused, entry Cat_integrity Sev_low [Src_client_browser] True),
     (Ev_fullscreen_exited, entry Cat_integrity Sev_low [Src_client_browser] True),
     (Ev_clipboard_attempt, entry Cat_integrity Sev_low [Src_client_browser] True),
     (Ev_multiple_instances, entry Cat_integrity Sev_medium [Src_server_system] False),
     (Ev_screen_share_stopped, entry Cat_integrity Sev_low [Src_client_browser] True)]"

definition UNCERTAIN_EVENTS :: "(event_type \<times> event_catalog_entry) list" where
  "UNCERTAIN_EVENTS = [
     (Ev_identity_unverifiable, entry Cat_uncertain Sev_medium [Src_server_identity] True),
     (Ev_face_obstructed, entry Cat_uncertain Sev_low [Src_client_vision] True),
     (Ev_lighting_unusable, entry Cat_uncertain Sev_low [Src_client_vision] True),
     (Ev_camera_disconnected, entry Cat_technical Sev_medium [Src_client_vision] True),
     (Ev_camera_permission_lost, entry Cat_technical Sev_medium [Src_client_vision] True),
     (Ev_camera_frozen, entry Cat_technical Sev_medium [Src_client_vision] True),
     (Ev_reporting_interrupted, entry Cat_technical Sev_low [Src_server_system] True),
     (Ev_monitoring_degraded, entry Cat_technical Sev_low [Src_client_vision] True),
     (Ev_recording_interrupted, entry Cat_technical Sev_low [Src_client_browser] True)]"

definition SESSION_EVENTS :: "(event_type \<times> event_catalog_entry) list" where
  "SESSION_EVENTS = [
     (Ev_session_started, entry Cat_neutral Sev_info [Src_server_system] False),
     (Ev_checkin_completed, entry Cat_neutral Sev_info [Src_server_system] False),
     (Ev_reference_created, entry Cat_neutral Sev_info [Src_server_identity] False),
     (Ev_id_photo_compared, entry Cat_neutral Sev_info [Src_server_identity] False),
     (Ev_identity_verified, entry Cat_neutral Sev_info [Src_server_identity] False),
     (Ev_pause_requested, entry Cat_neutral Sev_info [Src_server_system] False),
     (Ev_pause_denied, entry Cat_neutral Sev_info [Src_server_system, Src_staff] False),
     (Ev_session_paused, entry Cat_neutral Sev_info [Src_server_system] False),
     (Ev_session_resumed, entry Cat_neutral Sev_info [Src_server_system] False),
     (Ev_unobserved_period, entry Cat_neutral Sev_info [Src_server_system] True),
     (Ev_camera_changed, entry Cat_neutral Sev_info [Src_client_vision, Src_server_system] False),
     (Ev_environment_changed, entry Cat_neutral Sev_info [Src_client_vision, Src_server_identity] False),
     (Ev_additional_display_detected, entry Cat_neutral Sev_info [Src_client_browser] False),
     (Ev_session_held, entry Cat_neutral Sev_info [Src_server_system, Src_staff] False),
     (Ev_hold_released, entry Cat_neutral Sev_info [Src_staff, Src_server_system] False),
     (Ev_session_submitted, entry Cat_neutral Sev_info [Src_server_system] False),
     (Ev_session_expired, entry Cat_neutral Sev_info [Src_server_system] False),
     (Ev_session_terminated, entry Cat_neutral Sev_info [Src_staff] False),
     (Ev_time_extended, entry Cat_neutral Sev_info [Src_staff] False),
     (Ev_score_regraded, entry Cat_neutral Sev_info [Src_staff] False),
     (Ev_accommodations_applied, entry Cat_exception Sev_info [Src_server_system] False),
     (Ev_identity_verified_by_staff, entry Cat_exception Sev_info [Src_staff] False),
     (Ev_review_completed, entry Cat_neutral Sev_info [Src_staff] False),
     (Ev_review_reopened, entry Cat_neutral Sev_info [Src_staff] False),
     (Ev_session_rescheduled, entry Cat_neutral Sev_info [Src_staff] False),
     (Ev_session_reopened, entry Cat_neutral Sev_info [Src_staff] False)]"

lemmas catalog_lists = INTEGRITY_EVENTS_def UNCERTAIN_EVENTS_def SESSION_EVENTS_def

definition EVENT_CATALOG :: "event_type \<Rightarrow> event_catalog_entry" where
  "EVENT_CATALOG t = the (map_of (INTEGRITY_EVENTS @ UNCERTAIN_EVENTS @ SESSION_EVENTS) t)"




fun severityRank :: "severity \<Rightarrow> nat" where
  "severityRank Sev_info = 0"
| "severityRank Sev_low = 1"
| "severityRank Sev_medium = 2"
| "severityRank Sev_high = 3"

text \<open>The severity order as a linear order, so that the library's sorting and maxima apply.\<close>

instantiation severity :: linorder
begin

definition less_eq_severity :: "severity \<Rightarrow> severity \<Rightarrow> bool" where
  "less_eq_severity a b \<longleftrightarrow> severityRank a \<le> severityRank b"
definition less_severity :: "severity \<Rightarrow> severity \<Rightarrow> bool" where
  "less_severity a b \<longleftrightarrow> severityRank a < severityRank b"

instance
proof
  fix x y z :: severity
  show "x < y \<longleftrightarrow> x \<le> y \<and> \<not> y \<le> x" by (auto simp: less_eq_severity_def less_severity_def)
  show "x \<le> x" by (simp add: less_eq_severity_def)
  show "x \<le> y \<Longrightarrow> y \<le> z \<Longrightarrow> x \<le> z" by (simp add: less_eq_severity_def)
  show "x \<le> y \<Longrightarrow> y \<le> x \<Longrightarrow> x = y" by (cases x; cases y) (simp_all add: less_eq_severity_def)
  show "x \<le> y \<or> y \<le> x" by (auto simp: less_eq_severity_def)
qed

end

text \<open>Every type has an entry in the catalog, and exactly one.\<close>

lemma catalog_distinct: "distinct (map fst (INTEGRITY_EVENTS @ UNCERTAIN_EVENTS @ SESSION_EVENTS))"
  by (simp add: catalog_lists)

lemma catalog_total: "map_of (INTEGRITY_EVENTS @ UNCERTAIN_EVENTS @ SESSION_EVENTS) t = Some (EVENT_CATALOG t)"
proof -
  have "map_of (INTEGRITY_EVENTS @ UNCERTAIN_EVENTS @ SESSION_EVENTS) t \<noteq> None"
    by (cases t) (simp_all add: catalog_lists)
  then show ?thesis by (simp add: EVENT_CATALOG_def)
qed

lemma catalog_eqs:
  "EVENT_CATALOG Ev_unobserved_period = entry Cat_neutral Sev_info [Src_server_system] True"
  "EVENT_CATALOG Ev_reporting_interrupted = entry Cat_technical Sev_low [Src_server_system] True"
  "EVENT_CATALOG Ev_identity_unverifiable = entry Cat_uncertain Sev_medium [Src_server_identity] True"
  by (simp_all add: EVENT_CATALOG_def catalog_lists)

lemma lifecycle_markers [simp]:
  "\<not> ce_span (EVENT_CATALOG Ev_session_started)" "\<not> ce_span (EVENT_CATALOG Ev_session_paused)"
  "\<not> ce_span (EVENT_CATALOG Ev_session_held)" "\<not> ce_span (EVENT_CATALOG Ev_hold_released)"
  "\<not> ce_span (EVENT_CATALOG Ev_session_submitted)" "\<not> ce_span (EVENT_CATALOG Ev_session_expired)"
  "\<not> ce_span (EVENT_CATALOG Ev_session_terminated)" "\<not> ce_span (EVENT_CATALOG Ev_time_extended)"
  "\<not> ce_span (EVENT_CATALOG Ev_session_reopened)" "\<not> ce_span (EVENT_CATALOG Ev_session_rescheduled)"
  "\<not> ce_span (EVENT_CATALOG Ev_accommodations_applied)" "\<not> ce_span (EVENT_CATALOG Ev_pause_requested)"
  "\<not> ce_span (EVENT_CATALOG Ev_pause_denied)" "\<not> ce_span (EVENT_CATALOG Ev_multiple_instances)"
  "\<not> ce_span (EVENT_CATALOG Ev_identity_verified_by_staff)"
  by (simp_all add: EVENT_CATALOG_def catalog_lists entry_def)

section \<open>Properties\<close>



end
