(* ===== verification/SP_Scheduling.thy ===== *)
theory SP_Scheduling
  imports SP_Clock
begin

text \<open>
  packages/shared/src/scheduling.ts and the pure part of
  apps/server/src/services/scheduling.ts: scheduling windows (when an exam may be
  started) and the rules for reopening an ended exam.
\<close>

section \<open>Scheduling windows\<close>

record session_window =
  w_startsAt :: "ms option"
  w_endsAt :: "ms option"

definition CHECK_IN_LEAD_MS :: ms where
  "CHECK_IN_LEAD_MS = 30 * 60000"
definition MIN_WINDOW_MS :: ms where
  "MIN_WINDOW_MS = 5 * 60000"
definition MAX_SCHEDULE_AHEAD_MS :: ms where
  "MAX_SCHEDULE_AHEAD_MS = 2 * 366 * 24 * 3600000"

lemmas window_consts = CHECK_IN_LEAD_MS_def MIN_WINDOW_MS_def MAX_SCHEDULE_AHEAD_MS_def

datatype window_phase = Before_check_in | Check_in | Open_window | Closed_window

definition windowPhase :: "session_window option \<Rightarrow> ms \<Rightarrow> window_phase" where
  "windowPhase w now = (case w of None \<Rightarrow> Open_window | Some w \<Rightarrow>
     (if (case w_endsAt w of Some e \<Rightarrow> now \<ge> e | None \<Rightarrow> False) then Closed_window
      else if (case w_startsAt w of Some s \<Rightarrow> now < s - CHECK_IN_LEAD_MS | None \<Rightarrow> False) then Before_check_in
      else if (case w_startsAt w of Some s \<Rightarrow> now < s | None \<Rightarrow> False) then Check_in
      else Open_window))"

definition windowPoints :: "session_window \<Rightarrow> ms option list" where
  "windowPoints w = [map_option (\<lambda>s. s - CHECK_IN_LEAD_MS) (w_startsAt w), w_startsAt w, w_endsAt w]"

fun somes :: "'a option list \<Rightarrow> 'a list" where
  "somes [] = []"
| "somes (None # xs) = somes xs"
| "somes (Some x # xs) = x # somes xs"

definition nextWindowBoundary :: "session_window option \<Rightarrow> ms \<Rightarrow> ms option" where
  "nextWindowBoundary w now = (case w of None \<Rightarrow> None | Some w \<Rightarrow>
     (case filter (\<lambda>t. t > now) (somes (windowPoints w)) of [] \<Rightarrow> None | t # ts \<Rightarrow> Some (fold min ts t)))"

definition hasWindow :: "session_window option \<Rightarrow> bool" where
  "hasWindow w = (case w of None \<Rightarrow> False | Some w \<Rightarrow> w_startsAt w \<noteq> None \<or> w_endsAt w \<noteq> None)"

datatype window_problem = Invalid_time | Too_far_ahead | Closes_before_opening | Too_short | Already_closed

definition boundProblem :: "ms option \<Rightarrow> ms \<Rightarrow> window_problem option" where
  "boundProblem b now = (case b of None \<Rightarrow> None | Some t \<Rightarrow>
     (if t < 0 then Some Invalid_time
      else if t > now + MAX_SCHEDULE_AHEAD_MS then Some Too_far_ahead else None))"

definition windowProblem :: "session_window \<Rightarrow> ms \<Rightarrow> window_problem option" where
  "windowProblem w now =
     orElse (boundProblem (w_startsAt w) now) (orElse (boundProblem (w_endsAt w) now)
       (if (case (w_startsAt w, w_endsAt w) of (Some s, Some e) \<Rightarrow> e \<le> s | _ \<Rightarrow> False) then Some Closes_before_opening
        else if (case (w_startsAt w, w_endsAt w) of (Some s, Some e) \<Rightarrow> e - s < MIN_WINDOW_MS | _ \<Rightarrow> False) then Some Too_short
        else if (case w_endsAt w of Some e \<Rightarrow> e \<le> now | None \<Rightarrow> False) then Some Already_closed
        else None))"

definition acceptWindow :: "session_window option \<Rightarrow> ms \<Rightarrow> session_window option result" where
  "acceptWindow input now = (case input of None \<Rightarrow> Inr None | Some w \<Rightarrow>
     (if \<not> hasWindow (Some w) then Inr None
      else if windowProblem w now \<noteq> None then Inl validationFailed
      else Inr (Some \<lparr>w_startsAt = w_startsAt w, w_endsAt = w_endsAt w\<rparr>)))"

datatype window_action = A_check_in | A_start

definition assertWindowAllows :: "session_window option \<Rightarrow> window_action \<Rightarrow> ms \<Rightarrow> ms \<Rightarrow> unit result" where
  "assertWindowAllows w action now requestedAt =
     (if w = None then Inr ()
      else if windowPhase w (min now requestedAt) = Closed_window then Inl (conflict ''exam_window_closed'')
      else let phase = windowPhase w now in
        if phase = Before_check_in \<or> (action = A_start \<and> phase = Check_in)
        then Inl (conflict ''exam_window_not_open'') else Inr ())"

definition sameWindow :: "session_window option \<Rightarrow> session_window option \<Rightarrow> bool" where
  "sameWindow a b \<longleftrightarrow>
     Option.bind a w_startsAt = Option.bind b w_startsAt \<and> Option.bind a w_endsAt = Option.bind b w_endsAt"

lemmas window_defs = windowPhase_def nextWindowBoundary_def windowPoints_def window_consts


lemma set_somes: "x \<in> set (somes xs) \<longleftrightarrow> Some x \<in> set xs"
  by (induction xs rule: somes.induct) auto


lemma nextWindowBoundary_None:
  "nextWindowBoundary (Some w) now = None \<Longrightarrow> Some u \<in> set (windowPoints w) \<Longrightarrow> u \<le> now"
  by (auto simp: nextWindowBoundary_def set_somes[symmetric] filter_empty_conv split: list.splits)


text \<open>A window the server accepts closes at least five minutes after it opens.\<close>

definition wf_window :: "session_window \<Rightarrow> bool" where
  "wf_window w \<longleftrightarrow> (\<forall>s e. w_startsAt w = Some s \<longrightarrow> w_endsAt w = Some e \<longrightarrow> s + MIN_WINDOW_MS \<le> e)"

lemma windowProblem_None_wf: "windowProblem w now = None \<Longrightarrow> wf_window w"
  by (auto simp: windowProblem_def wf_window_def orElse_def split: option.splits if_splits)

lemma acceptWindow_wf: "acceptWindow i now = Inr (Some w) \<Longrightarrow> wf_window w \<and> hasWindow (Some w)"
  by (auto simp: acceptWindow_def hasWindow_def wf_window_def dest: windowProblem_None_wf split: option.splits if_splits)

fun phaseRank :: "window_phase \<Rightarrow> nat" where
  "phaseRank Before_check_in = 0"
| "phaseRank Check_in = 1"
| "phaseRank Open_window = 2"
| "phaseRank Closed_window = 3"

lemma windowPhase_mono: "t \<le> t' \<Longrightarrow> phaseRank (windowPhase w t) \<le> phaseRank (windowPhase w t')"
  by (auto simp: windowPhase_def window_consts split: option.splits)



text \<open>When a start is let through: the opening has come, and the window had not closed when it was asked for.\<close>

lemma assertWindowAllows_start:
  "assertWindowAllows w A_start now requestedAt = Inr () \<longleftrightarrow>
     (case w of None \<Rightarrow> True | Some w \<Rightarrow>
        (\<forall>s. w_startsAt w = Some s \<longrightarrow> s \<le> now \<or> (\<exists>e. w_endsAt w = Some e \<and> e \<le> now)) \<and>
        (\<forall>e. w_endsAt w = Some e \<longrightarrow> min now requestedAt < e))"
  by (auto simp: assertWindowAllows_def windowPhase_def Let_def window_consts split: option.splits if_splits)

section \<open>Reopening an ended exam\<close>

definition REOPENABLE_END_REASONS :: "end_reason list" where
  "REOPENABLE_END_REASONS = [E_time_expired, E_staff_submitted, E_staff_terminated, E_abandoned, E_resume_limit]"

definition REOPEN_MAX_ADD_MINUTES :: int where
  "REOPEN_MAX_ADD_MINUTES = 24 * 60"
definition REOPEN_MIN_REMAINING_MS :: ms where
  "REOPEN_MIN_REMAINING_MS = 60000"

datatype reopen_refusal =
  Not_ended | Candidate_submitted | Consent_withdrawn | End_reason_refused | Evidence_purged | Reference_missing | Review_resolved

fun reopenRefusalCode :: "reopen_refusal \<Rightarrow> string" where
  "reopenRefusalCode Not_ended = ''not_ended''"
| "reopenRefusalCode Candidate_submitted = ''candidate_submitted''"
| "reopenRefusalCode Consent_withdrawn = ''consent_withdrawn''"
| "reopenRefusalCode End_reason_refused = ''end_reason''"
| "reopenRefusalCode Evidence_purged = ''evidence_purged''"
| "reopenRefusalCode Reference_missing = ''reference_missing''"
| "reopenRefusalCode Review_resolved = ''review_resolved''"

record reopen_eligibility =
  re_allowed :: bool
  re_code :: "reopen_refusal option"
  re_started :: bool
  re_remainingMs :: ms

record reopen_facts =
  rf_status :: session_status
  rf_endReason :: "end_reason option"
  rf_startedAt :: "ms option"
  rf_evidencePurgedAt :: "ms option"
  rf_hasReference :: bool
  rf_staffVerified :: bool
  rf_reviewResolved :: bool
  rf_remainingMs :: ms

definition reopenEligibility :: "reopen_facts \<Rightarrow> reopen_eligibility" where
  "reopenEligibility f =
     (let started = rf_startedAt f \<noteq> None;
          refuse = (\<lambda>c. \<lparr>re_allowed = False, re_code = Some c, re_started = started, re_remainingMs = max 0 (rf_remainingMs f)\<rparr>)
      in if rf_status f \<noteq> Submitted \<and> rf_status f \<noteq> Terminated then refuse Not_ended
         else if rf_endReason f = Some E_candidate_submitted then refuse Candidate_submitted
         else if rf_endReason f = Some E_candidate_withdrew then refuse Consent_withdrawn
         else if (case rf_endReason f of None \<Rightarrow> True | Some r \<Rightarrow> r \<notin> set REOPENABLE_END_REASONS) then refuse End_reason_refused
         else if rf_evidencePurgedAt f \<noteq> None then refuse Evidence_purged
         else if rf_reviewResolved f then refuse Review_resolved
         else if started \<and> \<not> rf_staffVerified f \<and> \<not> rf_hasReference f then refuse Reference_missing
         else \<lparr>re_allowed = True, re_code = None, re_started = started, re_remainingMs = max 0 (rf_remainingMs f)\<rparr>)"

lemma reopenEligibility_code: "re_allowed (reopenEligibility f) \<longleftrightarrow> re_code (reopenEligibility f) = None"
  by (simp add: reopenEligibility_def Let_def split: option.split)

lemma reopenEligibility_allowed:
  "re_allowed (reopenEligibility f) \<Longrightarrow>
     terminal (rf_status f) \<and> (\<exists>r. rf_endReason f = Some r \<and> r \<in> set REOPENABLE_END_REASONS) \<and>
     rf_evidencePurgedAt f = None \<and> \<not> rf_reviewResolved f \<and>
     (rf_startedAt f \<noteq> None \<longrightarrow> rf_staffVerified f \<or> rf_hasReference f)"
  by (cases "rf_status f") (auto simp: reopenEligibility_def Let_def split: if_splits option.splits)

section \<open>Properties\<close>




text \<open>C20. An exam start is let through exactly when the window has opened and had not closed when the
  candidate asked for it: a start asked for in time but delayed (the server's short deferral) still goes through,
  one asked for after the close never does.\<close>

theorem start_allowed_iff_window_open:
  "wf_window w \<Longrightarrow> assertWindowAllows (Some w) A_start now requestedAt = Inr () \<longleftrightarrow>
     (case w_startsAt w of None \<Rightarrow> True | Some s \<Rightarrow> s \<le> now) \<and>
     (case w_endsAt w of None \<Rightarrow> True | Some e \<Rightarrow> min now requestedAt < e)"
  by (cases "w_startsAt w"; cases "w_endsAt w") (auto simp: assertWindowAllows_start wf_window_def window_consts)

theorem start_allowed_iff_window_open_witness:
  "assertWindowAllows (Some \<lparr>w_startsAt = Some 1000, w_endsAt = Some 9000000\<rparr>) A_start 9000010 8999990 = Inr ()"
  by (subst start_allowed_iff_window_open) (simp_all add: wf_window_def window_consts)


end
