(* ===== verification/SP_Grading.thy ===== *)
theory SP_Grading
  imports SP_Prelude
begin

text \<open>
  apps/server/src/services/grading.ts: grading one answer and scoring an attempt.

  Text normalisation (Unicode NFKC, white space, case) and the parsing of a number
  out of text are language facilities on Unicode strings; they are the argument
  \<open>text_ops\<close> of the definitions. An answer value is a text, a number, or a list of option ids.
\<close>

record text_ops =
  to_normalizeText :: "string \<Rightarrow> string"
  to_parseNumber :: "string \<Rightarrow> real option"
  \<comment> \<open>the number's text split at a tolerance sign or bar\<close>
  to_splitTolerance :: "string \<Rightarrow> string \<times> string option"
  to_showNumber :: "real \<Rightarrow> string"

datatype answer_value = Text string | Number real | Options "string list"

datatype question_type = Single_choice | Multiple_choice | Short_text | Long_text | Numeric

record question =
  q_id :: ident
  q_type :: question_type
  q_correct :: "string list"
  q_points :: real

fun toNumber :: "text_ops \<Rightarrow> answer_value \<Rightarrow> real option" where
  "toNumber ops (Number r) = Some r"
| "toNumber ops (Text t) = to_parseNumber ops t"
| "toNumber ops (Options _) = None"

fun optionIds :: "text_ops \<Rightarrow> answer_value \<Rightarrow> string list" where
  "optionIds ops (Options os) = os"
| "optionIds ops (Text t) = [t]"
| "optionIds ops (Number r) = [to_showNumber ops r]"

definition numericMatches :: "text_ops \<Rightarrow> real \<Rightarrow> string \<Rightarrow> bool" where
  "numericMatches ops v c =
     (case to_splitTolerance ops c of (base, tolStr) \<Rightarrow>
        (case to_parseNumber ops base of
           None \<Rightarrow> False
         | Some target \<Rightarrow>
             (let tol = (case tolStr of Some t \<Rightarrow> nullish (to_parseNumber ops t) 0
                         | None \<Rightarrow> max (1 / 10 ^ 9) (1 / 10 ^ 6 * \<bar>target\<bar>))
              in \<bar>v - target\<bar> \<le> \<bar>tol\<bar> + 1 / 10 ^ 12)))"

definition isAnswerCorrect :: "text_ops \<Rightarrow> question_type \<Rightarrow> string list \<Rightarrow> answer_value option \<Rightarrow> bool option" where
  "isAnswerCorrect ops type correct value =
     (if type = Long_text \<or> correct = [] then None
      else case value of None \<Rightarrow> Some False | Some v \<Rightarrow>
        (case type of
           Single_choice \<Rightarrow> Some (case optionIds ops v of [x] \<Rightarrow> x = hd correct | _ \<Rightarrow> False)
         | Multiple_choice \<Rightarrow>
             Some (card (set (optionIds ops v)) = card (set correct) \<and> list_all (\<lambda>x. x \<in> set correct) (optionIds ops v))
         | Short_text \<Rightarrow> (case v of Options _ \<Rightarrow> Some False
             | _ \<Rightarrow> (let t = to_normalizeText ops (hd (optionIds ops v))
                    in Some (t \<noteq> [] \<and> list_ex (\<lambda>c. to_normalizeText ops c = t) correct)))
         | Numeric \<Rightarrow> (case toNumber ops v of None \<Rightarrow> Some False | Some r \<Rightarrow> Some (list_ex (numericMatches ops r) correct))
         | Long_text \<Rightarrow> None))"

record question_score =
  qs_questionId :: ident
  qs_points :: real
  qs_maxPoints :: real
  qs_correct :: "bool option"

record session_score =
  sc_points :: real
  sc_maxPoints :: real
  sc_autoGraded :: bool
  sc_gradedAt :: ms
  sc_perQuestion :: "question_score list"
  sc_keysVersionId :: "ident option"

definition round3 :: "real \<Rightarrow> real" where
  "round3 v = of_int (mathRound (v * 1000)) / 1000"

definition scoreQuestion :: "text_ops \<Rightarrow> (ident \<rightharpoonup> answer_value) \<Rightarrow> question \<Rightarrow> question_score" where
  "scoreQuestion ops answers q =
     (let correct = isAnswerCorrect ops (q_type q) (q_correct q) (answers (q_id q))
      in \<lparr>qs_questionId = q_id q, qs_points = (if correct = Some True then q_points q else 0),
          qs_maxPoints = q_points q, qs_correct = correct\<rparr>)"

text \<open>The loop over the questions: points, maximum, whether all were graded, and the rows.\<close>

definition scoreStep :: "text_ops \<Rightarrow> (ident \<rightharpoonup> answer_value) \<Rightarrow> question \<Rightarrow> real \<times> real \<times> bool \<times> question_score list \<Rightarrow> real \<times> real \<times> bool \<times> question_score list" where
  "scoreStep ops answers q = (\<lambda>(points, maxPoints, auto, rows).
     (let row = scoreQuestion ops answers q
      in (points + qs_points row, maxPoints + q_points q, auto \<and> qs_correct row \<noteq> None, rows @ [row])))"

definition scoreAnswers :: "text_ops \<Rightarrow> question list \<Rightarrow> (ident \<rightharpoonup> answer_value) \<Rightarrow> ms \<Rightarrow> ident option \<Rightarrow> session_score" where
  "scoreAnswers ops qs answers now keysVersionId =
     (case fold (scoreStep ops answers) qs (0, 0, True, []) of (points, maxPoints, auto, rows) \<Rightarrow>
        \<lparr>sc_points = round3 points, sc_maxPoints = maxPoints, sc_autoGraded = auto, sc_gradedAt = now,
         sc_perQuestion = rows, sc_keysVersionId = keysVersionId\<rparr>)"

lemma fold_scoreStep:
  "fold (scoreStep ops answers) qs (p, m, a, r) =
     (p + sum_list (map (qs_points \<circ> scoreQuestion ops answers) qs), m + sum_list (map q_points qs),
      a \<and> (\<forall>q \<in> set qs. qs_correct (scoreQuestion ops answers q) \<noteq> None), r @ map (scoreQuestion ops answers) qs)"
  by (induction qs arbitrary: p m a r) (auto simp: scoreStep_def Let_def)

lemma scoreAnswers_eq:
  "scoreAnswers ops qs answers now k = \<lparr>sc_points = round3 (sum_list (map (qs_points \<circ> scoreQuestion ops answers) qs)),
     sc_maxPoints = sum_list (map q_points qs),
     sc_autoGraded = (\<forall>q \<in> set qs. qs_correct (scoreQuestion ops answers q) \<noteq> None), sc_gradedAt = now,
     sc_perQuestion = map (scoreQuestion ops answers) qs, sc_keysVersionId = k\<rparr>"
  by (simp add: scoreAnswers_def fold_scoreStep)

lemma round3_mono: "x \<le> y \<Longrightarrow> round3 x \<le> round3 y"
  by (simp add: round3_def divide_right_mono mathRound_mono)

lemma round3_error: "\<bar>round3 x - x\<bar> \<le> 1 / 2000"
  using mathRound_bounds[of "x * 1000"] unfolding round3_def by linarith

lemma points_le_max:
  "\<forall>q \<in> set qs. 0 \<le> q_points q \<Longrightarrow>
     0 \<le> sum_list (map (qs_points \<circ> scoreQuestion ops answers) qs) \<and>
     sum_list (map (qs_points \<circ> scoreQuestion ops answers) qs) \<le> sum_list (map q_points qs)"
  by (induction qs) (auto simp: scoreQuestion_def Let_def)

lemma multipleChoice_set:
  assumes "correct \<noteq> []"
  shows "isAnswerCorrect ops Multiple_choice correct (Some (Options os)) = Some (set os = set correct)"
proof -
  have "card (set os) = card (set correct) \<and> list_all (\<lambda>x. x \<in> set correct) os \<longleftrightarrow> set os = set correct"
    unfolding list_all_iff using card_subset_eq[of "set correct" "set os"] by (auto simp: subset_iff)
  then show ?thesis using assms by (simp add: isAnswerCorrect_def)
qed

section \<open>Properties\<close>

text \<open>C24. A score is the sum of its rows and stays within the exam: one row per question in order, the points
  within half a thousandth of the sum of the rows' points, and never below zero or above the maximum by more than that.\<close>

theorem score_is_sum_of_rows:
  assumes "\<forall>q \<in> set qs. 0 \<le> q_points q"
  shows "map qs_questionId (sc_perQuestion (scoreAnswers ops qs answers now k)) = map q_id qs \<and>
         sc_maxPoints (scoreAnswers ops qs answers now k) = sum_list (map qs_maxPoints (sc_perQuestion (scoreAnswers ops qs answers now k))) \<and>
         \<bar>sc_points (scoreAnswers ops qs answers now k) - sum_list (map qs_points (sc_perQuestion (scoreAnswers ops qs answers now k)))\<bar> \<le> 1 / 2000 \<and>
         0 \<le> sc_points (scoreAnswers ops qs answers now k) \<and>
         sc_points (scoreAnswers ops qs answers now k) \<le> round3 (sc_maxPoints (scoreAnswers ops qs answers now k))"
proof -
  let ?s = "sum_list (map (qs_points \<circ> scoreQuestion ops answers) qs)"
  have row: "qs_questionId (scoreQuestion ops answers q) = q_id q" "qs_maxPoints (scoreQuestion ops answers q) = q_points q" for q
    by (simp_all add: scoreQuestion_def Let_def)
  have "round3 0 \<le> round3 ?s" "round3 ?s \<le> round3 (sum_list (map q_points qs))"
    using points_le_max[OF assms] by (auto intro: round3_mono)
  moreover have "round3 0 = 0" by (simp add: round3_def mathRound_def)
  ultimately show ?thesis using round3_error[of ?s] by (simp add: scoreAnswers_eq row comp_def)
qed

definition oneQuestion :: question where
  "oneQuestion = \<lparr>q_id = ''q1'', q_type = Single_choice, q_correct = [''b''], q_points = 2\<rparr>"

theorem score_is_sum_of_rows_witness:
  "0 \<le> sc_points (scoreAnswers \<lparr>to_normalizeText = id, to_parseNumber = (\<lambda>_. None), to_splitTolerance = (\<lambda>s. (s, None)),
     to_showNumber = (\<lambda>_. [])\<rparr> [oneQuestion] [''q1'' \<mapsto> Text ''b''] 0 None)"
  by (rule score_is_sum_of_rows[THEN conjunct2, THEN conjunct2, THEN conjunct2, THEN conjunct1]) (simp add: oneQuestion_def)

end
