(* ===== verification/SP_Instance_Usage.thy ===== *)
theory SP_Instance_Usage
  imports SP_Clock
begin

text \<open>
  apps/server/src/services/instance-usage.ts: detection of concurrent use of the
  verified browser instance. The record keeps hashes only; an observation carries the
  already hashed network (with its address family), address and user agent, so the
  hash function is not part of the model.
\<close>

definition CONCURRENT_USE_WINDOW_MS :: ms where "CONCURRENT_USE_WINDOW_MS = 60000"
definition ALTERNATION_MIN_SWITCHES :: nat where "ALTERNATION_MIN_SWITCHES = 3"
definition SEQ_REORDER_TOLERANCE :: int where "SEQ_REORDER_TOLERANCE = 2"
definition MAX_NETS :: nat where "MAX_NETS = 12"
definition MAX_IPS :: nat where "MAX_IPS = 6"
definition MAX_STREAMS :: nat where "MAX_STREAMS = 4"
definition NET_HISTORY_MS :: ms where "NET_HISTORY_MS = 10 * 60000"
definition REFRESH_MS :: ms where "REFRESH_MS = 15000"

lemmas usage_consts = CONCURRENT_USE_WINDOW_MS_def ALTERNATION_MIN_SWITCHES_def SEQ_REORDER_TOLERANCE_def MAX_NETS_def
  MAX_IPS_def MAX_STREAMS_def NET_HISTORY_MS_def REFRESH_MS_def

datatype family = IPv4 | IPv6

record net_hash =
  nh_family :: family
  nh_hash :: string

record net_run =
  nr_net :: net_hash
  nr_firstAt :: ms
  nr_lastAt :: ms

record seq_stream =
  ss_last :: int
  ss_at :: ms

record seq_state =
  sq_streams :: "seq_stream list"
  sq_cur :: nat

record instance_usage =
  iu_instanceId :: ident
  iu_uaHash :: string
  iu_nets :: "net_run list"
  iu_ipHashes :: "string list"
  iu_seq :: "seq_state option"

record usage_observation =
  uo_net :: net_hash
  uo_ipHash :: string
  uo_uaHash :: string
  uo_seq :: "int option"
  uo_at :: ms
  uo_refresh :: bool

datatype concurrent_use_signal = Ua_changed | Seq_interleaved | Ip_alternating

record usage_verdict =
  uv_usage :: instance_usage
  uv_changed :: bool
  uv_signal :: "concurrent_use_signal option"
  uv_uaChanged :: bool

text \<open>The networks of one family in the window, consecutive repetitions once.\<close>

definition netSequence :: "net_run list \<Rightarrow> family \<Rightarrow> ms \<Rightarrow> net_hash list" where
  "netSequence nets family since = remdups_adj (map nr_net (filter (\<lambda>r. \<not> (nr_lastAt r < since) \<and> nh_family (nr_net r) = family) nets))"

definition alternation :: "net_run list \<Rightarrow> family \<Rightarrow> ms \<Rightarrow> nat \<times> bool" where
  "alternation nets family since =
     (let sequence = netSequence nets family since in (length sequence - 1, card (set sequence) < length sequence))"

definition streamEligible :: "seq_stream \<Rightarrow> int \<Rightarrow> ms \<Rightarrow> bool" where
  "streamEligible s sq now \<longleftrightarrow> \<not> (ss_last s \<ge> sq \<or> now - ss_at s > CONCURRENT_USE_WINDOW_MS)"

text \<open>The scan of \<open>bestStream\<close>: the best index so far over the indices \<open>0 ..< n\<close>.\<close>

primrec bestUpTo :: "seq_state \<Rightarrow> int \<Rightarrow> ms \<Rightarrow> nat \<Rightarrow> nat option" where
  "bestUpTo st sq now 0 = None"
| "bestUpTo st sq now (Suc i) =
     (let best = bestUpTo st sq now i; s = sq_streams st ! i
      in if \<not> streamEligible s sq now then best
         else case best of None \<Rightarrow> Some i
              | Some b \<Rightarrow> (if ss_last s > ss_last (sq_streams st ! b) \<or> (ss_last s = ss_last (sq_streams st ! b) \<and> i = sq_cur st) then Some i else best))"

definition bestStream :: "seq_state \<Rightarrow> int \<Rightarrow> ms \<Rightarrow> nat option" where
  "bestStream st sq now = bestUpTo st sq now (length (sq_streams st))"

definition betterStream :: "seq_state \<Rightarrow> int \<Rightarrow> ms \<Rightarrow> bool" where
  "betterStream st sq now = (case bestStream st sq now of None \<Rightarrow> False
     | Some i \<Rightarrow> i \<noteq> sq_cur st \<and> ss_last (sq_streams st ! i) > ss_last (sq_streams st ! sq_cur st))"

text \<open>Folding one heartbeat sequence number; the second component says that two streams interleave.\<close>

definition observeSeq :: "seq_state option \<Rightarrow> int \<Rightarrow> ms \<Rightarrow> seq_state \<times> bool" where
  "observeSeq st0 sq now =
     (case st0 of
        None \<Rightarrow> (\<lparr>sq_streams = [\<lparr>ss_last = sq, ss_at = now\<rparr>], sq_cur = 0\<rparr>, False)
      | Some st \<Rightarrow>
         (if sq_cur st \<ge> length (sq_streams st) then (\<lparr>sq_streams = [\<lparr>ss_last = sq, ss_at = now\<rparr>], sq_cur = 0\<rparr>, False)
          else let cur = sq_streams st ! sq_cur st
          in if sq > ss_last cur \<and> \<not> betterStream st sq now
             then (st\<lparr>sq_streams := (sq_streams st)[sq_cur st := \<lparr>ss_last = sq, ss_at = now\<rparr>]\<rparr>, False)
             else if sq \<le> ss_last cur \<and> sq \<ge> ss_last cur - SEQ_REORDER_TOLERANCE then (st, False)
             else case bestStream st sq now of
                 Some i \<Rightarrow>
                   (if i \<noteq> sq_cur st
                    then (\<lparr>sq_streams = (sq_streams st)[i := \<lparr>ss_last = sq, ss_at = now\<rparr>], sq_cur = i\<rparr>, now - ss_at cur \<le> CONCURRENT_USE_WINDOW_MS)
                    else (let streams = lastN MAX_STREAMS (sq_streams st @ [\<lparr>ss_last = sq, ss_at = now\<rparr>])
                          in (\<lparr>sq_streams = streams, sq_cur = length streams - 1\<rparr>, False)))
               | None \<Rightarrow>
                   (let streams = lastN MAX_STREAMS (sq_streams st @ [\<lparr>ss_last = sq, ss_at = now\<rparr>])
                    in (\<lparr>sq_streams = streams, sq_cur = length streams - 1\<rparr>, False))))"

text \<open>Folding the network of one request: the runs, whether they changed, whether two networks alternate.\<close>

definition observeNet :: "net_run list \<Rightarrow> net_hash \<Rightarrow> ms \<Rightarrow> bool \<Rightarrow> net_run list \<times> bool \<times> bool" where
  "observeNet nets net now refresh =
     (let same = (nets \<noteq> [] \<and> nr_net (last nets) = net);
          pushed = nets @ [\<lparr>nr_net = net, nr_firstAt = now, nr_lastAt = now\<rparr>];
          (nets', changed, alt) =
            (if same then
               (if refresh \<or> now - nr_lastAt (last nets) \<ge> REFRESH_MS
                then (butlast nets @ [(last nets)\<lparr>nr_lastAt := max (nr_lastAt (last nets)) now\<rparr>], True, False)
                else (nets, False, False))
             else (pushed, True,
                   (let (switches, repeats) = alternation pushed (nh_family net) (now - CONCURRENT_USE_WINDOW_MS)
                    in repeats \<and> switches \<ge> ALTERNATION_MIN_SWITCHES)))
      in (lastN MAX_NETS (filter (\<lambda>r. nr_lastAt r \<ge> now - NET_HISTORY_MS) (butlast nets') @ [last nets']), changed, alt))"

definition observeInstanceUsage :: "instance_usage option \<Rightarrow> ident \<Rightarrow> usage_observation \<Rightarrow> usage_verdict" where
  "observeInstanceUsage prev instanceId ob =
     (let now = uo_at ob;
          fresh = (case prev of None \<Rightarrow> True | Some u \<Rightarrow> iu_instanceId u \<noteq> instanceId);
          u = (case (fresh, prev) of
                 (False, Some u) \<Rightarrow> u
               | _ \<Rightarrow> \<lparr>iu_instanceId = instanceId, iu_uaHash = uo_uaHash ob,
                       iu_nets = [\<lparr>nr_net = uo_net ob, nr_firstAt = now, nr_lastAt = now\<rparr>], iu_ipHashes = [uo_ipHash ob], iu_seq = None\<rparr>);
          uaChanged = (\<not> fresh \<and> iu_uaHash u \<noteq> uo_uaHash ob);
          newIp = (uo_ipHash ob \<notin> set (iu_ipHashes u));
          ips = (if newIp then lastN MAX_IPS (iu_ipHashes u @ [uo_ipHash ob]) else iu_ipHashes u);
          (nets, netChanged, alternating) = (if fresh then (iu_nets u, False, False) else observeNet (iu_nets u) (uo_net ob) now (uo_refresh ob));
          (sq, seqChanged, interleaved) =
            (case uo_seq ob of None \<Rightarrow> (iu_seq u, False, False)
             | Some n \<Rightarrow> (case observeSeq (iu_seq u) n now of (s, i) \<Rightarrow> (Some s, True, i)))
      in \<lparr>uv_usage = u\<lparr>iu_ipHashes := ips, iu_nets := nets, iu_seq := sq\<rparr>,
          uv_changed = (fresh \<or> uo_refresh ob \<or> newIp \<or> netChanged \<or> seqChanged),
          uv_signal = (if uaChanged then Some Ua_changed else if alternating then Some Ip_alternating
                       else if interleaved then Some Seq_interleaved else None),
          uv_uaChanged = uaChanged\<rparr>)"

section \<open>What a signal needs\<close>

lemma bestUpTo_range: "bestUpTo st sq now n = Some i \<Longrightarrow> i < n \<and> streamEligible (sq_streams st ! i) sq now"
proof (induction n)
  case (Suc n)
  then show ?case by (auto simp: Let_def less_Suc_eq split: if_splits option.splits)
qed simp

lemma bestStream_range: "bestStream st sq now = Some i \<Longrightarrow> i < length (sq_streams st) \<and> streamEligible (sq_streams st ! i) sq now"
  unfolding bestStream_def by (rule bestUpTo_range)

text \<open>With one stream there is nothing to interleave with.\<close>

lemma single_stream_no_better: "length (sq_streams st) \<le> 1 \<Longrightarrow> sq_cur st < length (sq_streams st) \<Longrightarrow> \<not> betterStream st sq now"
  using bestStream_range[of st sq now] by (auto simp: betterStream_def split: option.split)

definition wf_seq :: "seq_state \<Rightarrow> bool" where
  "wf_seq st \<longleftrightarrow> sq_cur st < length (sq_streams st) \<and> length (sq_streams st) \<le> MAX_STREAMS"

lemma wf_seq_observeSeq: "(\<forall>st. s = Some st \<longrightarrow> wf_seq st) \<Longrightarrow> wf_seq (fst (observeSeq s sq now))"
  using bestStream_range[of "the s" sq now]
  by (cases s) (auto simp: observeSeq_def wf_seq_def Let_def usage_consts split: option.split)

text \<open>An interleaving needs a second stream seen within the window.\<close>

lemma observeSeq_signal:
  assumes "snd (observeSeq (Some st) sq now)"
  shows "\<exists>i. i < length (sq_streams st) \<and> i \<noteq> sq_cur st \<and> now - ss_at (sq_streams st ! i) \<le> CONCURRENT_USE_WINDOW_MS \<and>
     now - ss_at (sq_streams st ! sq_cur st) \<le> CONCURRENT_USE_WINDOW_MS"
  using assms bestStream_range[of st sq now]
  by (auto simp: observeSeq_def Let_def streamEligible_def split: if_splits option.splits)

lemma remdups_adj_repeat_length: "card (set (remdups_adj xs)) < length (remdups_adj xs) \<Longrightarrow> 2 \<le> card (set xs)"
proof (rule ccontr)
  assume lt: "card (set (remdups_adj xs)) < length (remdups_adj xs)" and "\<not> 2 \<le> card (set xs)"
  then have "card (set xs) \<le> Suc 0" by simp
  then have "set xs \<subseteq> {hd xs}" by (cases xs) (auto simp: card_le_Suc0_iff_eq)
  then obtain a where a: "set xs \<subseteq> {a}" by blast
  then have "remdups_adj xs = [] \<or> remdups_adj xs = [a]"
  proof (induction xs rule: remdups_adj.induct)
    case (3 x y xs)
    then show ?case by auto
  qed auto
  then show False using lt by auto
qed

text \<open>An honest history: one user agent, one network per address family, increasing sequence numbers.\<close>

definition honest_run :: "string \<Rightarrow> (family \<Rightarrow> net_hash) \<Rightarrow> instance_usage \<Rightarrow> bool" where
  "honest_run ua netOf u \<longleftrightarrow> iu_uaHash u = ua \<and> iu_nets u \<noteq> [] \<and> (\<forall>r \<in> set (iu_nets u). nr_net r = netOf (nh_family (nr_net r))) \<and>
     (\<forall>st. iu_seq u = Some st \<longrightarrow> length (sq_streams st) = 1 \<and> sq_cur st = 0)"

definition honest_obs :: "string \<Rightarrow> (family \<Rightarrow> net_hash) \<Rightarrow> instance_usage \<Rightarrow> usage_observation \<Rightarrow> bool" where
  "honest_obs ua netOf u ob \<longleftrightarrow> uo_uaHash ob = ua \<and> uo_net ob = netOf (nh_family (uo_net ob)) \<and>
     (\<forall>n st. uo_seq ob = Some n \<longrightarrow> iu_seq u = Some st \<longrightarrow> ss_last (hd (sq_streams st)) - SEQ_REORDER_TOLERANCE \<le> n)"

lemma observeSeq_honest:
  assumes "length (sq_streams st) = 1" "sq_cur st = 0" "ss_last (hd (sq_streams st)) - SEQ_REORDER_TOLERANCE \<le> n"
  shows "\<not> snd (observeSeq (Some st) n now) \<and> length (sq_streams (fst (observeSeq (Some st) n now))) = 1 \<and> sq_cur (fst (observeSeq (Some st) n now)) = 0"
proof -
  obtain s where s: "sq_streams st = [s]" using assms(1) by (auto simp: length_Suc_conv)
  have "\<not> betterStream st n now" by (rule single_stream_no_better) (use assms in auto)
  then show ?thesis using assms s by (auto simp: observeSeq_def Let_def)
qed

lemma observeNet_honest:
  assumes "nets \<noteq> []" "\<forall>r \<in> set nets. nr_net r = netOf (nh_family (nr_net r))" "net = netOf (nh_family net)"
  shows "case observeNet nets net now refresh of (nets', _, alt) \<Rightarrow> \<not> alt \<and> nets' \<noteq> [] \<and> (\<forall>r \<in> set nets'. nr_net r = netOf (nh_family (nr_net r)))"
proof -
  let ?pushed = "nets @ [\<lparr>nr_net = net, nr_firstAt = now, nr_lastAt = now\<rparr>]"
  have pushed: "\<forall>r \<in> set ?pushed. nr_net r = netOf (nh_family (nr_net r))" using assms by auto
  have one: "set (map nr_net (filter (\<lambda>r. \<not> (nr_lastAt r < since) \<and> nh_family (nr_net r) = nh_family net) ?pushed)) \<subseteq> {netOf (nh_family net)}" for since
    using pushed by auto
  have "\<not> card (set (netSequence ?pushed (nh_family net) since)) < length (netSequence ?pushed (nh_family net) since)" for since
  proof
    assume "card (set (netSequence ?pushed (nh_family net) since)) < length (netSequence ?pushed (nh_family net) since)"
    then have "2 \<le> card (set (map nr_net (filter (\<lambda>r. \<not> (nr_lastAt r < since) \<and> nh_family (nr_net r) = nh_family net) ?pushed)))"
      unfolding netSequence_def by (rule remdups_adj_repeat_length)
    then show False using card_mono[OF _ one[of since]] by simp
  qed
  then have alt: "\<not> snd (alternation ?pushed (nh_family net) since)" for since by (simp add: alternation_def Let_def)
  have trim: "lastN MAX_NETS (filter P (butlast xs) @ [last xs]) \<noteq> [] \<and> set (lastN MAX_NETS (filter P (butlast xs) @ [last xs])) \<subseteq> set xs"
    if "xs \<noteq> []" for P and xs :: "net_run list"
  proof -
    have "lastN MAX_NETS (filter P (butlast xs) @ [last xs]) \<noteq> []"
      using lastN_append_single[of MAX_NETS "filter P (butlast xs) @ [last xs]"] by (simp add: usage_consts)
    moreover have "set (lastN MAX_NETS (filter P (butlast xs) @ [last xs])) \<subseteq> set xs"
      by (rule order_trans[OF set_lastN]) (use that in \<open>auto dest: in_set_butlastD\<close>)
    ultimately show ?thesis by blast
  qed
  let ?honest = "\<lambda>r :: net_run. nr_net r = netOf (nh_family (nr_net r))"
  have ok: "\<forall>r \<in> set (lastN MAX_NETS (filter P (butlast xs) @ [last xs])). ?honest r" if "xs \<noteq> []" "\<forall>r \<in> set xs. ?honest r" for P and xs :: "net_run list"
    using trim[OF that(1), of P] that(2) by (meson subsetD)
  have touched: "\<forall>r \<in> set (butlast nets @ [(last nets)\<lparr>nr_lastAt := t\<rparr>]). ?honest r" for t
    using assms(1,2) by (auto dest: in_set_butlastD)
  note ne = trim[OF assms(1), THEN conjunct1] trim[of ?pushed, simplified, THEN conjunct1]
    trim[of "butlast nets @ [(last nets)\<lparr>nr_lastAt := t\<rparr>]" for t, simplified, THEN conjunct1]
  have oks: "\<forall>r \<in> set (lastN MAX_NETS (filter P nets @ [\<lparr>nr_net = net, nr_firstAt = now, nr_lastAt = now\<rparr>])). ?honest r"
    "\<forall>r \<in> set (lastN MAX_NETS (filter P (butlast nets) @ [(last nets)\<lparr>nr_lastAt := t\<rparr>])). ?honest r"
    "\<forall>r \<in> set (lastN MAX_NETS (filter P (butlast nets) @ [last nets])). ?honest r" for P t
    using ok[OF _ pushed, where P = P] ok[OF _ touched, where P = P] ok[OF assms(1,2), where P = P] by (simp_all only: butlast_snoc last_snoc) auto
  show ?thesis
    unfolding observeNet_def Let_def
    by (simp add: case_prod_unfold ne alt assms(1)) (intro conjI impI oks)
qed

lemma honest_observe:
  assumes "honest_run ua netOf u" "iu_instanceId u = inst" "honest_obs ua netOf u ob"
  shows "uv_signal (observeInstanceUsage (Some u) inst ob) = None \<and>
         iu_instanceId (uv_usage (observeInstanceUsage (Some u) inst ob)) = inst \<and>
         honest_run ua netOf (uv_usage (observeInstanceUsage (Some u) inst ob))"
proof -
  obtain nets c alt where n: "observeNet (iu_nets u) (uo_net ob) (uo_at ob) (uo_refresh ob) = (nets, c, alt)" by (cases "observeNet (iu_nets u) (uo_net ob) (uo_at ob) (uo_refresh ob)")
  have nets: "\<not> alt" "nets \<noteq> []" "\<forall>r \<in> set nets. nr_net r = netOf (nh_family (nr_net r))"
    using observeNet_honest[of "iu_nets u" netOf "uo_net ob" "uo_at ob" "uo_refresh ob"] assms n
    by (auto simp: honest_run_def honest_obs_def)
  have sq: "\<not> snd (observeSeq (iu_seq u) k (uo_at ob)) \<and> length (sq_streams (fst (observeSeq (iu_seq u) k (uo_at ob)))) = 1 \<and> sq_cur (fst (observeSeq (iu_seq u) k (uo_at ob))) = 0"
    if "uo_seq ob = Some k" for k
  proof (cases "iu_seq u")
    case None
    then show ?thesis by (simp add: observeSeq_def)
  next
    case (Some st)
    show ?thesis unfolding Some
      by (rule observeSeq_honest) (use assms(1,3) Some that in \<open>auto simp: honest_run_def honest_obs_def\<close>)
  qed
  show ?thesis
  proof (cases "uo_seq ob")
    case None
    then show ?thesis using assms nets n by (auto simp: observeInstanceUsage_def Let_def honest_run_def honest_obs_def)
  next
    case (Some k)
    then show ?thesis using assms nets n sq[OF Some]
      by (cases "observeSeq (iu_seq u) k (uo_at ob)") (auto simp: observeInstanceUsage_def Let_def honest_run_def honest_obs_def)
  qed
qed

section \<open>Properties\<close>

text \<open>C11. Honest use never raises a concurrent-use signal: a browser that keeps its user agent, reaches the server over
  one network per address family (a dual-stack browser may switch between IPv4 and IPv6 at will) and whose heartbeat
  numbers are at most two behind the newest is never sent back to a check, however often it reports, and it stays
  recognised as honest.\<close>

theorem honest_browser_never_flagged:
  assumes "honest_run ua netOf u" "iu_instanceId u = inst" "honest_obs ua netOf u ob"
  shows "uv_signal (observeInstanceUsage (Some u) inst ob) = None \<and>
         honest_run ua netOf (uv_usage (observeInstanceUsage (Some u) inst ob))"
  using honest_observe[OF assms] by blast

definition someNet :: "family \<Rightarrow> net_hash" where
  "someNet f = \<lparr>nh_family = f, nh_hash = ''n''\<rparr>"

definition firstUse :: instance_usage where
  "firstUse = \<lparr>iu_instanceId = ''i'', iu_uaHash = ''ua'', iu_nets = [\<lparr>nr_net = someNet IPv4, nr_firstAt = 0, nr_lastAt = 0\<rparr>],
     iu_ipHashes = [''a''], iu_seq = None\<rparr>"

theorem honest_browser_never_flagged_witness:
  "uv_signal (observeInstanceUsage (Some firstUse) ''i''
     \<lparr>uo_net = someNet IPv6, uo_ipHash = ''b'', uo_uaHash = ''ua'', uo_seq = Some 1, uo_at = 1000, uo_refresh = True\<rparr>) = None"
  by (rule honest_browser_never_flagged[where ua = "''ua''" and netOf = someNet, THEN conjunct1])
    (simp_all add: honest_run_def honest_obs_def firstUse_def someNet_def)




end
