(* ===== verification/SP_Session.thy ===== *)
theory SP_Session
  imports SP_Accommodations SP_Evidence SP_Events SP_Scheduling SP_Grading SP_Instance_Usage
begin

text \<open>
  apps/server/src/services/session-state.ts: a locked exam session inside one
  transaction. A \<open>mutation\<close> holds the session row with its periods, events, queued
  commands, pause requests and answers; every primitive of \<open>SessionMutation\<close> and every
  transition is a function on it. An \<open>env\<close> holds what a transaction reads and never
  writes: the exam's rules, the records it looks up, the grading key.
\<close>

section \<open>The stored data\<close>

text \<open>Texts shown on the hold screen, by the template they come from.\<close>

datatype resume_limit = Limit_reconnects int int | Limit_offline ms ms int
datatype hold_message = HM_default hold_reason | HM_resume_limit resume_limit | HM_release_reverify

record session_accommodations =
  sa_items :: "(ident \<times> accommodation_spec) list"
  sa_extraTimeMs :: ms
  sa_at :: ms
  sa_exceptions :: "policy_exception list option"

record session =
  s_id :: ident
  s_orgId :: ident
  s_examId :: ident
  s_examVersionId :: "ident option"
  s_status :: session_status
  s_endReason :: "end_reason option"
  s_accommodations :: "session_accommodations option"
  s_policy :: "policy option"
  s_durationMs :: ms
  s_usedMs :: ms
  s_runningSince :: "ms option"
  s_currentQuestionIndex :: int
  s_consentAcceptedAt :: "ms option"
  s_consentNoticeVersion :: "string option"
  s_activeInstanceId :: "ident option"
  s_verifiedInstanceId :: "ident option"
  s_lastHeartbeatAt :: "ms option"
  s_lastHeartbeatInstanceId :: "ident option"
  s_lastVerifiedHeartbeatAt :: "ms option"
  s_instanceUsage :: "instance_usage option"
  s_connection :: connection_status
  s_reportingInterruptedSince :: "ms option"
  s_reportingEventId :: "ident option"
  s_monitoring :: json
  s_identityState :: identity_state
  s_holdReason :: "hold_reason option"
  s_holdSince :: "ms option"
  s_holdMessage :: "hold_message option"
  s_holdCanReverify :: bool
  s_holdPrevStatus :: "session_status option"
  s_reEnrollAuthorized :: bool
  s_reEnrollAuthorizedBy :: "ident option"
  s_checkAttemptsResetAt :: "ms option"
  s_pauseCount :: int
  s_startedAt :: "ms option"
  s_startDeferredSince :: "ms option"
  s_window :: "session_window option"
  s_reconnectCount :: int
  s_endedAt :: "ms option"
  s_legalHold :: bool
  s_evidencePurgedAt :: "ms option"
  s_score :: "session_score option"
  s_createdAt :: ms
  s_updatedAt :: ms

record period =
  pd_id :: ident
  pd_kind :: period_kind
  pd_observed :: bool
  pd_startedAt :: ms
  pd_endedAt :: "ms option"
  pd_reason :: "string option"
  pd_meta :: jobj

datatype event_status = Ev_open | Ev_closed

record event =
  ev_id :: ident
  ev_type :: event_type
  ev_category :: event_category
  ev_severity :: severity
  ev_source :: event_source
  ev_status :: event_status
  ev_startedAt :: ms
  ev_endedAt :: "ms option"
  ev_confidence :: "real option"
  ev_details :: jobj
  ev_clientInstanceId :: "ident option"
  ev_receivedAt :: ms

datatype pause_status = PR_pending | PR_approved | PR_denied | PR_cancelled

record pause_request =
  pr_id :: ident
  pr_requestedAt :: ms
  pr_reason :: "string option"
  pr_status :: pause_status
  pr_decidedAt :: "ms option"
  pr_decidedBy :: "ident option"
  pr_decisionNote :: "string option"

datatype command =
    Cmd_pause_approved
  | Cmd_pause_denied "string option"
  | Cmd_hold hold_reason ms hold_message bool
  | Cmd_hold_released bool
  | Cmd_terminated
  | Cmd_submitted end_reason
  | Cmd_require_check check_purpose
  | Cmd_superseded

record queued_command =
  qc_targetInstanceId :: "ident option"
  qc_command :: command
  qc_createdAt :: ms
  qc_deliveredAt :: "ms option"

record answer =
  an_value :: "answer_value option"
  an_clientSeq :: int
  an_answeredAt :: ms
  an_savedAt :: ms

type_synonym span = "ms \<times> ms"

text \<open>
  The transaction: its time, the rows, a counter for generated ids, whether any
  session column was set, and what the commit erases of undecided identity frames.
\<close>

record mutation =
  m_now :: ms
  m_session :: session
  m_periods :: "period list"
  m_events :: "event list"
  m_commands :: "queued_command list"
  m_pauseRequests :: "pause_request list"
  m_answers :: "ident \<rightharpoonup> answer"
  m_fresh :: nat
  m_dirty :: bool
  m_droppedBursts :: "ident list"
  m_eraseAllUndecided :: bool

record accommodation_record =
  acr_id :: ident
  acr_spec :: accommodation_spec
  acr_examId :: "ident option"
  acr_validUntil :: "ms option"
  acr_revokedAt :: "ms option"
  acr_grantedAt :: ms

datatype display_report = Displays_extended | Displays_single | Displays_unknown

record env =
  en_examPolicy :: policy
  en_versionId :: ident
  en_records :: "accommodation_record list"
  en_lateCaptures :: "span list"
  en_hasReference :: bool
  en_reviewResolved :: bool
  en_questions :: "question list"
  en_textOps :: text_ops

section \<open>Names used in stored details\<close>

fun statusStr :: "session_status \<Rightarrow> string" where
  "statusStr Invited = ''invited''" | "statusStr Ready = ''ready''" | "statusStr Active = ''active''"
| "statusStr Paused = ''paused''" | "statusStr On_hold = ''on_hold''" | "statusStr Submitted = ''submitted''"
| "statusStr Terminated = ''terminated''"

fun holdReasonStr :: "hold_reason \<Rightarrow> string" where
  "holdReasonStr H_identity_mismatch = ''identity_mismatch''" | "holdReasonStr H_identity_unverifiable = ''identity_unverifiable''"
| "holdReasonStr H_id_photo_mismatch = ''id_photo_mismatch''" | "holdReasonStr H_pause_limit = ''pause_limit''"
| "holdReasonStr H_staff = ''staff''" | "holdReasonStr H_id_photo_unverifiable = ''id_photo_unverifiable''"
| "holdReasonStr H_staff_verification = ''staff_verification''" | "holdReasonStr H_resume_limit = ''resume_limit''"
| "holdReasonStr H_recovery = ''recovery''" | "holdReasonStr H_additional_display = ''additional_display''"

fun endReasonStr :: "end_reason \<Rightarrow> string" where
  "endReasonStr E_candidate_submitted = ''candidate_submitted''" | "endReasonStr E_time_expired = ''time_expired''"
| "endReasonStr E_staff_submitted = ''staff_submitted''" | "endReasonStr E_staff_terminated = ''staff_terminated''"
| "endReasonStr E_candidate_withdrew = ''candidate_withdrew''" | "endReasonStr E_abandoned = ''abandoned''"
| "endReasonStr E_resume_limit = ''resume_limit''"

fun periodKindStr :: "period_kind \<Rightarrow> string" where
  "periodKindStr P_check_in = ''check_in''" | "periodKindStr P_active = ''active''" | "periodKindStr P_paused = ''paused''"
| "periodKindStr P_disconnected = ''disconnected''" | "periodKindStr P_on_hold = ''on_hold''"
| "periodKindStr P_resume_check = ''resume_check''"

fun purposeStr :: "check_purpose \<Rightarrow> string" where
  "purposeStr C_initial = ''initial''" | "purposeStr C_resume = ''resume''" | "purposeStr C_reconnect = ''reconnect''"
| "purposeStr C_reverify = ''reverify''"

fun timerStr :: "timer_behavior \<Rightarrow> string" where
  "timerStr Timer_stop = ''stop''" | "timerStr Timer_continue = ''continue''"

section \<open>Derived facts of a session\<close>

definition UNOBSERVED_KINDS :: "period_kind list" where
  "UNOBSERVED_KINDS = [P_paused, P_disconnected, P_on_hold]"

definition EMPTY_IDENTITY_STATE :: identity_state where
  "EMPTY_IDENTITY_STATE = \<lparr>is_consecutiveMatch = 0, is_consecutiveMismatch = 0, is_consecutiveUnable = 0,
     is_openMismatchEventId = None, is_openUnverifiableEventId = None, is_openFeedSuspectEventId = None,
     is_lastSampleDhash = None, is_identicalDhashStreak = 0, is_lastMatchAt = None, is_followUpRequestedAt = None,
     is_pendingMismatchCheckIds = [], is_evidence = EMPTY_ACCUMULATOR, is_activeSince = None, is_sampleRequest = None,
     is_pendingBursts = [], is_secondOpinionPending = None, is_secondOpinionVeto = None, is_normalisation = Continuous,
     is_periodBaseline = None, is_openNoSamplesEventId = None, is_lastSampleReceivedAt = None, is_cadenceMs = None\<rparr>"

definition sessionClock :: "session \<Rightarrow> exam_clock" where
  "sessionClock s = \<lparr>ck_durationMs = s_durationMs s, ck_usedMs = s_usedMs s, ck_runningSince = s_runningSince s\<rparr>"

definition remainingMs :: "session \<Rightarrow> ms \<Rightarrow> ms" where
  "remainingMs s now = clockRemainingMs (sessionClock s) now"

text \<open>\<open>withAccommodations\<close> and \<open>effectivePolicy\<close>.\<close>

definition itemSpecs :: "session_accommodations option \<Rightarrow> accommodation_spec list" where
  "itemSpecs a = (case a of None \<Rightarrow> [] | Some a \<Rightarrow> map snd (sa_items a))"

definition extraTimeMs :: "session_accommodations option \<Rightarrow> ms" where
  "extraTimeMs a = (case a of None \<Rightarrow> 0 | Some a \<Rightarrow> sa_extraTimeMs a)"

definition withAccommodations :: "policy \<Rightarrow> session_accommodations option \<Rightarrow> ms option \<Rightarrow> policy \<times> policy_exception list" where
  "withAccommodations examPolicy snap durationMs =
     (if itemSpecs snap = [] then (examPolicy, [])
      else let p = applyAccommodations examPolicy (itemSpecs snap); extra = extraTimeMs snap
           in (p, policyExceptions (policy_json examPolicy) (policy_json p) (itemSpecs snap)
                    (map_option (\<lambda>d. (d - extra, extra)) durationMs)))"

definition effectivePolicy :: "env \<Rightarrow> session \<Rightarrow> policy" where
  "effectivePolicy e s = (case s_policy s of Some p \<Rightarrow> p
     | None \<Rightarrow> fst (withAccommodations (en_examPolicy e) (s_accommodations s) None))"

definition requiredCheckFor :: "session \<Rightarrow> ident option \<Rightarrow> check_purpose option" where
  "requiredCheckFor s instanceId =
     (let inControl = (instanceId \<noteq> None \<and> instanceId \<noteq> Some [] \<and> instanceId = s_verifiedInstanceId s \<and> instanceId = s_activeInstanceId s)
      in case s_status s of
           Invited \<Rightarrow> (if s_consentAcceptedAt s \<noteq> None then Some C_initial else None)
         | Ready \<Rightarrow> (if inControl then None else Some C_reconnect)
         | Active \<Rightarrow> (if inControl then None else Some C_reconnect)
         | Paused \<Rightarrow> Some C_resume
         | On_hold \<Rightarrow> (if s_holdCanReverify s then Some C_reverify else None)
         | _ \<Rightarrow> None)"

section \<open>Primitives of the mutation\<close>

definition setS :: "(session \<Rightarrow> session) \<Rightarrow> mutation \<Rightarrow> mutation" where
  "setS f m = m\<lparr>m_session := f (m_session m), m_dirty := True\<rparr>"

definition freshId :: "mutation \<Rightarrow> ident" where
  "freshId m = ''#'' @ showNat (m_fresh m)"

definition flush :: "mutation \<Rightarrow> mutation" where
  "flush m = (if m_dirty m then m\<lparr>m_session := (m_session m)\<lparr>s_updatedAt := m_now m\<rparr>, m_dirty := False\<rparr> else m)"

subsection \<open>Clock\<close>

definition clockStartM :: "ms \<Rightarrow> mutation \<Rightarrow> mutation" where
  "clockStartM t m = (if s_runningSince (m_session m) \<noteq> None then m
     else setS (\<lambda>s. s\<lparr>s_runningSince := ck_runningSince (clockStart (sessionClock s) t)\<rparr>) m)"

definition clockStopM :: "ms \<Rightarrow> mutation \<Rightarrow> mutation" where
  "clockStopM t m = (if s_runningSince (m_session m) = None then m
     else setS (\<lambda>s. s\<lparr>s_usedMs := ck_usedMs (clockStop (sessionClock s) t), s_runningSince := None\<rparr>) m)"

subsection \<open>Events\<close>

record event_input =
  ei_type :: event_type
  ei_startedAt :: "ms option"
  ei_endedAt :: "ms option"
  ei_open :: bool
  ei_source :: "event_source option"
  ei_confidence :: "real option"
  ei_details :: jobj

definition evt :: "event_type \<Rightarrow> jobj \<Rightarrow> event_input" where
  "evt t d = \<lparr>ei_type = t, ei_startedAt = None, ei_endedAt = None, ei_open = False, ei_source = None, ei_confidence = None, ei_details = d\<rparr>"

definition eventRow :: "event_input \<Rightarrow> ident \<Rightarrow> ms \<Rightarrow> event" where
  "eventRow i eid now =
     (let cat = EVENT_CATALOG (ei_type i); started = nullish (ei_startedAt i) now;
          isOpen = (ce_span cat \<and> ei_open i \<and> ei_endedAt i = None);
          ended = (if isOpen then None else Some (nullish (ei_endedAt i) started))
      in \<lparr>ev_id = eid, ev_type = ei_type i, ev_category = ce_category cat, ev_severity = ce_severity cat,
          ev_source = nullish (ei_source i) (hd (ce_sources cat)), ev_status = (if isOpen then Ev_open else Ev_closed),
          ev_startedAt = started, ev_endedAt = map_option (max started) ended, ev_confidence = ei_confidence i,
          ev_details = ei_details i, ev_clientInstanceId = None, ev_receivedAt = now\<rparr>)"

definition addEvent :: "event_input \<Rightarrow> mutation \<Rightarrow> mutation" where
  "addEvent i m = m\<lparr>m_events := m_events m @ [eventRow i (freshId m) (m_now m)], m_fresh := Suc (m_fresh m)\<rparr>"

definition updateEvents :: "(event \<Rightarrow> bool) \<Rightarrow> (event \<Rightarrow> event) \<Rightarrow> mutation \<Rightarrow> mutation" where
  "updateEvents P f m = m\<lparr>m_events := map (\<lambda>ev. if P ev then (f ev)\<lparr>ev_receivedAt := m_now m\<rparr> else ev) (m_events m)\<rparr>"

definition closedAt :: "ms \<Rightarrow> jobj \<Rightarrow> event \<Rightarrow> event" where
  "closedAt t patch ev = ev\<lparr>ev_status := Ev_closed, ev_endedAt := Some (max (ev_startedAt ev) t), ev_details := spread (ev_details ev) patch\<rparr>"

definition closeEvent :: "ident option \<Rightarrow> ms \<Rightarrow> jobj \<Rightarrow> mutation \<Rightarrow> mutation" where
  "closeEvent eid t patch m = (case eid of None \<Rightarrow> m
     | Some i \<Rightarrow> updateEvents (\<lambda>ev. ev_id ev = i \<and> ev_status ev = Ev_open) (closedAt t patch) m)"

definition setIdentityState :: "identity_state \<Rightarrow> mutation \<Rightarrow> mutation" where
  "setIdentityState st = setS (\<lambda>s. s\<lparr>s_identityState := st\<rparr>)"

definition dropIds :: "ident set \<Rightarrow> ident option \<Rightarrow> ident option" where
  "dropIds ids x = (case x of Some i \<Rightarrow> (if i \<in> ids then None else Some i) | None \<Rightarrow> None)"

definition closeOpenEvents :: "ms \<Rightarrow> string \<Rightarrow> event_type list \<Rightarrow> mutation \<Rightarrow> mutation" where
  "closeOpenEvents t reason keep m =
     (let closes = (\<lambda>ev. ev_status ev = Ev_open \<and> ev_type ev \<notin> set keep);
          ids = set (map ev_id (filter closes (m_events m)));
          m1 = updateEvents closes (closedAt t [(''closedBy'', JStr reason)]) m;
          st = s_identityState (m_session m1)
      in if ids = {} then m1
         else let m2 = setIdentityState (st\<lparr>is_openMismatchEventId := dropIds ids (is_openMismatchEventId st),
                     is_openUnverifiableEventId := dropIds ids (is_openUnverifiableEventId st),
                     is_openFeedSuspectEventId := dropIds ids (is_openFeedSuspectEventId st),
                     is_openNoSamplesEventId := dropIds ids (is_openNoSamplesEventId st)\<rparr>) m1
              in (case s_reportingEventId (m_session m2) of
                    Some i \<Rightarrow> (if i \<in> ids then setS (\<lambda>s. s\<lparr>s_reportingEventId := None\<rparr>) m2 else m2)
                  | None \<Rightarrow> m2))"

subsection \<open>Periods\<close>

definition openPeriodRow :: "mutation \<Rightarrow> period option" where
  "openPeriodRow m = find (\<lambda>p. pd_endedAt p = None) (rev (m_periods m))"

definition unobservedEvent :: "period \<Rightarrow> ms \<Rightarrow> event_input" where
  "unobservedEvent p ended = (evt Ev_unobserved_period
     [(''periodId'', JStr (pd_id p)), (''periodKind'', JStr (periodKindStr (pd_kind p))), (''reason'', jstr (pd_reason p)),
      (''durationMs'', JInt (ended - pd_startedAt p))])\<lparr>ei_startedAt := Some (pd_startedAt p), ei_endedAt := Some ended\<rparr>"

definition endPeriod :: "ident \<Rightarrow> ms \<Rightarrow> period list \<Rightarrow> period list" where
  "endPeriod pid t = map (\<lambda>p. if pd_id p = pid then p\<lparr>pd_endedAt := Some (max (pd_startedAt p) t)\<rparr> else p)"

definition closeOpenPeriod :: "ms \<Rightarrow> mutation \<Rightarrow> mutation" where
  "closeOpenPeriod t m = (case openPeriodRow m of None \<Rightarrow> m
     | Some p \<Rightarrow>
        (let ended = max (pd_startedAt p) t; m1 = m\<lparr>m_periods := endPeriod (pd_id p) t (m_periods m)\<rparr>
         in if pd_kind p \<in> set UNOBSERVED_KINDS then addEvent (unobservedEvent p ended) m1 else m1))"

definition insertPeriod :: "period_kind \<Rightarrow> ms \<Rightarrow> ms option \<Rightarrow> string option \<Rightarrow> jobj \<Rightarrow> mutation \<Rightarrow> mutation" where
  "insertPeriod kind startedAt endedAt reason meta m =
     (let row = \<lparr>pd_id = freshId m, pd_kind = kind, pd_observed = (kind \<in> set OBSERVED_PERIOD_KINDS), pd_startedAt = startedAt,
                pd_endedAt = map_option (max startedAt) endedAt, pd_reason = reason, pd_meta = meta\<rparr>;
          m1 = m\<lparr>m_periods := sort_key pd_startedAt (m_periods m @ [row]), m_fresh := Suc (m_fresh m)\<rparr>
      in case pd_endedAt row of
           Some ended \<Rightarrow> (if kind \<in> set UNOBSERVED_KINDS then addEvent (unobservedEvent row ended) m1 else m1)
         | None \<Rightarrow> m1)"

definition switchPeriod :: "period_kind \<Rightarrow> ms \<Rightarrow> string option \<Rightarrow> jobj \<Rightarrow> mutation \<Rightarrow> mutation" where
  "switchPeriod kind t reason meta m = insertPeriod kind t None reason meta (closeOpenPeriod t m)"

subsection \<open>Identity counters, bursts, commands\<close>

definition resetIdentityCounters :: "mutation \<Rightarrow> mutation" where
  "resetIdentityCounters m =
     (let st = s_identityState (m_session m); active = (s_status (m_session m) = Active)
      in setIdentityState (st\<lparr>is_consecutiveMatch := 0, is_consecutiveMismatch := 0, is_consecutiveUnable := 0,
            is_followUpRequestedAt := None, is_pendingMismatchCheckIds := [], is_identicalDhashStreak := 0,
            is_lastSampleDhash := None, is_evidence := EMPTY_ACCUMULATOR, is_pendingBursts := [], is_secondOpinionPending := None,
            is_secondOpinionVeto := None, is_activeSince := (if active then Some (m_now m) else None),
            is_sampleRequest := (if active then Some (T_exam_start, m_now m) else None), is_cadenceMs := None\<rparr>)
           (m\<lparr>m_droppedBursts := m_droppedBursts m @ map pb_id (is_pendingBursts st)\<rparr>))"

definition dropPendingBursts :: "mutation \<Rightarrow> mutation" where
  "dropPendingBursts m =
     (let st = s_identityState (m_session m);
          m1 = (if is_pendingBursts st \<noteq> [] then setIdentityState (st\<lparr>is_pendingBursts := []\<rparr>) m else m)
      in m1\<lparr>m_eraseAllUndecided := True\<rparr>)"

definition enqueueCommand :: "command \<Rightarrow> ident option \<Rightarrow> mutation \<Rightarrow> mutation" where
  "enqueueCommand c target m = m\<lparr>m_commands := m_commands m @
     [\<lparr>qc_targetInstanceId = target, qc_command = c, qc_createdAt = m_now m, qc_deliveredAt = None\<rparr>]\<rparr>"

definition assertStatus :: "mutation \<Rightarrow> session_status list \<Rightarrow> unit result" where
  "assertStatus m allowed = guardR (s_status (m_session m) \<in> set allowed) invalidState"

end
