(* ===== verification/SP_Frame.thy ===== *)
theory SP_Frame
  imports SP_Session
begin

text \<open>
  The contract of the session's primitives (services/session-state.ts): what each one
  changes and what it leaves alone, in the form the proofs about whole handlers rewrite
  with. The exam clock and the period track are stated as interfaces (locales) and
  interpreted on the primitives of \<open>SessionMutation\<close>.
\<close>

section \<open>Views of the stored rows\<close>

definition openKinds :: "mutation \<Rightarrow> period_kind multiset" where
  "openKinds m = image_mset pd_kind (filter_mset (\<lambda>p. pd_endedAt p = None) (mset (m_periods m)))"

definition noOpenEvents :: "mutation \<Rightarrow> bool" where
  "noOpenEvents m \<longleftrightarrow> (\<forall>ev \<in> set (m_events m). ev_status ev = Ev_closed)"

definition period_wf :: "period \<Rightarrow> bool" where
  "period_wf p \<longleftrightarrow> pd_observed p = (pd_kind p \<in> set OBSERVED_PERIOD_KINDS) \<and> (\<forall>t. pd_endedAt p = Some t \<longrightarrow> pd_startedAt p \<le> t)"

definition event_wf :: "event \<Rightarrow> bool" where
  "event_wf ev \<longleftrightarrow> (ev_status ev = Ev_open \<longleftrightarrow> ev_endedAt ev = None) \<and> (\<forall>t. ev_endedAt ev = Some t \<longrightarrow> ev_startedAt ev \<le> t)"

text \<open>Period ids are distinct and were generated before the next id.\<close>

definition rowId :: "nat \<Rightarrow> ident" where
  "rowId n = ''#'' @ showNat n"

definition known :: "nat \<Rightarrow> period \<Rightarrow> bool" where
  "known bound p \<longleftrightarrow> (\<exists>n < bound. pd_id p = rowId n)"

definition rows_wf :: "mutation \<Rightarrow> bool" where
  "rows_wf m \<longleftrightarrow> list_all period_wf (m_periods m) \<and> list_all event_wf (m_events m) \<and>
     distinct (map pd_id (m_periods m)) \<and> list_all (known (m_fresh m)) (m_periods m)"

lemma rowId_inj [simp]: "rowId n = rowId k \<longleftrightarrow> n = k"
  unfolding rowId_def by (metis append_Cons append_Nil list.inject readNat_showNat)

lemma freshId_rowId: "freshId m = rowId (m_fresh m)"
  by (simp add: freshId_def rowId_def)

lemma known_mono: "known n p \<Longrightarrow> n \<le> n' \<Longrightarrow> known n' p"
  by (auto simp: known_def)

lemma known_fresh: "known (m_fresh m) p \<Longrightarrow> pd_id p \<noteq> freshId m"
  by (auto simp: known_def freshId_rowId)

lemma known_Suc: "list_all (known n) ps \<Longrightarrow> list_all (known (Suc n)) ps"
  by (auto simp: list_all_iff intro: known_mono)

lemma ev_status_open_iff: "ev_status ev \<noteq> Ev_open \<longleftrightarrow> ev_status ev = Ev_closed"
  by (cases "ev_status ev") auto

lemma list_all_map_if:
  "list_all P xs \<Longrightarrow> (\<And>x. P x \<Longrightarrow> Q x \<Longrightarrow> P (f x)) \<Longrightarrow> list_all P (map (\<lambda>x. if Q x then f x else x) xs)"
  by (auto simp: list_all_iff)

lemma row_updates [simp]:
  "openKinds (m\<lparr>m_pauseRequests := x1\<rparr>) = openKinds m" "openKinds (m\<lparr>m_answers := x2\<rparr>) = openKinds m"
  "openKinds (m\<lparr>m_commands := x3\<rparr>) = openKinds m" "openKinds (m\<lparr>m_fresh := n\<rparr>) = openKinds m" "openKinds (m\<lparr>m_now := t\<rparr>) = openKinds m"
  "openKinds (m\<lparr>m_session := s\<rparr>) = openKinds m"
  "noOpenEvents (m\<lparr>m_pauseRequests := x1\<rparr>) = noOpenEvents m" "noOpenEvents (m\<lparr>m_answers := x2\<rparr>) = noOpenEvents m"
  "noOpenEvents (m\<lparr>m_commands := x3\<rparr>) = noOpenEvents m" "noOpenEvents (m\<lparr>m_fresh := n\<rparr>) = noOpenEvents m" "noOpenEvents (m\<lparr>m_now := t\<rparr>) = noOpenEvents m"
  "noOpenEvents (m\<lparr>m_periods := ps\<rparr>) = noOpenEvents m" "noOpenEvents (m\<lparr>m_session := s\<rparr>) = noOpenEvents m"
  "rows_wf (m\<lparr>m_pauseRequests := x1\<rparr>) = rows_wf m" "rows_wf (m\<lparr>m_answers := x2\<rparr>) = rows_wf m"
  "rows_wf (m\<lparr>m_commands := x3\<rparr>) = rows_wf m" "rows_wf (m\<lparr>m_now := t\<rparr>) = rows_wf m" "rows_wf (m\<lparr>m_session := s\<rparr>) = rows_wf m"
  by (simp_all add: openKinds_def noOpenEvents_def rows_wf_def)

lemma rows_wf_Suc_fresh [simp]: "rows_wf m \<Longrightarrow> rows_wf (m\<lparr>m_fresh := Suc (m_fresh m)\<rparr>)"
  by (simp add: rows_wf_def known_Suc)

lemma openKinds_update_ends:
  "size (openKinds (m\<lparr>m_periods := map (\<lambda>p. if Q p then p\<lparr>pd_endedAt := Some (x p)\<rparr> else p) (m_periods m)\<rparr>)) \<le> size (openKinds m)"
proof -
  have "size (filter_mset (\<lambda>p. pd_endedAt p = None) (mset (map (\<lambda>p. if Q p then p\<lparr>pd_endedAt := Some (x p)\<rparr> else p) ps))) \<le>
        size (filter_mset (\<lambda>p. pd_endedAt p = None) (mset ps))" for ps
    by (induction ps) auto
  then show ?thesis by (simp add: openKinds_def)
qed

lemma openKinds_update_reason [simp]:
  "openKinds (m\<lparr>m_periods := map (\<lambda>p. if Q p then p\<lparr>pd_reason := y p\<rparr> else p) (m_periods m)\<rparr>) = openKinds m"
proof -
  have "image_mset pd_kind (filter_mset (\<lambda>p. pd_endedAt p = None) (mset (map (\<lambda>p. if Q p then p\<lparr>pd_reason := y p\<rparr> else p) ps))) =
        image_mset pd_kind (filter_mset (\<lambda>p. pd_endedAt p = None) (mset ps))" for ps
    by (induction ps) auto
  then show ?thesis by (simp add: openKinds_def)
qed

section \<open>Columns and clock\<close>

lemma setS_simps [simp]:
  "m_now (setS f m) = m_now m" "m_session (setS f m) = f (m_session m)" "m_periods (setS f m) = m_periods m"
  "m_events (setS f m) = m_events m" "m_commands (setS f m) = m_commands m" "m_pauseRequests (setS f m) = m_pauseRequests m"
  "m_answers (setS f m) = m_answers m" "m_fresh (setS f m) = m_fresh m"
  "openKinds (setS f m) = openKinds m" "noOpenEvents (setS f m) = noOpenEvents m" "rows_wf (setS f m) = rows_wf m"
  by (simp_all add: setS_def openKinds_def noOpenEvents_def rows_wf_def)

lemma flush_simps [simp]:
  "m_now (flush m) = m_now m" "m_periods (flush m) = m_periods m" "m_events (flush m) = m_events m"
  "m_commands (flush m) = m_commands m" "m_pauseRequests (flush m) = m_pauseRequests m" "m_answers (flush m) = m_answers m" "m_fresh (flush m) = m_fresh m"
  "openKinds (flush m) = openKinds m" "noOpenEvents (flush m) = noOpenEvents m" "rows_wf (flush m) = rows_wf m"
  "m_session (flush m) = (m_session m)\<lparr>s_updatedAt := (if m_dirty m then m_now m else s_updatedAt (m_session m))\<rparr>"
  by (simp_all add: flush_def openKinds_def noOpenEvents_def rows_wf_def)

definition usedAt :: "session \<Rightarrow> ms \<Rightarrow> ms" where
  "usedAt s t = ck_usedMs (clockStop (sessionClock s) t)"

lemma clockStopM_simps [simp]:
  "m_now (clockStopM t m) = m_now m" "m_periods (clockStopM t m) = m_periods m" "m_events (clockStopM t m) = m_events m"
  "m_commands (clockStopM t m) = m_commands m" "m_pauseRequests (clockStopM t m) = m_pauseRequests m" "m_answers (clockStopM t m) = m_answers m" "m_fresh (clockStopM t m) = m_fresh m"
  "openKinds (clockStopM t m) = openKinds m" "noOpenEvents (clockStopM t m) = noOpenEvents m" "rows_wf (clockStopM t m) = rows_wf m"
  "m_session (clockStopM t m) = (m_session m)\<lparr>s_usedMs := usedAt (m_session m) t, s_runningSince := None\<rparr>"
  by (simp_all add: clockStopM_def usedAt_def clockStop_def sessionClock_def)

lemma clockStartM_simps [simp]:
  "m_now (clockStartM t m) = m_now m" "m_periods (clockStartM t m) = m_periods m" "m_events (clockStartM t m) = m_events m"
  "m_commands (clockStartM t m) = m_commands m" "m_pauseRequests (clockStartM t m) = m_pauseRequests m" "m_answers (clockStartM t m) = m_answers m" "m_fresh (clockStartM t m) = m_fresh m"
  "openKinds (clockStartM t m) = openKinds m" "noOpenEvents (clockStartM t m) = noOpenEvents m" "rows_wf (clockStartM t m) = rows_wf m"
  "m_session (clockStartM t m) = (m_session m)\<lparr>s_runningSince := Some (nullish (s_runningSince (m_session m)) t)\<rparr>"
  by (auto simp: clockStartM_def clockStart_def sessionClock_def)

section \<open>Events, commands, identity state\<close>

lemma eventRow_wf [simp]: "event_wf (eventRow i eid now)"
  by (auto simp: event_wf_def eventRow_def Let_def)

lemma eventRow_status [simp]: "\<not> ei_open i \<Longrightarrow> ev_status (eventRow i eid now) = Ev_closed"
  by (simp add: eventRow_def Let_def)

lemma evt_simps [simp]:
  "ei_open (evt t d) = False" "ei_type (evt t d) = t" "ei_details (evt t d) = d" "ei_startedAt (evt t d) = None"
  "ei_endedAt (evt t d) = None" "ei_source (evt t d) = None" "ei_confidence (evt t d) = None"
  by (simp_all add: evt_def)

lemma addEvent_simps [simp]:
  "m_now (addEvent i m) = m_now m" "m_session (addEvent i m) = m_session m" "m_periods (addEvent i m) = m_periods m"
  "m_commands (addEvent i m) = m_commands m" "m_pauseRequests (addEvent i m) = m_pauseRequests m" "m_answers (addEvent i m) = m_answers m"
  "m_events (addEvent i m) = m_events m @ [eventRow i (freshId m) (m_now m)]"
  "openKinds (addEvent i m) = openKinds m" "m_fresh (addEvent i m) = Suc (m_fresh m)"
  "rows_wf m \<Longrightarrow> rows_wf (addEvent i m)"
  by (simp_all add: addEvent_def openKinds_def rows_wf_def known_Suc)

lemma noOpenEvents_addEvent [simp]: "\<not> ei_open i \<Longrightarrow> noOpenEvents (addEvent i m) = noOpenEvents m"
  by (auto simp: noOpenEvents_def)

lemma updateEvents_simps [simp]:
  "m_now (updateEvents P f m) = m_now m" "m_session (updateEvents P f m) = m_session m" "m_periods (updateEvents P f m) = m_periods m"
  "m_commands (updateEvents P f m) = m_commands m" "m_pauseRequests (updateEvents P f m) = m_pauseRequests m" "m_answers (updateEvents P f m) = m_answers m" "m_fresh (updateEvents P f m) = m_fresh m"
  "openKinds (updateEvents P f m) = openKinds m"
  by (simp_all add: updateEvents_def openKinds_def)

lemma event_wf_receivedAt [simp]: "event_wf (ev\<lparr>ev_receivedAt := t\<rparr>) = event_wf ev"
  by (simp add: event_wf_def)

lemma closedAt_wf [simp]: "event_wf (closedAt t d ev)"
  by (simp add: event_wf_def closedAt_def)

lemma closedAt_status [simp]: "ev_status (closedAt t d ev) = Ev_closed"
  by (simp add: closedAt_def)

lemma rows_wf_updateEvents:
  "rows_wf m \<Longrightarrow> (\<And>ev. event_wf ev \<Longrightarrow> P ev \<Longrightarrow> event_wf (f ev)) \<Longrightarrow> rows_wf (updateEvents P f m)"
  by (auto simp: rows_wf_def updateEvents_def intro!: list_all_map_if)

lemma noOpenEvents_updateEvents:
  "noOpenEvents m \<Longrightarrow> (\<And>ev. ev_status (f ev) = Ev_closed) \<Longrightarrow> noOpenEvents (updateEvents P f m)"
  by (auto simp: noOpenEvents_def updateEvents_def)

lemma closeEvent_simps [simp]:
  "m_now (closeEvent i t d m) = m_now m" "m_session (closeEvent i t d m) = m_session m" "m_periods (closeEvent i t d m) = m_periods m"
  "m_commands (closeEvent i t d m) = m_commands m" "m_pauseRequests (closeEvent i t d m) = m_pauseRequests m" "m_answers (closeEvent i t d m) = m_answers m" "m_fresh (closeEvent i t d m) = m_fresh m"
  "openKinds (closeEvent i t d m) = openKinds m"
  "rows_wf m \<Longrightarrow> rows_wf (closeEvent i t d m)" "noOpenEvents m \<Longrightarrow> noOpenEvents (closeEvent i t d m)"
  by (simp_all add: closeEvent_def rows_wf_updateEvents noOpenEvents_updateEvents split: option.split)

lemma setIdentityState_simps [simp]:
  "m_session (setIdentityState st m) = (m_session m)\<lparr>s_identityState := st\<rparr>"
  "m_now (setIdentityState st m) = m_now m" "m_periods (setIdentityState st m) = m_periods m" "m_events (setIdentityState st m) = m_events m"
  "m_commands (setIdentityState st m) = m_commands m" "m_pauseRequests (setIdentityState st m) = m_pauseRequests m" "m_answers (setIdentityState st m) = m_answers m" "m_fresh (setIdentityState st m) = m_fresh m"
  "openKinds (setIdentityState st m) = openKinds m" "noOpenEvents (setIdentityState st m) = noOpenEvents m" "rows_wf (setIdentityState st m) = rows_wf m"
  by (simp_all add: setIdentityState_def)

text \<open>What closing every open event does to the identity state and the outage reference.\<close>

definition closedState :: "ms \<Rightarrow> string \<Rightarrow> event_type list \<Rightarrow> mutation \<Rightarrow> identity_state" where
  "closedState t r k m = s_identityState (m_session (closeOpenEvents t r k m))"

definition closedRef :: "ms \<Rightarrow> string \<Rightarrow> event_type list \<Rightarrow> mutation \<Rightarrow> ident option" where
  "closedRef t r k m = s_reportingEventId (m_session (closeOpenEvents t r k m))"

lemma closeOpenEvents_session [simp]:
  "m_session (closeOpenEvents t r k m) = (m_session m)\<lparr>s_identityState := closedState t r k m, s_reportingEventId := closedRef t r k m\<rparr>"
  by (simp add: closedState_def closedRef_def closeOpenEvents_def Let_def split: option.split)

lemma closeOpenEvents_rows:
  "m_events (closeOpenEvents t r k m) = m_events (updateEvents (\<lambda>ev. ev_status ev = Ev_open \<and> ev_type ev \<notin> set k) (closedAt t [(''closedBy'', JStr r)]) m)"
  "m_periods (closeOpenEvents t r k m) = m_periods m" "m_fresh (closeOpenEvents t r k m) = m_fresh m"
  by (simp_all add: closeOpenEvents_def Let_def split: option.split)

lemma closeOpenEvents_simps [simp]:
  "m_now (closeOpenEvents t r k m) = m_now m" "m_periods (closeOpenEvents t r k m) = m_periods m"
  "m_commands (closeOpenEvents t r k m) = m_commands m" "m_pauseRequests (closeOpenEvents t r k m) = m_pauseRequests m" "m_answers (closeOpenEvents t r k m) = m_answers m" "m_fresh (closeOpenEvents t r k m) = m_fresh m"
  "openKinds (closeOpenEvents t r k m) = openKinds m" "noOpenEvents (closeOpenEvents t r [] m)"
  "rows_wf m \<Longrightarrow> rows_wf (closeOpenEvents t r k m)"
proof -
  show "rows_wf m \<Longrightarrow> rows_wf (closeOpenEvents t r k m)"
    using rows_wf_updateEvents[of m "\<lambda>ev. ev_status ev = Ev_open \<and> ev_type ev \<notin> set k" "closedAt t [(''closedBy'', JStr r)]"]
    by (simp add: rows_wf_def closeOpenEvents_rows)
  show "noOpenEvents (closeOpenEvents t r [] m)"
    by (auto simp: noOpenEvents_def closeOpenEvents_rows updateEvents_def ev_status_open_iff)
qed (simp_all add: closeOpenEvents_def openKinds_def updateEvents_def setIdentityState_def setS_def Let_def split: option.split)

definition resetState :: "mutation \<Rightarrow> identity_state" where
  "resetState m = s_identityState (m_session (resetIdentityCounters m))"

lemma resetIdentityCounters_simps [simp]:
  "m_session (resetIdentityCounters m) = (m_session m)\<lparr>s_identityState := resetState m\<rparr>"
  "m_now (resetIdentityCounters m) = m_now m" "m_periods (resetIdentityCounters m) = m_periods m" "m_events (resetIdentityCounters m) = m_events m"
  "m_commands (resetIdentityCounters m) = m_commands m" "m_pauseRequests (resetIdentityCounters m) = m_pauseRequests m" "m_answers (resetIdentityCounters m) = m_answers m" "m_fresh (resetIdentityCounters m) = m_fresh m"
  "openKinds (resetIdentityCounters m) = openKinds m" "noOpenEvents (resetIdentityCounters m) = noOpenEvents m" "rows_wf (resetIdentityCounters m) = rows_wf m"
  by (simp_all add: resetState_def resetIdentityCounters_def Let_def openKinds_def noOpenEvents_def rows_wf_def)

definition droppedState :: "mutation \<Rightarrow> identity_state" where
  "droppedState m = s_identityState (m_session (dropPendingBursts m))"

lemma dropPendingBursts_simps [simp]:
  "m_session (dropPendingBursts m) = (m_session m)\<lparr>s_identityState := droppedState m\<rparr>"
  "m_now (dropPendingBursts m) = m_now m" "m_periods (dropPendingBursts m) = m_periods m" "m_events (dropPendingBursts m) = m_events m"
  "m_commands (dropPendingBursts m) = m_commands m" "m_pauseRequests (dropPendingBursts m) = m_pauseRequests m" "m_answers (dropPendingBursts m) = m_answers m" "m_fresh (dropPendingBursts m) = m_fresh m"
  "openKinds (dropPendingBursts m) = openKinds m" "noOpenEvents (dropPendingBursts m) = noOpenEvents m" "rows_wf (dropPendingBursts m) = rows_wf m"
  by (simp_all add: droppedState_def dropPendingBursts_def Let_def openKinds_def noOpenEvents_def rows_wf_def)

lemma enqueueCommand_simps [simp]:
  "m_now (enqueueCommand c i m) = m_now m" "m_session (enqueueCommand c i m) = m_session m" "m_periods (enqueueCommand c i m) = m_periods m"
  "m_events (enqueueCommand c i m) = m_events m" "m_pauseRequests (enqueueCommand c i m) = m_pauseRequests m" "m_answers (enqueueCommand c i m) = m_answers m" "m_fresh (enqueueCommand c i m) = m_fresh m"
  "openKinds (enqueueCommand c i m) = openKinds m" "noOpenEvents (enqueueCommand c i m) = noOpenEvents m" "rows_wf (enqueueCommand c i m) = rows_wf m"
  by (simp_all add: enqueueCommand_def openKinds_def noOpenEvents_def rows_wf_def)

section \<open>Periods\<close>

lemma insertPeriod_simps [simp]:
  "m_now (insertPeriod k t e r d m) = m_now m" "m_session (insertPeriod k t e r d m) = m_session m"
  "m_commands (insertPeriod k t e r d m) = m_commands m" "m_pauseRequests (insertPeriod k t e r d m) = m_pauseRequests m" "m_answers (insertPeriod k t e r d m) = m_answers m"
  "openKinds (insertPeriod k t (Some u) r d m) = openKinds m"
  "openKinds (insertPeriod k t None r d m) = add_mset k (openKinds m)"
  by (simp_all add: insertPeriod_def Let_def openKinds_def split: option.split)

lemma unobservedEvent_open [simp]: "\<not> ei_open (unobservedEvent p t)"
  by (simp add: unobservedEvent_def)

lemma insertPeriod_events [simp]:
  "noOpenEvents (insertPeriod k t e r d m) = noOpenEvents m"
  by (auto simp: insertPeriod_def Let_def noOpenEvents_def split: option.split)

lemma insertPeriod_rows [simp]: "rows_wf m \<Longrightarrow> rows_wf (insertPeriod k t e r d m)"
proof -
  assume m: "rows_wf m"
  define row where "row = \<lparr>pd_id = freshId m, pd_kind = k, pd_observed = (k \<in> set OBSERVED_PERIOD_KINDS), pd_startedAt = t,
     pd_endedAt = map_option (max t) e, pd_reason = r, pd_meta = d\<rparr>"
  define m1 where "m1 = m\<lparr>m_periods := sort_key pd_startedAt (m_periods m @ [row]), m_fresh := Suc (m_fresh m)\<rparr>"
  have "freshId m \<notin> pd_id ` set (m_periods m)"
    using m known_fresh by (fastforce simp: rows_wf_def list_all_iff)
  then have d: "distinct (map pd_id (m_periods m @ [row]))" using m by (simp add: rows_wf_def row_def)
  have "mset (map pd_id (sort_key pd_startedAt (m_periods m @ [row]))) = mset (map pd_id (m_periods m @ [row]))" by simp
  then have "distinct (map pd_id (sort_key pd_startedAt (m_periods m @ [row])))" using d mset_eq_imp_distinct_iff by blast
  moreover have "known (Suc (m_fresh m)) row" by (auto simp: known_def row_def freshId_rowId)
  moreover have "period_wf row" by (auto simp: period_wf_def row_def)
  ultimately have "rows_wf m1"
    using m known_Suc[of "m_fresh m" "m_periods m"] by (auto simp: rows_wf_def m1_def list_all_iff)
  moreover have "insertPeriod k t e r d m = (case pd_endedAt row of
       Some ended \<Rightarrow> (if k \<in> set UNOBSERVED_KINDS then addEvent (unobservedEvent row ended) m1 else m1) | None \<Rightarrow> m1)"
    by (simp only: insertPeriod_def row_def m1_def Let_def)
  ultimately show ?thesis by (simp split: option.split)
qed

lemma m_fresh_insertPeriod: "m_fresh m \<le> m_fresh (insertPeriod k t e r d m)"
  by (auto simp: insertPeriod_def Let_def split: option.split)

lemma pd_id_update:
  "pd_id \<circ> (\<lambda>p. if Q p then p\<lparr>pd_endedAt := x p\<rparr> else p) = pd_id"
  "pd_id \<circ> (\<lambda>p. if Q p then p\<lparr>pd_reason := y p\<rparr> else p) = pd_id"
  by (auto simp: fun_eq_iff)

lemma known_update [simp]:
  "known n (p\<lparr>pd_endedAt := x\<rparr>) = known n p" "known n (p\<lparr>pd_reason := y\<rparr>) = known n p"
  by (simp_all add: known_def)

lemma rows_wf_update_ends:
  assumes "rows_wf m" "\<And>p. p \<in> set (m_periods m) \<Longrightarrow> Q p \<Longrightarrow> pd_startedAt p \<le> x p"
  shows "rows_wf (m\<lparr>m_periods := map (\<lambda>p. if Q p then p\<lparr>pd_endedAt := Some (x p)\<rparr> else p) (m_periods m)\<rparr>)"
  using assms unfolding rows_wf_def by (auto simp: pd_id_update list_all_iff period_wf_def)

lemma rows_wf_update_reason:
  assumes "rows_wf m"
  shows "rows_wf (m\<lparr>m_periods := map (\<lambda>p. if Q p then p\<lparr>pd_reason := y p\<rparr> else p) (m_periods m)\<rparr>)"
  using assms unfolding rows_wf_def by (auto simp: pd_id_update list_all_iff period_wf_def)

lemma openPeriodRow_None_iff: "openPeriodRow m = None \<longleftrightarrow> openKinds m = {#}"
  by (auto simp: openPeriodRow_def openKinds_def find_None_iff filter_mset_eq_conv)

lemma openPeriodRow_Some:
  assumes "openPeriodRow m = Some p"
  shows "p \<in> set (m_periods m)" "pd_endedAt p = None" "pd_kind p \<in># openKinds m"
proof -
  obtain i where "i < length (rev (m_periods m))" "p = rev (m_periods m) ! i" and e: "pd_endedAt p = None"
    using assms unfolding openPeriodRow_def find_Some_iff by blast
  then have "p \<in> set (rev (m_periods m))" by (metis nth_mem)
  then show s: "p \<in> set (m_periods m)" by simp
  show "pd_endedAt p = None" by (rule e)
  show "pd_kind p \<in># openKinds m" using s e by (simp add: openKinds_def)
qed

lemma openPeriodRow_kind:
  assumes "openKinds m = {#k#}" shows "\<exists>p. openPeriodRow m = Some p \<and> pd_kind p = k \<and> pd_endedAt p = None"
  using openPeriodRow_None_iff[of m] openPeriodRow_Some[of m] assms by (cases "openPeriodRow m") auto

lemma openPeriodRow_kind_eq [simp]: "openKinds m = {#k#} \<Longrightarrow> openPeriodRow m = Some p \<Longrightarrow> pd_kind p = k"
  using openPeriodRow_Some(3) by fastforce

lemma filter_mset_map_if:
  "filter_mset Q (mset (map (\<lambda>x. if P x then f x else x) xs)) =
   filter_mset Q (image_mset f (filter_mset P (mset xs))) + filter_mset Q (filter_mset (\<lambda>x. \<not> P x) (mset xs))"
  by (induction xs) auto

lemma endPeriod_open:
  "filter_mset (\<lambda>p. pd_endedAt p = None) (mset (endPeriod i t ps)) = filter_mset (\<lambda>p. pd_endedAt p = None \<and> pd_id p \<noteq> i) (mset ps)"
  unfolding endPeriod_def by (induction ps) auto

lemma closeOpenPeriod_simps [simp]:
  "m_now (closeOpenPeriod t m) = m_now m" "m_session (closeOpenPeriod t m) = m_session m"
  "m_commands (closeOpenPeriod t m) = m_commands m" "m_pauseRequests (closeOpenPeriod t m) = m_pauseRequests m" "m_answers (closeOpenPeriod t m) = m_answers m"
  "noOpenEvents (closeOpenPeriod t m) = noOpenEvents m"
  by (auto simp: closeOpenPeriod_def Let_def noOpenEvents_def split: option.split)

lemma closeOpenPeriod_rows [simp]: "rows_wf m \<Longrightarrow> rows_wf (closeOpenPeriod t m)"
  using rows_wf_update_ends[of m "\<lambda>p. pd_id p = pd_id (the (openPeriodRow m))" "\<lambda>p. max (pd_startedAt p) t"]
  by (auto simp: closeOpenPeriod_def Let_def endPeriod_def split: option.split)

lemma m_fresh_closeOpenPeriod: "m_fresh m \<le> m_fresh (closeOpenPeriod t m)"
  by (auto simp: closeOpenPeriod_def Let_def split: option.split)

lemma openKinds_closeOpenPeriod_eq:
  "openKinds (closeOpenPeriod t m) = (case openPeriodRow m of None \<Rightarrow> openKinds m
     | Some p \<Rightarrow> image_mset pd_kind (filter_mset (\<lambda>q. pd_endedAt q = None \<and> pd_id q \<noteq> pd_id p) (mset (m_periods m))))"
  by (auto simp: closeOpenPeriod_def Let_def openKinds_def endPeriod_open split: option.split)

lemma size_openKinds_closeOpenPeriod: "size (openKinds (closeOpenPeriod t m)) \<le> size (openKinds m)"
proof (cases "openPeriodRow m")
  case (Some p)
  have "size (filter_mset (\<lambda>q. pd_id q \<noteq> pd_id p) (filter_mset (\<lambda>q. pd_endedAt q = None) (mset (m_periods m)))) \<le>
        size (filter_mset (\<lambda>q. pd_endedAt q = None) (mset (m_periods m)))"
    by (rule size_filter_mset_lesseq)
  then show ?thesis unfolding openKinds_closeOpenPeriod_eq Some by (simp add: openKinds_def filter_filter_mset)
qed (simp add: openKinds_closeOpenPeriod_eq)

lemma openKinds_closeOpenPeriod [simp]:
  assumes "size (openKinds m) \<le> 1" shows "openKinds (closeOpenPeriod t m) = {#}"
proof (cases "openPeriodRow m")
  case None
  then show ?thesis using openPeriodRow_None_iff[of m] by (simp add: openKinds_closeOpenPeriod_eq)
next
  case (Some p)
  let ?O = "filter_mset (\<lambda>q. pd_endedAt q = None) (mset (m_periods m))"
  have "p \<in># ?O" using openPeriodRow_Some[OF Some] by simp
  then obtain N where N: "?O = add_mset p N" by (blast dest: multi_member_split)
  with assms have "N = {#}" by (simp add: openKinds_def)
  then have "filter_mset (\<lambda>q. pd_id q \<noteq> pd_id p) ?O = {#}" by (simp add: N)
  then show ?thesis by (simp add: openKinds_closeOpenPeriod_eq Some filter_filter_mset)
qed

section \<open>The period track as an interface\<close>

text \<open>
  What a handler needs of the periods: closing leaves none open when at most one was,
  opening adds one, a finished period does not count.
\<close>

locale period_track =
  fixes kinds :: "'m \<Rightarrow> 'k multiset"
    and close :: "ms \<Rightarrow> 'm \<Rightarrow> 'm"
    and openp :: "'k \<Rightarrow> ms \<Rightarrow> 'm \<Rightarrow> 'm"
    and closed :: "'k \<Rightarrow> ms \<Rightarrow> ms \<Rightarrow> 'm \<Rightarrow> 'm"
  assumes close_all: "size (kinds m) \<le> 1 \<Longrightarrow> kinds (close t m) = {#}"
    and open_adds: "kinds (openp k t m) = add_mset k (kinds m)"
    and closed_adds_none: "kinds (closed k t u m) = kinds m"
begin

definition switch :: "'k \<Rightarrow> ms \<Rightarrow> 'm \<Rightarrow> 'm" where
  "switch k t m = openp k t (close t m)"

lemma switch_kinds: "size (kinds m) \<le> 1 \<Longrightarrow> kinds (switch k t m) = {#k#}"
  by (simp add: switch_def open_adds close_all)

lemma switches_leave_the_last: "size (kinds m) \<le> 1 \<Longrightarrow> kinds (fold (\<lambda>(k, t). switch k t) (steps @ [(k, t)]) m) = {#k#}"
proof (induction steps arbitrary: m)
  case (Cons s steps)
  then show ?case by (cases s) (simp add: switch_kinds)
qed (simp add: switch_kinds)

lemma gap_then_open: "size (kinds m) \<le> 1 \<Longrightarrow> kinds (openp k v (closed k' t u (close t' m))) = {#k#}"
  by (simp add: open_adds closed_adds_none close_all)

end

interpretation session_track: period_track openKinds closeOpenPeriod "\<lambda>k t. insertPeriod k t None r d" "\<lambda>k t u. insertPeriod k t (Some u) r' d'"
  for r d r' d'
  by unfold_locales simp_all

lemma switchPeriod_track: "switchPeriod k t r d m = session_track.switch r d k t m"
  by (simp add: switchPeriod_def session_track.switch_def)

lemma switchPeriod_simps [simp]:
  "m_now (switchPeriod k t r d m) = m_now m" "m_session (switchPeriod k t r d m) = m_session m"
  "m_commands (switchPeriod k t r d m) = m_commands m" "m_pauseRequests (switchPeriod k t r d m) = m_pauseRequests m" "m_answers (switchPeriod k t r d m) = m_answers m"
  "noOpenEvents (switchPeriod k t r d m) = noOpenEvents m"
  "rows_wf m \<Longrightarrow> rows_wf (switchPeriod k t r d m)"
  by (simp_all add: switchPeriod_def)

lemma openKinds_switchPeriod [simp]: "size (openKinds m) \<le> 1 \<Longrightarrow> openKinds (switchPeriod k t r d m) = {#k#}"
  unfolding switchPeriod_track by (rule session_track.switch_kinds)

section \<open>The session's clock is the exam clock\<close>

lemma wf_usedAt: "wf_clock (sessionClock s) \<Longrightarrow> 0 \<le> usedAt s t \<and> usedAt s t \<le> s_durationMs s"
  using wf_clockStop[of "sessionClock s" t]
  by (auto simp: wf_clock_def usedAt_def sessionClock_def clockStop_def split: if_splits)

lemma sessionClock_start: "sessionClock (m_session (clockStartM t m)) = clockStart (sessionClock (m_session m)) t"
  by (auto simp: sessionClock_def clockStart_def)

lemma sessionClock_stop: "sessionClock (m_session (clockStopM t m)) = clockStop (sessionClock (m_session m)) t"
  by (auto simp: sessionClock_def clockStop_def usedAt_def)

interpretation session_watch: stopwatch clockStartM clockStopM "\<lambda>m t. remainingMs (m_session m) t"
    "\<lambda>m. s_runningSince (m_session m) \<noteq> None" "\<lambda>m. wf_clock (sessionClock (m_session m))"
proof unfold_locales
  fix t u v :: ms and m :: mutation
  let ?c = "sessionClock (m_session m)"
  have r: "(s_runningSince (m_session m) \<noteq> None) = (ck_runningSince ?c \<noteq> None)" by (simp add: sessionClock_def)
  show "s_runningSince (m_session (clockStartM t m)) \<noteq> None" by simp
  show "\<not> s_runningSince (m_session (clockStopM t m)) \<noteq> None" by simp
  show "wf_clock ?c \<Longrightarrow> wf_clock (sessionClock (m_session (clockStartM t m)))" by (simp add: sessionClock_start wf_clockStart del: clockStartM_simps)
  show "wf_clock ?c \<Longrightarrow> wf_clock (sessionClock (m_session (clockStopM t m)))" by (simp add: sessionClock_stop wf_clockStop del: clockStopM_simps)
  show "0 \<le> remainingMs (m_session m) u" by (simp add: remainingMs_def exam_watch.left_nonneg)
  show "\<not> s_runningSince (m_session m) \<noteq> None \<Longrightarrow> remainingMs (m_session m) u = remainingMs (m_session m) v"
    unfolding r remainingMs_def by (rule exam_watch.left_stopped)
  show "\<not> s_runningSince (m_session m) \<noteq> None \<Longrightarrow> remainingMs (m_session (clockStartM t m)) u = max 0 (remainingMs (m_session m) t - max 0 (u - t))"
    unfolding r remainingMs_def sessionClock_start by (rule exam_watch.left_start)
  show "wf_clock ?c \<Longrightarrow> s_runningSince (m_session m) \<noteq> None \<Longrightarrow> remainingMs (m_session (clockStopM t m)) u = remainingMs (m_session m) t"
    unfolding r remainingMs_def sessionClock_stop by (rule exam_watch.left_stop)
qed

end
