(* ===== verification/SP_Transitions.thy ===== *)
theory SP_Transitions
  imports SP_Session
begin

text \<open>
  apps/server/src/services/session-state.ts, the transitions every handler is built
  from: start, pause, hold, end and the recording of a reporting timeout; with the
  session side of apps/server/src/services/accommodations.ts and reporting-gaps.ts.
\<close>

section \<open>Reporting timeouts\<close>

datatype detected_by = By_sweeper | By_late_heartbeat

definition recordReportingTimeout :: "policy \<Rightarrow> ms \<Rightarrow> detected_by \<Rightarrow> mutation \<Rightarrow> mutation" where
  "recordReportingTimeout policy lastHb detectedBy m =
     (let m1 = setS (\<lambda>s. s\<lparr>s_connection := Offline\<rparr>) m
      in if s_status (m_session m) \<noteq> Active then m1
         else let details = [(''lastHeartbeatAt'', JInt lastHb), (''instanceId'', jstr (s_lastHeartbeatInstanceId (m_session m))),
                    (''timerBehavior'', JStr (timerStr (cp_disconnectTimerBehavior (pol_connection policy))))] @
                    (if detectedBy = By_sweeper then [] else [(''detectedBy'', JStr ''late_heartbeat'')]);
                  eid = freshId m1;
                  m2 = addEvent ((evt Ev_reporting_interrupted details)\<lparr>ei_open := True, ei_startedAt := Some lastHb\<rparr>) m1;
                  m3 = setS (\<lambda>s. s\<lparr>s_reportingEventId := Some eid,
                         s_reportingInterruptedSince := Some (case s_reportingInterruptedSince s of Some t \<Rightarrow> min lastHb t | None \<Rightarrow> lastHb)\<rparr>) m2
              in if cp_disconnectTimerBehavior (pol_connection policy) = Timer_stop
                 then clockStopM (max lastHb (nullish (s_runningSince (m_session m3)) lastHb)) m3 else m3)"

section \<open>Accommodations of an unstarted session\<close>

definition UNSTARTED :: "session_status list" where
  "UNSTARTED = [Invited, Ready, On_hold]"

definition applicableAccommodations :: "env \<Rightarrow> ident \<Rightarrow> ms \<Rightarrow> accommodation_record list" where
  "applicableAccommodations e examId now =
     sort_key acr_grantedAt (filter (\<lambda>a. accommodationApplies (acr_examId a) (acr_validUntil a) (acr_revokedAt a) examId now) (en_records e))"

definition sessionSnapshot :: "accommodation_record list \<Rightarrow> ms \<Rightarrow> ms \<Rightarrow> session_accommodations option" where
  "sessionSnapshot rows base now =
     (if rows = [] then None
      else Some \<lparr>sa_items = map (\<lambda>a. (acr_id a, acr_spec a)) rows,
                 sa_extraTimeMs = accommodationExtraTimeMs base (map acr_spec rows), sa_at = now, sa_exceptions = None\<rparr>)"

definition baseDurationMs :: "session \<Rightarrow> ms" where
  "baseDurationMs s = s_durationMs s - extraTimeMs (s_accommodations s)"

definition snapshotItems :: "session_accommodations option \<Rightarrow> (ident \<times> accommodation_spec) list" where
  "snapshotItems a = (case a of None \<Rightarrow> [] | Some a \<Rightarrow> sa_items a)"

definition refreshSessionAccommodations :: "env \<Rightarrow> mutation \<Rightarrow> mutation" where
  "refreshSessionAccommodations e m =
     (let s = m_session m
      in if s_startedAt s \<noteq> None \<or> s_status s \<notin> set UNSTARTED then m
         else let base = baseDurationMs s;
                  next = sessionSnapshot (applicableAccommodations e (s_examId s) (m_now m)) base (m_now m)
              in if snapshotItems next = snapshotItems (s_accommodations s) \<and> extraTimeMs next = extraTimeMs (s_accommodations s) then m
                 else setS (\<lambda>s. s\<lparr>s_accommodations := next, s_durationMs := base + extraTimeMs next\<rparr>) m)"

section \<open>Start\<close>

definition displayStr :: "display_report \<Rightarrow> string" where
  "displayStr d = (case d of Displays_extended \<Rightarrow> ''extended'' | Displays_single \<Rightarrow> ''single'' | Displays_unknown \<Rightarrow> ''unknown'')"

text \<open>\<open>report\<close> is what \<open>displaysAtStart\<close> finds out about the starting browser's displays.\<close>

definition startExam :: "env \<Rightarrow> display_report \<Rightarrow> mutation \<Rightarrow> mutation result" where
  "startExam e report m =
     bindR (assertStatus m [Ready]) (\<lambda>_.
       let m1 = refreshSessionAccommodations e m;
           acc = s_accommodations (m_session m1);
           (policy, exceptions) = withAccommodations (en_examPolicy e) acc (Some (s_durationMs (m_session m1)));
           displays = (if bp_requireSingleDisplay (pol_browser policy) then Some report else None);
           deferredMs = map_option (\<lambda>t. max 0 (m_now m1 - t)) (s_startDeferredSince (m_session m1))
       in bindR (guardR (consentCoversRecording (s_consentNoticeVersion (m_session m1)) (recordingPlan policy)) (conflict ''consent_required'')) (\<lambda>_.
          bindR (guardR (displays \<noteq> Some Displays_extended) (conflict ''single_display_required'')) (\<lambda>_.
            let m2 = setS (\<lambda>s. s\<lparr>s_status := Active, s_startedAt := Some (nullish (s_startedAt s) (m_now m1)),
                        s_examVersionId := Some (en_versionId e), s_policy := Some policy,
                        s_accommodations := (case acc of Some a \<Rightarrow> (if sa_items a = [] then None else Some (a\<lparr>sa_exceptions := Some exceptions\<rparr>)) | None \<Rightarrow> None),
                        s_startDeferredSince := None\<rparr>) m1;
                m3 = clockStartM (m_now m2) m2;
                m4 = switchPeriod P_active (m_now m3) None [] m3;
                m5 = resetIdentityCounters m4;
                m6 = addEvent (evt Ev_session_started ([(''durationMs'', JInt (s_durationMs (m_session m5)))] @
                        (case deferredMs of Some d \<Rightarrow> [(''startDeferredMs'', JInt d)] | None \<Rightarrow> []) @
                        (case displays of Some d \<Rightarrow> [(''displays'', JStr (displayStr d))] | None \<Rightarrow> []))) m5
            in Inr (if snapshotItems acc = [] then m6
                    else addEvent (evt Ev_accommodations_applied
                           [(''items'', JArr (map (\<lambda>(i, a). JObj [(''id'', JStr i), (''kind'', JStr (kindName (kindOf a)))]) (snapshotItems acc))),
                            (''extraTimeMs'', JInt (extraTimeMs acc))]) m6))))"

section \<open>Pause\<close>

definition pauseNow :: "env \<Rightarrow> string option \<Rightarrow> ident option \<Rightarrow> ident option \<Rightarrow> mutation \<Rightarrow> mutation result" where
  "pauseNow e reason requestId approvedBy m =
     bindR (assertStatus m [Active]) (\<lambda>_.
       let now = m_now m; tb = pp_timerBehavior (pol_pause (effectivePolicy e (m_session m)));
           m1 = (if tb = Timer_stop then clockStopM now m else clockStartM now m);
           m2 = closeOpenEvents now ''pause'' [Ev_reporting_interrupted] m1;
           m3 = switchPeriod P_paused now reason [(''requestId'', jstr requestId), (''timerBehavior'', JStr (timerStr tb))] m2;
           m4 = setS (\<lambda>s. s\<lparr>s_status := Paused, s_pauseCount := s_pauseCount s + 1, s_checkAttemptsResetAt := Some now\<rparr>) m3;
           m5 = resetIdentityCounters m4
       in Inr (addEvent ((evt Ev_session_paused
            [(''reason'', jstr reason), (''requestId'', jstr requestId), (''approvedBy'', jstr approvedBy),
             (''timerBehavior'', JStr (timerStr tb)), (''pauseNumber'', JInt (s_pauseCount (m_session m5)))])\<lparr>ei_startedAt := Some now\<rparr>) m5))"

section \<open>Hold\<close>

record hold_opts =
  ho_reason :: hold_reason
  ho_message :: "hold_message option"
  ho_canReverify :: bool
  ho_source :: "event_source option"
  ho_details :: jobj
  ho_by :: "ident option"

definition holdFor :: "hold_reason \<Rightarrow> jobj \<Rightarrow> hold_opts" where
  "holdFor r d = \<lparr>ho_reason = r, ho_message = None, ho_canReverify = False, ho_source = None, ho_details = d, ho_by = None\<rparr>"

definition holdPrevAfter :: "session_status \<Rightarrow> session_status option \<Rightarrow> session_status option" where
  "holdPrevAfter prev old = (if prev = On_hold then old else if prev = Paused then Some Active else Some prev)"

definition holdNow :: "hold_opts \<Rightarrow> mutation \<Rightarrow> mutation result" where
  "holdNow opts m =
     bindR (assertStatus m [Invited, Ready, Active, Paused, On_hold]) (\<lambda>_.
       let now = m_now m; prev = s_status (m_session m); message = nullish (ho_message opts) (HM_default (ho_reason opts));
           m1 = clockStopM now m;
           m2 = (if prev \<noteq> On_hold then closeOpenEvents now ''hold'' [Ev_reporting_interrupted] m1 else m1);
           opn = openPeriodRow m2;
           continuing = (case opn of Some p \<Rightarrow> pd_kind p = P_on_hold | None \<Rightarrow> False);
           m3 = (if continuing
                 then m2\<lparr>m_periods := map (\<lambda>p. if pd_id p = pd_id (the opn) then p\<lparr>pd_reason := Some (holdReasonStr (ho_reason opts))\<rparr> else p) (m_periods m2)\<rparr>
                 else switchPeriod P_on_hold now (Some (holdReasonStr (ho_reason opts))) [(''previousStatus'', JStr (statusStr prev))] m2);
           m4 = setS (\<lambda>s. s\<lparr>s_status := On_hold, s_holdReason := Some (ho_reason opts),
                  s_holdSince := (if continuing \<and> s_holdSince s \<noteq> None then s_holdSince s else Some now),
                  s_holdMessage := Some message, s_holdCanReverify := ho_canReverify opts,
                  s_holdPrevStatus := holdPrevAfter prev (s_holdPrevStatus s),
                  s_reEnrollAuthorized := False, s_reEnrollAuthorizedBy := None\<rparr>) m3;
           m5 = resetIdentityCounters m4;
           m6 = addEvent ((evt Ev_session_held
                  (spread [(''reason'', JStr (holdReasonStr (ho_reason opts))), (''previousStatus'', JStr (statusStr prev)), (''by'', jstr (ho_by opts))]
                     (ho_details opts)))\<lparr>ei_source := Some (nullish (ho_source opts) Src_server_system)\<rparr>) m5
       in Inr (enqueueCommand (Cmd_hold (ho_reason opts) (nullish (s_holdSince (m_session m6)) now) message (ho_canReverify opts)) None m6))"

section \<open>End\<close>

text \<open>\<open>capturesWithin\<close> (services/reporting-gaps.ts): late captures inside an outage.\<close>

definition capturesWithin :: "span list \<Rightarrow> span \<Rightarrow> span list" where
  "capturesWithin late outage = filter (\<lambda>l. snd l > fst outage \<and> fst l \<le> snd outage) late"

definition GAP_NOT_RETURNED :: string where
  "GAP_NOT_RETURNED = ''browser_not_returned''"

definition CLIENT_EVENT_SOURCES :: "event_source list" where
  "CLIENT_EVENT_SOURCES = [Src_client_browser, Src_client_vision]"

definition closeGapPeriodAtEnd :: "ms \<Rightarrow> ms \<Rightarrow> ident \<Rightarrow> end_reason \<Rightarrow> period \<Rightarrow> mutation \<Rightarrow> mutation" where
  "closeGapPeriodAtEnd gapStart t eid endReason p m =
     (let from = max (pd_startedAt p) gapStart; upto = min (nullish (pd_endedAt p) t) t;
          m1 = (case pd_endedAt p of
                  None \<Rightarrow> closeOpenPeriod from m
                | Some e \<Rightarrow> (if e > from
                     then m\<lparr>m_periods := map (\<lambda>q. if pd_id q = pd_id p then q\<lparr>pd_endedAt := Some from\<rparr> else q) (m_periods m)\<rparr>
                     else m))
      in if upto > from
         then insertPeriod P_disconnected from (Some upto) (Some GAP_NOT_RETURNED)
                [(''reportingEventId'', JStr eid), (''endReason'', JStr (endReasonStr endReason))] m1
         else m1)"

definition closeReportingGapAtEnd :: "env \<Rightarrow> ms \<Rightarrow> end_reason \<Rightarrow> mutation \<Rightarrow> mutation" where
  "closeReportingGapAtEnd e t endReason m =
     (case s_reportingEventId (m_session m) of None \<Rightarrow> m | Some i \<Rightarrow>
       (case find (\<lambda>ev. ev_id ev = i) (m_events m) of None \<Rightarrow> m | Some ev \<Rightarrow>
         (let gapStart = ev_startedAt ev;
              active = filter (\<lambda>p. pd_kind p = P_active \<and> pd_startedAt p < t \<and> (case pd_endedAt p of None \<Rightarrow> True | Some x \<Rightarrow> x > gapStart)) (m_periods m)
          in if ev_status ev \<noteq> Ev_open \<or> t \<le> gapStart \<or> capturesWithin (en_lateCaptures e) (gapStart, t) \<noteq> [] \<or> active = [] then m
             else fold (closeGapPeriodAtEnd gapStart t (ev_id ev) endReason) active
                    (updateEvents (\<lambda>x. ev_status x = Ev_open \<and> ev_source x \<in> set CLIENT_EVENT_SOURCES)
                       (closedAt gapStart [(''closedBy'', JStr GAP_NOT_RETURNED)]) m))))"

definition answerValues :: "mutation \<Rightarrow> ident \<rightharpoonup> answer_value" where
  "answerValues m q = Option.bind (m_answers m q) an_value"

definition gradeSession :: "env \<Rightarrow> mutation \<Rightarrow> ms \<Rightarrow> session_score" where
  "gradeSession e m t = scoreAnswers (en_textOps e) (en_questions e) (answerValues m) t (s_examVersionId (m_session m))"

definition cancelPending :: "ms \<Rightarrow> mutation \<Rightarrow> mutation" where
  "cancelPending t m = m\<lparr>m_pauseRequests := map (\<lambda>r. if pr_status r = PR_pending then r\<lparr>pr_status := PR_cancelled, pr_decidedAt := Some t\<rparr> else r) (m_pauseRequests m)\<rparr>"

definition endStatus :: "end_reason \<Rightarrow> session_status" where
  "endStatus r = (if r = E_staff_terminated \<or> r = E_abandoned \<or> r = E_candidate_withdrew then Terminated else Submitted)"

text \<open>Time expiry is recorded at the moment the clock ran out.\<close>

definition endInstant :: "end_reason \<Rightarrow> mutation \<Rightarrow> ms" where
  "endInstant r m = (let s = m_session m in case s_runningSince s of
       Some rs \<Rightarrow> (if r = E_time_expired then max rs (min (m_now m) (rs + s_durationMs s - s_usedMs s)) else m_now m)
     | None \<Rightarrow> m_now m)"

record end_opts =
  eo_by :: "ident option"
  eo_note :: "string option"
  eo_details :: jobj

definition noOpts :: end_opts where
  "noOpts = \<lparr>eo_by = None, eo_note = None, eo_details = []\<rparr>"

definition endMarkers :: "end_reason \<Rightarrow> end_opts \<Rightarrow> ms \<Rightarrow> mutation \<Rightarrow> mutation" where
  "endMarkers r o' t m =
     (let m1 = (if r = E_time_expired then addEvent ((evt Ev_session_expired [])\<lparr>ei_startedAt := Some t\<rparr>) m else m);
          marker = (\<lambda>ty src d. (evt ty d)\<lparr>ei_startedAt := Some t, ei_source := Some src\<rparr>)
      in case r of
           E_abandoned \<Rightarrow> enqueueCommand Cmd_terminated None
             (addEvent (marker Ev_session_terminated Src_server_system (spread [(''reason'', JStr ''abandoned_after_inactivity'')] (eo_details o'))) m1)
         | E_staff_terminated \<Rightarrow> enqueueCommand Cmd_terminated None
             (addEvent (marker Ev_session_terminated Src_staff [(''reason'', jstr (eo_note o')), (''by'', jstr (eo_by o'))]) m1)
         | E_candidate_withdrew \<Rightarrow> enqueueCommand Cmd_terminated None
             (addEvent (marker Ev_session_terminated Src_server_system (spread [(''reason'', JStr ''consent_withdrawn'')] (eo_details o'))) m1)
         | _ \<Rightarrow>
             (let m2 = addEvent (marker Ev_session_submitted Src_server_system
                         (spread [(''endReason'', JStr (endReasonStr r)), (''by'', jstr (eo_by o')), (''note'', jstr (eo_note o'))] (eo_details o'))) m1
              in if r \<noteq> E_candidate_submitted then enqueueCommand (Cmd_submitted r) None m2 else m2))"

definition finalizeSession :: "env \<Rightarrow> end_reason \<Rightarrow> end_opts \<Rightarrow> mutation \<Rightarrow> mutation" where
  "finalizeSession e r o' m =
     (if terminal (s_status (m_session m)) then m
      else let t = endInstant r m;
               m1 = clockStopM t m;
               m2 = closeReportingGapAtEnd e t r m1;
               m3 = closeOpenEvents t ''session_end'' [] m2;
               m4 = closeOpenPeriod t m3;
               m5 = cancelPending t m4;
               wasStarted = (s_startedAt (m_session m5) \<noteq> None);
               m6 = dropPendingBursts m5;
               m7 = setS (\<lambda>s. s\<lparr>s_status := endStatus r, s_endReason := Some r, s_endedAt := Some t, s_reportingInterruptedSince := None,
                      s_reportingEventId := None, s_holdCanReverify := False\<rparr>) m6;
               m8 = endMarkers r o' t m7
           in if wasStarted \<and> r \<noteq> E_abandoned \<and> r \<noteq> E_candidate_withdrew
              then setS (\<lambda>s. s\<lparr>s_score := Some (gradeSession e m8 t)\<rparr>) m8 else m8)"

end
