(* ===== verification/SP_Checks.thy ===== *)
theory SP_Checks
  imports SP_Transitions
begin

text \<open>
  apps/server/src/services/checks.ts, the session side of the camera and identity checks:
  which check may start and what starting one does to the other browser, the retry
  budget, and what each outcome does to the session (check-in passed or held, identity
  verified by staff, the exam continuing after a pause, a reconnection or a hold).

  What the face analysis finds in the frames is an argument here (whether the attempt
  was only spoiled by image quality, the decision against the identity photo, the
  similarity): the evidence itself is the subject of SP_Evidence and SP_Calibration.
  A check row is a \<open>check_row\<close>; the rows of a session travel beside its \<open>mutation\<close>.
\<close>

section \<open>Check rows\<close>

datatype check_mode = M_face | M_attest
datatype check_row_status = Chk_open | Chk_passed | Chk_retry | Chk_held | Chk_expired

record check_row =
  chk_id :: ident
  chk_purpose :: check_purpose
  chk_mode :: check_mode
  chk_clientInstanceId :: ident
  chk_status :: check_row_status
  chk_attempt :: int
  chk_issuedAt :: ms
  chk_expiresAt :: ms
  chk_completedAt :: "ms option"
  chk_qualityOnly :: bool

definition CHECK_TTL_MS :: ms where "CHECK_TTL_MS = 3 * 60000"
definition QUALITY_RETRY_WEIGHT :: real where "QUALITY_RETRY_WEIGHT = 1 / 2"

definition reEnrollmentApplies :: "session \<Rightarrow> check_purpose \<Rightarrow> bool" where
  "reEnrollmentApplies s purpose \<longleftrightarrow> purpose = C_reverify \<and> s_status s = On_hold \<and> s_holdCanReverify s \<and> s_reEnrollAuthorized s"

text \<open>\<open>failedAttempts\<close>: the retries of this purpose since the last reset, weighted.\<close>

definition attemptRows :: "check_row list \<Rightarrow> session \<Rightarrow> check_purpose \<Rightarrow> ident option \<Rightarrow> check_row list" where
  "attemptRows rows s purpose excluded =
     filter (\<lambda>r. chk_purpose r = purpose \<and> chk_status r = Chk_retry \<and> nullish (s_checkAttemptsResetAt s) 0 \<le> chk_issuedAt r
               \<and> excluded \<noteq> Some (chk_id r)) rows"

definition failedAttempts :: "check_row list \<Rightarrow> session \<Rightarrow> check_purpose \<Rightarrow> ident option \<Rightarrow> real" where
  "failedAttempts rows s purpose excluded =
     sum_list (map (\<lambda>r. if chk_qualityOnly r then QUALITY_RETRY_WEIGHT else 1) (attemptRows rows s purpose excluded))"

text \<open>What \<open>remaining(max, used)\<close> shows the candidate.\<close>

definition remainingAttempts :: "int \<Rightarrow> real \<Rightarrow> int" where
  "remainingAttempts mx used = max 0 \<lceil>of_int mx - used - 1 / 10 ^ 9\<rceil>"

section \<open>Devices and other browser windows\<close>

record device =
  dv_userAgent :: string
  dv_cameraLabel :: string
  dv_cameraIdHash :: string

definition isSpace :: "char \<Rightarrow> bool" where
  "isSpace c \<longleftrightarrow> c \<in> set [CHR 0x09, CHR 0x0A, CHR 0x0B, CHR 0x0C, CHR 0x0D, CHR '' '', CHR 0xA0]"

definition trim :: "string \<Rightarrow> string" where
  "trim t = rev (dropWhile isSpace (rev (dropWhile isSpace t)))"

definition cameraDiffers :: "device \<Rightarrow> device \<Rightarrow> bool" where
  "cameraDiffers a b =
     (let la = trim (dv_cameraLabel a); lb = trim (dv_cameraLabel b)
      in if la \<noteq> [] \<and> lb \<noteq> [] then la \<noteq> lb
         else dv_cameraIdHash a \<noteq> [] \<and> dv_cameraIdHash b \<noteq> [] \<and> dv_cameraIdHash a \<noteq> dv_cameraIdHash b)"

definition recordMultipleInstances :: "ident \<Rightarrow> ident \<Rightarrow> jobj \<Rightarrow> mutation \<Rightarrow> mutation" where
  "recordMultipleInstances previous new details m =
     (if \<exists>ev \<in> set (m_events m). ev_type ev = Ev_multiple_instances \<and> map_of (ev_details ev) ''previousInstanceId'' = Some (JStr previous)
      then m
      else addEvent (evt Ev_multiple_instances (spread [(''previousInstanceId'', JStr previous), (''newInstanceId'', JStr new)] details)) m)"

section \<open>Starting a check\<close>

text \<open>A stored id that is absent or empty counts as none.\<close>

definition truthy :: "ident option \<Rightarrow> ident option" where
  "truthy i = (if i = Some [] then None else i)"

definition otherInstance :: "session \<Rightarrow> ident \<Rightarrow> ident option" where
  "otherInstance s instanceId =
     (case truthy (s_lastHeartbeatInstanceId s) of None \<Rightarrow> None | Some i \<Rightarrow> (if i \<noteq> instanceId then Some i else None))"

definition otherLive :: "session \<Rightarrow> ident \<Rightarrow> ms \<Rightarrow> ms \<Rightarrow> bool" where
  "otherLive s instanceId timeoutMs now \<longleftrightarrow>
     otherInstance s instanceId \<noteq> None \<and>
     (case s_lastHeartbeatAt s of None \<Rightarrow> False | Some t \<Rightarrow> now - t \<le> timeoutMs) \<and>
     s_status s \<in> {Ready, Active, Paused, On_hold}"

text \<open>The windows told that another one took over: the one in control and the last one heard of.\<close>

definition supersededTargets :: "session \<Rightarrow> ident \<Rightarrow> ident list" where
  "supersededTargets s instanceId =
     remdups (filter (\<lambda>x. x \<noteq> instanceId) (somes [truthy (s_activeInstanceId s), otherInstance s instanceId]))"

text \<open>\<open>assertCheckRate\<close> (services/session-limits.ts): checks started per rolling hour.\<close>

definition assertCheckRate :: "int \<Rightarrow> check_row list \<Rightarrow> ms \<Rightarrow> unit result" where
  "assertCheckRate maxPerHour rows now =
     guardR (int (length (filter (\<lambda>r. now - 3600000 \<le> chk_issuedAt r) rows)) < maxPerHour)
       \<lparr>statusCode = 429, code = ''too_many_checks''\<rparr>"

text \<open>
  The other live window is recorded (when it is another device), every other window told
  and this one takes over. \<open>prevDevice\<close> is the other browser's last device record.
\<close>

definition takeOver :: "policy \<Rightarrow> ident \<Rightarrow> check_purpose \<Rightarrow> device \<Rightarrow> device option \<Rightarrow> mutation \<Rightarrow> mutation" where
  "takeOver policy instanceId required dev prevDevice m =
     (let s = m_session m;
          different = (case prevDevice of None \<Rightarrow> True | Some d \<Rightarrow> dv_userAgent d \<noteq> dv_userAgent dev \<or> cameraDiffers d dev);
          m1 = (if otherLive s instanceId (cp_heartbeatTimeoutSec (pol_connection policy) * 1000) (m_now m) \<and> different
                then recordMultipleInstances (nullish (otherInstance s instanceId) []) instanceId
                       [(''purpose'', JStr (purposeStr required)), (''previousLastHeartbeatAt'', jint (s_lastHeartbeatAt s)),
                        (''cameraLabel'', JStr (dv_cameraLabel dev)), (''userAgent'', JStr (dv_userAgent dev)), (''detectedBy'', JStr ''different_device'')] m
                else m)
      in setS (\<lambda>s. s\<lparr>s_activeInstanceId := Some instanceId\<rparr>)
           (fold (\<lambda>t. enqueueCommand Cmd_superseded (Some t)) (supersededTargets s instanceId) m1))"

text \<open>The row of the new check, and the check-in period it opens.\<close>

definition newCheckRow :: "policy \<Rightarrow> ident \<Rightarrow> check_purpose \<Rightarrow> int \<Rightarrow> mutation \<Rightarrow> check_row" where
  "newCheckRow policy instanceId required attempt m =
     \<lparr>chk_id = freshId m, chk_purpose = required,
      chk_mode = (if ip_verification (pol_identity policy) = V_staff then M_attest else M_face),
      chk_clientInstanceId = instanceId, chk_status = Chk_open, chk_attempt = attempt,
      chk_issuedAt = m_now m, chk_expiresAt = m_now m + CHECK_TTL_MS, chk_completedAt = None, chk_qualityOnly = False\<rparr>"

definition openCheckIn :: "check_purpose \<Rightarrow> mutation \<Rightarrow> mutation" where
  "openCheckIn required m =
     (if required = C_initial \<and> openPeriodRow m = None
      then insertPeriod P_check_in (m_now m) None (Some ''initial_check'') [] m else m)"

text \<open>\<open>maxPerHour\<close> is the configured limit of checks; open checks of the session expire.\<close>

definition startCheck :: "env \<Rightarrow> ident \<Rightarrow> check_purpose \<Rightarrow> device \<Rightarrow> device option \<Rightarrow> int \<Rightarrow>
    check_row list \<times> mutation \<Rightarrow> (check_row list \<times> mutation) result" where
  "startCheck e instanceId purpose dev prevDevice maxPerHour w =
     (case w of (rows, m) \<Rightarrow>
       let s = m_session m; policy = effectivePolicy e s; now = m_now m in
       case requiredCheckFor s (Some instanceId) of
         None \<Rightarrow> Inl (if s_status s = Invited \<and> s_consentAcceptedAt s = None then conflict ''consent_required'' else invalidState)
       | Some required \<Rightarrow>
          bindR (guardR (purpose = required) (conflict ''wrong_check_purpose'')) (\<lambda>_.
          bindR (if required = C_initial then assertWindowAllows (s_window s) A_check_in now now else Inr ()) (\<lambda>_.
          bindR (guardR (failedAttempts rows s required None < of_int (ip_maxVerificationAttempts (pol_identity policy))) (conflict ''attempts_exhausted'')) (\<lambda>_.
          bindR (assertCheckRate maxPerHour rows now) (\<lambda>_.
            let rows1 = map (\<lambda>r. if chk_status r = Chk_open then r\<lparr>chk_status := Chk_expired, chk_completedAt := Some now\<rparr> else r) rows;
                m1 = takeOver policy instanceId required dev prevDevice m;
                row = newCheckRow policy instanceId required (int (length (attemptRows rows s required None)) + 1) m1
            in Inr (rows1 @ [row], flush (openCheckIn required (m1\<lparr>m_fresh := Suc (m_fresh m1)\<rparr>))))))))"

section \<open>Retry budget\<close>

definition reconnectGapStart :: "session \<Rightarrow> check_row \<Rightarrow> ms" where
  "reconnectGapStart s chk = min (nullish (s_lastVerifiedHeartbeatAt s) (chk_issuedAt chk)) (chk_issuedAt chk)"

definition closeReplacedInstanceEvents :: "ident \<Rightarrow> ms \<Rightarrow> mutation \<Rightarrow> mutation" where
  "closeReplacedInstanceEvents newInstanceId t m =
     updateEvents (\<lambda>ev. ev_status ev = Ev_open \<and> ev_source ev \<in> set CLIENT_EVENT_SOURCES \<and> ev_clientInstanceId ev \<noteq> Some newInstanceId)
       (closedAt t [(''closedBy'', JStr ''instance_replaced''), (''replacedByInstanceId'', JStr newInstanceId)]) m"

datatype check_outcome = Out_passed | Out_retry | Out_held

text \<open>
  \<open>retryOrHold\<close>; \<open>details\<close> are the analysis results kept with the event, \<open>confidence\<close>
  the identity check's.
\<close>

definition retryOrHold :: "env \<Rightarrow> check_row list \<Rightarrow> check_row \<Rightarrow> ident \<Rightarrow> bool \<Rightarrow> string \<Rightarrow> real option \<Rightarrow> jobj \<Rightarrow> mutation \<Rightarrow>
    (check_outcome \<times> mutation) result" where
  "retryOrHold e rows chk instanceId qualityOnly reason confidence details m =
     (let mx = ip_maxVerificationAttempts (pol_identity (effectivePolicy e (m_session m)));
          used = failedAttempts rows (m_session m) (chk_purpose chk) (Some (chk_id chk)) + (if qualityOnly then QUALITY_RETRY_WEIGHT else 1)
      in if used \<ge> of_int mx - 1 / 10 ^ 9
         then let issued = map chk_issuedAt (filter (\<lambda>r. chk_purpose r = chk_purpose chk \<and> nullish (s_checkAttemptsResetAt (m_session m)) 0 \<le> chk_issuedAt r) rows);
                  firstAt = (case issued of [] \<Rightarrow> chk_issuedAt chk | _ \<Rightarrow> Min (set issued));
                  m1 = addEvent ((evt Ev_identity_unverifiable
                         ([(''purpose'', JStr (purposeStr (chk_purpose chk))), (''attempts'', JReal used), (''lastReason'', JStr reason),
                           (''qualityOnly'', JBool qualityOnly)] @ details))
                         \<lparr>ei_source := Some Src_server_identity, ei_startedAt := Some firstAt, ei_endedAt := Some (m_now m), ei_confidence := confidence\<rparr>) m;
                  m2 = (if chk_purpose chk = C_reconnect then closeReplacedInstanceEvents instanceId (reconnectGapStart (m_session m1) chk) m1 else m1)
              in bindR (holdNow (holdFor H_identity_unverifiable [(''purpose'', JStr (purposeStr (chk_purpose chk))), (''attempts'', JReal used)]) m2)
                   (\<lambda>m3. Inr (Out_held, if chk_purpose chk \<noteq> C_initial then setS (\<lambda>s. s\<lparr>s_verifiedInstanceId := Some instanceId\<rparr>) m3 else m3))
         else Inr (Out_retry, m))"

section \<open>The initial check\<close>

text \<open>
  The end of \<open>applyInitial\<close> once a reference was established: \<open>reference\<close> and \<open>checkin\<close>
  are the details recorded with the two events, \<open>idPhoto\<close> the decision against the
  approved photo when there is one.
\<close>

definition decisionStr :: "identity_decision \<Rightarrow> string" where
  "decisionStr d = (case d of D_match \<Rightarrow> ''match'' | D_mismatch \<Rightarrow> ''mismatch'' | D_inconclusive \<Rightarrow> ''inconclusive''
     | D_unable_to_verify \<Rightarrow> ''unable_to_verify'')"

definition passInitial :: "env \<Rightarrow> ident \<Rightarrow> jobj \<Rightarrow> jobj \<Rightarrow> mutation \<Rightarrow> mutation" where
  "passInitial e instanceId reference checkin m =
     (let m1 = addEvent ((evt Ev_reference_created reference)\<lparr>ei_source := Some Src_server_identity\<rparr>) m;
          m2 = setS (\<lambda>s. s\<lparr>s_verifiedInstanceId := Some instanceId, s_checkAttemptsResetAt := Some (m_now m1)\<rparr>) m1;
          m3 = setIdentityState ((s_identityState (m_session m2))\<lparr>is_lastMatchAt := Some (m_now m2), is_normalisation := Continuous, is_periodBaseline := None\<rparr>) m2;
          m4 = addEvent (evt Ev_checkin_completed checkin) m3;
          m5 = closeOpenPeriod (m_now m4) m4
      in setS (\<lambda>s. s\<lparr>s_status := Ready\<rparr>) m5)"

datatype enrolment = Ref_none | Ref_ok | Ref_too_few | Ref_inconsistent

text \<open>
  What the analysis found at check-in: the live-person check, the reference built from
  the frames, whether an external second opinion contradicted it, and the comparison
  with the approved photo: the decision, whether a very low score on poor frames needs a
  person to look, the recorded details.
\<close>

record initial_facts =
  if_livenessOk :: bool
  if_reference :: enrolment
  if_secondContradicts :: bool
  if_referenceDetails :: jobj
  if_checkinDetails :: jobj
  if_retryDetails :: jobj
  if_idPhoto :: "(identity_decision \<times> bool \<times> real option \<times> jobj) option"

definition idPhotoEvents :: "identity_decision \<Rightarrow> bool \<Rightarrow> real option \<Rightarrow> jobj \<Rightarrow> mutation \<Rightarrow> mutation" where
  "idPhotoEvents decision lowOnPoor confidence details m =
     (let m1 = addEvent ((evt Ev_id_photo_compared ([(''decision'', JStr (decisionStr decision))] @ details))\<lparr>ei_source := Some Src_server_identity\<rparr>) m;
          m2 = (if lowOnPoor
                then addEvent ((evt Ev_identity_unverifiable ([(''against'', JStr ''id_photo''), (''reason'', JStr ''id_photo_low_similarity_poor_quality''),
                       (''needsHumanReview'', JBool True)] @ details))\<lparr>ei_source := Some Src_server_identity\<rparr>) m1 else m1)
      in if decision = D_mismatch
         then addEvent ((evt Ev_identity_mismatch ([(''against'', JStr ''id_photo'')] @ details))\<lparr>ei_source := Some Src_server_identity, ei_confidence := confidence\<rparr>) m2
         else m2)"

definition holdOnIdPhoto :: "env \<Rightarrow> identity_decision \<Rightarrow> jobj \<Rightarrow> mutation \<Rightarrow> (check_outcome \<times> mutation) result" where
  "holdOnIdPhoto e decision details m =
     (if ip_idPhotoComparison (pol_identity (effectivePolicy e (m_session m))) = IP_required \<and> decision \<noteq> D_match
      then bindR (holdNow (holdFor (if decision = D_mismatch then H_id_photo_mismatch else H_id_photo_unverifiable)
                             ([(''decision'', JStr (decisionStr decision))] @ details)) m) (\<lambda>m1. Inr (Out_held, m1))
      else Inr (Out_passed, m))"

definition applyInitial :: "env \<Rightarrow> check_row list \<Rightarrow> check_row \<Rightarrow> ident \<Rightarrow> initial_facts \<Rightarrow> mutation \<Rightarrow> (check_outcome \<times> mutation) result" where
  "applyInitial e rows chk instanceId f m =
     (if \<not> if_livenessOk f then retryOrHold e rows chk instanceId False ''liveness_failed'' (Some 1) (if_retryDetails f) m
      else if if_reference f \<noteq> Ref_ok
           then retryOrHold e rows chk instanceId (if_reference f = Ref_none \<or> if_reference f = Ref_too_few) ''reference_not_established'' (Some 1) (if_retryDetails f) m
      else if if_secondContradicts f then retryOrHold e rows chk instanceId False ''second_opinion_inconclusive'' (Some (1 / 2)) (if_retryDetails f) m
      else let m1 = passInitial e instanceId (if_referenceDetails f) (if_checkinDetails f) m
           in case if_idPhoto f of None \<Rightarrow> Inr (Out_passed, m1)
              | Some (decision, lowOnPoor, confidence, details) \<Rightarrow>
                  holdOnIdPhoto e decision details (idPhotoEvents decision (decision \<notin> {D_match, D_mismatch} \<and> lowOnPoor) confidence details m1))"

section \<open>Continuing after a check\<close>

text \<open>Fields reset when a hold ends.\<close>

definition clearedHold :: "session \<Rightarrow> session" where
  "clearedHold s = s\<lparr>s_holdReason := None, s_holdSince := None, s_holdMessage := None, s_holdCanReverify := False,
     s_holdPrevStatus := None, s_reEnrollAuthorized := False, s_reEnrollAuthorizedBy := None\<rparr>"

definition closeGapPeriods :: "ident \<Rightarrow> check_row \<Rightarrow> ms \<Rightarrow> ms option \<Rightarrow> mutation \<Rightarrow> mutation" where
  "closeGapPeriods instanceId chk checkStart gapStart m =
     (let opn = openPeriodRow m; gs = nullish gapStart checkStart;
          m1 = (if chk_purpose chk = C_reconnect then closeReplacedInstanceEvents instanceId gs m else m);
          m2 = (case opn of None \<Rightarrow> m1
                | Some p \<Rightarrow>
                   (if chk_purpose chk = C_reconnect \<and> pd_kind p = P_active
                    then let m' = closeOpenPeriod gs m1
                         in if checkStart - gs > 0
                            then insertPeriod P_disconnected gs (Some checkStart) (Some ''browser_reconnected'') [(''newInstanceId'', JStr instanceId)] m'
                            else m'
                    else closeOpenPeriod (max (pd_startedAt p) checkStart) m1));
          m3 = insertPeriod P_resume_check checkStart (Some (m_now m2)) (Some (purposeStr (chk_purpose chk))) [(''checkId'', JStr (chk_id chk))] m2;
          m4 = closeEvent (s_reportingEventId (m_session m3)) (m_now m3) [(''closedBy'', JStr ''reconnected'')] m3
      in setS (\<lambda>s. s\<lparr>s_reportingEventId := None, s_reportingInterruptedSince := None\<rparr>) m4)"

definition pauseStartOf :: "mutation \<Rightarrow> ms option" where
  "pauseStartOf m = (if s_status (m_session m) = Paused then
      (case openPeriodRow m of Some p \<Rightarrow> (if pd_kind p = P_paused then Some (pd_startedAt p) else None) | None \<Rightarrow> None) else None)"

definition gapStartOf :: "check_row \<Rightarrow> mutation \<Rightarrow> ms option" where
  "gapStartOf chk m = (if chk_purpose chk = C_reconnect then Some (reconnectGapStart (m_session m) chk) else None)"

definition pauseTooLong :: "policy \<Rightarrow> check_row \<Rightarrow> ms option \<Rightarrow> bool" where
  "pauseTooLong policy chk pauseStart \<longleftrightarrow> chk_purpose chk = C_resume \<and>
     (case (pauseStart, pp_maxPauseDurationSec (pol_pause policy)) of
        (Some t, Some mx) \<Rightarrow> chk_issuedAt chk - t > mx * 1000 | _ \<Rightarrow> False)"

definition holdLongPause :: "policy \<Rightarrow> check_row \<Rightarrow> ms option \<Rightarrow> mutation \<Rightarrow> mutation result" where
  "holdLongPause policy chk pauseStart m =
     holdNow (holdFor H_pause_limit [(''pauseDurationMs'', jint (map_option (\<lambda>t. chk_issuedAt chk - t) pauseStart)),
                                     (''maxPauseDurationSec'', jint (pp_maxPauseDurationSec (pol_pause policy)))])
       (setS (\<lambda>s. s\<lparr>s_status := Active\<rparr>) m)"

definition connectedNow :: "ident \<Rightarrow> mutation \<Rightarrow> mutation" where
  "connectedNow instanceId m = setS (\<lambda>s. s\<lparr>s_verifiedInstanceId := Some instanceId, s_checkAttemptsResetAt := Some (m_now m),
      s_lastVerifiedHeartbeatAt := Some (m_now m), s_lastHeartbeatAt := Some (m_now m), s_lastHeartbeatInstanceId := Some instanceId,
      s_connection := Online\<rparr>) m"

definition nextStatus :: "session \<Rightarrow> session_status" where
  "nextStatus s = (if s_status s = On_hold then (if s_holdPrevStatus s = Some Ready then Ready else Active) else Active)"

text \<open>The last lines of \<open>attestContinuation\<close> and \<open>continueAfterPass\<close>: back to the exam.\<close>

definition resumeExam :: "check_row \<Rightarrow> ms option \<Rightarrow> json \<Rightarrow> mutation \<Rightarrow> mutation" where
  "resumeExam chk pauseStart similarity m =
     (let next = nextStatus (m_session m);
          m1 = setS (\<lambda>s. (if s_status s = On_hold then clearedHold s else s)\<lparr>s_status := next\<rparr>) m
      in if next \<noteq> Active then m1
         else let m2 = resetIdentityCounters (clockStartM (m_now m1)
                         (insertPeriod P_active (m_now m1) None (Some (purposeStr (chk_purpose chk))) [] m1))
              in if chk_purpose chk = C_resume
                 then addEvent (evt Ev_session_resumed
                        [(''pauseDurationMs'', jint (map_option (\<lambda>t. chk_issuedAt chk - t) pauseStart)), (''checkId'', JStr (chk_id chk)), (''similarity'', similarity)]) m2
                 else m2)"

definition countReconnect :: "check_row \<Rightarrow> mutation \<Rightarrow> mutation" where
  "countReconnect chk m = (if chk_purpose chk = C_reconnect \<and> s_status (m_session m) = Active
     then setS (\<lambda>s. s\<lparr>s_reconnectCount := s_reconnectCount s + 1\<rparr>) m else m)"

subsection \<open>Identity verified by staff\<close>

definition attestInitial :: "env \<Rightarrow> check_row \<Rightarrow> ident \<Rightarrow> mutation \<Rightarrow> (check_outcome \<times> mutation) result" where
  "attestInitial e chk instanceId m =
     (let m1 = addEvent (evt Ev_checkin_completed [(''checkId'', JStr (chk_id chk)), (''livenessSteps'', JInt 0), (''liveness'', JStr ''off''),
                   (''mode'', JStr ''attest''), (''camera'', JBool (pol_camera_enabled (effectivePolicy e (m_session m))))]) m;
          m2 = setS (\<lambda>s. s\<lparr>s_verifiedInstanceId := Some instanceId, s_checkAttemptsResetAt := Some (m_now m1)\<rparr>) m1;
          m3 = setS (\<lambda>s. s\<lparr>s_status := Ready\<rparr>) (closeOpenPeriod (m_now m2) m2)
      in bindR (holdNow (holdFor H_staff_verification [(''purpose'', JStr ''initial'')]) m3) (\<lambda>m4. Inr (Out_held, m4)))"

definition attestContinuation :: "env \<Rightarrow> check_row \<Rightarrow> ident \<Rightarrow> mutation \<Rightarrow> (check_outcome \<times> mutation) result" where
  "attestContinuation e chk instanceId m =
     (let policy = effectivePolicy e (m_session m);
          pauseStart = pauseStartOf m; gapStart = gapStartOf chk m;
          m1 = connectedNow instanceId m;
          reverify = ip_staffReverifyOnContinue (pol_identity policy);
          held = (\<lambda>m. bindR (holdNow (holdFor H_staff_verification [(''purpose'', JStr (purposeStr (chk_purpose chk)))]) m) (\<lambda>m'. Inr (Out_held, m')))
      in if s_status (m_session m1) = Ready then (if reverify then held m1 else Inr (Out_passed, m1))
         else let m2 = closeGapPeriods instanceId chk (chk_issuedAt chk) gapStart (countReconnect chk m1)
              in if pauseTooLong policy chk pauseStart
                 then bindR (holdLongPause policy chk pauseStart m2) (\<lambda>m'. Inr (Out_held, m'))
                 else if reverify then held m2
                 else Inr (Out_passed, resumeExam chk pauseStart JNull m2))"

definition completeAttestCheck :: "env \<Rightarrow> check_row \<Rightarrow> ident \<Rightarrow> mutation \<Rightarrow> (check_outcome \<times> mutation) result" where
  "completeAttestCheck e chk instanceId m =
     bindR (guardR (chk_status chk = Chk_open) (conflict ''check_closed'')) (\<lambda>_.
     bindR (guardR (s_activeInstanceId (m_session m) = Some instanceId) (conflict ''superseded'')) (\<lambda>_.
     bindR (guardR (requiredCheckFor (m_session m) (Some instanceId) = Some (chk_purpose chk)) (conflict ''check_not_required'')) (\<lambda>_.
     bindR (if chk_purpose chk = C_initial then attestInitial e chk instanceId m else attestContinuation e chk instanceId m)
       (\<lambda>r. Inr (fst r, flush (snd r))))))"

subsection \<open>Identity verified by the camera check\<close>

text \<open>
  \<open>own\<close> are the check's usable frames scored against the reference (none after a flagged
  mismatch), \<open>refBucket\<close> the reference's own quality class.
\<close>

record pass_facts =
  pf_similarity :: json
  pf_confidence :: "real option"
  pf_details :: jobj
  pf_flagged :: bool
  pf_reEnrolled :: bool
  pf_frames :: "frame_score list option"
  pf_refBucket :: "quality_bucket option"

definition normaliseAfter :: "pass_facts \<Rightarrow> mutation \<Rightarrow> mutation" where
  "normaliseAfter f m =
     (let own = (if pf_flagged f then None else pf_frames f);
          pb = Option.bind own (\<lambda>fr. periodBaseline fr (pf_refBucket f))
      in setIdentityState ((s_identityState (m_session m))\<lparr>is_normalisation := (if pb \<noteq> None then Continuous else Relaxed), is_periodBaseline := pb\<rparr>) m)"

definition keepContinuous :: "mutation \<Rightarrow> mutation" where
  "keepContinuous m = setIdentityState ((s_identityState (m_session m))\<lparr>is_normalisation := Continuous, is_periodBaseline := None\<rparr>) m"

definition continueAfterPass :: "env \<Rightarrow> check_row \<Rightarrow> ident \<Rightarrow> pass_facts \<Rightarrow> mutation \<Rightarrow> (check_outcome \<times> mutation) result" where
  "continueAfterPass e chk instanceId f m =
     (let policy = effectivePolicy e (m_session m);
          pauseStart = pauseStartOf m; gapStart = gapStartOf chk m;
          st = s_identityState (m_session m);
          m1 = closeEvent (is_openUnverifiableEventId st) (m_now m) [(''closedBy'', JStr ''identity_match'')] m;
          m2 = setIdentityState ((s_identityState (m_session m1))\<lparr>is_openUnverifiableEventId := None,
                 is_lastMatchAt := (if pf_flagged f then is_lastMatchAt st else Some (m_now m))\<rparr>) m1;
          m3 = (if pf_flagged f then m2
                else addEvent ((evt Ev_identity_verified ([(''purpose'', JStr (purposeStr (chk_purpose chk))), (''similarity'', pf_similarity f)] @ pf_details f))
                       \<lparr>ei_source := Some Src_server_identity, ei_confidence := pf_confidence f\<rparr>) m2);
          m4 = connectedNow instanceId m3
      in if s_status (m_session m4) = Ready then Inr (Out_passed, if pf_reEnrolled f then keepContinuous m4 else m4)
         else let m5 = countReconnect chk m4;
                  m6 = (if pf_reEnrolled f then keepContinuous m5
                        else if \<not> (s_status (m_session m5) = On_hold \<and> s_holdPrevStatus (m_session m5) = Some Ready) then normaliseAfter f m5
                        else m5);
                  m7 = closeGapPeriods instanceId chk (chk_issuedAt chk) gapStart m6
              in if pauseTooLong policy chk pauseStart
                 then bindR (holdLongPause policy chk pauseStart m7) (\<lambda>m'. Inr (Out_held, m'))
                 else Inr (Out_passed, resumeExam chk pauseStart (pf_similarity f) m7))"

text \<open>
  \<open>recordReferenceMismatch\<close> and the hold that follows it; \<open>details\<close> are the similarity, the
  per-frame evidence and the reference compared with.
\<close>

definition recordReferenceMismatch :: "check_row \<Rightarrow> ms option \<Rightarrow> real option \<Rightarrow> jobj \<Rightarrow> mutation \<Rightarrow> ident \<times> mutation" where
  "recordReferenceMismatch chk startedAt confidence details m =
     (freshId m, addEvent ((evt Ev_identity_mismatch ([(''against'', JStr ''reference''), (''purpose'', JStr (purposeStr (chk_purpose chk)))] @ details))
        \<lparr>ei_source := Some Src_server_identity, ei_startedAt := startedAt, ei_confidence := confidence\<rparr>) m)"

definition mismatchHold :: "check_row \<Rightarrow> ident \<Rightarrow> ident \<Rightarrow> ms option \<Rightarrow> jobj \<Rightarrow> mutation \<Rightarrow> (check_outcome \<times> mutation) result" where
  "mismatchHold chk instanceId eid gapStart extra m =
     bindR (holdNow ((holdFor H_identity_mismatch ([(''eventId'', JStr eid), (''purpose'', JStr (purposeStr (chk_purpose chk)))] @ extra))
                \<lparr>ho_source := Some Src_server_identity\<rparr>)
              (closeGapPeriods instanceId chk (chk_issuedAt chk) gapStart m))
       (\<lambda>m1. Inr (Out_held, setS (\<lambda>s. s\<lparr>s_verifiedInstanceId := Some instanceId\<rparr>) m1))"

text \<open>
  What the analysis found at a later check: the live-person check, the decision against
  the active reference, and the new reference when staff authorised one.
\<close>

record continuation_facts =
  cf_livenessOk :: bool
  cf_decision :: identity_decision
  cf_hasActive :: bool
  cf_newReference :: enrolment
  cf_qualityOnly :: bool
  cf_confidence :: "real option"
  cf_mismatchDetails :: jobj
  cf_retryDetails :: jobj
  cf_newReferenceDetails :: jobj
  cf_pass :: pass_facts

definition reEnrol :: "check_row \<Rightarrow> continuation_facts \<Rightarrow> mutation \<Rightarrow> mutation" where
  "reEnrol chk f m =
     (let m1 = (if cf_hasActive f \<and> cf_decision f = D_mismatch
                then snd (recordReferenceMismatch chk (Some (chk_issuedAt chk)) (cf_confidence f) (cf_mismatchDetails f @ [(''reEnrolled'', JBool True)]) m) else m);
          m2 = addEvent ((evt Ev_reference_created (cf_newReferenceDetails f @ [(''reEnrollment'', JBool True)]))\<lparr>ei_source := Some Src_server_identity\<rparr>) m1
      in setS (\<lambda>s. s\<lparr>s_reEnrollAuthorized := False, s_reEnrollAuthorizedBy := None\<rparr>) m2)"

definition applyContinuation :: "env \<Rightarrow> check_row list \<Rightarrow> check_row \<Rightarrow> ident \<Rightarrow> continuation_facts \<Rightarrow> mutation \<Rightarrow> (check_outcome \<times> mutation) result" where
  "applyContinuation e rows chk instanceId f m =
     (let holds = (ip_onMismatch (pol_identity (effectivePolicy e (m_session m))) = Hold_for_review);
          reEnroll = (reEnrollmentApplies (m_session m) (chk_purpose chk) \<and> cf_newReference f \<noteq> Ref_none);
          gapStart = gapStartOf chk m;
          retry = retryOrHold e rows chk instanceId
      in if \<not> cf_livenessOk f
         then (if cf_decision f = D_mismatch \<and> \<not> reEnroll \<and> cf_hasActive f
               then case recordReferenceMismatch chk None (cf_confidence f) (cf_mismatchDetails f @ [(''livenessPassed'', JBool False)]) m of (eid, m1) \<Rightarrow>
                      if holds then mismatchHold chk instanceId eid gapStart [(''livenessPassed'', JBool False)] m1
                      else retry False ''liveness_failed'' (cf_confidence f) (cf_retryDetails f) m1
               else retry False ''liveness_failed'' (cf_confidence f) (cf_retryDetails f) m)
         else if reEnroll
         then (if cf_newReference f \<noteq> Ref_ok
               then retry (cf_newReference f = Ref_too_few) ''reference_not_established'' (Some 1) (cf_retryDetails f) m
               else continueAfterPass e chk instanceId ((cf_pass f)\<lparr>pf_flagged := False, pf_reEnrolled := True\<rparr>) (reEnrol chk f m))
         else case cf_decision f of
                D_match \<Rightarrow> continueAfterPass e chk instanceId ((cf_pass f)\<lparr>pf_flagged := False, pf_reEnrolled := False\<rparr>) m
              | D_mismatch \<Rightarrow>
                  (case recordReferenceMismatch chk None (cf_confidence f) (cf_mismatchDetails f) m of (eid, m1) \<Rightarrow>
                     if holds then mismatchHold chk instanceId eid gapStart [] m1
                     else continueAfterPass e chk instanceId ((cf_pass f)\<lparr>pf_flagged := True, pf_reEnrolled := False\<rparr>) m1)
              | d \<Rightarrow> retry (cf_qualityOnly f) (decisionStr d) (cf_confidence f) (cf_retryDetails f) m)"

text \<open>\<open>completeCheck\<close>: the outcome applied under the lock and stored with the check.\<close>

datatype check_facts = CF_initial initial_facts | CF_continuation continuation_facts

definition rowStatus :: "check_outcome \<Rightarrow> check_row_status" where
  "rowStatus o' = (case o' of Out_passed \<Rightarrow> Chk_passed | Out_retry \<Rightarrow> Chk_retry | Out_held \<Rightarrow> Chk_held)"

definition completeCheck :: "env \<Rightarrow> check_row list \<Rightarrow> check_row \<Rightarrow> ident \<Rightarrow> check_facts \<Rightarrow> mutation \<Rightarrow> (check_outcome \<times> mutation) result" where
  "completeCheck e rows chk instanceId f m =
     bindR (guardR (chk_status chk = Chk_open) (conflict ''check_closed'')) (\<lambda>_.
     bindR (guardR (s_activeInstanceId (m_session m) = Some instanceId) (conflict ''superseded'')) (\<lambda>_.
     bindR (guardR (requiredCheckFor (m_session m) (Some instanceId) = Some (chk_purpose chk)) (conflict ''check_not_required'')) (\<lambda>_.
     bindR (case f of
              CF_initial i \<Rightarrow> (if chk_purpose chk = C_initial then applyInitial e rows chk instanceId i m else Inl invalidState)
            | CF_continuation c \<Rightarrow> (if chk_purpose chk \<noteq> C_initial then applyContinuation e rows chk instanceId c m else Inl invalidState))
       (\<lambda>r. Inr (fst r, flush (snd r))))))"

end
