(* ===== verification/SP_Actions.thy ===== *)
theory SP_Actions
  imports SP_Checks
begin

text \<open>
  apps/server/src/services/session-actions.ts and the rescheduling of
  apps/server/src/services/scheduling.ts: creating a session and what staff do with
  one. A handler is the body it runs under the row lock, guards in the code's order;
  \<open>Inl\<close> rolls the transaction back, \<open>Inr\<close> is the committed result. Audit rows and
  messages are not modelled.
\<close>

record actor =
  act_id :: ident
  act_orgId :: ident

definition assertOrg :: "mutation \<Rightarrow> actor \<Rightarrow> unit result" where
  "assertOrg m a = guardR (s_orgId (m_session m) = act_orgId a) (notFound ''session_not_found'')"

text \<open>What every handler does last: the changed session columns are written.\<close>

definition commit :: "mutation result \<Rightarrow> mutation result" where
  "commit r = bindR r (\<lambda>m. Inr (flush m))"

section \<open>Creation\<close>

definition newSession :: "ident \<Rightarrow> ident \<Rightarrow> ident \<Rightarrow> ms \<Rightarrow> session_accommodations option \<Rightarrow> session_window option \<Rightarrow> ms \<Rightarrow> session" where
  "newSession i orgId examId durationMs acc w now =
     \<lparr>s_id = i, s_orgId = orgId, s_examId = examId, s_examVersionId = None, s_status = Invited, s_endReason = None,
      s_accommodations = acc, s_policy = None, s_durationMs = durationMs, s_usedMs = 0, s_runningSince = None,
      s_currentQuestionIndex = 0, s_consentAcceptedAt = None, s_consentNoticeVersion = None, s_activeInstanceId = None,
      s_verifiedInstanceId = None, s_lastHeartbeatAt = None, s_lastHeartbeatInstanceId = None, s_lastVerifiedHeartbeatAt = None,
      s_instanceUsage = None, s_connection = Never_connected, s_reportingInterruptedSince = None, s_reportingEventId = None,
      s_monitoring = JNull, s_identityState = EMPTY_IDENTITY_STATE, s_holdReason = None, s_holdSince = None, s_holdMessage = None,
      s_holdCanReverify = False, s_holdPrevStatus = None, s_reEnrollAuthorized = False, s_reEnrollAuthorizedBy = None,
      s_checkAttemptsResetAt = None, s_pauseCount = 0, s_startedAt = None, s_startDeferredSince = None, s_window = w,
      s_reconnectCount = 0, s_endedAt = None, s_legalHold = False, s_evidencePurgedAt = None, s_score = None,
      s_createdAt = now, s_updatedAt = now\<rparr>"

definition createExamSession :: "env \<Rightarrow> ident \<Rightarrow> ident \<Rightarrow> ident \<Rightarrow> int \<Rightarrow> session_window option \<Rightarrow> ms \<Rightarrow> session" where
  "createExamSession e i orgId examId durationSec w now =
     (let acc = sessionSnapshot (applicableAccommodations e examId now) (durationSec * 1000) now
      in newSession i orgId examId (durationSec * 1000 + extraTimeMs acc) acc w now)"

text \<open>The transaction on a freshly created session: nothing else is stored yet.\<close>

definition emptyMutation :: "session \<Rightarrow> ms \<Rightarrow> mutation" where
  "emptyMutation s now = \<lparr>m_now = now, m_session = s, m_periods = [], m_events = [], m_commands = [], m_pauseRequests = [],
     m_answers = Map.empty, m_fresh = 0, m_dirty = False, m_droppedBursts = [], m_eraseAllUndecided = False\<rparr>"

section \<open>Pause requests\<close>

definition decideRequest :: "ident \<Rightarrow> pause_status \<Rightarrow> actor \<Rightarrow> string option \<Rightarrow> mutation \<Rightarrow> mutation" where
  "decideRequest rid st a note m = m\<lparr>m_pauseRequests := map (\<lambda>r. if pr_id r = rid
      then r\<lparr>pr_status := st, pr_decidedAt := Some (m_now m), pr_decidedBy := Some (act_id a), pr_decisionNote := note\<rparr> else r) (m_pauseRequests m)\<rparr>"

definition decidePauseRequest :: "env \<Rightarrow> ident \<Rightarrow> bool \<Rightarrow> actor \<Rightarrow> string option \<Rightarrow> mutation \<Rightarrow> mutation result" where
  "decidePauseRequest e rid approve a note m = commit (
     bindR (assertOrg m a) (\<lambda>_.
     case find (\<lambda>r. pr_id r = rid) (m_pauseRequests m) of
       None \<Rightarrow> Inl (notFound ''pause_request_not_found'')
     | Some req \<Rightarrow>
        bindR (guardR (pr_status req = PR_pending) (conflict ''already_decided'')) (\<lambda>_.
          if approve
          then bindR (assertStatus m [Active]) (\<lambda>_.
               bindR (pauseNow e (pr_reason req) (Some rid) (Some (act_id a)) (decideRequest rid PR_approved a note m)) (\<lambda>m1.
                 Inr (enqueueCommand Cmd_pause_approved None m1)))
          else Inr (enqueueCommand (Cmd_pause_denied note) None
                 (addEvent ((evt Ev_pause_denied [(''requestId'', JStr rid), (''note'', jstr note), (''by'', JStr (act_id a))])\<lparr>ei_source := Some Src_staff\<rparr>)
                    (decideRequest rid PR_denied a note m))))))"

section \<open>Holds\<close>

definition holdSession :: "actor \<Rightarrow> string option \<Rightarrow> mutation \<Rightarrow> mutation result" where
  "holdSession a note m = commit (
     bindR (assertOrg m a) (\<lambda>_.
     bindR (assertStatus m [Invited, Ready, Active, Paused, On_hold]) (\<lambda>_.
       holdNow ((holdFor H_staff [(''note'', jstr note)])\<lparr>ho_source := Some Src_staff, ho_by := Some (act_id a)\<rparr>) m)))"

record verification =
  vf_method :: string
  vf_note :: "string option"

record release_opts =
  ro_note :: "string option"
  ro_requireCheck :: "bool option"
  ro_reEnroll :: bool
  ro_verification :: "verification option"

definition nonEmpty :: "string option \<Rightarrow> string option" where
  "nonEmpty x = (case x of None \<Rightarrow> None | Some t \<Rightarrow> (if trim t = [] then None else Some (trim t)))"

text \<open>The purpose recorded with the latest hold.\<close>

definition heldPurpose :: "mutation \<Rightarrow> json" where
  "heldPurpose m = (case find (\<lambda>ev. ev_type ev = Ev_session_held) (rev (sort_key ev_startedAt (m_events m))) of
      None \<Rightarrow> JNull | Some ev \<Rightarrow> nullish (map_of (ev_details ev) ''purpose'') JNull)"

definition recordVerification :: "actor \<Rightarrow> verification \<Rightarrow> mutation \<Rightarrow> mutation" where
  "recordVerification a v m = addEvent ((evt Ev_identity_verified_by_staff
      [(''method'', JStr (vf_method v)), (''note'', jstr (nonEmpty (vf_note v))), (''by'', JStr (act_id a)), (''purpose'', heldPurpose m)])
      \<lparr>ei_source := Some Src_staff\<rparr>) m"

text \<open>The three ways a hold is released: back to check-in, behind a check, at once.\<close>

definition releaseToCheckIn :: "mutation \<Rightarrow> mutation" where
  "releaseToCheckIn m =
     enqueueCommand (Cmd_require_check C_initial) None (enqueueCommand (Cmd_hold_released True) None
       (setS (\<lambda>s. (clearedHold s)\<lparr>s_status := Invited, s_checkAttemptsResetAt := Some (m_now m), s_verifiedInstanceId := None\<rparr>)
          (closeOpenPeriod (m_now m) m)))"

definition releaseBehindCheck :: "actor \<Rightarrow> bool \<Rightarrow> mutation \<Rightarrow> mutation" where
  "releaseBehindCheck a reEnroll m =
     enqueueCommand (Cmd_require_check C_reverify) None (enqueueCommand (Cmd_hold_released True) None
       (setS (\<lambda>s. s\<lparr>s_holdCanReverify := True, s_holdMessage := Some HM_release_reverify, s_reEnrollAuthorized := reEnroll,
               s_reEnrollAuthorizedBy := (if reEnroll then Some (act_id a) else None), s_checkAttemptsResetAt := Some (m_now m)\<rparr>) m))"

definition releaseAtOnce :: "session_status \<Rightarrow> mutation \<Rightarrow> mutation" where
  "releaseAtOnce prev m =
     (let next = (if prev = Ready then Ready else if prev = Invited then Invited else Active);
          m1 = setS (\<lambda>s. (clearedHold s)\<lparr>s_status := next, s_checkAttemptsResetAt := Some (m_now m)\<rparr>) (closeOpenPeriod (m_now m) m);
          m2 = (if next = Active
                then resetIdentityCounters (clockStartM (m_now m1) (insertPeriod P_active (m_now m1) None (Some ''hold_released'') [] m1))
                else m1)
      in enqueueCommand (Cmd_hold_released False) None m2)"

definition releaseHold :: "env \<Rightarrow> actor \<Rightarrow> release_opts \<Rightarrow> mutation \<Rightarrow> mutation result" where
  "releaseHold e a opts m = commit (
     bindR (assertOrg m a) (\<lambda>_.
     bindR (assertStatus m [On_hold]) (\<lambda>_.
       let s = m_session m;
           staffMode = (ip_verification (pol_identity (effectivePolicy e s)) = V_staff);
           verificationHold = (s_holdReason s = Some H_staff_verification)
       in bindR (guardR (\<not> verificationHold \<or> ro_verification opts \<noteq> None) (conflict ''verification_required'')) (\<lambda>_.
            let reEnroll = (\<not> staffMode \<and> ro_reEnroll opts);
                requireCheck = (\<not> verificationHold \<and> (reEnroll \<or> ro_requireCheck opts \<noteq> Some False));
                prev = nullish (s_holdPrevStatus s) Active;
                m1 = (if s_holdReason s = Some H_resume_limit then setS (\<lambda>s. s\<lparr>s_reconnectCount := 0\<rparr>) m else m);
                m2 = (case (verificationHold, ro_verification opts) of (True, Some v) \<Rightarrow> recordVerification a v m1 | _ \<Rightarrow> m1);
                m3 = addEvent ((evt Ev_hold_released [(''requireCheck'', JBool requireCheck), (''reEnroll'', JBool reEnroll), (''note'', jstr (ro_note opts)),
                       (''by'', JStr (act_id a)), (''reason'', jstr (map_option holdReasonStr (s_holdReason s)))])\<lparr>ei_source := Some Src_staff\<rparr>) m2
            in Inr (if (if staffMode then prev = Invited else \<not> en_hasReference e) then releaseToCheckIn m3
                    else if requireCheck then releaseBehindCheck a reEnroll m3
                    else releaseAtOnce prev m3)))))"

section \<open>Ending, time, legal hold\<close>

definition terminateSession :: "env \<Rightarrow> actor \<Rightarrow> string \<Rightarrow> mutation \<Rightarrow> mutation result" where
  "terminateSession e a reason m = commit (
     bindR (assertOrg m a) (\<lambda>_.
     bindR (guardR (\<not> terminal (s_status (m_session m))) invalidState) (\<lambda>_.
       Inr (finalizeSession e E_staff_terminated (noOpts\<lparr>eo_by := Some (act_id a), eo_note := Some reason\<rparr>) m))))"

definition staffSubmit :: "env \<Rightarrow> actor \<Rightarrow> string option \<Rightarrow> mutation \<Rightarrow> mutation result" where
  "staffSubmit e a note m = commit (
     bindR (assertOrg m a) (\<lambda>_.
     bindR (assertStatus m [Active, Paused, On_hold]) (\<lambda>_.
       Inr (finalizeSession e E_staff_submitted (noOpts\<lparr>eo_by := Some (act_id a), eo_note := note\<rparr>) m))))"

definition extendSessionTime :: "int \<Rightarrow> actor \<Rightarrow> string option \<Rightarrow> mutation \<Rightarrow> mutation result" where
  "extendSessionTime minutes a note m = commit (
     bindR (guardR (1 \<le> minutes \<and> minutes \<le> 24 * 60) invalidState) (\<lambda>_.
     bindR (assertOrg m a) (\<lambda>_.
     bindR (assertStatus m [Ready, Active, Paused, On_hold]) (\<lambda>_.
       let m1 = setS (\<lambda>s. s\<lparr>s_durationMs := s_durationMs s + minutes * 60000\<rparr>) m
       in Inr (addEvent ((evt Ev_time_extended [(''minutes'', JInt minutes), (''note'', jstr note), (''by'', JStr (act_id a)),
                (''newDurationMs'', JInt (s_durationMs (m_session m1)))])\<lparr>ei_source := Some Src_staff\<rparr>) m1)))))"

definition setLegalHold :: "bool \<Rightarrow> actor \<Rightarrow> mutation \<Rightarrow> mutation result" where
  "setLegalHold enabled a m = commit (bindR (assertOrg m a) (\<lambda>_. Inr (setS (\<lambda>s. s\<lparr>s_legalHold := enabled\<rparr>) m)))"

section \<open>Rescheduling\<close>

definition windowJson :: "session_window option \<Rightarrow> json" where
  "windowJson w = (case w of None \<Rightarrow> JNull | Some w \<Rightarrow> JObj [(''startsAt'', jint (w_startsAt w)), (''endsAt'', jint (w_endsAt w))])"

definition rescheduleSession :: "actor \<Rightarrow> bool \<Rightarrow> session_window \<Rightarrow> string option \<Rightarrow> mutation \<Rightarrow> mutation result" where
  "rescheduleSession a viaApiKey input note m = commit (
     let s = m_session m in
     bindR (assertOrg m a) (\<lambda>_.
     bindR (guardR (\<not> terminal (s_status s)) invalidState) (\<lambda>_.
     bindR (guardR (s_startedAt s = None) (conflict ''already_started'')) (\<lambda>_.
     bindR (acceptWindow (Some input) (m_now m)) (\<lambda>window.
       if sameWindow window (s_window s) then Inr m
       else Inr (addEvent ((evt Ev_session_rescheduled [(''window'', windowJson window), (''previousWindow'', windowJson (s_window s)),
                   (''note'', jstr (nonEmpty note)), (''by'', JStr (act_id a)),
                   (''via'', JStr (if viaApiKey then ''integration_api'' else ''staff_app''))])\<lparr>ei_source := Some Src_staff\<rparr>)
                 (setS (\<lambda>s. s\<lparr>s_window := window\<rparr>) m)))))))"

end
