(* ===== verification/SP_Recovery.thy ===== *)
theory SP_Recovery
  imports SP_Actions
begin

text \<open>
  apps/server/src/services/recovery.ts (the resume policy and reopening an ended exam),
  apps/server/src/services/abandonment.ts and the session steps of
  apps/server/src/jobs/sweeper.ts.
\<close>

section \<open>The resume policy\<close>

definition limitDetails :: "resume_limit \<Rightarrow> jobj" where
  "limitDetails l = (case l of
      Limit_reconnects reconnects maxReconnects \<Rightarrow> [(''reconnects'', JInt reconnects), (''maxReconnects'', JInt maxReconnects)]
    | Limit_offline since offlineMs maxMinutes \<Rightarrow>
        [(''offlineSince'', JInt since), (''offlineMs'', JInt offlineMs), (''maxOfflineMinutes'', JInt maxMinutes)])"

definition onLimitStr :: "on_limit \<Rightarrow> string" where
  "onLimitStr o' = (case o' of Limit_hold \<Rightarrow> ''hold'' | Limit_end \<Rightarrow> ''end'')"

definition limitKindStr :: "resume_limit \<Rightarrow> string" where
  "limitKindStr l = (case l of Limit_reconnects _ _ \<Rightarrow> ''reconnects'' | Limit_offline _ _ _ \<Rightarrow> ''offline'')"

definition applyResumeLimit :: "env \<Rightarrow> policy \<Rightarrow> resume_limit \<Rightarrow> mutation \<Rightarrow> mutation result" where
  "applyResumeLimit e policy limit m =
     (let details = spread [(''limit'', JStr (limitKindStr limit)), (''onLimit'', JStr (onLimitStr (rp_onLimit (pol_resume policy))))] (limitDetails limit)
      in if rp_onLimit (pol_resume policy) = Limit_end
         then Inr (finalizeSession e E_resume_limit (noOpts\<lparr>eo_details := details\<rparr>) m)
         else holdNow ((holdFor H_resume_limit details)\<lparr>ho_message := Some (HM_resume_limit limit)\<rparr>) m)"

definition offlineSince :: "mutation \<Rightarrow> ms" where
  "offlineSince m =
     (let s = m_session m
      in max (nullish (s_lastHeartbeatAt s) 0)
           (max (case openPeriodRow m of Some p \<Rightarrow> (if pd_kind p = P_active then pd_startedAt p else 0) | None \<Rightarrow> 0)
              (nullish (s_startedAt s) 0)))"

definition offlineLimit :: "policy \<Rightarrow> mutation \<Rightarrow> resume_limit option" where
  "offlineLimit policy m = (case rp_maxOfflineMinutes (pol_resume policy) of None \<Rightarrow> None
     | Some mx \<Rightarrow>
        (if s_status (m_session m) \<noteq> Active then None
         else let since = offlineSince m; offlineMs = m_now m - since
              in if offlineMs > mx * 60000 then Some (Limit_offline since offlineMs mx) else None))"

text \<open>The limit for a late heartbeat; whether it applied.\<close>

definition applyOfflineLimit :: "env \<Rightarrow> policy \<Rightarrow> mutation \<Rightarrow> (bool \<times> mutation) result" where
  "applyOfflineLimit e policy m = (case offlineLimit policy m of None \<Rightarrow> Inr (False, m)
     | Some limit \<Rightarrow> bindR (applyResumeLimit e policy limit m) (\<lambda>m1. Inr (True, m1)))"

definition reconnectLimit :: "policy \<Rightarrow> mutation \<Rightarrow> resume_limit option" where
  "reconnectLimit policy m = orElse (offlineLimit policy m)
     (case rp_maxReconnects (pol_resume policy) of
        Some mx \<Rightarrow> (if s_reconnectCount (m_session m) \<ge> mx then Some (Limit_reconnects (s_reconnectCount (m_session m)) mx) else None)
      | None \<Rightarrow> None)"

definition enforceReconnectLimits :: "env \<Rightarrow> ident \<Rightarrow> mutation \<Rightarrow> (resume_limit option \<times> mutation) result" where
  "enforceReconnectLimits e instanceId m =
     (let s = m_session m; policy = effectivePolicy e s
      in if s_status s \<noteq> Active \<or> requiredCheckFor s (Some instanceId) \<noteq> Some C_reconnect then Inr (None, m)
         else case reconnectLimit policy m of None \<Rightarrow> Inr (None, m)
           | Some limit \<Rightarrow> bindR (commit (applyResumeLimit e policy limit m)) (\<lambda>m1. Inr (Some limit, m1)))"

section \<open>Reopening an ended exam\<close>

record reopen_request =
  rr_addMinutes :: int
  rr_reason :: string

definition loadReopenEligibility :: "env \<Rightarrow> session \<Rightarrow> ms \<Rightarrow> reopen_eligibility" where
  "loadReopenEligibility e s now = reopenEligibility
     \<lparr>rf_status = s_status s, rf_endReason = s_endReason s, rf_startedAt = s_startedAt s, rf_evidencePurgedAt = s_evidencePurgedAt s,
      rf_hasReference = en_hasReference e, rf_staffVerified = (ip_verification (pol_identity (effectivePolicy e s)) = V_staff),
      rf_reviewResolved = en_reviewResolved e, rf_remainingMs = remainingMs s now\<rparr>"

definition reopenStarted :: "end_reason option \<Rightarrow> ms option \<Rightarrow> mutation \<Rightarrow> mutation" where
  "reopenStarted prevReason prevEnd m =
     resetIdentityCounters
       (setS (\<lambda>s. s\<lparr>s_status := On_hold, s_holdReason := Some H_recovery, s_holdSince := Some (m_now m),
               s_holdMessage := Some (HM_default H_recovery), s_holdCanReverify := True, s_holdPrevStatus := Some Active,
               s_reEnrollAuthorized := False, s_reEnrollAuthorizedBy := None\<rparr>)
          (insertPeriod P_on_hold (nullish prevEnd (m_now m)) None (Some ''recovery'')
             [(''previousEndReason'', jstr (map_option endReasonStr prevReason)), (''reopenedAt'', JInt (m_now m))] m))"

definition reopenUnstarted :: "mutation \<Rightarrow> mutation" where
  "reopenUnstarted m = setS (\<lambda>s. (clearedHold s)\<lparr>s_status := Invited, s_verifiedInstanceId := None, s_activeInstanceId := None\<rparr>) m"

definition scoreJson :: "session_score option \<Rightarrow> json" where
  "scoreJson sc = (case sc of None \<Rightarrow> JNull | Some sc \<Rightarrow> JObj [(''points'', JReal (sc_points sc)), (''maxPoints'', JReal (sc_maxPoints sc))])"

definition reopenSession :: "env \<Rightarrow> actor \<Rightarrow> reopen_request \<Rightarrow> mutation \<Rightarrow> mutation result" where
  "reopenSession e a req m = commit (
     let s = m_session m in
     bindR (assertOrg m a) (\<lambda>_.
       let el = loadReopenEligibility e s (m_now m) in
     bindR (guardR (re_allowed el) (conflict (case re_code el of Some c \<Rightarrow> reopenRefusalCode c | None \<Rightarrow> ''invalid_state''))) (\<lambda>_.
       let addMs = rr_addMinutes req * 60000; started = (s_startedAt s \<noteq> None); remainingAfter = s_durationMs s + addMs - s_usedMs s in
     bindR (guardR (\<not> (started \<and> remainingAfter < REOPEN_MIN_REMAINING_MS)) (conflict ''no_time_left'')) (\<lambda>_.
       let m1 = setS (\<lambda>s. s\<lparr>s_endReason := None, s_endedAt := None, s_score := None, s_durationMs := s_durationMs s + addMs,
                  s_reconnectCount := 0, s_checkAttemptsResetAt := Some (m_now m), s_startDeferredSince := None\<rparr>) m;
           m2 = (if started then reopenStarted (s_endReason s) (s_endedAt s) m1 else reopenUnstarted m1)
       in Inr (addEvent ((evt Ev_session_reopened
            [(''reason'', JStr (trim (rr_reason req))), (''addMinutes'', JInt (rr_addMinutes req)), (''started'', JBool started),
             (''previousStatus'', JStr (statusStr (s_status s))), (''previousEndReason'', jstr (map_option endReasonStr (s_endReason s))),
             (''previousEndedAt'', jint (s_endedAt s)), (''previousScore'', scoreJson (s_score s)), (''remainingMs'', JInt remainingAfter),
             (''by'', JStr (act_id a))])\<lparr>ei_source := Some Src_staff\<rparr>) m2)))))"

section \<open>Abandoned sessions\<close>

definition DAY_MS :: ms where "DAY_MS = 24 * 3600000"

definition lastActivityAt :: "session \<Rightarrow> ms" where
  "lastActivityAt s = fold max
     [s_updatedAt s, nullish (s_lastHeartbeatAt s) 0, nullish (s_holdSince s) 0,
      nullish (Option.bind (s_window s) w_startsAt) 0, nullish (Option.bind (s_window s) w_endsAt) 0] (s_createdAt s)"

definition isAbandonable :: "session \<Rightarrow> bool" where
  "isAbandonable s \<longleftrightarrow> s_status s \<in> {Invited, Ready, Paused, On_hold} \<or> (s_status s = Active \<and> s_runningSince s = None)"

definition closeAbandoned :: "env \<Rightarrow> int \<Rightarrow> mutation \<Rightarrow> bool \<times> mutation" where
  "closeAbandoned e days m =
     (let s = m_session m; latest = lastActivityAt s
      in if \<not> isAbandonable s \<or> latest \<ge> m_now m - days * DAY_MS then (False, m)
         else (True, flush (finalizeSession e E_abandoned (noOpts\<lparr>eo_details :=
                [(''inactiveDays'', JInt days), (''previousStatus'', JStr (statusStr (s_status s))), (''lastActivityAt'', JInt latest),
                 (''holdReason'', jstr (map_option holdReasonStr (s_holdReason s)))]\<rparr>) m)))"

section \<open>The sweeper\<close>

definition MIN_HEARTBEAT_TIMEOUT_MS :: ms where "MIN_HEARTBEAT_TIMEOUT_MS = 10000"

text \<open>1. Heartbeat timeouts: the look-up's conditions, then the locked step.\<close>

definition sweepTimeoutDue :: "session \<Rightarrow> ms \<Rightarrow> bool" where
  "sweepTimeoutDue s now \<longleftrightarrow> s_connection s = Online \<and>
     (case s_lastHeartbeatAt s of None \<Rightarrow> False | Some t \<Rightarrow> t < now - MIN_HEARTBEAT_TIMEOUT_MS) \<and>
     s_status s \<in> {Invited, Ready, Active, Paused, On_hold}"

definition sweepTimeout :: "env \<Rightarrow> mutation \<Rightarrow> bool \<times> mutation" where
  "sweepTimeout e m = (case s_lastHeartbeatAt (m_session m) of None \<Rightarrow> (False, m)
     | Some t \<Rightarrow>
        (let policy = effectivePolicy e (m_session m)
         in if s_connection (m_session m) \<noteq> Online \<or> m_now m - t \<le> cp_heartbeatTimeoutSec (pol_connection policy) * 1000 then (False, m)
            else (True, flush (recordReportingTimeout policy t By_sweeper m))))"

text \<open>2. Clock expiry.\<close>

definition sweepExpiryDue :: "session \<Rightarrow> ms \<Rightarrow> bool" where
  "sweepExpiryDue s now \<longleftrightarrow> s_status s \<in> {Active, Paused} \<and>
     (case s_runningSince s of None \<Rightarrow> False | Some t \<Rightarrow> s_usedMs s + (now - t) \<ge> s_durationMs s)"

definition sweepExpiry :: "env \<Rightarrow> mutation \<Rightarrow> bool \<times> mutation" where
  "sweepExpiry e m =
     (if s_status (m_session m) \<notin> {Active, Paused} \<or> \<not> clockExpired (sessionClock (m_session m)) (m_now m) then (False, m)
      else (True, flush (finalizeSession e E_time_expired noOpts m)))"

text \<open>5. The resume policy's offline limit.\<close>

definition sweepOfflineDue :: "session \<Rightarrow> ms \<Rightarrow> bool" where
  "sweepOfflineDue s now \<longleftrightarrow> s_status s = Active \<and> s_connection s = Offline \<and>
     (case Option.bind (s_policy s) (\<lambda>p. rp_maxOfflineMinutes (pol_resume p)) of None \<Rightarrow> False
      | Some mx \<Rightarrow> (case orElse (s_lastHeartbeatAt s) (s_startedAt s) of None \<Rightarrow> False | Some t \<Rightarrow> t < now - mx * 60000))"

definition sweepOffline :: "env \<Rightarrow> mutation \<Rightarrow> (bool \<times> mutation) result" where
  "sweepOffline e m =
     (if s_status (m_session m) \<noteq> Active \<or> s_connection (m_session m) \<noteq> Offline then Inr (False, m)
      else let policy = effectivePolicy e (m_session m)
           in case offlineLimit policy m of None \<Rightarrow> Inr (False, m)
              | Some limit \<Rightarrow> bindR (commit (applyResumeLimit e policy limit m)) (\<lambda>m1. Inr (True, m1)))"

text \<open>
  One run over a session. A step that throws is logged and leaves the session as it was.
  Steps 3 and 4 (stale checks, identity bursts) need the stored frames and are not modelled.
\<close>

definition sweepSession :: "env \<Rightarrow> mutation \<Rightarrow> mutation" where
  "sweepSession e m =
     (let m1 = (if sweepTimeoutDue (m_session m) (m_now m) then snd (sweepTimeout e m) else m);
          m2 = (if sweepExpiryDue (m_session m1) (m_now m1) then snd (sweepExpiry e m1) else m1)
      in if sweepOfflineDue (m_session m2) (m_now m2)
         then (case sweepOffline e m2 of Inl _ \<Rightarrow> m2 | Inr (_, m3) \<Rightarrow> m3) else m2)"

end
