(* ===== verification/SP_Candidate.thy ===== *)
theory SP_Candidate
  imports SP_Recovery
begin

text \<open>
  apps/server/src/services/candidate-actions.ts, the control checks of
  candidate-state.ts, and the session side of instance-usage.ts: consent, start,
  answers, pause requests, submission and the heartbeat in its two forms.
\<close>

section \<open>Which browser is in control\<close>

definition instanceInControl :: "session \<Rightarrow> ident option \<Rightarrow> bool" where
  "instanceInControl s instanceId \<longleftrightarrow> truthy instanceId \<noteq> None \<and> instanceId = s_activeInstanceId s \<and> instanceId = s_verifiedInstanceId s"

definition assertInControl :: "session \<Rightarrow> ident \<Rightarrow> unit result" where
  "assertInControl s instanceId =
     (if truthy (s_activeInstanceId s) \<noteq> None \<and> s_activeInstanceId s \<noteq> Some instanceId then Inl (conflict ''superseded'')
      else if s_verifiedInstanceId s \<noteq> Some instanceId then Inl (conflict ''check_required'')
      else Inr ())"

text \<open>Whether the candidate's page gets the questions and answers (\<open>buildCandidateState\<close>).\<close>

definition showQuestions :: "session \<Rightarrow> ident option \<Rightarrow> bool" where
  "showQuestions s instanceId \<longleftrightarrow> (s_status s = Active \<and> instanceInControl s instanceId) \<or> s_status s = Submitted"

section \<open>Concurrent use of a copied page\<close>

definition evaluateInstanceUsage :: "session \<Rightarrow> ident \<Rightarrow> usage_observation \<Rightarrow> usage_verdict option" where
  "evaluateInstanceUsage s instanceId ob =
     (if s_status s \<notin> {Ready, Active} \<or> \<not> instanceInControl s (Some instanceId) then None
      else Some (observeInstanceUsage (s_instanceUsage s) instanceId ob))"

definition signalStr :: "concurrent_use_signal \<Rightarrow> string" where
  "signalStr g = (case g of Ua_changed \<Rightarrow> ''ua_changed'' | Seq_interleaved \<Rightarrow> ''seq_interleaved'' | Ip_alternating \<Rightarrow> ''ip_alternating'')"

definition applyInstanceUsage :: "ident \<Rightarrow> usage_observation \<Rightarrow> mutation \<Rightarrow> mutation" where
  "applyInstanceUsage instanceId ob m =
     (case evaluateInstanceUsage (m_session m) instanceId ob of None \<Rightarrow> m
      | Some v \<Rightarrow> (case uv_signal v of
            None \<Rightarrow> (if uv_changed v then setS (\<lambda>s. s\<lparr>s_instanceUsage := Some (uv_usage v)\<rparr>) m else m)
          | Some g \<Rightarrow>
              enqueueCommand (Cmd_require_check C_reconnect) None
                (setS (\<lambda>s. s\<lparr>s_verifiedInstanceId := None, s_instanceUsage := None\<rparr>)
                  (addEvent ((evt Ev_multiple_instances
                     [(''signal'', JStr (signalStr g)), (''ipHashes'', JArr (map JStr (iu_ipHashes (uv_usage v)))), (''uaChanged'', JBool (uv_uaChanged v)),
                      (''instanceId'', JStr instanceId), (''detectedBy'', JStr ''concurrent_use'')])\<lparr>ei_source := Some Src_server_system\<rparr>) m))))"

text \<open>Any other request of the verified browser: written only when the record changes.\<close>

definition trackInstanceRequest :: "ident \<Rightarrow> usage_observation \<Rightarrow> mutation \<Rightarrow> mutation" where
  "trackInstanceRequest instanceId ob m =
     (case evaluateInstanceUsage (m_session m) instanceId ob of None \<Rightarrow> m
      | Some v \<Rightarrow> (if \<not> uv_changed v \<and> uv_signal v = None then m else flush (applyInstanceUsage instanceId ob m)))"

section \<open>Consent, start, submission\<close>

definition acceptConsent :: "string \<Rightarrow> string \<Rightarrow> mutation \<Rightarrow> mutation result" where
  "acceptConsent accepted noticeVersion m = commit (
     bindR (guardR (accepted = noticeVersion) (conflict ''notice_outdated'')) (\<lambda>_.
     bindR (guardR (\<not> terminal (s_status (m_session m))) invalidState) (\<lambda>_.
       if s_consentAcceptedAt (m_session m) \<noteq> None \<and> s_consentNoticeVersion (m_session m) = Some accepted then Inr m
       else Inr (setS (\<lambda>s. s\<lparr>s_consentAcceptedAt := Some (m_now m), s_consentNoticeVersion := Some accepted\<rparr>) m))))"

record admission =
  ad_enabled :: bool
  ad_maxDeferMs :: ms
  ad_accepting :: bool
  ad_visionWaitMs :: "real option"

definition START_RETRY_MIN :: int where "START_RETRY_MIN = 5"
definition START_RETRY_MAX :: int where "START_RETRY_MAX = 30"

text \<open>The seconds to wait and the session with the first deferral noted, or no deferral.\<close>

definition examStartDeferral :: "admission \<Rightarrow> mutation \<Rightarrow> (int \<times> mutation) option" where
  "examStartDeferral ad m =
     (let s = m_session m
      in if \<not> ad_enabled ad \<or> s_status s \<noteq> Ready then None
         else if ad_accepting ad \<or> (case s_startDeferredSince s of Some t \<Rightarrow> m_now m - t \<ge> ad_maxDeferMs ad | None \<Rightarrow> False) then None
         else Some (min START_RETRY_MAX (max START_RETRY_MIN \<lceil>nullish (ad_visionWaitMs ad) 0 / 1000\<rceil>),
                    if s_startDeferredSince s = None then setS (\<lambda>s. s\<lparr>s_startDeferredSince := Some (m_now m)\<rparr>) m else m))"

definition startSession :: "env \<Rightarrow> admission \<Rightarrow> display_report \<Rightarrow> ident \<Rightarrow> mutation \<Rightarrow> (int option \<times> mutation) result" where
  "startSession e ad report instanceId m =
     (let s = m_session m in
      bindR (assertInControl s instanceId) (\<lambda>_.
      bindR (if s_status s = Ready then assertWindowAllows (s_window s) A_start (m_now m) (nullish (s_startDeferredSince s) (m_now m)) else Inr ()) (\<lambda>_.
        case examStartDeferral ad m of
          Some (wait, m1) \<Rightarrow> Inr (Some wait, flush m1)
        | None \<Rightarrow> bindR (commit (startExam e report m)) (\<lambda>m1. Inr (None, m1)))))"

definition candidateSubmit :: "env \<Rightarrow> ident \<Rightarrow> mutation \<Rightarrow> mutation result" where
  "candidateSubmit e instanceId m = commit (
     if s_status (m_session m) = Submitted then Inr m
     else bindR (assertInControl (m_session m) instanceId) (\<lambda>_.
          bindR (assertStatus m [Active]) (\<lambda>_. Inr (finalizeSession e E_candidate_submitted noOpts m))))"

section \<open>Answers\<close>

record question_form =
  qf_id :: ident
  qf_type :: question_type
  qf_options :: "ident list"

definition validateAnswer :: "question_form \<Rightarrow> answer_value option \<Rightarrow> unit result" where
  "validateAnswer q value = guardR (case value of None \<Rightarrow> True | Some v \<Rightarrow>
     (case qf_type q of
        Single_choice \<Rightarrow> (case v of Text t \<Rightarrow> t \<in> set (qf_options q) | _ \<Rightarrow> False)
      | Multiple_choice \<Rightarrow> (case v of Options os \<Rightarrow> set os \<subseteq> set (qf_options q) \<and> distinct os | _ \<Rightarrow> False)
      | Short_text \<Rightarrow> (case v of Text t \<Rightarrow> length t \<le> 2000 | _ \<Rightarrow> False)
      | Long_text \<Rightarrow> (case v of Text t \<Rightarrow> True | _ \<Rightarrow> False)
      | Numeric \<Rightarrow> (case v of Number r \<Rightarrow> True | Text t \<Rightarrow> length t \<le> 100 | _ \<Rightarrow> False))) validationFailed"

record answer_request =
  ar_value :: "answer_value option"
  ar_clientSeq :: int
  ar_answeredAt :: "ms option"

record answer_response =
  as_applied :: bool
  as_serverSeq :: int

definition lateAnswerAllowed :: "mutation \<Rightarrow> ms \<Rightarrow> bool" where
  "lateAnswerAllowed m answeredAt \<longleftrightarrow> s_status (m_session m) \<in> {Paused, On_hold} \<and>
     (case openPeriodRow m of None \<Rightarrow> False | Some p \<Rightarrow> \<not> pd_observed p \<and> answeredAt \<le> pd_startedAt p)"

definition storeAnswer :: "ident \<Rightarrow> answer \<Rightarrow> mutation \<Rightarrow> answer_response \<times> mutation" where
  "storeAnswer qid a m = (case m_answers m qid of
      Some old \<Rightarrow> (if an_clientSeq old < an_clientSeq a
                   then (\<lparr>as_applied = True, as_serverSeq = an_clientSeq a\<rparr>, m\<lparr>m_answers := (m_answers m)(qid \<mapsto> a)\<rparr>)
                   else (\<lparr>as_applied = False, as_serverSeq = an_clientSeq old\<rparr>, m))
    | None \<Rightarrow> (\<lparr>as_applied = True, as_serverSeq = an_clientSeq a\<rparr>, m\<lparr>m_answers := (m_answers m)(qid \<mapsto> a)\<rparr>))"

definition saveAnswer :: "question_form list \<Rightarrow> ident \<Rightarrow> ident \<Rightarrow> answer_request \<Rightarrow> mutation \<Rightarrow> (answer_response \<times> mutation) result" where
  "saveAnswer qs instanceId qid body m =
     (case find (\<lambda>q. qf_id q = qid) qs of None \<Rightarrow> Inl (notFound ''question_not_found'') | Some q \<Rightarrow>
        bindR (validateAnswer q (ar_value body)) (\<lambda>_.
        bindR (assertInControl (m_session m) instanceId) (\<lambda>_.
          let now = m_now m; answeredAt = min (nullish (ar_answeredAt body) now) now in
        bindR (guardR (s_status (m_session m) = Active \<or> lateAnswerAllowed m answeredAt)
                 (conflict (if terminal (s_status (m_session m)) then ''exam_ended'' else ''invalid_state''))) (\<lambda>_.
          Inr (storeAnswer qid \<lparr>an_value = ar_value body, an_clientSeq = ar_clientSeq body, an_answeredAt = answeredAt, an_savedAt = now\<rparr> m)))))"

section \<open>Pause requests\<close>

definition pendingPauseRequest :: "mutation \<Rightarrow> pause_request option" where
  "pendingPauseRequest m = find (\<lambda>r. pr_status r = PR_pending) (rev (sort_key pr_requestedAt (m_pauseRequests m)))"

datatype pause_outcome = PO_not_allowed | PO_limit | PO_already_pending | PO_pending_approval | PO_paused

definition requestPause :: "env \<Rightarrow> ident \<Rightarrow> string option \<Rightarrow> mutation \<Rightarrow> (pause_outcome \<times> mutation) result" where
  "requestPause e instanceId reason m =
     bindR (assertInControl (m_session m) instanceId) (\<lambda>_.
     bindR (assertStatus m [Active]) (\<lambda>_.
       let p = pol_pause (effectivePolicy e (m_session m)); why = nonEmpty reason
       in if \<not> pp_allowed p then Inr (PO_not_allowed, m)
          else if (case pp_maxPauses p of Some mx \<Rightarrow> s_pauseCount (m_session m) \<ge> mx | None \<Rightarrow> False) then Inr (PO_limit, m)
          else bindR (guardR (\<not> (pp_requireReason p \<and> why = None)) (badRequest ''reason_required'')) (\<lambda>_.
            if pendingPauseRequest m \<noteq> None then Inr (PO_already_pending, m)
            else if pp_requireApproval p
                 then let rid = freshId m;
                          m1 = m\<lparr>m_pauseRequests := m_pauseRequests m @ [\<lparr>pr_id = rid, pr_requestedAt = m_now m, pr_reason = why, pr_status = PR_pending,
                                   pr_decidedAt = None, pr_decidedBy = None, pr_decisionNote = None\<rparr>], m_fresh := Suc (m_fresh m)\<rparr>
                      in Inr (PO_pending_approval, flush (addEvent (evt Ev_pause_requested [(''requestId'', JStr rid), (''reason'', jstr why)]) m1))
                 else bindR (commit (pauseNow e why None None m)) (\<lambda>m1. Inr (PO_paused, m1)))))"

definition cancelPauseRequest :: "ident \<Rightarrow> mutation \<Rightarrow> mutation result" where
  "cancelPauseRequest instanceId m = commit (
     bindR (assertInControl (m_session m) instanceId) (\<lambda>_.
       case pendingPauseRequest m of None \<Rightarrow> Inr m
       | Some p \<Rightarrow> Inr (m\<lparr>m_pauseRequests := map (\<lambda>r. if pr_id r = pr_id p
            then r\<lparr>pr_status := PR_cancelled, pr_decidedAt := Some (m_now m)\<rparr> else r) (m_pauseRequests m)\<rparr>)))"

section \<open>Heartbeat\<close>

record heartbeat_request =
  hb_clientInstanceId :: ident
  hb_seq :: int
  hb_state :: string
  hb_faces :: int
  hb_label :: string
  hb_open :: "string list"
  hb_fps :: "real option"
  hb_cameraState :: "string option"
  hb_outboxSize :: int
  hb_outboxOldestAt :: "ms option"
  hb_currentQuestionIndex :: "int option"
  hb_visibility :: "string option"
  hb_fullscreen :: "bool option"

text \<open>Where the request came from: the hashed network, address and user agent.\<close>

record heartbeat_client =
  hc_net :: net_hash
  hc_ipHash :: string
  hc_uaHash :: string

definition OUTBOX_DELAY_MS :: ms where "OUTBOX_DELAY_MS = 30000"

definition optField :: "string \<Rightarrow> json option \<Rightarrow> jobj" where
  "optField k v = (case v of None \<Rightarrow> [] | Some j \<Rightarrow> [(k, j)])"

definition heartbeatMonitoring :: "heartbeat_request \<Rightarrow> ms \<Rightarrow> json" where
  "heartbeatMonitoring b now = JObj ([(''state'', JStr (hb_state b)), (''faces'', JInt (hb_faces b)), (''label'', JStr (hb_label b)),
     (''open'', JArr (map JStr (take 50 (filter (\<lambda>t. t \<in> set EVENT_TYPES) (hb_open b))))), (''at'', JInt now)] @
     optField ''fps'' (map_option JReal (hb_fps b)) @ optField ''cameraState'' (map_option JStr (hb_cameraState b)) @
     optField ''visibility'' (map_option JStr (hb_visibility b)) @ optField ''fullscreen'' (map_option JBool (hb_fullscreen b)))"

definition reportingInterruptedSince :: "heartbeat_request \<Rightarrow> session \<Rightarrow> ms \<Rightarrow> ms option" where
  "reportingInterruptedSince b s now = (case hb_outboxOldestAt b of None \<Rightarrow> None
     | Some t \<Rightarrow> (if hb_outboxSize b > 0 \<and> now - t > OUTBOX_DELAY_MS
                 then Some (case s_reportingInterruptedSince s of Some u \<Rightarrow> min t u | None \<Rightarrow> t) else None))"

definition usageObservation :: "heartbeat_client \<Rightarrow> heartbeat_request \<Rightarrow> ms \<Rightarrow> usage_observation" where
  "usageObservation c b now = \<lparr>uo_net = hc_net c, uo_ipHash = hc_ipHash c, uo_uaHash = hc_uaHash c, uo_seq = Some (hb_seq b), uo_at = now, uo_refresh = True\<rparr>"

definition reportingTimedOut :: "session \<Rightarrow> policy \<Rightarrow> ms \<Rightarrow> bool" where
  "reportingTimedOut s policy now \<longleftrightarrow> s_status s = Active \<and> s_connection s = Online \<and> s_reportingEventId s = None \<and>
     (case s_lastHeartbeatAt s of None \<Rightarrow> False | Some t \<Rightarrow> now - t > cp_heartbeatTimeoutSec (pol_connection policy) * 1000)"

definition noSamplesObservationDue :: "session \<Rightarrow> identity_policy \<Rightarrow> heartbeat_request \<Rightarrow> ms \<Rightarrow> bool" where
  "noSamplesObservationDue s p b now \<longleftrightarrow>
     \<not> (s_status s \<noteq> Active \<or> s_reportingEventId s \<noteq> None \<or> ip_verification p = V_staff \<or> reportingInterruptedSince b s now \<noteq> None) \<and>
     is_openNoSamplesEventId (s_identityState s) = None \<and> sampleWatchdog p (s_identityState s) now = W_unanswered"

definition recordNoSamples :: "identity_policy \<Rightarrow> heartbeat_request \<Rightarrow> mutation \<Rightarrow> mutation" where
  "recordNoSamples p b m =
     (let st = s_identityState (m_session m);
          lastSample = ac_lastSampleAt (is_evidence st);
          from = nullish (orElse lastSample (is_activeSince st)) (m_now m);
          eid = freshId m;
          m1 = addEvent ((evt Ev_identity_unverifiable
                 [(''reason'', JStr ''no_samples''), (''lastSampleAt'', jint lastSample), (''activeSince'', jint (is_activeSince st)),
                  (''expectedIntervalSec'', JInt (ip_periodicCheckIntervalSec p)), (''cameraState'', jstr (hb_cameraState b)), (''facesInView'', JInt (hb_faces b))])
                 \<lparr>ei_source := Some Src_server_identity, ei_open := True, ei_startedAt := Some from\<rparr>) m
      in setIdentityState ((s_identityState (m_session m1))\<lparr>is_openNoSamplesEventId := Some eid\<rparr>) m1)"

record heartbeat_response =
  hr_serverTime :: ms
  hr_status :: session_status
  hr_remainingMs :: ms
  hr_timerRunning :: bool
  hr_requiredCheck :: "check_purpose option"
  hr_commands :: "command list"
  hr_identitySample :: "sample_request option"

definition heartbeatResponse :: "session \<Rightarrow> ident \<Rightarrow> ms \<Rightarrow> command list \<Rightarrow> sample_request option \<Rightarrow> heartbeat_response" where
  "heartbeatResponse s instanceId now cmds sample =
     \<lparr>hr_serverTime = now, hr_status = s_status s, hr_remainingMs = remainingMs s now, hr_timerRunning = (s_runningSince s \<noteq> None),
      hr_requiredCheck = requiredCheckFor s (Some instanceId), hr_commands = cmds, hr_identitySample = sample\<rparr>"

text \<open>Delivery of queued commands, at most 50 at a time, oldest first.\<close>

definition deliverable :: "bool \<Rightarrow> ident \<Rightarrow> queued_command \<Rightarrow> bool" where
  "deliverable onlyTargeted instanceId c \<longleftrightarrow> qc_deliveredAt c = None \<and>
     (qc_targetInstanceId c = Some instanceId \<or> (\<not> onlyTargeted \<and> qc_targetInstanceId c = None))"

fun deliverFrom :: "nat \<Rightarrow> (queued_command \<Rightarrow> bool) \<Rightarrow> ms \<Rightarrow> queued_command list \<Rightarrow> command list \<times> queued_command list" where
  "deliverFrom 0 P now cs = ([], cs)"
| "deliverFrom (Suc n) P now [] = ([], [])"
| "deliverFrom (Suc n) P now (c # cs) =
     (if P c then (case deliverFrom n P now cs of (ds, rest) \<Rightarrow> (qc_command c # ds, c\<lparr>qc_deliveredAt := Some now\<rparr> # rest))
      else (case deliverFrom (Suc n) P now cs of (ds, rest) \<Rightarrow> (ds, c # rest)))"

definition deliver :: "bool \<Rightarrow> ident \<Rightarrow> mutation \<Rightarrow> command list \<times> mutation" where
  "deliver onlyTargeted instanceId m =
     (case deliverFrom 50 (deliverable onlyTargeted instanceId) (m_now m) (m_commands m) of (ds, cs) \<Rightarrow> (ds, m\<lparr>m_commands := cs\<rparr>))"

definition inControlLive :: "session \<Rightarrow> ident \<Rightarrow> bool" where
  "inControlLive s instanceId \<longleftrightarrow> instanceInControl s (Some instanceId) \<and> \<not> terminal (s_status s)"

text \<open>A heartbeat of a browser that another one replaced.\<close>

definition supersededHeartbeat :: "ident \<Rightarrow> mutation \<Rightarrow> heartbeat_response \<times> mutation" where
  "supersededHeartbeat instanceId m =
     (case deliver True instanceId m of (ds, m1) \<Rightarrow>
       let m2 = (if Cmd_superseded \<in> set ds \<and> \<not> terminal (s_status (m_session m1))
                 then recordMultipleInstances instanceId (nullish (s_activeInstanceId (m_session m1)) []) [(''detectedBy'', JStr ''old_instance_still_active'')] m1
                 else m1)
       in (heartbeatResponse (m_session m2) instanceId (m_now m2) (if Cmd_superseded \<in> set ds then ds else ds @ [Cmd_superseded]) None, m2))"

text \<open>The outage a late heartbeat finds out about.\<close>

definition lateOutage :: "env \<Rightarrow> ident \<Rightarrow> mutation \<Rightarrow> mutation result" where
  "lateOutage e instanceId m =
     (let s = m_session m; policy = effectivePolicy e s
      in if instanceInControl s (Some instanceId) \<and> reportingTimedOut s policy (m_now m)
         then bindR (applyOfflineLimit e policy (recordReportingTimeout policy (nullish (s_lastHeartbeatAt s) 0) By_late_heartbeat m)) (\<lambda>r. Inr (snd r))
         else Inr m)"

definition markAlive :: "ident \<Rightarrow> heartbeat_request \<Rightarrow> mutation \<Rightarrow> mutation" where
  "markAlive instanceId b m =
     (let now = m_now m;
          m1 = setS (\<lambda>s. s\<lparr>s_lastVerifiedHeartbeatAt := Some now, s_monitoring := heartbeatMonitoring b now,
                 s_currentQuestionIndex := nullish (hb_currentQuestionIndex b) (s_currentQuestionIndex s)\<rparr>) m;
          m2 = (if s_reportingEventId (m_session m1) \<noteq> None
                then setS (\<lambda>s. s\<lparr>s_reportingEventId := None\<rparr>) (closeEvent (s_reportingEventId (m_session m1)) now [(''closedBy'', JStr ''heartbeat_resumed'')] m1)
                else m1);
          m3 = (if s_status (m_session m2) = Active \<and> s_runningSince (m_session m2) = None then clockStartM now m2 else m2)
      in setS (\<lambda>s. s\<lparr>s_reportingInterruptedSince := reportingInterruptedSince b s now\<rparr>) m3)"

definition expireClock :: "env \<Rightarrow> mutation \<Rightarrow> mutation" where
  "expireClock e m = (if s_status (m_session m) \<in> {Active, Paused} \<and> clockExpired (sessionClock (m_session m)) (m_now m)
     then finalizeSession e E_time_expired noOpts m else m)"

definition lockedHeartbeat :: "env \<Rightarrow> ident \<Rightarrow> heartbeat_request \<Rightarrow> heartbeat_client option \<Rightarrow> mutation \<Rightarrow> (heartbeat_response \<times> mutation) result" where
  "lockedHeartbeat e instanceId b client m =
     (if truthy (s_activeInstanceId (m_session m)) \<noteq> None \<and> s_activeInstanceId (m_session m) \<noteq> Some instanceId
      then (case supersededHeartbeat instanceId m of (r, m') \<Rightarrow> Inr (r, flush m'))
      else bindR (lateOutage e instanceId m) (\<lambda>m1.
        let now = m_now m1;
            m2 = setS (\<lambda>s. s\<lparr>s_lastHeartbeatAt := Some now, s_lastHeartbeatInstanceId := Some instanceId, s_connection := Online\<rparr>) m1;
            m3 = (case client of Some c \<Rightarrow> applyInstanceUsage instanceId (usageObservation c b now) m2 | None \<Rightarrow> m2);
            m4 = (if inControlLive (m_session m3) instanceId then markAlive instanceId b m3 else m3);
            m5 = expireClock e m4;
            (cmds, m6) = deliver False instanceId m5;
            inControl = inControlLive (m_session m6) instanceId;
            p = pol_identity (effectivePolicy e (m_session m6));
            m7 = (if inControl \<and> noSamplesObservationDue (m_session m6) p b now then recordNoSamples p b m6 else m6);
            sample = (if inControl then identitySampleRequest (s_status (m_session m7)) (Some (s_identityState (m_session m7))) p now else None)
        in Inr (heartbeatResponse (m_session m7) instanceId now cmds sample, flush m7)))"

text \<open>
  The common heartbeat as one conditional update of the loaded row: the row written and
  the answer, or nothing (the locked heartbeat runs then). \<open>policy\<close> is the policy loaded
  with the request; \<open>heartbeat\<close> below makes the update only if the row did not change and
  answers from it only if no command waits.
\<close>

definition fastHeartbeat :: "policy \<Rightarrow> session \<Rightarrow> ident \<Rightarrow> heartbeat_request \<Rightarrow> heartbeat_client option \<Rightarrow> ms \<Rightarrow> (session \<times> heartbeat_response) option" where
  "fastHeartbeat policy s instanceId b client now =
     (let inControl = inControlLive s instanceId;
          usage = Option.bind client (\<lambda>c. evaluateInstanceUsage s instanceId (usageObservation c b now))
      in if truthy (s_activeInstanceId s) \<noteq> None \<and> s_activeInstanceId s \<noteq> Some instanceId then None
         else if inControl \<and> (s_reportingEventId s \<noteq> None \<or> (s_status s = Active \<and> s_runningSince s = None)) then None
         else if inControl \<and> noSamplesObservationDue s (pol_identity policy) b now then None
         else if s_status s \<in> {Active, Paused} \<and> clockExpired (sessionClock s) now then None
         else if inControl \<and> reportingTimedOut s policy now then None
         else if (case usage of Some v \<Rightarrow> uv_signal v \<noteq> None | None \<Rightarrow> False) then None
         else let s1 = s\<lparr>s_lastHeartbeatAt := Some now, s_lastHeartbeatInstanceId := Some instanceId, s_connection := Online\<rparr>;
                  s2 = (case usage of Some v \<Rightarrow> (if uv_changed v then s1\<lparr>s_instanceUsage := Some (uv_usage v)\<rparr> else s1) | None \<Rightarrow> s1);
                  s3 = (if inControl
                        then s2\<lparr>s_lastVerifiedHeartbeatAt := Some now, s_monitoring := heartbeatMonitoring b now,
                               s_currentQuestionIndex := nullish (hb_currentQuestionIndex b) (s_currentQuestionIndex s2),
                               s_reportingInterruptedSince := reportingInterruptedSince b s now\<rparr>
                        else s2)
              in Some (s3\<lparr>s_updatedAt := now\<rparr>,
                   heartbeatResponse s instanceId now []
                     (if inControl then identitySampleRequest (s_status s) (Some (s_identityState s)) (pol_identity policy) now else None)))"

definition heartbeat :: "env \<Rightarrow> (policy option \<times> session) option \<Rightarrow> ident \<Rightarrow> heartbeat_request \<Rightarrow> heartbeat_client option \<Rightarrow> mutation \<Rightarrow> (heartbeat_response \<times> mutation) result" where
  "heartbeat e loaded instanceId b client m =
     bindR (guardR (truthy (Some (hb_clientInstanceId b)) = None \<or> hb_clientInstanceId b = instanceId) (badRequest ''instance_mismatch'')) (\<lambda>_.
       case Option.bind loaded (\<lambda>(pol, s). fastHeartbeat (nullish pol DEFAULT_POLICY) s instanceId b client (m_now m)) of
         Some (s', r) \<Rightarrow>
           (if map_option snd loaded \<noteq> Some (m_session m) then lockedHeartbeat e instanceId b client m
            else if list_all (\<lambda>c. \<not> deliverable False instanceId c) (m_commands m) then Inr (r, m\<lparr>m_session := s'\<rparr>)
            else lockedHeartbeat e instanceId b client (m\<lparr>m_session := s'\<rparr>))
       | None \<Rightarrow> lockedHeartbeat e instanceId b client m)"

end
