(* ===== verification/SP_Lifecycle.thy ===== *)
theory SP_Lifecycle
  imports SP_Frame SP_Candidate
begin

text \<open>
  The life of a session as a state machine: the invariant of the stored rows, its
  preservation by every handler of SP_Checks, SP_Actions, SP_Recovery and SP_Candidate,
  and the step relation whose reachable states satisfy it.
\<close>

section \<open>The invariant\<close>

text \<open>A session ended exactly when it has an end reason; the reason decides the status.\<close>

definition end_ok :: "session \<Rightarrow> bool" where
  "end_ok s \<longleftrightarrow> (terminal (s_status s) \<longleftrightarrow> s_endReason s \<noteq> None) \<and> (s_endReason s = None \<longleftrightarrow> s_endedAt s = None) \<and>
     (\<forall>r. s_endReason s = Some r \<longrightarrow> s_status s = endStatus r) \<and> (s_score s \<noteq> None \<longrightarrow> s_endReason s \<noteq> None \<and> s_startedAt s \<noteq> None)"

definition unheld :: "session \<Rightarrow> bool" where
  "unheld s \<longleftrightarrow> s_holdReason s = None \<and> s_holdSince s = None \<and> s_holdMessage s = None \<and> s_holdPrevStatus s = None \<and>
     \<not> s_holdCanReverify s \<and> \<not> s_reEnrollAuthorized s"

definition hold_ok :: "session \<Rightarrow> bool" where
  "hold_ok s \<longleftrightarrow>
     (s_status s = On_hold \<longrightarrow> s_holdReason s \<noteq> None \<and> s_holdSince s \<noteq> None \<and> s_holdMessage s \<noteq> None \<and>
        s_holdPrevStatus s \<in> {Some Invited, Some Ready, Some Active} \<and> (s_reEnrollAuthorized s \<longrightarrow> s_holdCanReverify s)) \<and>
     (s_status s \<in> {Invited, Ready, Active, Paused} \<longrightarrow> unheld s) \<and>
     (s_holdCanReverify s \<longrightarrow> s_status s = On_hold)"

text \<open>The clock runs only in an exam in progress; a session that never ran has used nothing.\<close>

definition clock_ok :: "session \<Rightarrow> bool" where
  "clock_ok s \<longleftrightarrow> wf_clock (sessionClock s) \<and> (s_runningSince s \<noteq> None \<longrightarrow> s_status s \<in> {Active, Paused}) \<and>
     (s_startedAt s = None \<longrightarrow> s_usedMs s = 0 \<and> s_runningSince s = None \<and> 0 \<le> baseDurationMs s \<and> 0 \<le> extraTimeMs (s_accommodations s))"

text \<open>Only a started exam is in progress, and a started one carries its rules and version.\<close>

definition inProgress :: "session \<Rightarrow> bool" where
  "inProgress s \<longleftrightarrow> s_status s \<in> {Active, Paused} \<or> (s_status s = On_hold \<and> s_holdPrevStatus s = Some Active)"

definition notStarted :: "session \<Rightarrow> bool" where
  "notStarted s \<longleftrightarrow> s_status s \<in> {Invited, Ready} \<or> (s_status s = On_hold \<and> s_holdPrevStatus s \<noteq> Some Active)"

definition started_ok :: "session \<Rightarrow> bool" where
  "started_ok s \<longleftrightarrow> (inProgress s \<longrightarrow> s_startedAt s \<noteq> None) \<and> (notStarted s \<longrightarrow> s_startedAt s = None) \<and>
     (s_startedAt s \<noteq> None \<longrightarrow> s_policy s \<noteq> None \<and> s_examVersionId s \<noteq> None) \<and>
     (s_status s = On_hold \<and> s_holdCanReverify s \<longrightarrow> s_holdPrevStatus s \<noteq> Some Invited) \<and>
     0 \<le> s_pauseCount s \<and> 0 \<le> s_reconnectCount s"

text \<open>At most one period is open, of the kind the status asks for.\<close>

fun openKindsFor :: "session_status \<Rightarrow> period_kind multiset \<Rightarrow> bool" where
  "openKindsFor Invited ks \<longleftrightarrow> ks = {#} \<or> ks = {#P_check_in#}"
| "openKindsFor Ready ks \<longleftrightarrow> ks = {#}"
| "openKindsFor Active ks \<longleftrightarrow> ks = {#P_active#}"
| "openKindsFor Paused ks \<longleftrightarrow> ks = {#P_paused#}"
| "openKindsFor On_hold ks \<longleftrightarrow> ks = {#P_on_hold#}"
| "openKindsFor Submitted ks \<longleftrightarrow> ks = {#}"
| "openKindsFor Terminated ks \<longleftrightarrow> ks = {#}"

definition pendings :: "mutation \<Rightarrow> pause_request list" where
  "pendings m = filter (\<lambda>r. pr_status r = PR_pending) (m_pauseRequests m)"

text \<open>Nothing stays open once the exam ended; at most one pause request waits.\<close>

definition rest_ok :: "mutation \<Rightarrow> bool" where
  "rest_ok m \<longleftrightarrow> length (pendings m) \<le> 1 \<and>
     (terminal (s_status (m_session m)) \<longrightarrow> pendings m = [] \<and> noOpenEvents m)"

definition session_ok :: "session \<Rightarrow> bool" where
  "session_ok s \<longleftrightarrow> end_ok s \<and> hold_ok s \<and> clock_ok s \<and> started_ok s"

definition inv :: "mutation \<Rightarrow> bool" where
  "inv m \<longleftrightarrow> session_ok (m_session m) \<and> openKindsFor (s_status (m_session m)) (openKinds m) \<and> rows_wf m \<and> rest_ok m"

lemmas ok_defs = end_ok_def hold_ok_def unheld_def clock_ok_def started_ok_def inProgress_def notStarted_def

text \<open>Each part of the invariant reads only its own columns.\<close>

lemma end_ok_frame [simp]:
  "end_ok (s\<lparr>s_id := x1\<rparr>) = end_ok s" "end_ok (s\<lparr>s_orgId := x2\<rparr>) = end_ok s"
  "end_ok (s\<lparr>s_examId := x3\<rparr>) = end_ok s" "end_ok (s\<lparr>s_examVersionId := x4\<rparr>) = end_ok s"
  "end_ok (s\<lparr>s_accommodations := x5\<rparr>) = end_ok s" "end_ok (s\<lparr>s_policy := x6\<rparr>) = end_ok s"
  "end_ok (s\<lparr>s_durationMs := x7\<rparr>) = end_ok s" "end_ok (s\<lparr>s_usedMs := x8\<rparr>) = end_ok s"
  "end_ok (s\<lparr>s_runningSince := x9\<rparr>) = end_ok s" "end_ok (s\<lparr>s_currentQuestionIndex := x10\<rparr>) = end_ok s"
  "end_ok (s\<lparr>s_consentAcceptedAt := x11\<rparr>) = end_ok s" "end_ok (s\<lparr>s_consentNoticeVersion := x12\<rparr>) = end_ok s"
  "end_ok (s\<lparr>s_activeInstanceId := x13\<rparr>) = end_ok s" "end_ok (s\<lparr>s_verifiedInstanceId := x14\<rparr>) = end_ok s"
  "end_ok (s\<lparr>s_lastHeartbeatAt := x15\<rparr>) = end_ok s" "end_ok (s\<lparr>s_lastHeartbeatInstanceId := x16\<rparr>) = end_ok s"
  "end_ok (s\<lparr>s_lastVerifiedHeartbeatAt := x17\<rparr>) = end_ok s" "end_ok (s\<lparr>s_instanceUsage := x18\<rparr>) = end_ok s"
  "end_ok (s\<lparr>s_connection := x19\<rparr>) = end_ok s" "end_ok (s\<lparr>s_reportingInterruptedSince := x20\<rparr>) = end_ok s"
  "end_ok (s\<lparr>s_reportingEventId := x21\<rparr>) = end_ok s" "end_ok (s\<lparr>s_monitoring := x22\<rparr>) = end_ok s"
  "end_ok (s\<lparr>s_identityState := x23\<rparr>) = end_ok s" "end_ok (s\<lparr>s_holdReason := x24\<rparr>) = end_ok s"
  "end_ok (s\<lparr>s_holdSince := x25\<rparr>) = end_ok s" "end_ok (s\<lparr>s_holdMessage := x26\<rparr>) = end_ok s"
  "end_ok (s\<lparr>s_holdCanReverify := x27\<rparr>) = end_ok s" "end_ok (s\<lparr>s_holdPrevStatus := x28\<rparr>) = end_ok s"
  "end_ok (s\<lparr>s_reEnrollAuthorized := x29\<rparr>) = end_ok s" "end_ok (s\<lparr>s_reEnrollAuthorizedBy := x30\<rparr>) = end_ok s"
  "end_ok (s\<lparr>s_checkAttemptsResetAt := x31\<rparr>) = end_ok s" "end_ok (s\<lparr>s_pauseCount := x32\<rparr>) = end_ok s"
  "end_ok (s\<lparr>s_startDeferredSince := x33\<rparr>) = end_ok s" "end_ok (s\<lparr>s_window := x34\<rparr>) = end_ok s"
  "end_ok (s\<lparr>s_reconnectCount := x35\<rparr>) = end_ok s" "end_ok (s\<lparr>s_legalHold := x36\<rparr>) = end_ok s"
  "end_ok (s\<lparr>s_evidencePurgedAt := x37\<rparr>) = end_ok s" "end_ok (s\<lparr>s_createdAt := x38\<rparr>) = end_ok s"
  "end_ok (s\<lparr>s_updatedAt := x39\<rparr>) = end_ok s"
  by (simp_all add: end_ok_def)

lemma hold_ok_frame [simp]:
  "hold_ok (s\<lparr>s_id := x1\<rparr>) = hold_ok s" "hold_ok (s\<lparr>s_orgId := x2\<rparr>) = hold_ok s"
  "hold_ok (s\<lparr>s_examId := x3\<rparr>) = hold_ok s" "hold_ok (s\<lparr>s_examVersionId := x4\<rparr>) = hold_ok s"
  "hold_ok (s\<lparr>s_endReason := x5\<rparr>) = hold_ok s" "hold_ok (s\<lparr>s_accommodations := x6\<rparr>) = hold_ok s"
  "hold_ok (s\<lparr>s_policy := x7\<rparr>) = hold_ok s" "hold_ok (s\<lparr>s_durationMs := x8\<rparr>) = hold_ok s"
  "hold_ok (s\<lparr>s_usedMs := x9\<rparr>) = hold_ok s" "hold_ok (s\<lparr>s_runningSince := x10\<rparr>) = hold_ok s"
  "hold_ok (s\<lparr>s_currentQuestionIndex := x11\<rparr>) = hold_ok s" "hold_ok (s\<lparr>s_consentAcceptedAt := x12\<rparr>) = hold_ok s"
  "hold_ok (s\<lparr>s_consentNoticeVersion := x13\<rparr>) = hold_ok s" "hold_ok (s\<lparr>s_activeInstanceId := x14\<rparr>) = hold_ok s"
  "hold_ok (s\<lparr>s_verifiedInstanceId := x15\<rparr>) = hold_ok s" "hold_ok (s\<lparr>s_lastHeartbeatAt := x16\<rparr>) = hold_ok s"
  "hold_ok (s\<lparr>s_lastHeartbeatInstanceId := x17\<rparr>) = hold_ok s" "hold_ok (s\<lparr>s_lastVerifiedHeartbeatAt := x18\<rparr>) = hold_ok s"
  "hold_ok (s\<lparr>s_instanceUsage := x19\<rparr>) = hold_ok s" "hold_ok (s\<lparr>s_connection := x20\<rparr>) = hold_ok s"
  "hold_ok (s\<lparr>s_reportingInterruptedSince := x21\<rparr>) = hold_ok s" "hold_ok (s\<lparr>s_reportingEventId := x22\<rparr>) = hold_ok s"
  "hold_ok (s\<lparr>s_monitoring := x23\<rparr>) = hold_ok s" "hold_ok (s\<lparr>s_identityState := x24\<rparr>) = hold_ok s"
  "hold_ok (s\<lparr>s_reEnrollAuthorizedBy := x25\<rparr>) = hold_ok s" "hold_ok (s\<lparr>s_checkAttemptsResetAt := x26\<rparr>) = hold_ok s"
  "hold_ok (s\<lparr>s_pauseCount := x27\<rparr>) = hold_ok s" "hold_ok (s\<lparr>s_startedAt := x28\<rparr>) = hold_ok s"
  "hold_ok (s\<lparr>s_startDeferredSince := x29\<rparr>) = hold_ok s" "hold_ok (s\<lparr>s_window := x30\<rparr>) = hold_ok s"
  "hold_ok (s\<lparr>s_reconnectCount := x31\<rparr>) = hold_ok s" "hold_ok (s\<lparr>s_endedAt := x32\<rparr>) = hold_ok s"
  "hold_ok (s\<lparr>s_legalHold := x33\<rparr>) = hold_ok s" "hold_ok (s\<lparr>s_evidencePurgedAt := x34\<rparr>) = hold_ok s"
  "hold_ok (s\<lparr>s_score := x35\<rparr>) = hold_ok s" "hold_ok (s\<lparr>s_createdAt := x36\<rparr>) = hold_ok s"
  "hold_ok (s\<lparr>s_updatedAt := x37\<rparr>) = hold_ok s"
  by (simp_all add: hold_ok_def unheld_def)

lemma clock_ok_frame [simp]:
  "clock_ok (s\<lparr>s_id := x1\<rparr>) = clock_ok s" "clock_ok (s\<lparr>s_orgId := x2\<rparr>) = clock_ok s"
  "clock_ok (s\<lparr>s_examId := x3\<rparr>) = clock_ok s" "clock_ok (s\<lparr>s_examVersionId := x4\<rparr>) = clock_ok s"
  "clock_ok (s\<lparr>s_endReason := x5\<rparr>) = clock_ok s" "clock_ok (s\<lparr>s_policy := x6\<rparr>) = clock_ok s"
  "clock_ok (s\<lparr>s_currentQuestionIndex := x7\<rparr>) = clock_ok s" "clock_ok (s\<lparr>s_consentAcceptedAt := x8\<rparr>) = clock_ok s"
  "clock_ok (s\<lparr>s_consentNoticeVersion := x9\<rparr>) = clock_ok s" "clock_ok (s\<lparr>s_activeInstanceId := x10\<rparr>) = clock_ok s"
  "clock_ok (s\<lparr>s_verifiedInstanceId := x11\<rparr>) = clock_ok s" "clock_ok (s\<lparr>s_lastHeartbeatAt := x12\<rparr>) = clock_ok s"
  "clock_ok (s\<lparr>s_lastHeartbeatInstanceId := x13\<rparr>) = clock_ok s" "clock_ok (s\<lparr>s_lastVerifiedHeartbeatAt := x14\<rparr>) = clock_ok s"
  "clock_ok (s\<lparr>s_instanceUsage := x15\<rparr>) = clock_ok s" "clock_ok (s\<lparr>s_connection := x16\<rparr>) = clock_ok s"
  "clock_ok (s\<lparr>s_reportingInterruptedSince := x17\<rparr>) = clock_ok s" "clock_ok (s\<lparr>s_reportingEventId := x18\<rparr>) = clock_ok s"
  "clock_ok (s\<lparr>s_monitoring := x19\<rparr>) = clock_ok s" "clock_ok (s\<lparr>s_identityState := x20\<rparr>) = clock_ok s"
  "clock_ok (s\<lparr>s_holdReason := x21\<rparr>) = clock_ok s" "clock_ok (s\<lparr>s_holdSince := x22\<rparr>) = clock_ok s"
  "clock_ok (s\<lparr>s_holdMessage := x23\<rparr>) = clock_ok s" "clock_ok (s\<lparr>s_holdCanReverify := x24\<rparr>) = clock_ok s"
  "clock_ok (s\<lparr>s_holdPrevStatus := x25\<rparr>) = clock_ok s" "clock_ok (s\<lparr>s_reEnrollAuthorized := x26\<rparr>) = clock_ok s"
  "clock_ok (s\<lparr>s_reEnrollAuthorizedBy := x27\<rparr>) = clock_ok s" "clock_ok (s\<lparr>s_checkAttemptsResetAt := x28\<rparr>) = clock_ok s"
  "clock_ok (s\<lparr>s_pauseCount := x29\<rparr>) = clock_ok s" "clock_ok (s\<lparr>s_startDeferredSince := x30\<rparr>) = clock_ok s"
  "clock_ok (s\<lparr>s_window := x31\<rparr>) = clock_ok s" "clock_ok (s\<lparr>s_reconnectCount := x32\<rparr>) = clock_ok s"
  "clock_ok (s\<lparr>s_endedAt := x33\<rparr>) = clock_ok s" "clock_ok (s\<lparr>s_legalHold := x34\<rparr>) = clock_ok s"
  "clock_ok (s\<lparr>s_evidencePurgedAt := x35\<rparr>) = clock_ok s" "clock_ok (s\<lparr>s_score := x36\<rparr>) = clock_ok s"
  "clock_ok (s\<lparr>s_createdAt := x37\<rparr>) = clock_ok s" "clock_ok (s\<lparr>s_updatedAt := x38\<rparr>) = clock_ok s"
  by (simp_all add: clock_ok_def sessionClock_def baseDurationMs_def)

lemma started_ok_frame [simp]:
  "started_ok (s\<lparr>s_id := x1\<rparr>) = started_ok s" "started_ok (s\<lparr>s_orgId := x2\<rparr>) = started_ok s"
  "started_ok (s\<lparr>s_examId := x3\<rparr>) = started_ok s" "started_ok (s\<lparr>s_endReason := x4\<rparr>) = started_ok s"
  "started_ok (s\<lparr>s_accommodations := x5\<rparr>) = started_ok s" "started_ok (s\<lparr>s_durationMs := x6\<rparr>) = started_ok s"
  "started_ok (s\<lparr>s_usedMs := x7\<rparr>) = started_ok s" "started_ok (s\<lparr>s_runningSince := x8\<rparr>) = started_ok s"
  "started_ok (s\<lparr>s_currentQuestionIndex := x9\<rparr>) = started_ok s" "started_ok (s\<lparr>s_consentAcceptedAt := x10\<rparr>) = started_ok s"
  "started_ok (s\<lparr>s_consentNoticeVersion := x11\<rparr>) = started_ok s" "started_ok (s\<lparr>s_activeInstanceId := x12\<rparr>) = started_ok s"
  "started_ok (s\<lparr>s_verifiedInstanceId := x13\<rparr>) = started_ok s" "started_ok (s\<lparr>s_lastHeartbeatAt := x14\<rparr>) = started_ok s"
  "started_ok (s\<lparr>s_lastHeartbeatInstanceId := x15\<rparr>) = started_ok s"
  "started_ok (s\<lparr>s_lastVerifiedHeartbeatAt := x16\<rparr>) = started_ok s" "started_ok (s\<lparr>s_instanceUsage := x17\<rparr>) = started_ok s"
  "started_ok (s\<lparr>s_connection := x18\<rparr>) = started_ok s" "started_ok (s\<lparr>s_reportingInterruptedSince := x19\<rparr>) = started_ok s"
  "started_ok (s\<lparr>s_reportingEventId := x20\<rparr>) = started_ok s" "started_ok (s\<lparr>s_monitoring := x21\<rparr>) = started_ok s"
  "started_ok (s\<lparr>s_identityState := x22\<rparr>) = started_ok s" "started_ok (s\<lparr>s_holdReason := x23\<rparr>) = started_ok s"
  "started_ok (s\<lparr>s_holdSince := x24\<rparr>) = started_ok s" "started_ok (s\<lparr>s_holdMessage := x25\<rparr>) = started_ok s"
  "started_ok (s\<lparr>s_reEnrollAuthorized := x26\<rparr>) = started_ok s" "started_ok (s\<lparr>s_reEnrollAuthorizedBy := x27\<rparr>) = started_ok s"
  "started_ok (s\<lparr>s_checkAttemptsResetAt := x28\<rparr>) = started_ok s" "started_ok (s\<lparr>s_startDeferredSince := x29\<rparr>) = started_ok s"
  "started_ok (s\<lparr>s_window := x30\<rparr>) = started_ok s" "started_ok (s\<lparr>s_endedAt := x31\<rparr>) = started_ok s"
  "started_ok (s\<lparr>s_legalHold := x32\<rparr>) = started_ok s" "started_ok (s\<lparr>s_evidencePurgedAt := x33\<rparr>) = started_ok s"
  "started_ok (s\<lparr>s_score := x34\<rparr>) = started_ok s" "started_ok (s\<lparr>s_createdAt := x35\<rparr>) = started_ok s"
  "started_ok (s\<lparr>s_updatedAt := x36\<rparr>) = started_ok s"
  by (simp_all add: started_ok_def inProgress_def notStarted_def)

lemma openKindsFor_size: "openKindsFor st ks \<Longrightarrow> size ks \<le> 1"
  by (cases st) auto

lemma inv_size [simp]: "inv m \<Longrightarrow> size (openKinds m) \<le> 1"
  by (auto simp: inv_def dest: openKindsFor_size)

text \<open>The columns the invariant does not read.\<close>

definition same_core :: "session \<Rightarrow> session \<Rightarrow> bool" where
  "same_core s s' \<longleftrightarrow> s_status s' = s_status s \<and> s_endReason s' = s_endReason s \<and> s_endedAt s' = s_endedAt s \<and> s_score s' = s_score s \<and>
     s_startedAt s' = s_startedAt s \<and> s_holdReason s' = s_holdReason s \<and> s_holdSince s' = s_holdSince s \<and> s_holdMessage s' = s_holdMessage s \<and>
     s_holdPrevStatus s' = s_holdPrevStatus s \<and> s_holdCanReverify s' = s_holdCanReverify s \<and> s_reEnrollAuthorized s' = s_reEnrollAuthorized s \<and>
     s_durationMs s' = s_durationMs s \<and> s_usedMs s' = s_usedMs s \<and> s_runningSince s' = s_runningSince s \<and>
     s_accommodations s' = s_accommodations s \<and> s_policy s' = s_policy s \<and> s_examVersionId s' = s_examVersionId s \<and>
     s_pauseCount s' = s_pauseCount s \<and> s_reconnectCount s' = s_reconnectCount s"

lemma same_core_cong:
  assumes "same_core s s'"
  shows "end_ok s' = end_ok s" "hold_ok s' = hold_ok s" "clock_ok s' = clock_ok s" "started_ok s' = started_ok s"
  using assms unfolding same_core_def ok_defs sessionClock_def wf_clock_def baseDurationMs_def exam_clock.simps
  by (elim conjE, simp only:)+

lemma session_ok_same_core: "same_core s s' \<Longrightarrow> session_ok s \<Longrightarrow> session_ok s'"
  by (simp add: session_ok_def same_core_cong)

lemma inv_same_core:
  assumes "inv m" "same_core (m_session m) (m_session m')" "openKinds m' = openKinds m" "rows_wf m'" "pendings m' = pendings m"
    "noOpenEvents m \<Longrightarrow> terminal (s_status (m_session m)) \<Longrightarrow> noOpenEvents m'"
  shows "inv m'"
  using assms session_ok_same_core[OF assms(2)]
  by (auto simp: inv_def rest_ok_def same_core_def)

lemma inv_flush [simp]: "inv (flush m) = inv m"
proof -
  have "session_ok (s\<lparr>s_updatedAt := t\<rparr>) = session_ok s" for s t
    using session_ok_same_core[of s "s\<lparr>s_updatedAt := t\<rparr>"] session_ok_same_core[of "s\<lparr>s_updatedAt := t\<rparr>" s]
    by (auto simp: same_core_def)
  then show ?thesis by (simp add: inv_def rest_ok_def pendings_def)
qed

lemma commit_inv: "commit r = Inr m' \<Longrightarrow> (\<And>m. r = Inr m \<Longrightarrow> inv m) \<Longrightarrow> inv m'"
  by (cases r) (auto simp: commit_def)

section \<open>Ending\<close>

lemma pendings_simps [simp]:
  "pendings (setS f m) = pendings m" "pendings (flush m) = pendings m" "pendings (clockStopM t m) = pendings m"
  "pendings (clockStartM t m) = pendings m" "pendings (addEvent i m) = pendings m" "pendings (updateEvents P g m) = pendings m"
  "pendings (closeEvent j t d m) = pendings m" "pendings (setIdentityState st m) = pendings m" "pendings (closeOpenEvents t r k m) = pendings m"
  "pendings (resetIdentityCounters m) = pendings m" "pendings (dropPendingBursts m) = pendings m" "pendings (enqueueCommand c i' m) = pendings m"
  "pendings (insertPeriod k' t e r' d m) = pendings m" "pendings (closeOpenPeriod t m) = pendings m" "pendings (switchPeriod k' t r' d m) = pendings m"
  "pendings (m\<lparr>m_periods := ps\<rparr>) = pendings m" "pendings (m\<lparr>m_fresh := n\<rparr>) = pendings m" "pendings (m\<lparr>m_session := s\<rparr>) = pendings m"
  "pendings (m\<lparr>m_answers := a\<rparr>) = pendings m" "pendings (m\<lparr>m_commands := cs\<rparr>) = pendings m" "pendings (m\<lparr>m_now := t\<rparr>) = pendings m"
  by (simp_all add: pendings_def)

lemma cancelPending_simps [simp]:
  "m_session (cancelPending t m) = m_session m" "m_now (cancelPending t m) = m_now m" "openKinds (cancelPending t m) = openKinds m"
  "noOpenEvents (cancelPending t m) = noOpenEvents m" "rows_wf (cancelPending t m) = rows_wf m" "pendings (cancelPending t m) = []"
  by (auto simp: cancelPending_def pendings_def filter_empty_conv)

lemma closeGapPeriodAtEnd_simps [simp]:
  "m_session (closeGapPeriodAtEnd g t i r p m) = m_session m" "m_now (closeGapPeriodAtEnd g t i r p m) = m_now m"
  "pendings (closeGapPeriodAtEnd g t i r p m) = pendings m" "noOpenEvents (closeGapPeriodAtEnd g t i r p m) = noOpenEvents m"
  by (auto simp: closeGapPeriodAtEnd_def Let_def split: option.split)

lemma openKinds_closeGapPeriodAtEnd: "size (openKinds (closeGapPeriodAtEnd g t i r p m)) \<le> size (openKinds m)"
  using size_openKinds_closeOpenPeriod openKinds_update_ends[where x = "\<lambda>_. max (pd_startedAt p) g"]
  by (auto simp: closeGapPeriodAtEnd_def Let_def split: option.split)

text \<open>A row of an earlier reading of the periods: same id, same start.\<close>

definition read_before :: "mutation \<Rightarrow> period \<Rightarrow> bool" where
  "read_before m p \<longleftrightarrow> known (m_fresh m) p \<and> (\<forall>q \<in> set (m_periods m). pd_id q = pd_id p \<longrightarrow> pd_startedAt q = pd_startedAt p)"

lemma read_before_member: "rows_wf m \<Longrightarrow> p \<in> set (m_periods m) \<Longrightarrow> read_before m p"
  by (auto simp: read_before_def rows_wf_def list_all_iff distinct_map dest: inj_onD)

lemma read_before_update: "read_before m p \<Longrightarrow> read_before (m\<lparr>m_periods := map (\<lambda>p. if Q p then p\<lparr>pd_endedAt := x p\<rparr> else p) (m_periods m)\<rparr>) p"
  by (auto simp: read_before_def)

lemma read_before_events: "read_before m p \<Longrightarrow> read_before (addEvent i m) p"
  by (auto simp: read_before_def intro: known_mono)

lemma read_before_close: "read_before m p \<Longrightarrow> read_before (closeOpenPeriod t m) p"
  by (auto simp: closeOpenPeriod_def Let_def endPeriod_def split: option.split intro!: read_before_events read_before_update)

lemma read_before_insert: "read_before m p \<Longrightarrow> read_before (insertPeriod k t e r d m) p"
proof -
  assume p: "read_before m p"
  then have "freshId m \<noteq> pd_id p" using known_fresh[of m p] by (auto simp: read_before_def)
  then show ?thesis using p
    by (auto simp: insertPeriod_def Let_def read_before_def intro: known_mono split: option.split)
qed

lemma read_before_gap: "read_before m q \<Longrightarrow> read_before (closeGapPeriodAtEnd g t i r p m) q"
  by (auto simp: closeGapPeriodAtEnd_def Let_def split: option.split intro!: read_before_insert read_before_close read_before_update)

lemma rows_wf_closeGapPeriodAtEnd:
  assumes "rows_wf m" "read_before m p" shows "rows_wf (closeGapPeriodAtEnd g t i r p m)"
proof -
  have "rows_wf (m\<lparr>m_periods := map (\<lambda>q. if pd_id q = pd_id p then q\<lparr>pd_endedAt := Some (max (pd_startedAt p) g)\<rparr> else q) (m_periods m)\<rparr>)"
    using assms by (intro rows_wf_update_ends) (auto simp: read_before_def)
  then show ?thesis using assms(1) by (auto simp: closeGapPeriodAtEnd_def Let_def split: option.split)
qed

lemma fold_closeGapPeriodAtEnd:
  assumes "rows_wf m" "list_all (read_before m) ps"
  shows "rows_wf (fold (closeGapPeriodAtEnd g t i r) ps m) \<and> size (openKinds (fold (closeGapPeriodAtEnd g t i r) ps m)) \<le> size (openKinds m) \<and>
         m_session (fold (closeGapPeriodAtEnd g t i r) ps m) = m_session m \<and> m_now (fold (closeGapPeriodAtEnd g t i r) ps m) = m_now m \<and>
         pendings (fold (closeGapPeriodAtEnd g t i r) ps m) = pendings m"
  using assms
proof (induction ps arbitrary: m)
  case (Cons p ps)
  let ?m = "closeGapPeriodAtEnd g t i r p m"
  have "rows_wf ?m" using Cons.prems by (simp add: rows_wf_closeGapPeriodAtEnd)
  moreover have "list_all (read_before ?m) ps" using Cons.prems by (auto simp: list_all_iff intro: read_before_gap)
  ultimately have "rows_wf (fold (closeGapPeriodAtEnd g t i r) ps ?m) \<and> size (openKinds (fold (closeGapPeriodAtEnd g t i r) ps ?m)) \<le> size (openKinds ?m) \<and>
         m_session (fold (closeGapPeriodAtEnd g t i r) ps ?m) = m_session ?m \<and> m_now (fold (closeGapPeriodAtEnd g t i r) ps ?m) = m_now ?m \<and>
         pendings (fold (closeGapPeriodAtEnd g t i r) ps ?m) = pendings ?m"
    by (rule Cons.IH)
  then show ?case using openKinds_closeGapPeriodAtEnd[of g t i r p m] by simp
qed simp

lemma closeReportingGapAtEnd_facts:
  assumes "rows_wf m"
  shows "rows_wf (closeReportingGapAtEnd e t r m) \<and> size (openKinds (closeReportingGapAtEnd e t r m)) \<le> size (openKinds m) \<and>
         m_session (closeReportingGapAtEnd e t r m) = m_session m \<and> m_now (closeReportingGapAtEnd e t r m) = m_now m \<and>
         pendings (closeReportingGapAtEnd e t r m) = pendings m"
proof -
  have "rows_wf (updateEvents P (closedAt g d) m)" "list_all (read_before (updateEvents P (closedAt g d) m)) (filter Q (m_periods m))" for P Q g d
    using assms read_before_member[of "updateEvents P (closedAt g d) m"] rows_wf_updateEvents[of m P "closedAt g d"]
    by (auto simp: list_all_iff)
  note f = fold_closeGapPeriodAtEnd[OF this]
  show ?thesis
  proof (cases "s_reportingEventId (m_session m)")
    case (Some i)
    show ?thesis
    proof (cases "find (\<lambda>ev. ev_id ev = i) (m_events m)")
      case s: (Some ev)
      show ?thesis
        unfolding closeReportingGapAtEnd_def Some s option.case Let_def
        by (split if_split) (intro conjI impI f[THEN conjunct1] | use assms f in simp)+
    qed (simp add: closeReportingGapAtEnd_def Some assms)
  qed (simp add: closeReportingGapAtEnd_def assms)
qed

lemma endMarkers_simps [simp]:
  "m_session (endMarkers r o' t m) = m_session m" "m_now (endMarkers r o' t m) = m_now m" "openKinds (endMarkers r o' t m) = openKinds m"
  "noOpenEvents (endMarkers r o' t m) = noOpenEvents m" "pendings (endMarkers r o' t m) = pendings m"
  "rows_wf m \<Longrightarrow> rows_wf (endMarkers r o' t m)"
  by (cases r; simp add: endMarkers_def Let_def)+

text \<open>What ending does to the columns the invariant reads.\<close>

definition endedSession :: "env \<Rightarrow> end_reason \<Rightarrow> mutation \<Rightarrow> session \<Rightarrow> bool" where
  "endedSession e r m s \<longleftrightarrow> s_status s = endStatus r \<and> s_endReason s = Some r \<and> s_endedAt s = Some (endInstant r m) \<and>
     s_usedMs s = usedAt (m_session m) (endInstant r m) \<and> s_runningSince s = None \<and> s_holdCanReverify s = False \<and>
     s_durationMs s = s_durationMs (m_session m) \<and> s_startedAt s = s_startedAt (m_session m) \<and> s_policy s = s_policy (m_session m) \<and>
     s_examVersionId s = s_examVersionId (m_session m) \<and> s_accommodations s = s_accommodations (m_session m) \<and>
     s_pauseCount s = s_pauseCount (m_session m) \<and> s_reconnectCount s = s_reconnectCount (m_session m) \<and>
     (s_score s \<noteq> None \<longrightarrow> s_score (m_session m) \<noteq> None \<or> s_startedAt (m_session m) \<noteq> None)"

lemma finalizeSession_facts:
  assumes "\<not> terminal (s_status (m_session m))" "rows_wf m" "size (openKinds m) \<le> 1"
  shows "endedSession e r m (m_session (finalizeSession e r o' m)) \<and> rows_wf (finalizeSession e r o' m) \<and>
         openKinds (finalizeSession e r o' m) = {#} \<and> pendings (finalizeSession e r o' m) = [] \<and> noOpenEvents (finalizeSession e r o' m) \<and>
         m_now (finalizeSession e r o' m) = m_now m"
proof -
  define t where "t = endInstant r m"
  define m2 where "m2 = closeReportingGapAtEnd e t r (clockStopM t m)"
  have m2: "rows_wf m2" "size (openKinds m2) \<le> 1" "m_now m2 = m_now m"
    "m_session m2 = (m_session m)\<lparr>s_usedMs := usedAt (m_session m) t, s_runningSince := None\<rparr>"
    using closeReportingGapAtEnd_facts[of "clockStopM t m" e t r] assms by (auto simp: m2_def)
  then show ?thesis
    using assms(1) unfolding finalizeSession_def Let_def endedSession_def
    by (simp add: m2_def[symmetric] t_def[symmetric])
qed

lemma endStatus_terminal [simp]: "terminal (endStatus r)"
  by (simp add: endStatus_def TERMINAL_STATUSES_def)

lemma terminal_cases [simp]:
  "terminal Submitted" "terminal Terminated" "\<not> terminal Invited" "\<not> terminal Ready" "\<not> terminal Active" "\<not> terminal Paused" "\<not> terminal On_hold"
  by (simp_all add: TERMINAL_STATUSES_def)

lemma endStatus_not [simp]:
  "endStatus r \<noteq> Invited" "endStatus r \<noteq> Ready" "endStatus r \<noteq> Active" "endStatus r \<noteq> Paused" "endStatus r \<noteq> On_hold"
  by (simp_all add: endStatus_def)

lemma openKindsFor_terminal [simp]: "terminal st \<Longrightarrow> openKindsFor st ks \<longleftrightarrow> ks = {#}"
  by (cases st) auto

lemma nonterminal_score: "end_ok s \<Longrightarrow> \<not> terminal (s_status s) \<Longrightarrow> s_score s = None"
  by (auto simp: end_ok_def)

lemma session_ok_ended:
  assumes "session_ok (m_session m)" "\<not> terminal (s_status (m_session m))" "endedSession e r m s"
  shows "session_ok s"
proof -
  have clock: "wf_clock (sessionClock (m_session m))" using assms(1) by (simp add: session_ok_def clock_ok_def)
  have used: "0 \<le> s_usedMs s" "s_usedMs s \<le> s_durationMs s"
    using wf_usedAt[OF clock, of "endInstant r m"] assms(3) by (simp_all add: endedSession_def)
  have unstarted: "s_usedMs s = 0 \<and> 0 \<le> baseDurationMs s \<and> 0 \<le> extraTimeMs (s_accommodations s)" if "s_startedAt s = None"
    using assms(1,3) that by (simp add: session_ok_def clock_ok_def endedSession_def usedAt_def clockStop_def sessionClock_def baseDurationMs_def)
  note eqs = assms(3)[unfolded endedSession_def, THEN conjunct1] assms(3)[unfolded endedSession_def, THEN conjunct2, THEN conjunct1]
    assms(3)[unfolded endedSession_def, THEN conjunct2, THEN conjunct2, THEN conjunct1]
  have run: "s_runningSince s = None" "s_holdCanReverify s = False" using assms(3) by (simp_all add: endedSession_def)
  have "s_score (m_session m) = None" using nonterminal_score[of "m_session m"] assms(1,2) by (simp add: session_ok_def)
  then have score: "s_score s \<noteq> None \<longrightarrow> s_startedAt (m_session m) \<noteq> None"
    using assms(3) unfolding endedSession_def by blast
  have start: "s_startedAt s = s_startedAt (m_session m)" "s_policy s = s_policy (m_session m)" "s_examVersionId s = s_examVersionId (m_session m)"
    "s_pauseCount s = s_pauseCount (m_session m)" "s_reconnectCount s = s_reconnectCount (m_session m)"
    using assms(3) by (simp_all add: endedSession_def)
  have "end_ok s" using score by (simp add: end_ok_def eqs start)
  moreover have "hold_ok s" by (simp add: hold_ok_def eqs run)
  moreover have "clock_ok s" using used unstarted by (simp add: clock_ok_def run wf_clock_def sessionClock_def)
  moreover have "started_ok s"
    using assms(1) by (simp add: session_ok_def started_ok_def inProgress_def[of s] notStarted_def[of s] eqs start)
  ultimately show ?thesis by (simp add: session_ok_def)
qed

lemma inv_finalizeSession [simp]:
  assumes "inv m" shows "inv (finalizeSession e r o' m)"
proof (cases "terminal (s_status (m_session m))")
  case False
  have "rows_wf m" "size (openKinds m) \<le> 1" "session_ok (m_session m)" using assms by (auto simp: inv_def dest: openKindsFor_size)
  note f = finalizeSession_facts[OF False this(1,2), of e r o']
  then have "session_ok (m_session (finalizeSession e r o' m))"
    using session_ok_ended[OF \<open>session_ok (m_session m)\<close> False] by blast
  then show ?thesis using f by (simp add: inv_def rest_ok_def endedSession_def)
qed (simp add: finalizeSession_def assms)

section \<open>Inside a transaction\<close>

text \<open>
  Between the steps of a handler the open period may already be closed; what remains
  true of a session that has not ended is \<open>mid\<close>.
\<close>

definition mid :: "mutation \<Rightarrow> bool" where
  "mid m \<longleftrightarrow> session_ok (m_session m) \<and> \<not> terminal (s_status (m_session m)) \<and> size (openKinds m) \<le> 1 \<and> rows_wf m \<and> length (pendings m) \<le> 1"

lemma inv_mid: "inv m \<Longrightarrow> \<not> terminal (s_status (m_session m)) \<Longrightarrow> mid m"
  by (auto simp: inv_def mid_def rest_ok_def dest: openKindsFor_size)

lemma mid_inv: "mid m \<Longrightarrow> openKindsFor (s_status (m_session m)) (openKinds m) \<Longrightarrow> inv m"
  by (simp add: mid_def inv_def rest_ok_def)

lemma mid_neutral:
  assumes "mid m" "same_core (m_session m) (m_session m')" "size (openKinds m') \<le> 1" "rows_wf m'" "pendings m' = pendings m"
  shows "mid m'"
  using assms session_ok_same_core[OF assms(2)] by (auto simp: mid_def same_core_def)

lemma mid_parts: "mid m \<Longrightarrow> session_ok (m_session m)" "mid m \<Longrightarrow> \<not> terminal (s_status (m_session m))"
  "mid m \<Longrightarrow> size (openKinds m) \<le> 1" "mid m \<Longrightarrow> rows_wf m" "mid m \<Longrightarrow> length (pendings m) \<le> 1"
  by (simp_all add: mid_def)

lemma same_core_refl [simp]: "same_core s s"
  by (simp add: same_core_def)

lemma same_core_updates [simp]:
  "same_core s (s\<lparr>s_identityState := x1\<rparr>)" "same_core s (s\<lparr>s_reportingEventId := x2\<rparr>)" "same_core s (s\<lparr>s_updatedAt := x3\<rparr>)"
  "same_core s (s\<lparr>s_verifiedInstanceId := x4\<rparr>)" "same_core s (s\<lparr>s_activeInstanceId := x5\<rparr>)" "same_core s (s\<lparr>s_connection := x6\<rparr>)"
  by (simp_all add: same_core_def)

lemma mid_primitives [simp]:
  assumes "mid m"
  shows "mid (addEvent i m)" "mid (closeEvent j t d m)" "mid (setIdentityState st m)" "mid (enqueueCommand c i' m)" "mid (closeOpenPeriod t m)"
    "mid (resetIdentityCounters m)" "mid (insertPeriod k t' (Some u) r d' m)" "mid (closeOpenEvents t r' ks m)"
  by (rule mid_neutral[OF assms]; use assms in \<open>simp add: mid_def same_core_def\<close>)+

section \<open>Hold and pause\<close>

lemma holdNow_status: "holdNow opts m = Inr m' \<Longrightarrow> \<not> terminal (s_status (m_session m))"
  by (auto simp: holdNow_def assertStatus_def bindR_Inr_iff)

definition heldSession :: "hold_opts \<Rightarrow> mutation \<Rightarrow> session \<Rightarrow> bool" where
  "heldSession opts m s \<longleftrightarrow> s_status s = On_hold \<and> s_holdReason s = Some (ho_reason opts) \<and> s_holdSince s \<noteq> None \<and> s_holdMessage s \<noteq> None \<and>
     s_holdCanReverify s = ho_canReverify opts \<and> \<not> s_reEnrollAuthorized s \<and>
     s_holdPrevStatus s = holdPrevAfter (s_status (m_session m)) (s_holdPrevStatus (m_session m)) \<and>
     s_usedMs s = usedAt (m_session m) (m_now m) \<and> s_runningSince s = None \<and>
     s_endReason s = s_endReason (m_session m) \<and> s_endedAt s = s_endedAt (m_session m) \<and> s_score s = s_score (m_session m) \<and>
     s_durationMs s = s_durationMs (m_session m) \<and> s_startedAt s = s_startedAt (m_session m) \<and> s_policy s = s_policy (m_session m) \<and>
     s_examVersionId s = s_examVersionId (m_session m) \<and> s_accommodations s = s_accommodations (m_session m) \<and>
     s_pauseCount s = s_pauseCount (m_session m) \<and> s_reconnectCount s = s_reconnectCount (m_session m)"

lemma holdNow_facts:
  assumes "rows_wf m" "size (openKinds m) \<le> 1" "holdNow opts m = Inr m'"
  shows "heldSession opts m (m_session m') \<and> rows_wf m' \<and> openKinds m' = {#P_on_hold#} \<and> pendings m' = pendings m \<and> m_now m' = m_now m"
proof -
  define now where "now = m_now m"
  define prev where "prev = s_status (m_session m)"
  define m2 where "m2 = (if prev \<noteq> On_hold then closeOpenEvents now ''hold'' [Ev_reporting_interrupted] (clockStopM now m) else clockStopM now m)"
  define continuing where "continuing = (case openPeriodRow m2 of Some p \<Rightarrow> pd_kind p = P_on_hold | None \<Rightarrow> False)"
  define m3 where "m3 = (if continuing
                 then m2\<lparr>m_periods := map (\<lambda>p. if pd_id p = pd_id (the (openPeriodRow m2)) then p\<lparr>pd_reason := Some (holdReasonStr (ho_reason opts))\<rparr> else p) (m_periods m2)\<rparr>
                 else switchPeriod P_on_hold now (Some (holdReasonStr (ho_reason opts))) [(''previousStatus'', JStr (statusStr prev))] m2)"
  have r2: "rows_wf m2" "openKinds m2 = openKinds m" "pendings m2 = pendings m" "m_now m2 = m_now m" using assms(1) by (simp_all add: m2_def)
  have s2: "\<exists>st ref. m_session m2 = (m_session m)\<lparr>s_usedMs := usedAt (m_session m) now, s_runningSince := None, s_identityState := st, s_reportingEventId := ref\<rparr>"
  proof (cases "prev \<noteq> On_hold")
    case False
    then have "m_session m2 = (m_session m)\<lparr>s_usedMs := usedAt (m_session m) now, s_runningSince := None,
        s_identityState := s_identityState (m_session m), s_reportingEventId := s_reportingEventId (m_session m)\<rparr>" by (simp add: m2_def)
    then show ?thesis by blast
  qed (auto simp: m2_def)
  then obtain st ref where s2: "m_session m2 = (m_session m)\<lparr>s_usedMs := usedAt (m_session m) now, s_runningSince := None, s_identityState := st, s_reportingEventId := ref\<rparr>"
    by blast
  have k3: "openKinds m3 = {#P_on_hold#}"
  proof (cases continuing)
    case True
    then obtain p where p: "openPeriodRow m2 = Some p" "pd_kind p = P_on_hold" by (auto simp: continuing_def split: option.splits)
    have "P_on_hold \<in># openKinds m" using openPeriodRow_Some(3)[OF p(1)] p(2) r2 by simp
    then have "openKinds m = {#P_on_hold#}" using assms(2) by (cases "openKinds m") auto
    then show ?thesis using True r2 by (simp add: m3_def)
  next
    case False
    then show ?thesis using r2 assms(2) by (simp add: m3_def)
  qed
  have r3: "rows_wf m3" "pendings m3 = pendings m" "m_session m3 = m_session m2" "m_now m3 = m_now m"
    using r2 rows_wf_update_reason[OF r2(1)] by (simp_all add: m3_def)
  from assms(3) show ?thesis
    unfolding holdNow_def Let_def assertStatus_def now_def[symmetric] prev_def[symmetric] m2_def[symmetric] continuing_def[symmetric] m3_def[symmetric]
    using r3 k3 by (auto simp: bindR_Inr_iff heldSession_def s2 now_def prev_def)
qed

lemma session_ok_held:
  assumes "session_ok (m_session m)" "\<not> terminal (s_status (m_session m))" "\<not> ho_canReverify opts" "heldSession opts m s"
  shows "session_ok s"
proof -
  let ?o = "m_session m"
  note o = assms(1)[unfolded session_ok_def] and h = assms(4)[unfolded heldSession_def]
  have clock: "wf_clock (sessionClock ?o)" using o by (simp add: clock_ok_def)
  have used: "0 \<le> s_usedMs s" "s_usedMs s \<le> s_durationMs s" using wf_usedAt[OF clock, of "m_now m"] h by simp_all
  have unstarted: "s_usedMs s = 0 \<and> 0 \<le> baseDurationMs s \<and> 0 \<le> extraTimeMs (s_accommodations s)" if "s_startedAt s = None"
    using o h that by (simp add: clock_ok_def usedAt_def clockStop_def sessionClock_def baseDurationMs_def)
  have st: "s_status ?o \<in> {Invited, Ready, Active, Paused, On_hold}" using assms(2) by (cases "s_status ?o") auto
  have prev: "s_holdPrevStatus s \<in> {Some Invited, Some Ready, Some Active} \<and> (s_holdPrevStatus s = Some Active \<longleftrightarrow> inProgress ?o) \<and>
      (s_holdPrevStatus s \<noteq> Some Active \<longleftrightarrow> notStarted ?o)"
    using o h st by (auto simp: hold_ok_def holdPrevAfter_def inProgress_def notStarted_def)
  have "end_ok s" using o h assms(2) by (auto simp: end_ok_def)
  moreover have "hold_ok s" using prev h[THEN conjunct1] h[THEN conjunct2, THEN conjunct1] h[THEN conjunct2, THEN conjunct2, THEN conjunct1]
      h[THEN conjunct2, THEN conjunct2, THEN conjunct2, THEN conjunct1] h[THEN conjunct2, THEN conjunct2, THEN conjunct2, THEN conjunct2, THEN conjunct2, THEN conjunct1]
    unfolding hold_ok_def by auto
  moreover have "clock_ok s" using used unstarted h by (simp add: clock_ok_def wf_clock_def sessionClock_def)
  moreover have "started_ok s"
    using o h prev assms(3) by (auto simp: started_ok_def inProgress_def[of s] notStarted_def[of s])
  ultimately show ?thesis by (simp add: session_ok_def)
qed

lemma inv_holdNow:
  assumes "mid m" "\<not> ho_canReverify opts" "holdNow opts m = Inr m'"
  shows "inv m'"
proof -
  have f: "heldSession opts m (m_session m') \<and> rows_wf m' \<and> openKinds m' = {#P_on_hold#} \<and> pendings m' = pendings m \<and> m_now m' = m_now m"
    using assms by (intro holdNow_facts) (simp_all add: mid_def)
  then have "session_ok (m_session m')"
    using session_ok_held assms by (auto simp: mid_def)
  then show ?thesis using f assms(1) by (simp add: inv_def rest_ok_def heldSession_def mid_def)
qed

lemma holdFor_canReverify [simp]: "\<not> ho_canReverify (holdFor r d)"
  by (simp add: holdFor_def)

text \<open>Starting or stopping the clock of an exam in progress.\<close>

lemma session_ok_clock:
  assumes "session_ok s" "s_status s = Active \<or> s_status s = Paused"
  shows "session_ok (s\<lparr>s_runningSince := Some t\<rparr>)" "session_ok (s\<lparr>s_usedMs := usedAt s t, s_runningSince := None\<rparr>)"
proof -
  have *: "end_ok s" "hold_ok s" "clock_ok s" "started_ok s" using assms(1) by (simp_all add: session_ok_def)
  have started: "s_startedAt s \<noteq> None" using *(4) assms(2) by (auto simp: started_ok_def inProgress_def)
  have c: "wf_clock (sessionClock s)" using *(3) by (simp add: clock_ok_def)
  have "clock_ok (s\<lparr>s_runningSince := Some t\<rparr>)"
    using c assms(2) started by (auto simp: clock_ok_def wf_clock_def sessionClock_def)
  with * show "session_ok (s\<lparr>s_runningSince := Some t\<rparr>)" by (simp add: session_ok_def)
  have "clock_ok (s\<lparr>s_usedMs := usedAt s t, s_runningSince := None\<rparr>)"
    using wf_usedAt[OF c, of t] started by (auto simp: clock_ok_def wf_clock_def sessionClock_def)
  with * show "session_ok (s\<lparr>s_usedMs := usedAt s t, s_runningSince := None\<rparr>)" by (simp add: session_ok_def)
qed

lemma session_ok_pausing:
  assumes "session_ok s" "s_status s = Active"
  shows "session_ok (s\<lparr>s_status := Paused, s_pauseCount := s_pauseCount s + 1\<rparr>)"
proof -
  have *: "end_ok s" "hold_ok s" "clock_ok s" "started_ok s" using assms(1) by (simp_all add: session_ok_def)
  let ?s = "s\<lparr>s_status := Paused, s_pauseCount := s_pauseCount s + 1\<rparr>"
  have "end_ok ?s" using *(1) assms(2) by (auto simp: end_ok_def)
  moreover have "hold_ok ?s" using *(2) assms(2) by (auto simp: hold_ok_def unheld_def)
  moreover have "clock_ok ?s" using *(3) by (auto simp: clock_ok_def wf_clock_def sessionClock_def baseDurationMs_def)
  moreover have "started_ok ?s" using *(4) assms(2) by (auto simp: started_ok_def inProgress_def notStarted_def)
  ultimately show ?thesis by (simp add: session_ok_def)
qed

lemma inv_pauseNow:
  assumes "inv m" "pauseNow e reason rid by' m = Inr m'"
  shows "inv m'"
proof -
  define tb where "tb = pp_timerBehavior (pol_pause (effectivePolicy e (m_session m)))"
  define m1 where "m1 = (if tb = Timer_stop then clockStopM (m_now m) m else clockStartM (m_now m) m)"
  have a: "s_status (m_session m) = Active" using assms(2) by (auto simp: pauseNow_def assertStatus_def bindR_Inr_iff)
  have ok: "session_ok (m_session m)" "rows_wf m" "size (openKinds m) \<le> 1" "length (pendings m) \<le> 1"
    using assms(1) inv_mid[OF assms(1)] a by (simp_all add: mid_def)
  have s1: "session_ok (m_session m1)" "rows_wf m1" "openKinds m1 = openKinds m" "pendings m1 = pendings m" "m_now m1 = m_now m"
    using session_ok_clock(1)[OF ok(1), of "nullish (s_runningSince (m_session m)) (m_now m)"] session_ok_clock(2)[OF ok(1), of "m_now m"] a ok(2)
    by (cases "tb = Timer_stop"; simp add: m1_def)+
  have a1: "s_status (m_session m1) = Active" using a by (simp add: m1_def)
  let ?p = "(m_session m1)\<lparr>s_status := Paused, s_pauseCount := s_pauseCount (m_session m1) + 1\<rparr>"
  have p: "session_ok ?p" by (rule session_ok_pausing[OF s1(1) a1])
  from assms(2) obtain i where m': "m' = addEvent i (resetIdentityCounters (setS (\<lambda>s. s\<lparr>s_status := Paused, s_pauseCount := s_pauseCount s + 1, s_checkAttemptsResetAt := Some (m_now m)\<rparr>)
      (switchPeriod P_paused (m_now m) reason [(''requestId'', jstr rid), (''timerBehavior'', JStr (timerStr tb))] (closeOpenEvents (m_now m) ''pause'' [Ev_reporting_interrupted] m1))))"
    and i: "\<not> ei_open i"
    unfolding pauseNow_def Let_def tb_def[symmetric] m1_def[symmetric] by (auto simp: bindR_Inr_iff)
  have "session_ok (m_session m')" by (rule session_ok_same_core[OF _ p]) (simp add: m' same_core_def)
  then show ?thesis using s1 ok(3,4) by (simp add: inv_def rest_ok_def m')
qed

end
