(* ===== verification/SP_Handlers.thy ===== *)
theory SP_Handlers
  imports SP_Lifecycle
begin

text \<open>
  Every handler keeps the invariant of SP_Lifecycle: first the small steps handlers
  share, then the checks, the start, the staff actions, the resume policy and reopening,
  and the candidate's requests.
\<close>

section \<open>Shared steps\<close>

lemma inv_setS: "inv m \<Longrightarrow> same_core (m_session m) (f (m_session m)) \<Longrightarrow> inv (setS f m)"
  by (rule inv_same_core) (simp_all add: inv_def)

lemma mid_setS: "mid m \<Longrightarrow> same_core (m_session m) (f (m_session m)) \<Longrightarrow> mid (setS f m)"
  by (rule mid_neutral) (simp_all add: mid_def)

lemma inv_primitives [simp]:
  assumes "inv m"
  shows "\<not> ei_open i \<Longrightarrow> inv (addEvent i m)" "inv (closeEvent j t d m)" "inv (setIdentityState st m)" "inv (enqueueCommand c i' m)"
    "inv (m\<lparr>m_fresh := Suc (m_fresh m)\<rparr>)" "inv (m\<lparr>m_commands := cs\<rparr>)" "inv (m\<lparr>m_answers := a\<rparr>)" "inv (m\<lparr>m_now := t'\<rparr>)"
    "inv (resetIdentityCounters m)"
  by (rule inv_same_core[OF assms]; use assms in \<open>simp add: inv_def same_core_def\<close>)+

lemma mid_terminal: "mid m \<Longrightarrow> \<not> terminal (s_status (m_session m))"
  by (simp add: mid_def)

lemma closeReplacedInstanceEvents_simps [simp]:
  "m_session (closeReplacedInstanceEvents i t m) = m_session m" "m_now (closeReplacedInstanceEvents i t m) = m_now m"
  "openKinds (closeReplacedInstanceEvents i t m) = openKinds m" "pendings (closeReplacedInstanceEvents i t m) = pendings m"
  "rows_wf m \<Longrightarrow> rows_wf (closeReplacedInstanceEvents i t m)" "noOpenEvents m \<Longrightarrow> noOpenEvents (closeReplacedInstanceEvents i t m)"
  "mid m \<Longrightarrow> mid (closeReplacedInstanceEvents i t m)"
  by (simp_all add: closeReplacedInstanceEvents_def rows_wf_updateEvents noOpenEvents_updateEvents mid_def)

lemma recordMultipleInstances_simps [simp]:
  "m_session (recordMultipleInstances a b d m) = m_session m" "m_now (recordMultipleInstances a b d m) = m_now m"
  "inv m \<Longrightarrow> inv (recordMultipleInstances a b d m)"
  by (simp_all add: recordMultipleInstances_def)

text \<open>Leaving a hold: the hold's columns are cleared and the status becomes \<open>st\<close>.\<close>

lemma session_ok_released:
  assumes "session_ok s" "s_status s = On_hold" "st \<in> {Invited, Ready} \<and> s_startedAt s = None \<or> st = Active \<and> s_startedAt s \<noteq> None"
  shows "session_ok ((clearedHold s)\<lparr>s_status := st\<rparr>)"
proof -
  have *: "end_ok s" "hold_ok s" "clock_ok s" "started_ok s" using assms(1) by (simp_all add: session_ok_def)
  have e: "s_endReason s = None \<and> s_endedAt s = None \<and> s_score s = None"
    using *(1) assms(2) nonterminal_score[of s] by (auto simp: end_ok_def)
  let ?s = "(clearedHold s)\<lparr>s_status := st\<rparr>"
  have "end_ok ?s" using e assms(3) by (auto simp: end_ok_def clearedHold_def)
  moreover have "hold_ok ?s" using assms(3) by (auto simp: hold_ok_def unheld_def clearedHold_def)
  moreover have "clock_ok ?s"
    using *(3) assms(2,3) by (auto simp: clock_ok_def wf_clock_def sessionClock_def baseDurationMs_def clearedHold_def)
  moreover have "started_ok ?s" using *(4) assms(3) by (auto simp: started_ok_def inProgress_def notStarted_def clearedHold_def)
  ultimately show ?thesis by (simp add: session_ok_def)
qed

lemma session_ok_active:
  assumes "session_ok s" "s_status s = Active \<or> s_status s = Paused"
  shows "session_ok (s\<lparr>s_status := Active\<rparr>)"
proof -
  have *: "end_ok s" "hold_ok s" "clock_ok s" "started_ok s" using assms(1) by (simp_all add: session_ok_def)
  have "end_ok (s\<lparr>s_status := Active\<rparr>)" using *(1) assms(2) by (auto simp: end_ok_def)
  moreover have "hold_ok (s\<lparr>s_status := Active\<rparr>)" using *(2) assms(2) by (auto simp: hold_ok_def unheld_def)
  moreover have "clock_ok (s\<lparr>s_status := Active\<rparr>)" using *(3) by (auto simp: clock_ok_def wf_clock_def sessionClock_def baseDurationMs_def)
  moreover have "started_ok (s\<lparr>s_status := Active\<rparr>)" using *(4) assms(2) by (auto simp: started_ok_def inProgress_def notStarted_def)
  ultimately show ?thesis by (simp add: session_ok_def)
qed

lemma session_ok_ready:
  assumes "session_ok s" "s_status s = Invited" shows "session_ok (s\<lparr>s_status := Ready\<rparr>)"
proof -
  have *: "end_ok s" "hold_ok s" "clock_ok s" "started_ok s" using assms(1) by (simp_all add: session_ok_def)
  have "end_ok (s\<lparr>s_status := Ready\<rparr>)" using *(1) assms(2) by (auto simp: end_ok_def)
  moreover have "hold_ok (s\<lparr>s_status := Ready\<rparr>)" using *(2) assms(2) by (auto simp: hold_ok_def unheld_def)
  moreover have "clock_ok (s\<lparr>s_status := Ready\<rparr>)"
    using *(3) assms(2) by (auto simp: clock_ok_def wf_clock_def sessionClock_def baseDurationMs_def)
  moreover have "started_ok (s\<lparr>s_status := Ready\<rparr>)" using *(4) assms(2) by (auto simp: started_ok_def inProgress_def notStarted_def)
  ultimately show ?thesis by (simp add: session_ok_def)
qed

section \<open>Checks\<close>

lemma inv_retryOrHold:
  assumes "inv m" "\<not> terminal (s_status (m_session m))" "retryOrHold e rows chk i q r c d m = Inr (o', m')"
  shows "inv m'"
proof -
  have "mid m" by (rule inv_mid[OF assms(1,2)])
  show ?thesis
  proof (rule ccontr)
    assume n: "\<not> inv m'"
    from assms(3) obtain ev h m2 m3 where
      m2: "m2 = (if chk_purpose chk = C_reconnect then closeReplacedInstanceEvents i (reconnectGapStart (m_session (addEvent ev m)) chk) (addEvent ev m) else addEvent ev m)"
      and h: "holdNow (holdFor H_identity_unverifiable h) m2 = Inr m3"
      and m': "m' = (if chk_purpose chk \<noteq> C_initial then setS (\<lambda>s. s\<lparr>s_verifiedInstanceId := Some i\<rparr>) m3 else m3)"
      using n assms(1) unfolding retryOrHold_def Let_def by (auto simp: bindR_Inr_iff split: if_splits)
    have "mid m2" using \<open>mid m\<close> by (simp add: m2)
    then have "inv m3" using h by (rule inv_holdNow[OF _ holdFor_canReverify])
    then have "inv m'" by (simp add: m' inv_setS)
    with n show False ..
  qed
qed

lemma passInitial_facts:
  assumes "inv m" "s_status (m_session m) = Invited"
  shows "inv (passInitial e i r c m)" "\<not> terminal (s_status (m_session (passInitial e i r c m)))"
proof -
  have m: "mid m" using inv_mid[OF assms(1)] assms(2) by simp
  have ok: "session_ok (m_session m)" using m by (simp add: mid_def)
  have "session_ok (m_session (passInitial e i r c m))"
    by (rule session_ok_same_core[OF _ session_ok_ready[OF ok assms(2)]]) (simp add: passInitial_def Let_def same_core_def)
  then show "inv (passInitial e i r c m)"
    using m by (simp add: inv_def rest_ok_def mid_def passInitial_def Let_def)
  show "\<not> terminal (s_status (m_session (passInitial e i r c m)))" by (simp add: passInitial_def Let_def)
qed

lemma idPhotoEvents_simps [simp]:
  "inv m \<Longrightarrow> inv (idPhotoEvents d l c j m)" "m_session (idPhotoEvents d l c j m) = m_session m"
  by (simp_all add: idPhotoEvents_def Let_def)

lemma inv_holdOnIdPhoto:
  assumes "inv m" "\<not> terminal (s_status (m_session m))" "holdOnIdPhoto e d j m = Inr (o', m')"
  shows "inv m'"
  using assms inv_holdNow[OF inv_mid[OF assms(1,2)] holdFor_canReverify]
  by (auto simp: holdOnIdPhoto_def bindR_Inr_iff split: if_splits)

lemma inv_applyInitial:
  assumes "inv m" "s_status (m_session m) = Invited" "applyInitial e rows chk i f m = Inr (o', m')"
  shows "inv m'"
proof -
  have nt: "\<not> terminal (s_status (m_session m))" by (simp add: assms(2))
  note retry = inv_retryOrHold[OF assms(1) nt]
  show ?thesis
    using assms(3) unfolding applyInitial_def Let_def
    by (auto split: if_splits option.splits prod.splits
        intro: retry passInitial_facts(1)[OF assms(1,2)] inv_holdOnIdPhoto[rotated 2] simp: passInitial_facts[OF assms(1,2)])
qed

lemma closeGapPeriods_facts:
  assumes "mid m"
  shows "mid (closeGapPeriods i chk cs gs m)" "openKinds (closeGapPeriods i chk cs gs m) = {#}"
    "m_session (closeGapPeriods i chk cs gs m) = (m_session m)\<lparr>s_reportingEventId := None, s_reportingInterruptedSince := None\<rparr>"
    "m_now (closeGapPeriods i chk cs gs m) = m_now m" "pendings (closeGapPeriods i chk cs gs m) = pendings m"
proof -
  have k: "size (openKinds m) \<le> 1" using assms by (simp add: mid_def)
  show o: "openKinds (closeGapPeriods i chk cs gs m) = {#}"
    using k openPeriodRow_None_iff[of m] by (auto simp: closeGapPeriods_def Let_def split: option.split)
  show s: "m_session (closeGapPeriods i chk cs gs m) = (m_session m)\<lparr>s_reportingEventId := None, s_reportingInterruptedSince := None\<rparr>"
    and "m_now (closeGapPeriods i chk cs gs m) = m_now m" and p: "pendings (closeGapPeriods i chk cs gs m) = pendings m"
    by (auto simp: closeGapPeriods_def Let_def split: option.split)
  have "rows_wf (closeGapPeriods i chk cs gs m)"
    using assms by (auto simp: closeGapPeriods_def Let_def mid_def split: option.split)
  then show "mid (closeGapPeriods i chk cs gs m)"
    by (intro mid_neutral[OF assms]) (simp_all add: o s p same_core_def)
qed

lemma inv_resumeExam:
  assumes "mid m" "openKinds m = {#}"
    "s_status (m_session m) \<in> {Active, Paused} \<or> s_status (m_session m) = On_hold \<and> s_holdCanReverify (m_session m)"
  shows "inv (resumeExam chk ps sim m)"
proof -
  let ?s = "m_session m" and ?next = "nextStatus (m_session m)"
  have ok: "session_ok ?s" "hold_ok ?s" "started_ok ?s" using assms(1) by (simp_all add: mid_def session_ok_def)
  define f where "f = (\<lambda>s. (if s_status s = On_hold then clearedHold s else s)\<lparr>s_status := ?next\<rparr>)"
  have nx: "?next = Active \<or> ?next = Ready" by (auto simp: nextStatus_def)
  have f: "session_ok (f ?s)"
  proof (cases "s_status ?s = On_hold")
    case True
    then have "s_holdPrevStatus ?s = Some Ready \<or> s_holdPrevStatus ?s = Some Active"
      using ok(2,3) assms(3) by (auto simp: hold_ok_def started_ok_def)
    then have "?next \<in> {Invited, Ready} \<and> s_startedAt ?s = None \<or> ?next = Active \<and> s_startedAt ?s \<noteq> None"
      using ok(3) True by (auto simp: nextStatus_def started_ok_def inProgress_def notStarted_def)
    from session_ok_released[OF ok(1) True this] show ?thesis using True by (simp add: f_def)
  next
    case False
    then show ?thesis using session_ok_active[OF ok(1)] assms(3) by (auto simp: f_def nextStatus_def)
  qed
  define m1 where "m1 = setS f m"
  have m1: "session_ok (m_session m1)" "s_status (m_session m1) = ?next" "openKinds m1 = {#}" "rows_wf m1" "pendings m1 = pendings m" "length (pendings m) \<le> 1"
    using f assms by (simp_all add: m1_def f_def mid_def)
  show ?thesis
  proof (cases "?next = Active")
    case False
    then have r: "resumeExam chk ps sim m = m1" "?next = Ready" using nx by (simp_all add: resumeExam_def m1_def f_def Let_def)
    then show ?thesis using m1 by (simp add: inv_def rest_ok_def)
  next
    case True
    define m2 where "m2 = resetIdentityCounters (clockStartM (m_now m1) (insertPeriod P_active (m_now m1) None (Some (purposeStr (chk_purpose chk))) [] m1))"
    have "session_ok ((m_session m1)\<lparr>s_runningSince := Some (nullish (s_runningSince (m_session m1)) (m_now m1))\<rparr>)"
      by (rule session_ok_clock) (simp_all add: m1 True)
    then have "session_ok (m_session m2)" by (rule session_ok_same_core[rotated]) (simp add: m2_def same_core_def)
    then have "inv m2" using m1 True by (simp add: inv_def rest_ok_def m2_def)
    then show ?thesis unfolding resumeExam_def Let_def f_def[symmetric] m1_def[symmetric] m2_def[symmetric] using True by simp
  qed
qed

lemma countReconnect_facts:
  "mid m \<Longrightarrow> mid (countReconnect chk m)" "s_status (m_session (countReconnect chk m)) = s_status (m_session m)"
  "s_holdCanReverify (m_session (countReconnect chk m)) = s_holdCanReverify (m_session m)"
  "s_holdPrevStatus (m_session (countReconnect chk m)) = s_holdPrevStatus (m_session m)"
proof -
  assume m: "mid m"
  have "session_ok ((m_session m)\<lparr>s_reconnectCount := s_reconnectCount (m_session m) + 1\<rparr>)"
    using m by (simp add: mid_def session_ok_def) (simp add: started_ok_def inProgress_def notStarted_def)
  then show "mid (countReconnect chk m)" using m by (simp add: mid_def countReconnect_def)
qed (simp_all add: countReconnect_def)

lemma connectedNow_simps [simp]:
  "mid m \<Longrightarrow> mid (connectedNow i m)" "inv m \<Longrightarrow> inv (connectedNow i m)" "m_now (connectedNow i m) = m_now m"
  "s_status (m_session (connectedNow i m)) = s_status (m_session m)"
  "s_holdCanReverify (m_session (connectedNow i m)) = s_holdCanReverify (m_session m)"
  by (simp_all add: connectedNow_def mid_setS inv_setS same_core_def)

lemma inv_holdLongPause:
  assumes "mid m" "s_status (m_session m) = Paused" "holdLongPause pol chk ps m = Inr m'"
  shows "inv m'"
proof -
  have "session_ok ((m_session m)\<lparr>s_status := Active\<rparr>)" using assms(1,2) session_ok_active by (simp add: mid_def)
  then have "mid (setS (\<lambda>s. s\<lparr>s_status := Active\<rparr>) m)" using assms(1) by (simp add: mid_def)
  from inv_holdNow[OF this holdFor_canReverify] assms(3) show ?thesis by (simp add: holdLongPause_def)
qed

lemma pauseTooLong_resume: "pauseTooLong pol chk ps \<Longrightarrow> chk_purpose chk = C_resume"
  by (simp add: pauseTooLong_def)

text \<open>What a check that is still required says about the session.\<close>

lemma requiredCheck_status:
  assumes "requiredCheckFor s (Some i) = Some p"
  shows "s_status s \<in> {Invited, Ready, Active, Paused} \<or> s_status s = On_hold \<and> s_holdCanReverify s"
    "\<not> terminal (s_status s)" "p = C_initial \<longleftrightarrow> s_status s = Invited" "p = C_resume \<longleftrightarrow> s_status s = Paused"
  using assms by (cases "s_status s"; auto simp: requiredCheckFor_def Let_def split: if_splits)+

definition continuing :: "check_row \<Rightarrow> mutation \<Rightarrow> bool" where
  "continuing chk m \<longleftrightarrow> (s_status (m_session m) \<in> {Ready, Active, Paused} \<or> s_status (m_session m) = On_hold \<and> s_holdCanReverify (m_session m)) \<and>
     (chk_purpose chk = C_resume \<longleftrightarrow> s_status (m_session m) = Paused)"

lemma continuing_required:
  "requiredCheckFor (m_session m) (Some i) = Some (chk_purpose chk) \<Longrightarrow> chk_purpose chk \<noteq> C_initial \<Longrightarrow> continuing chk m"
  using requiredCheck_status[of "m_session m" i "chk_purpose chk"] by (auto simp: continuing_def)

text \<open>The end both kinds of check share: gap closed, then a long pause held, or back to the exam.\<close>

lemma inv_afterGap:
  assumes "mid m" "continuing chk m" "s_status (m_session m) \<noteq> Ready"
    and "m2 = closeGapPeriods i chk cs gs m"
  shows "inv (resumeExam chk ps sim m2)" "pauseTooLong pol chk ps \<Longrightarrow> holdLongPause pol chk ps m2 = Inr m' \<Longrightarrow> inv m'" "mid m2"
proof -
  note g = closeGapPeriods_facts[OF assms(1), where i = i and chk = chk and cs = cs and gs = gs]
  show "mid m2" using g(1) assms(4) by simp
  show "inv (resumeExam chk ps sim m2)"
    using assms(2,3) g by (intro inv_resumeExam) (auto simp: assms(4) continuing_def)
  show "inv m'" if "pauseTooLong pol chk ps" "holdLongPause pol chk ps m2 = Inr m'"
    using that(2) assms(2) pauseTooLong_resume[OF that(1)] g
    by (intro inv_holdLongPause[of m2 pol chk ps]) (simp_all add: assms(4) continuing_def)
qed

lemma continuing_same:
  "continuing chk m \<Longrightarrow> s_status (m_session m') = s_status (m_session m) \<Longrightarrow> s_holdCanReverify (m_session m') = s_holdCanReverify (m_session m) \<Longrightarrow> continuing chk m'"
  by (simp add: continuing_def)

lemma inv_continueAfterPass:
  assumes "inv m" "continuing chk m" "continueAfterPass e chk i f m = Inr (o', m')"
  shows "inv m'"
proof -
  define st where "st = s_identityState (m_session m)"
  define m2 where "m2 = setIdentityState ((s_identityState (m_session (closeEvent (is_openUnverifiableEventId st) (m_now m) [(''closedBy'', JStr ''identity_match'')] m)))
     \<lparr>is_openUnverifiableEventId := None, is_lastMatchAt := (if pf_flagged f then is_lastMatchAt st else Some (m_now m))\<rparr>)
     (closeEvent (is_openUnverifiableEventId st) (m_now m) [(''closedBy'', JStr ''identity_match'')] m)"
  define ev where "ev = (evt Ev_identity_verified ([(''purpose'', JStr (purposeStr (chk_purpose chk))), (''similarity'', pf_similarity f)] @ pf_details f))
     \<lparr>ei_source := Some Src_server_identity, ei_confidence := pf_confidence f\<rparr>"
  define m4 where "m4 = connectedNow i (if pf_flagged f then m2 else addEvent ev m2)"
  define m6 where "m6 = (if pf_reEnrolled f then keepContinuous (countReconnect chk m4)
     else if \<not> (s_status (m_session (countReconnect chk m4)) = On_hold \<and> s_holdPrevStatus (m_session (countReconnect chk m4)) = Some Ready)
          then normaliseAfter f (countReconnect chk m4) else countReconnect chk m4)"
  have nt: "\<not> terminal (s_status (m_session m))" using assms(2) by (auto simp: continuing_def)
  have m2: "inv m2" "mid m2" using assms(1) inv_mid[OF assms(1) nt] by (simp_all add: m2_def)
  have s4: "s_status (m_session m4) = s_status (m_session m)" "s_holdCanReverify (m_session m4) = s_holdCanReverify (m_session m)"
    by (simp_all add: m4_def m2_def)
  have m4: "inv m4" "mid m4" using m2 by (simp_all add: m4_def ev_def)
  have m6: "mid m6" using countReconnect_facts(1)[OF m4(2), of chk] by (simp add: m6_def keepContinuous_def normaliseAfter_def Let_def)
  have s6: "s_status (m_session m6) = s_status (m_session m4)" "s_holdCanReverify (m_session m6) = s_holdCanReverify (m_session m4)"
    by (simp_all add: m6_def keepContinuous_def normaliseAfter_def Let_def countReconnect_facts)
  have c6: "continuing chk m6" using assms(2) by (rule continuing_same) (simp_all add: s6 s4)
  have eq: "continueAfterPass e chk i f m =
     (if s_status (m_session m4) = Ready then Inr (Out_passed, if pf_reEnrolled f then keepContinuous m4 else m4)
      else if pauseTooLong (effectivePolicy e (m_session m)) chk (pauseStartOf m)
           then bindR (holdLongPause (effectivePolicy e (m_session m)) chk (pauseStartOf m) (closeGapPeriods i chk (chk_issuedAt chk) (gapStartOf chk m) m6)) (\<lambda>m'. Inr (Out_held, m'))
           else Inr (Out_passed, resumeExam chk (pauseStartOf m) (pf_similarity f) (closeGapPeriods i chk (chk_issuedAt chk) (gapStartOf chk m) m6)))"
    unfolding continueAfterPass_def Let_def m6_def m4_def ev_def m2_def st_def ..
  show ?thesis
  proof (cases "s_status (m_session m4) = Ready")
    case True
    then show ?thesis using assms(3) m4(1) unfolding eq by (auto simp: keepContinuous_def split: if_splits)
  next
    case False
    then have ns: "s_status (m_session m6) \<noteq> Ready" by (simp add: s6)
    note g = inv_afterGap[OF m6 c6 ns refl, where i = i and cs = "chk_issuedAt chk" and gs = "gapStartOf chk m"]
    show ?thesis using assms(3) False g(1,2) unfolding eq by (auto simp: bindR_Inr_iff split: if_splits)
  qed
qed

lemma inv_mismatchHold:
  assumes "inv m" "\<not> terminal (s_status (m_session m))" "mismatchHold chk i eid gs x m = Inr (o', m')"
  shows "inv m'"
proof -
  have m: "mid m" by (rule inv_mid[OF assms(1,2)])
  from assms(3) obtain h m1 where h: "holdNow h (closeGapPeriods i chk (chk_issuedAt chk) gs m) = Inr m1" "\<not> ho_canReverify h"
    and m': "m' = setS (\<lambda>s. s\<lparr>s_verifiedInstanceId := Some i\<rparr>) m1"
    unfolding mismatchHold_def by (auto simp: bindR_Inr_iff holdFor_def)
  from inv_holdNow[OF closeGapPeriods_facts(1)[OF m] h(2,1)] show ?thesis by (simp add: m' inv_setS)
qed

lemma reEnrol_facts:
  assumes "inv m" "continuing chk m" shows "inv (reEnrol chk f m)" "continuing chk (reEnrol chk f m)"
proof -
  define m2 where "m2 = addEvent ((evt Ev_reference_created (cf_newReferenceDetails f @ [(''reEnrollment'', JBool True)]))\<lparr>ei_source := Some Src_server_identity\<rparr>)
    (if cf_hasActive f \<and> cf_decision f = D_mismatch
     then snd (recordReferenceMismatch chk (Some (chk_issuedAt chk)) (cf_confidence f) (cf_mismatchDetails f @ [(''reEnrolled'', JBool True)]) m) else m)"
  have eq: "reEnrol chk f m = setS (\<lambda>s. s\<lparr>s_reEnrollAuthorized := False, s_reEnrollAuthorizedBy := None\<rparr>) m2"
    by (simp add: reEnrol_def m2_def Let_def)
  have m2: "inv m2" "m_session m2 = m_session m" using assms(1) by (simp_all add: m2_def recordReferenceMismatch_def)
  have "hold_ok (m_session m)" using assms(1) by (simp add: inv_def session_ok_def)
  then have "hold_ok ((m_session m)\<lparr>s_reEnrollAuthorized := False, s_reEnrollAuthorizedBy := None\<rparr>)"
    unfolding hold_ok_def unheld_def by (simp (no_asm), blast)
  then show "inv (reEnrol chk f m)" using m2 by (simp add: eq inv_def session_ok_def rest_ok_def)
  show "continuing chk (reEnrol chk f m)" using assms(2) m2 by (simp add: eq continuing_def)
qed

lemma inv_applyContinuation:
  assumes "inv m" "continuing chk m" "applyContinuation e rows chk i f m = Inr (o', m')"
  shows "inv m'"
proof -
  have nt: "\<not> terminal (s_status (m_session m))" using assms(2) by (auto simp: continuing_def)
  have rec: "inv (snd (recordReferenceMismatch chk s c d m))" "\<not> terminal (s_status (m_session (snd (recordReferenceMismatch chk s c d m))))"
    "continuing chk (snd (recordReferenceMismatch chk s c d m))" for s c d
    using assms(1,2) nt by (simp_all add: recordReferenceMismatch_def continuing_def)
  let ?r = "recordReferenceMismatch chk None (cf_confidence f)"
  let ?holds = "ip_onMismatch (pol_identity (effectivePolicy e (m_session m))) = Hold_for_review"
  define reEnroll where "reEnroll \<longleftrightarrow> reEnrollmentApplies (m_session m) (chk_purpose chk) \<and> cf_newReference f \<noteq> Ref_none"
  define r1 where "r1 = ?r (cf_mismatchDetails f @ [(''livenessPassed'', JBool False)]) m"
  define r2 where "r2 = ?r (cf_mismatchDetails f) m"
  have r1: "inv (snd r1)" "\<not> terminal (s_status (m_session (snd r1)))" and r2: "inv (snd r2)" "\<not> terminal (s_status (m_session (snd r2)))" "continuing chk (snd r2)"
    unfolding r1_def r2_def by (rule rec)+
  note app = assms(3)[unfolded applyContinuation_def Let_def case_prod_beta, folded reEnroll_def r1_def r2_def]
  consider (dead) "\<not> cf_livenessOk f" | (enrol) "cf_livenessOk f" reEnroll | (match) "cf_livenessOk f" "\<not> reEnroll" "cf_decision f = D_match"
    | (mismatch) "cf_livenessOk f" "\<not> reEnroll" "cf_decision f = D_mismatch"
    | (unclear) "cf_livenessOk f" "\<not> reEnroll" "cf_decision f = D_inconclusive \<or> cf_decision f = D_unable_to_verify"
    by (cases "cf_decision f") auto
  then show ?thesis
  proof cases
    case dead
    then show ?thesis
      using app inv_retryOrHold[OF assms(1) nt] inv_retryOrHold[OF r1] inv_mismatchHold[OF r1] by (simp split: if_splits; blast)
  next
    case enrol
    then show ?thesis
      using app inv_retryOrHold[OF assms(1) nt] inv_continueAfterPass[OF reEnrol_facts[OF assms(1,2)]] by (simp split: if_splits; blast)
  next
    case match
    then show ?thesis using app inv_continueAfterPass[OF assms(1,2)] by simp
  next
    case mismatch
    then show ?thesis using app inv_mismatchHold[OF r2(1,2)] inv_continueAfterPass[OF r2(1,3)] by (simp split: if_splits; blast)
  next
    case unclear
    then show ?thesis using app inv_retryOrHold[OF assms(1) nt] by (elim disjE; simp; blast)
  qed
qed

lemma inv_attestInitial:
  assumes "inv m" "s_status (m_session m) = Invited" "attestInitial e chk i m = Inr (o', m')"
  shows "inv m'"
proof -
  have m: "mid m" using inv_mid[OF assms(1)] assms(2) by simp
  from assms(3) obtain ev h m1 m4 where m1: "m1 = setS (\<lambda>s. s\<lparr>s_verifiedInstanceId := Some i, s_checkAttemptsResetAt := Some (m_now (addEvent ev m))\<rparr>) (addEvent ev m)"
    and h: "holdNow (holdFor H_staff_verification h) (setS (\<lambda>s. s\<lparr>s_status := Ready\<rparr>) (closeOpenPeriod (m_now m1) m1)) = Inr m4" and m': "m' = m4"
    unfolding attestInitial_def Let_def by (auto simp: bindR_Inr_iff)
  have m1': "mid m1" "s_status (m_session m1) = Invited" using m assms(2) by (simp_all add: m1 mid_setS same_core_def)
  then have "mid (setS (\<lambda>s. s\<lparr>s_status := Ready\<rparr>) (closeOpenPeriod (m_now m1) m1))"
    using session_ok_ready[of "m_session m1"] by (simp add: mid_def)
  from inv_holdNow[OF this holdFor_canReverify h] show ?thesis by (simp add: m')
qed

lemma inv_attestContinuation:
  assumes "inv m" "continuing chk m" "attestContinuation e chk i m = Inr (o', m')"
  shows "inv m'"
proof -
  have nt: "\<not> terminal (s_status (m_session m))" using assms(2) by (auto simp: continuing_def)
  define m1 where "m1 = connectedNow i m"
  have m1: "inv m1" "mid m1" "continuing chk m1" using assms(1,2) inv_mid[OF assms(1) nt] by (simp_all add: m1_def continuing_def)
  have c: "mid (countReconnect chk m1)" "continuing chk (countReconnect chk m1)"
    using m1 countReconnect_facts[where m = m1 and chk = chk] by (simp_all add: continuing_def)
  show ?thesis
  proof (cases "s_status (m_session m1) = Ready")
    case True
    then show ?thesis
      using assms(3) m1 inv_holdNow[OF m1(2) holdFor_canReverify]
      unfolding attestContinuation_def Let_def m1_def[symmetric] by (auto simp: bindR_Inr_iff split: if_splits)
  next
    case False
    then have ns: "s_status (m_session (countReconnect chk m1)) \<noteq> Ready" by (simp add: countReconnect_facts)
    note g = inv_afterGap[OF c ns refl, where i = i and cs = "chk_issuedAt chk" and gs = "gapStartOf chk m"]
    show ?thesis
      using assms(3) False g(1,2) inv_holdNow[OF g(3) holdFor_canReverify]
      unfolding attestContinuation_def Let_def m1_def[symmetric] by (auto simp: bindR_Inr_iff split: if_splits)
  qed
qed

lemma inv_completeCheck:
  assumes "inv m" "completeCheck e rows chk i f m = Inr (o', m')"
  shows "inv m'"
proof -
  have r: "requiredCheckFor (m_session m) (Some i) = Some (chk_purpose chk)"
    using assms(2) by (auto simp: completeCheck_def bindR_Inr_iff)
  from assms(2) obtain m1 where m1: "m' = flush m1"
    "(case f of CF_initial g \<Rightarrow> if chk_purpose chk = C_initial then applyInitial e rows chk i g m else Inl invalidState
      | CF_continuation g \<Rightarrow> if chk_purpose chk \<noteq> C_initial then applyContinuation e rows chk i g m else Inl invalidState) = Inr (o', m1)"
    by (auto simp: completeCheck_def bindR_Inr_iff)
  have "inv m1"
  proof (cases f)
    case (CF_initial g)
    then show ?thesis using m1(2) requiredCheck_status(3)[OF r] by (auto intro: inv_applyInitial[OF assms(1)] split: if_splits)
  next
    case (CF_continuation g)
    then show ?thesis using m1(2) continuing_required[OF r] by (auto intro: inv_applyContinuation[OF assms(1)] split: if_splits)
  qed
  then show ?thesis by (simp add: m1(1))
qed

lemma inv_completeAttestCheck:
  assumes "inv m" "completeAttestCheck e chk i m = Inr (o', m')"
  shows "inv m'"
proof -
  have r: "requiredCheckFor (m_session m) (Some i) = Some (chk_purpose chk)"
    using assms(2) by (auto simp: completeAttestCheck_def bindR_Inr_iff)
  from assms(2) obtain m1 where m1: "m' = flush m1"
    "(if chk_purpose chk = C_initial then attestInitial e chk i m else attestContinuation e chk i m) = Inr (o', m1)"
    by (auto simp: completeAttestCheck_def bindR_Inr_iff)
  have "inv m1"
    using m1(2) requiredCheck_status(3)[OF r] continuing_required[OF r]
    by (auto intro: inv_attestInitial[OF assms(1)] inv_attestContinuation[OF assms(1)] split: if_splits)
  then show ?thesis by (simp add: m1(1))
qed

end
