(* ===== verification/SP_Steps.thy ===== *)
theory SP_Steps
  imports SP_Handlers
begin

text \<open>
  The remaining handlers keep the invariant (start, staff actions, resume policy,
  reopening, sweeper, the candidate's requests), and the step relation over all of them.
\<close>

section \<open>What the handlers read\<close>

text \<open>
  Granted accommodations passed their schema; unless staff verify identity, a started
  session has a protected reference and a session held before its check-in passed has
  none (the checks create it when the check-in passes).
\<close>

definition staffVerified :: "env \<Rightarrow> session \<Rightarrow> bool" where
  "staffVerified e s \<longleftrightarrow> ip_verification (pol_identity (effectivePolicy e s)) = V_staff"

definition env_ok :: "env \<Rightarrow> session \<Rightarrow> bool" where
  "env_ok e s \<longleftrightarrow> list_all (\<lambda>a. accommodationSpec_ok (acr_spec a)) (en_records e) \<and>
     (\<not> staffVerified e s \<longrightarrow> (s_startedAt s \<noteq> None \<longrightarrow> en_hasReference e) \<and>
        (s_status s = On_hold \<and> s_holdPrevStatus s = Some Invited \<longrightarrow> \<not> en_hasReference e))"

lemma snapshot_extra_nonneg:
  assumes "0 \<le> base" "list_all (\<lambda>a. accommodationSpec_ok (acr_spec a)) (en_records e)"
  shows "0 \<le> extraTimeMs (sessionSnapshot (applicableAccommodations e x t) base now)"
  using assms
  by (auto simp: sessionSnapshot_def extraTimeMs_def accommodationExtraTimeMs_sum applicableAccommodations_def list_all_iff
      intro!: sum_list_nonneg extraTimeOf_nonneg)

section \<open>Start\<close>

lemma refresh_facts:
  assumes "mid m" "s_status (m_session m) = Ready" "env_ok e (m_session m)"
  shows "mid (refreshSessionAccommodations e m)" "s_status (m_session (refreshSessionAccommodations e m)) = Ready"
    "openKinds (refreshSessionAccommodations e m) = openKinds m" "m_now (refreshSessionAccommodations e m) = m_now m"
    "pendings (refreshSessionAccommodations e m) = pendings m"
proof -
  let ?s = "m_session m" and ?m = "refreshSessionAccommodations e m"
  let ?next = "sessionSnapshot (applicableAccommodations e (s_examId ?s) (m_now m)) (baseDurationMs ?s) (m_now m)"
  let ?u = "?s\<lparr>s_accommodations := ?next, s_durationMs := baseDurationMs ?s + extraTimeMs ?next\<rparr>"
  have ok: "end_ok ?s" "hold_ok ?s" "clock_ok ?s" "started_ok ?s" using assms(1) by (simp_all add: mid_def session_ok_def)
  have "s_startedAt ?s = None" using ok(4) assms(2) by (simp add: started_ok_def notStarted_def)
  moreover have b: "0 \<le> baseDurationMs ?s" using ok(3) calculation by (simp add: clock_ok_def)
  moreover have "0 \<le> extraTimeMs ?next" using snapshot_extra_nonneg[OF b] assms(3) by (simp add: env_ok_def)
  ultimately have "clock_ok ?u" using ok(3) by (simp add: clock_ok_def wf_clock_def sessionClock_def baseDurationMs_def)
  then have u: "session_ok ?u" using ok by (simp add: session_ok_def)
  show "mid ?m" using assms(1) u by (auto simp: refreshSessionAccommodations_def Let_def mid_def)
  show "s_status (m_session ?m) = Ready" "openKinds ?m = openKinds m" "m_now ?m = m_now m" "pendings ?m = pendings m"
    using assms(2) by (simp_all add: refreshSessionAccommodations_def Let_def)
qed

text \<open>The columns a start sets.\<close>

lemma session_ok_starting:
  assumes "session_ok s" "s_status s = Ready"
  shows "session_ok (s\<lparr>s_status := Active, s_startedAt := Some (nullish (s_startedAt s) now), s_examVersionId := Some v, s_policy := Some p,
    s_accommodations := acc, s_runningSince := Some t\<rparr>)"
proof -
  have ok: "end_ok s" "hold_ok s" "clock_ok s" "started_ok s" using assms(1) by (simp_all add: session_ok_def)
  let ?s = "s\<lparr>s_status := Active, s_startedAt := Some (nullish (s_startedAt s) now), s_examVersionId := Some v, s_policy := Some p,
    s_accommodations := acc, s_runningSince := Some t\<rparr>"
  have n: "s_endReason s = None" "s_endedAt s = None" "s_score s = None"
    using ok(1) assms(2) nonterminal_score[OF ok(1)] by (auto simp: end_ok_def)
  have "end_ok ?s" by (simp add: end_ok_def n)
  moreover have "hold_ok ?s" using ok(2) assms(2) by (auto simp: hold_ok_def unheld_def)
  moreover have "clock_ok ?s" using ok(3) by (simp add: clock_ok_def wf_clock_def sessionClock_def)
  moreover have "started_ok ?s" using ok(4) by (simp add: started_ok_def inProgress_def notStarted_def)
  ultimately show ?thesis by (simp add: session_ok_def)
qed

lemma inv_startExam:
  assumes "inv m" "env_ok e (m_session m)" "startExam e report m = Inr m'"
  shows "inv m'"
proof -
  define m1 where "m1 = refreshSessionAccommodations e m"
  have r: "s_status (m_session m) = Ready" using assms(3) by (auto simp: startExam_def assertStatus_def bindR_Inr_iff)
  then have m: "mid m" using inv_mid[OF assms(1)] by simp
  note f = refresh_facts[OF m r assms(2), folded m1_def]
  define sets where "sets = (\<lambda>(pol :: policy) acc (s :: session). s\<lparr>s_status := Active, s_startedAt := Some (nullish (s_startedAt s) (m_now m1)),
     s_examVersionId := Some (en_versionId e), s_policy := Some pol, s_accommodations := acc, s_startDeferredSince := None\<rparr>)"
  from assms(3) obtain pol acc evs where m':
    "m' = fold addEvent evs (resetIdentityCounters (switchPeriod P_active (m_now m1) None [] (clockStartM (m_now m1) (setS (sets pol acc) m1))))"
    and evs: "list_all (\<lambda>i. \<not> ei_open i) evs"
  proof -
    assume *: thesis if "m' = fold addEvent evs (resetIdentityCounters (switchPeriod P_active (m_now m1) None [] (clockStartM (m_now m1) (setS (sets pol acc) m1))))"
      "list_all (\<lambda>i. \<not> ei_open i) evs" for evs pol acc
    show thesis
    proof (cases "snapshotItems (s_accommodations (m_session m1)) = []")
      case True
      then show thesis
        using assms(3) unfolding startExam_def Let_def m1_def[symmetric]
        by (auto simp: bindR_Inr_iff sets_def split: prod.splits intro!: *[of "[i]" for i, simplified])
    next
      case False
      then show thesis
        using assms(3) unfolding startExam_def Let_def m1_def[symmetric]
        by (auto simp: bindR_Inr_iff sets_def split: prod.splits intro!: *[of "[i, j]" for i j, simplified])
    qed
  qed
  define m5 where "m5 = resetIdentityCounters (switchPeriod P_active (m_now m1) None [] (clockStartM (m_now m1) (setS (sets pol acc) m1)))"
  have u: "session_ok ((m_session m1)\<lparr>s_status := Active, s_startedAt := Some (nullish (s_startedAt (m_session m1)) (m_now m1)),
     s_examVersionId := Some (en_versionId e), s_policy := Some pol, s_accommodations := acc,
     s_runningSince := Some (nullish (s_runningSince (m_session m1)) (m_now m1))\<rparr>)"
    using f(1,2) by (intro session_ok_starting) (simp_all add: mid_def)
  have "session_ok (m_session m5)" by (rule session_ok_same_core[OF _ u]) (simp add: m5_def sets_def same_core_def)
  then have "inv m5" using f by (simp add: m5_def sets_def inv_def rest_ok_def mid_def)
  moreover have "inv x \<Longrightarrow> list_all (\<lambda>i. \<not> ei_open i) is \<Longrightarrow> inv (fold addEvent is x)" for x "is"
    by (induction "is" arbitrary: x) simp_all
  ultimately show ?thesis using evs by (simp add: m' m5_def)
qed

section \<open>Staff actions\<close>

lemma commit_Inr: "commit r = Inr m' \<longleftrightarrow> (\<exists>m. r = Inr m \<and> m' = flush m)"
  by (cases r) (auto simp: commit_def)

lemma pendings_decideRequest:
  assumes "st \<noteq> PR_pending"
  shows "length (pendings (decideRequest rid st a note m)) \<le> length (pendings m)" "pendings m = [] \<Longrightarrow> pendings (decideRequest rid st a note m) = []"
proof -
  let ?f = "\<lambda>r. if pr_id r = rid then r\<lparr>pr_status := st, pr_decidedAt := Some (m_now m), pr_decidedBy := Some (act_id a), pr_decisionNote := note\<rparr> else r"
  have *: "length (filter (\<lambda>r. pr_status r = PR_pending) (map ?f rs)) \<le> length (filter (\<lambda>r. pr_status r = PR_pending) rs)" for rs
    using assms by (induction rs) auto
  then show "length (pendings (decideRequest rid st a note m)) \<le> length (pendings m)"
    unfolding pendings_def decideRequest_def by simp
  then show "pendings m = [] \<Longrightarrow> pendings (decideRequest rid st a note m) = []" by simp
qed

lemma inv_fewer_pendings:
  assumes "inv m" "m_session m' = m_session m" "openKinds m' = openKinds m" "rows_wf m'" "noOpenEvents m' = noOpenEvents m"
    "length (pendings m') \<le> length (pendings m)"
  shows "inv m'"
  using assms by (auto simp: inv_def rest_ok_def)

lemma inv_decideRequest:
  assumes "inv m" "st \<noteq> PR_pending" shows "inv (decideRequest rid st a note m)"
  using pendings_decideRequest(1)[OF assms(2)] assms(1)
  by (intro inv_fewer_pendings[OF assms(1)]) (simp_all add: decideRequest_def inv_def)

lemma inv_decidePauseRequest:
  assumes "inv m" "decidePauseRequest e rid approve a note m = Inr m'"
  shows "inv m'"
proof -
  have d: "inv (decideRequest rid PR_approved a note m)" "inv (decideRequest rid PR_denied a note m)"
    using assms(1) by (simp_all add: inv_decideRequest)
  show ?thesis
    using assms(2) d inv_pauseNow[OF d(1)]
    by (auto simp: decidePauseRequest_def commit_Inr bindR_Inr_iff split: option.splits if_splits)
qed

lemma inv_holdSession: "inv m \<Longrightarrow> holdSession a note m = Inr m' \<Longrightarrow> inv m'"
  using inv_holdNow[OF inv_mid[of m], of "(holdFor H_staff [(''note'', jstr note)])\<lparr>ho_source := Some Src_staff, ho_by := Some (act_id a)\<rparr>"] holdNow_status
  by (fastforce simp: holdSession_def commit_Inr bindR_Inr_iff holdFor_def)

lemma session_ok_behindCheck:
  assumes "session_ok s" "s_status s = On_hold" "s_holdPrevStatus s \<noteq> Some Invited"
  shows "session_ok (s\<lparr>s_holdCanReverify := True, s_holdMessage := Some msg, s_reEnrollAuthorized := r\<rparr>)"
proof -
  have ok: "end_ok s" "hold_ok s" "clock_ok s" "started_ok s" using assms(1) by (simp_all add: session_ok_def)
  let ?s = "s\<lparr>s_holdCanReverify := True, s_holdMessage := Some msg, s_reEnrollAuthorized := r\<rparr>"
  have "hold_ok ?s" using ok(2) assms(2) by (auto simp: hold_ok_def unheld_def)
  moreover have "started_ok ?s" using ok(4) assms(2,3) by (auto simp: started_ok_def inProgress_def notStarted_def)
  ultimately show ?thesis using ok by (simp add: session_ok_def)
qed

lemma held_facts:
  assumes "inv m" "s_status (m_session m) = On_hold"
  shows "openKinds m = {#P_on_hold#}" "mid m" "session_ok (m_session m)"
    "s_holdPrevStatus (m_session m) \<in> {Some Invited, Some Ready, Some Active}"
    "s_holdPrevStatus (m_session m) = Some Active \<longleftrightarrow> s_startedAt (m_session m) \<noteq> None"
proof -
  show m: "mid m" using inv_mid[OF assms(1)] assms(2) by simp
  then show ok: "session_ok (m_session m)" by (simp add: mid_def)
  show "openKinds m = {#P_on_hold#}" using assms by (simp add: inv_def)
  show "s_holdPrevStatus (m_session m) \<in> {Some Invited, Some Ready, Some Active}"
    using ok assms(2) by (simp add: session_ok_def hold_ok_def)
  show "s_holdPrevStatus (m_session m) = Some Active \<longleftrightarrow> s_startedAt (m_session m) \<noteq> None"
    using ok assms(2) by (auto simp: session_ok_def started_ok_def inProgress_def notStarted_def)
qed

lemma inv_releaseToCheckIn:
  assumes "inv m" "s_status (m_session m) = On_hold" "s_startedAt (m_session m) = None"
  shows "inv (releaseToCheckIn m)"
proof -
  note h = held_facts[OF assms(1,2)]
  have "session_ok ((clearedHold (m_session m))\<lparr>s_status := Invited\<rparr>)" using session_ok_released[OF h(3) assms(2)] assms(3) by simp
  then have "session_ok (m_session (releaseToCheckIn m))"
    by (rule session_ok_same_core[rotated]) (simp add: releaseToCheckIn_def same_core_def)
  then show ?thesis using h by (simp add: inv_def rest_ok_def mid_def releaseToCheckIn_def)
qed

lemma inv_releaseBehindCheck:
  assumes "inv m" "s_status (m_session m) = On_hold" "s_holdPrevStatus (m_session m) \<noteq> Some Invited"
  shows "inv (releaseBehindCheck a r m)"
proof -
  note h = held_facts[OF assms(1,2)]
  have "session_ok (m_session (releaseBehindCheck a r m))"
    by (rule session_ok_same_core[OF _ session_ok_behindCheck[OF h(3) assms(2,3)]]) (simp add: releaseBehindCheck_def same_core_def)
  then show ?thesis using h assms(2) by (simp add: inv_def rest_ok_def mid_def releaseBehindCheck_def)
qed

lemma inv_releaseAtOnce:
  assumes "inv m" "s_status (m_session m) = On_hold"
  shows "inv (releaseAtOnce (nullish (s_holdPrevStatus (m_session m)) Active) m)"
proof -
  let ?s = "m_session m"
  note h = held_facts[OF assms(1,2)]
  obtain prev where prev: "s_holdPrevStatus ?s = Some prev" "prev \<in> {Invited, Ready, Active}" using h(4) by auto
  define m1 where "m1 = setS (\<lambda>s. (clearedHold s)\<lparr>s_status := prev, s_checkAttemptsResetAt := Some (m_now m)\<rparr>) (closeOpenPeriod (m_now m) m)"
  have "session_ok ((clearedHold ?s)\<lparr>s_status := prev\<rparr>)"
    using session_ok_released[OF h(3) assms(2), of prev] h(5) prev by auto
  then have m1: "session_ok (m_session m1)" "s_status (m_session m1) = prev" "openKinds m1 = {#}" "rows_wf m1" "pendings m1 = pendings m" "length (pendings m) \<le> 1"
    using h by (simp_all add: m1_def mid_def session_ok_def)
  define m2 where "m2 = resetIdentityCounters (clockStartM (m_now m1) (insertPeriod P_active (m_now m1) None (Some ''hold_released'') [] m1))"
  have "inv (if prev = Active then m2 else m1)"
  proof (cases "prev = Active")
    case True
    have "session_ok (m_session m2)"
      by (rule session_ok_same_core[OF _ session_ok_clock(1)[OF m1(1), of "nullish (s_runningSince (m_session m1)) (m_now m1)"]])
         (simp_all add: m2_def same_core_def m1(2) True)
    then show ?thesis using m1 True by (simp add: inv_def rest_ok_def m2_def)
  next
    case False
    then show ?thesis using m1 prev(2) by (auto simp: inv_def rest_ok_def)
  qed
  moreover have "releaseAtOnce prev m = enqueueCommand (Cmd_hold_released False) None (if prev = Active then m2 else m1)"
    unfolding releaseAtOnce_def Let_def m2_def m1_def using prev(2) by (elim insertE emptyE; simp only: session_status.distinct simp_thms if_True if_False)
  ultimately show ?thesis using prev(1) by simp
qed

lemma inv_reconnectReset:
  assumes "inv m" shows "inv (setS (\<lambda>s. s\<lparr>s_reconnectCount := 0\<rparr>) m)"
proof -
  have "session_ok ((m_session m)\<lparr>s_reconnectCount := 0\<rparr>)"
    using assms by (simp add: inv_def session_ok_def) (simp add: started_ok_def inProgress_def notStarted_def)
  then show ?thesis using assms by (simp add: inv_def rest_ok_def)
qed

lemma inv_releaseHold:
  assumes "inv m" "env_ok e (m_session m)" "releaseHold e a opts m = Inr m'"
  shows "inv m'"
proof -
  let ?s = "m_session m"
  define vh where "vh \<longleftrightarrow> s_holdReason ?s = Some H_staff_verification"
  define reEnroll where "reEnroll \<longleftrightarrow> \<not> staffVerified e ?s \<and> ro_reEnroll opts"
  define requireCheck where "requireCheck \<longleftrightarrow> \<not> vh \<and> (reEnroll \<or> ro_requireCheck opts \<noteq> Some False)"
  define prev where "prev = nullish (s_holdPrevStatus ?s) Active"
  define m1 where "m1 = (if s_holdReason ?s = Some H_resume_limit then setS (\<lambda>s. s\<lparr>s_reconnectCount := 0\<rparr>) m else m)"
  define m2 where "m2 = (case (vh, ro_verification opts) of (True, Some v) \<Rightarrow> recordVerification a v m1 | _ \<Rightarrow> m1)"
  define m3 where "m3 = addEvent ((evt Ev_hold_released [(''requireCheck'', JBool requireCheck), (''reEnroll'', JBool reEnroll), (''note'', jstr (ro_note opts)),
      (''by'', JStr (act_id a)), (''reason'', jstr (map_option holdReasonStr (s_holdReason ?s)))])\<lparr>ei_source := Some Src_staff\<rparr>) m2"
  have st: "s_status ?s = On_hold" using assms(3) by (auto simp: releaseHold_def commit_Inr bindR_Inr_iff assertStatus_def)
  note h = held_facts[OF assms(1) st]
  have "releaseHold e a opts m = commit (bindR (assertOrg m a) (\<lambda>_. bindR (assertStatus m [On_hold]) (\<lambda>_.
      bindR (guardR (\<not> vh \<or> ro_verification opts \<noteq> None) (conflict ''verification_required'')) (\<lambda>_. Inr (if (if staffVerified e ?s then prev = Invited else \<not> en_hasReference e) then releaseToCheckIn m3
      else if requireCheck then releaseBehindCheck a reEnroll m3 else releaseAtOnce prev m3)))))"
    unfolding releaseHold_def Let_def m3_def m2_def m1_def prev_def requireCheck_def reEnroll_def vh_def staffVerified_def by (rule refl)
  from assms(3)[unfolded this] have m': "m' = flush (if (if staffVerified e ?s then prev = Invited else \<not> en_hasReference e) then releaseToCheckIn m3
      else if requireCheck then releaseBehindCheck a reEnroll m3 else releaseAtOnce prev m3)"
    by (auto simp only: commit_Inr bindR_Inr_iff sum.inject)
  have m2: "inv m1" "inv m2" using inv_reconnectReset[OF assms(1)] assms(1)
    by (auto simp: m1_def m2_def recordVerification_def split: bool.split option.split)
  then have m3: "inv m3" by (simp add: m3_def)
  have cols: "s_status (m_session m3) = On_hold" "s_holdPrevStatus (m_session m3) = s_holdPrevStatus ?s" "s_startedAt (m_session m3) = s_startedAt ?s"
    using st by (auto simp: m3_def m2_def m1_def recordVerification_def split: bool.split option.split)
  have i1: "inv (releaseToCheckIn m3)" if "if staffVerified e ?s then prev = Invited else \<not> en_hasReference e"
    using that m3 cols h(4,5) assms(2) by (intro inv_releaseToCheckIn) (auto simp: prev_def env_ok_def split: if_splits)
  have i2: "inv (releaseBehindCheck a reEnroll m3)" if "\<not> (if staffVerified e ?s then prev = Invited else \<not> en_hasReference e)"
    using that m3 cols st assms(2) by (intro inv_releaseBehindCheck) (auto simp: prev_def env_ok_def split: if_splits)
  have i3: "inv (releaseAtOnce prev m3)" using inv_releaseAtOnce[OF m3 cols(1)] by (simp add: prev_def cols)
  show ?thesis unfolding m' using i1 i2 i3 by simp
qed

lemma inv_terminateSession: "inv m \<Longrightarrow> terminateSession e a r m = Inr m' \<Longrightarrow> inv m'"
  by (auto simp: terminateSession_def commit_Inr bindR_Inr_iff)

lemma inv_staffSubmit: "inv m \<Longrightarrow> staffSubmit e a n m = Inr m' \<Longrightarrow> inv m'"
  by (auto simp: staffSubmit_def commit_Inr bindR_Inr_iff)

lemma inv_longer:
  assumes "inv m" "0 \<le> d" shows "inv (setS (\<lambda>s. s\<lparr>s_durationMs := s_durationMs s + d\<rparr>) m)"
proof -
  have "clock_ok (m_session m)" using assms(1) by (simp add: inv_def session_ok_def)
  then have "clock_ok ((m_session m)\<lparr>s_durationMs := s_durationMs (m_session m) + d\<rparr>)"
    using assms(2) by (auto simp: clock_ok_def wf_clock_def sessionClock_def baseDurationMs_def)
  then show ?thesis using assms(1) by (simp add: inv_def session_ok_def rest_ok_def)
qed

lemma inv_extendSessionTime: "inv m \<Longrightarrow> extendSessionTime n a note m = Inr m' \<Longrightarrow> inv m'"
  using inv_longer[of m "n * 60000"] by (auto simp: extendSessionTime_def commit_Inr bindR_Inr_iff Let_def)

lemma same_core_columns [simp]:
  "same_core s (s\<lparr>s_legalHold := x1\<rparr>)" "same_core s (s\<lparr>s_window := x2\<rparr>)" "same_core s (s\<lparr>s_startDeferredSince := x3\<rparr>)"
  "same_core s (s\<lparr>s_instanceUsage := x4\<rparr>)" "same_core s (s\<lparr>s_consentAcceptedAt := x5, s_consentNoticeVersion := x6\<rparr>)"
  "same_core s (s\<lparr>s_verifiedInstanceId := x7, s_instanceUsage := x4\<rparr>)" "same_core s (s\<lparr>s_reportingInterruptedSince := x8\<rparr>)"
  "same_core s (s\<lparr>s_lastHeartbeatAt := x9, s_lastHeartbeatInstanceId := x10, s_connection := x11\<rparr>)"
  "same_core s (s\<lparr>s_lastVerifiedHeartbeatAt := x12, s_monitoring := x13, s_currentQuestionIndex := x14\<rparr>)"
  by (simp_all add: same_core_def)

lemma inv_setLegalHold: "inv m \<Longrightarrow> setLegalHold b a m = Inr m' \<Longrightarrow> inv m'"
  by (auto simp: setLegalHold_def commit_Inr bindR_Inr_iff inv_setS)

lemma rescheduleSession_cases:
  assumes "rescheduleSession a v w n m = Inr m'"
  obtains "m' = flush m" | ev win where "\<not> ei_open ev" "m' = flush (addEvent ev (setS (\<lambda>s. s\<lparr>s_window := win\<rparr>) m))"
proof -
  define ev where "ev = (\<lambda>win. (evt Ev_session_rescheduled [(''window'', windowJson win), (''previousWindow'', windowJson (s_window (m_session m))),
     (''note'', jstr (nonEmpty n)), (''by'', JStr (act_id a)), (''via'', JStr (if v then ''integration_api'' else ''staff_app''))])\<lparr>ei_source := Some Src_staff\<rparr>)"
  have "rescheduleSession a v w n m = commit (bindR (assertOrg m a) (\<lambda>_. bindR (guardR (\<not> terminal (s_status (m_session m))) invalidState) (\<lambda>_.
     bindR (guardR (s_startedAt (m_session m) = None) (conflict ''already_started'')) (\<lambda>_. bindR (acceptWindow (Some w) (m_now m)) (\<lambda>win.
       if sameWindow win (s_window (m_session m)) then Inr m else Inr (addEvent (ev win) (setS (\<lambda>s. s\<lparr>s_window := win\<rparr>) m)))))))"
    unfolding rescheduleSession_def Let_def ev_def by (rule refl)
  from assms[unfolded this commit_Inr bindR_Inr_iff] obtain win m1 where "m' = flush m1" "(if sameWindow win (s_window (m_session m)) then Inr m else Inr (addEvent (ev win) (setS (\<lambda>s. s\<lparr>s_window := win\<rparr>) m))) = (Inr m1 :: mutation result)"
    by blast
  then have "m' = flush m \<or> m' = flush (addEvent (ev win) (setS (\<lambda>s. s\<lparr>s_window := win\<rparr>) m))" by (simp split: if_splits)
  moreover have "\<not> ei_open (ev win)" by (simp add: ev_def)
  ultimately show ?thesis using that by blast
qed

lemma inv_rescheduleSession: "inv m \<Longrightarrow> rescheduleSession a v w n m = Inr m' \<Longrightarrow> inv m'"
  by (erule rescheduleSession_cases) (simp_all add: inv_setS)

section \<open>Resume policy, reopening, abandonment, sweeper\<close>

lemma inv_applyResumeLimit:
  assumes "inv m" "applyResumeLimit e pol l m = Inr m'" shows "inv m'"
proof (cases "rp_onLimit (pol_resume pol) = Limit_end")
  case True
  then show ?thesis using assms by (auto simp: applyResumeLimit_def Let_def)
next
  case False
  then obtain h where h: "holdNow h m = Inr m'" "\<not> ho_canReverify h" using assms(2) by (auto simp: applyResumeLimit_def Let_def holdFor_def)
  show ?thesis by (rule inv_holdNow[OF inv_mid[OF assms(1) holdNow_status[OF h(1)]] h(2,1)])
qed

lemma inv_applyOfflineLimit: "inv m \<Longrightarrow> applyOfflineLimit e pol m = Inr (b, m') \<Longrightarrow> inv m'"
  by (auto simp: applyOfflineLimit_def bindR_Inr_iff split: option.splits intro: inv_applyResumeLimit)

lemma inv_enforceReconnectLimits: "inv m \<Longrightarrow> enforceReconnectLimits e i m = Inr (l, m') \<Longrightarrow> inv m'"
  by (auto simp: enforceReconnectLimits_def Let_def bindR_Inr_iff commit_Inr split: option.splits if_splits intro: inv_applyResumeLimit)

text \<open>What reopening needs of the session: it ended, and nothing is open.\<close>

lemma ended_facts:
  assumes "inv m" "terminal (s_status (m_session m))"
  shows "openKinds m = {#}" "pendings m = []" "rows_wf m" "hold_ok (m_session m)" "clock_ok (m_session m)" "started_ok (m_session m)"
    "s_runningSince (m_session m) = None"
proof -
  have "s_status (m_session m) \<noteq> Active" "s_status (m_session m) \<noteq> Paused" using assms(2) by (auto simp: TERMINAL_STATUSES_def)
  then show "s_runningSince (m_session m) = None" using assms(1) by (auto simp: inv_def session_ok_def clock_ok_def)
qed (use assms in \<open>auto simp: inv_def rest_ok_def session_ok_def\<close>)

lemma session_ok_reopened:
  assumes "clock_ok s" "started_ok s" "s_runningSince s = None" "s_startedAt s \<noteq> None" "0 \<le> add"
  shows "session_ok (s\<lparr>s_endReason := None, s_endedAt := None, s_score := None, s_durationMs := s_durationMs s + add, s_reconnectCount := 0,
     s_status := On_hold, s_holdReason := Some H_recovery, s_holdSince := Some now, s_holdMessage := Some (HM_default H_recovery),
     s_holdCanReverify := True, s_holdPrevStatus := Some Active, s_reEnrollAuthorized := False\<rparr>)"
  using assms by (simp add: session_ok_def end_ok_def hold_ok_def) (auto simp: clock_ok_def wf_clock_def sessionClock_def started_ok_def inProgress_def notStarted_def)

lemma session_ok_reopened_unstarted:
  assumes "clock_ok s" "started_ok s" "s_runningSince s = None" "s_startedAt s = None" "0 \<le> add"
  shows "session_ok ((clearedHold (s\<lparr>s_endReason := None, s_endedAt := None, s_score := None, s_durationMs := s_durationMs s + add, s_reconnectCount := 0\<rparr>))
     \<lparr>s_status := Invited\<rparr>)"
  using assms by (simp add: session_ok_def end_ok_def hold_ok_def unheld_def clearedHold_def)
    (auto simp: clock_ok_def wf_clock_def sessionClock_def baseDurationMs_def started_ok_def inProgress_def notStarted_def)

lemma inv_reopenSession:
  assumes "inv m" "0 \<le> rr_addMinutes req" "reopenSession e a req m = Inr m'"
  shows "inv m'"
proof -
  let ?s = "m_session m" and ?add = "rr_addMinutes req * 60000"
  have allowed: "re_allowed (loadReopenEligibility e ?s (m_now m))"
    using assms(3) by (auto simp: reopenSession_def Let_def commit_Inr bindR_Inr_iff)
  then have ended: "terminal (s_status ?s)" using reopenEligibility_allowed by (fastforce simp: loadReopenEligibility_def)
  note f = ended_facts[OF assms(1) ended]
  have add: "0 \<le> ?add" using assms(2) by simp
  define m1 where "m1 = setS (\<lambda>s. s\<lparr>s_endReason := None, s_endedAt := None, s_score := None, s_durationMs := s_durationMs s + ?add,
                  s_reconnectCount := 0, s_checkAttemptsResetAt := Some (m_now m), s_startDeferredSince := None\<rparr>) m"
  define m2 where "m2 = (if s_startedAt ?s \<noteq> None then reopenStarted (s_endReason ?s) (s_endedAt ?s) m1 else reopenUnstarted m1)"
  define ev where "ev = (evt Ev_session_reopened
            [(''reason'', JStr (trim (rr_reason req))), (''addMinutes'', JInt (rr_addMinutes req)), (''started'', JBool (s_startedAt ?s \<noteq> None)),
             (''previousStatus'', JStr (statusStr (s_status ?s))), (''previousEndReason'', jstr (map_option endReasonStr (s_endReason ?s))),
             (''previousEndedAt'', jint (s_endedAt ?s)), (''previousScore'', scoreJson (s_score ?s)), (''remainingMs'', JInt (s_durationMs ?s + ?add - s_usedMs ?s)),
             (''by'', JStr (act_id a))])\<lparr>ei_source := Some Src_staff\<rparr>"
  have "reopenSession e a req m = commit (bindR (assertOrg m a) (\<lambda>_.
      bindR (guardR (re_allowed (loadReopenEligibility e ?s (m_now m))) (conflict (case re_code (loadReopenEligibility e ?s (m_now m)) of Some c \<Rightarrow> reopenRefusalCode c | None \<Rightarrow> ''invalid_state''))) (\<lambda>_.
      bindR (guardR (\<not> (s_startedAt ?s \<noteq> None \<and> s_durationMs ?s + ?add - s_usedMs ?s < REOPEN_MIN_REMAINING_MS)) (conflict ''no_time_left'')) (\<lambda>_. Inr (addEvent ev m2)))))"
    unfolding reopenSession_def Let_def m2_def m1_def ev_def by (rule refl)
  from assms(3)[unfolded this commit_Inr bindR_Inr_iff] have "m' = flush (addEvent ev m2)" by blast
  moreover have "\<not> ei_open ev" by (simp add: ev_def)
  ultimately have m': "inv m2 \<Longrightarrow> inv m'" by simp
  have "inv m2"
  proof (cases "s_startedAt ?s = None")
    case False
    have "session_ok (m_session m2)"
      by (rule session_ok_same_core[OF _ session_ok_reopened[OF f(5,6,7) False add, of "m_now m"]])
         (use False in \<open>simp add: m2_def m1_def reopenStarted_def same_core_def\<close>)
    then show ?thesis using f False by (simp add: inv_def rest_ok_def m2_def m1_def reopenStarted_def)
  next
    case True
    have "session_ok (m_session m2)"
      by (rule session_ok_same_core[OF _ session_ok_reopened_unstarted[OF f(5,6,7) True add]])
         (use True in \<open>simp add: m2_def m1_def reopenUnstarted_def same_core_def clearedHold_def\<close>)
    then show ?thesis using f True by (simp add: inv_def rest_ok_def m2_def m1_def reopenUnstarted_def)
  qed
  then show ?thesis by (rule m')
qed

lemma inv_closeAbandoned: "inv m \<Longrightarrow> inv (snd (closeAbandoned e days m))"
  by (simp add: closeAbandoned_def Let_def)

lemma inv_recordReportingTimeout:
  assumes "inv m" shows "inv (recordReportingTimeout pol t d m)"
proof -
  have c: "inv (setS (\<lambda>s. s\<lparr>s_connection := Offline\<rparr>) m)" using assms by (intro inv_setS) simp_all
  show ?thesis
  proof (cases "s_status (m_session m) = Active")
    case False
    then show ?thesis using c by (simp add: recordReportingTimeout_def Let_def)
  next
    case True
    obtain i since where m3: "\<exists>m3. m3 = setS (\<lambda>s. s\<lparr>s_reportingEventId := Some (freshId (setS (\<lambda>s. s\<lparr>s_connection := Offline\<rparr>) m)), s_reportingInterruptedSince := since s\<rparr>)
        (addEvent i (setS (\<lambda>s. s\<lparr>s_connection := Offline\<rparr>) m)) \<and>
        recordReportingTimeout pol t d m = (if cp_disconnectTimerBehavior (pol_connection pol) = Timer_stop
          then clockStopM (max t (nullish (s_runningSince (m_session m3)) t)) m3 else m3)"
      using True unfolding recordReportingTimeout_def Let_def by auto
    then obtain m3 where m3: "m3 = setS (\<lambda>s. s\<lparr>s_reportingEventId := Some (freshId (setS (\<lambda>s. s\<lparr>s_connection := Offline\<rparr>) m)), s_reportingInterruptedSince := since s\<rparr>)
        (addEvent i (setS (\<lambda>s. s\<lparr>s_connection := Offline\<rparr>) m))"
      and eq: "recordReportingTimeout pol t d m = (if cp_disconnectTimerBehavior (pol_connection pol) = Timer_stop
          then clockStopM (max t (nullish (s_runningSince (m_session m3)) t)) m3 else m3)" by blast
    have "same_core (m_session m) (m_session m3)" by (simp add: m3 same_core_def)
    then have ok: "session_ok (m_session m3)" "s_status (m_session m3) = Active"
      using assms session_ok_same_core True by (auto simp: inv_def m3)
    have rows: "openKinds m3 = openKinds m" "rows_wf m3" "pendings m3 = pendings m" "length (pendings m) \<le> 1" "openKinds m = {#P_active#}"
      using assms True by (simp_all add: m3 inv_def rest_ok_def)
    have "inv m3" using ok rows by (simp add: inv_def rest_ok_def)
    moreover have "inv (clockStopM u m3)" for u
      using session_ok_clock(2)[OF ok(1), of u] ok rows by (simp add: inv_def rest_ok_def)
    ultimately show ?thesis unfolding eq by simp
  qed
qed

lemma inv_sweepTimeout: "inv m \<Longrightarrow> inv (snd (sweepTimeout e m))"
  by (simp add: sweepTimeout_def Let_def inv_recordReportingTimeout split: option.split)

lemma inv_sweepExpiry: "inv m \<Longrightarrow> inv (snd (sweepExpiry e m))"
  by (simp add: sweepExpiry_def)

lemma inv_sweepOffline: "inv m \<Longrightarrow> sweepOffline e m = Inr (b, m') \<Longrightarrow> inv m'"
  by (auto simp: sweepOffline_def Let_def bindR_Inr_iff commit_Inr split: option.splits if_splits intro: inv_applyResumeLimit)

lemma inv_sweepSession:
  assumes "inv m" shows "inv (sweepSession e m)"
proof -
  define m1 where "m1 = (if sweepTimeoutDue (m_session m) (m_now m) then snd (sweepTimeout e m) else m)"
  define m2 where "m2 = (if sweepExpiryDue (m_session m1) (m_now m1) then snd (sweepExpiry e m1) else m1)"
  have m2: "inv m2" using assms by (simp add: m2_def m1_def inv_sweepTimeout inv_sweepExpiry)
  have eq: "sweepSession e m = (if sweepOfflineDue (m_session m2) (m_now m2) then (case sweepOffline e m2 of Inl _ \<Rightarrow> m2 | Inr (_, m3) \<Rightarrow> m3) else m2)"
    unfolding sweepSession_def Let_def m2_def m1_def ..
  show ?thesis unfolding eq using m2 by (auto split: sum.split prod.split intro: inv_sweepOffline)
qed

section \<open>The candidate's requests\<close>

lemma inv_acceptConsent: "inv m \<Longrightarrow> acceptConsent a v m = Inr m' \<Longrightarrow> inv m'"
  by (auto simp: acceptConsent_def commit_Inr bindR_Inr_iff inv_setS split: if_splits)

lemma inv_startSession:
  assumes "inv m" "env_ok e (m_session m)" "startSession e ad report i m = Inr (w, m')"
  shows "inv m'"
proof (cases "examStartDeferral ad m")
  case None
  then show ?thesis using assms(3) inv_startExam[OF assms(1,2)]
    by (auto simp: startSession_def Let_def bindR_Inr_iff commit_Inr split: if_splits)
next
  case (Some d)
  then have "m' = flush (snd d)" using assms(3) by (auto simp: startSession_def Let_def bindR_Inr_iff split: if_splits prod.splits)
  moreover have "inv (snd d)" using Some assms(1) by (auto simp: examStartDeferral_def Let_def inv_setS split: if_splits)
  ultimately show ?thesis by simp
qed

lemma inv_candidateSubmit: "inv m \<Longrightarrow> candidateSubmit e i m = Inr m' \<Longrightarrow> inv m'"
  by (auto simp: candidateSubmit_def commit_Inr bindR_Inr_iff split: if_splits)

lemma inv_saveAnswer: "inv m \<Longrightarrow> saveAnswer qs i q b m = Inr (r, m') \<Longrightarrow> inv m'"
  by (auto simp: saveAnswer_def storeAnswer_def bindR_Inr_iff Let_def split: option.splits if_splits)

lemma rows_wf_request: "rows_wf m \<Longrightarrow> rows_wf (m\<lparr>m_pauseRequests := x, m_fresh := Suc (m_fresh m)\<rparr>)"
  using rows_wf_Suc_fresh[of "m\<lparr>m_pauseRequests := x\<rparr>"] by simp

lemma pendingPauseRequest_None: "pendingPauseRequest m = None \<longleftrightarrow> pendings m = []"
  by (auto simp: pendingPauseRequest_def pendings_def find_None_iff filter_empty_conv)

lemma inv_requestPause:
  assumes "inv m" "requestPause e i r m = Inr (out, m')" shows "inv m'"
proof (cases "m' = m")
  case False
  define p where "p = pol_pause (effectivePolicy e (m_session m))"
  have a: "s_status (m_session m) = Active" using assms(2) by (auto simp: requestPause_def bindR_Inr_iff assertStatus_def)
  have none: "pendings m = []"
    using assms(2) False unfolding requestPause_def Let_def by (auto simp: bindR_Inr_iff pendingPauseRequest_None[symmetric] split: if_splits)
  show ?thesis
  proof (cases "pp_requireApproval p")
    case True
    obtain m1 j rq where "m' = flush (addEvent j (m\<lparr>m_pauseRequests := m_pauseRequests m @ [rq], m_fresh := Suc (m_fresh m)\<rparr>))" "\<not> ei_open j"
      using assms(2) False True unfolding requestPause_def Let_def p_def by (auto simp: bindR_Inr_iff split: if_splits)
    moreover have "inv (m\<lparr>m_pauseRequests := m_pauseRequests m @ [rq], m_fresh := Suc (m_fresh m)\<rparr>)"
    proof -
      have "pendings (m\<lparr>m_pauseRequests := m_pauseRequests m @ [rq], m_fresh := Suc (m_fresh m)\<rparr>) = filter (\<lambda>r. pr_status r = PR_pending) [rq]"
        using none by (simp add: pendings_def)
      then show ?thesis using assms(1) a by (simp add: inv_def rest_ok_def rows_wf_request)
    qed
    ultimately show ?thesis by simp
  next
    case n: False
    then show ?thesis using assms(2) False inv_pauseNow[OF assms(1)] unfolding requestPause_def Let_def p_def
      by (auto simp: bindR_Inr_iff commit_Inr split: if_splits)
  qed
qed (use assms in simp)

lemma inv_cancelPauseRequest:
  assumes "inv m" "cancelPauseRequest i m = Inr m'" shows "inv m'"
proof -
  let ?f = "\<lambda>j r. if pr_id r = j then r\<lparr>pr_status := PR_cancelled, pr_decidedAt := Some (m_now m)\<rparr> else r"
  have *: "length (filter (\<lambda>r. pr_status r = PR_pending) (map (?f j) rs)) \<le> length (filter (\<lambda>r. pr_status r = PR_pending) rs)" for rs j
    by (induction rs) auto
  have "inv (m\<lparr>m_pauseRequests := map (?f j) (m_pauseRequests m)\<rparr>)" for j
    using *[of j "m_pauseRequests m"] assms(1)
    by (intro inv_fewer_pendings[OF assms(1)]) (simp_all add: pendings_def inv_def)
  then show ?thesis using assms by (auto simp: cancelPauseRequest_def commit_Inr bindR_Inr_iff split: option.splits)
qed

end
