(* ===== verification/SP_Settling.thy ===== *)
theory SP_Settling
  imports SP_Checks
begin

text \<open>
  apps/server/src/services/checks.ts: a check that is completed is looked up and its row
  updated with the outcome; checks that end without a completion (expired, or superseded by a
  new one) are judged on the frames they received, so abandoning one is never free.
\<close>

section \<open>Completing a check by its id\<close>

definition loadCheckFor :: "check_row list \<Rightarrow> ident \<Rightarrow> ident \<Rightarrow> session \<Rightarrow> check_row result" where
  "loadCheckFor rows checkId instanceId s =
     (case find (\<lambda>r. chk_id r = checkId) rows of None \<Rightarrow> Inl (notFound ''check_not_found'')
      | Some r \<Rightarrow> (if chk_clientInstanceId r \<noteq> instanceId then Inl (conflict ''superseded'')
          else if truthy (s_activeInstanceId s) \<noteq> None \<and> s_activeInstanceId s \<noteq> Some instanceId then Inl (conflict ''superseded'')
          else Inr r))"

text \<open>
  Whether a retry was only about image quality (it counts less against the budget), as
  the outcome of \<open>applyInitial\<close> and \<open>applyContinuation\<close> records it.
\<close>

definition qualityOnlyRetry :: "check_row \<Rightarrow> check_facts \<Rightarrow> session \<Rightarrow> bool" where
  "qualityOnlyRetry chk f s =
     (case f of
        CF_initial i \<Rightarrow> if_livenessOk i \<and> (if_reference i = Ref_none \<or> if_reference i = Ref_too_few)
      | CF_continuation c \<Rightarrow> cf_livenessOk c \<and>
          (if reEnrollmentApplies s (chk_purpose chk) \<and> cf_newReference c \<noteq> Ref_none then cf_newReference c = Ref_too_few else cf_qualityOnly c))"

definition updateRow :: "ident \<Rightarrow> (check_row \<Rightarrow> check_row) \<Rightarrow> check_row list \<Rightarrow> check_row list" where
  "updateRow i f rows = map (\<lambda>r. if chk_id r = i then f r else r) rows"

definition storeOutcome :: "check_row \<Rightarrow> check_outcome \<Rightarrow> bool \<Rightarrow> ms \<Rightarrow> check_row list \<Rightarrow> check_row list" where
  "storeOutcome chk out qualityOnly now =
     updateRow (chk_id chk) (\<lambda>r. r\<lparr>chk_status := rowStatus out, chk_completedAt := Some now, chk_qualityOnly := (out = Out_retry \<and> qualityOnly)\<rparr>)"

text \<open>
  \<open>performCheck\<close> is the request: the row is loaded, an already completed one is answered again
  (nothing changes), an expired one is left to \<open>settleAbandonedChecks\<close>, and an open one is
  completed in its mode.
\<close>

definition performCheck :: "env \<Rightarrow> ident \<Rightarrow> ident \<Rightarrow> check_facts \<Rightarrow> check_row list \<times> mutation \<Rightarrow> (check_outcome option \<times> check_row list \<times> mutation) result" where
  "performCheck e checkId instanceId f w =
     (case w of (rows, m) \<Rightarrow>
       bindR (loadCheckFor rows checkId instanceId (m_session m)) (\<lambda>chk.
         if chk_status chk \<in> {Chk_passed, Chk_retry, Chk_held} then Inr (None, rows, m)
         else if chk_status chk \<noteq> Chk_open then Inl (conflict ''check_closed'')
         else if m_now m > chk_expiresAt chk + 5000 then Inr (None, rows, m)
         else if chk_mode chk = M_attest
         then bindR (completeAttestCheck e chk instanceId m) (\<lambda>(out, m'). Inr (Some out, storeOutcome chk out False (m_now m) rows, m'))
         else bindR (completeCheck e rows chk instanceId f m)
                (\<lambda>(out, m'). Inr (Some out, storeOutcome chk out (qualityOnlyRetry chk f (m_session m)) (m_now m) rows, m'))))"

section \<open>Checks that were abandoned\<close>

datatype abandon_how = Ab_expired | Ab_superseded

definition howStr :: "abandon_how \<Rightarrow> string" where
  "howStr h = (case h of Ab_expired \<Rightarrow> ''expired'' | Ab_superseded \<Rightarrow> ''superseded'')"

text \<open>
  \<open>abandonedMismatch\<close>: what the frames of each abandoned check point to; only a different person
  (the confidence and the recorded details) is held against the candidate. An initial check has
  no reference to compare with.
\<close>

type_synonym judgement = "(real option \<times> jobj) option"

definition judge :: "(ident \<Rightarrow> judgement) \<Rightarrow> check_row \<Rightarrow> judgement" where
  "judge found chk = (if chk_purpose chk = C_initial then None else found (chk_id chk))"

definition settleAbandoned :: "env \<Rightarrow> abandon_how \<Rightarrow> check_row \<Rightarrow> real option \<times> jobj \<Rightarrow> check_row list \<times> mutation \<Rightarrow> (check_row list \<times> mutation) result" where
  "settleAbandoned e how chk j w =
     (case (w, j) of ((rows, m), (confidence, details)) \<Rightarrow>
       let mx = ip_maxVerificationAttempts (pol_identity (effectivePolicy e (m_session m)));
           used = failedAttempts rows (m_session m) (chk_purpose chk) (Some (chk_id chk)) + 1;
           rows1 = updateRow (chk_id chk) (\<lambda>r. r\<lparr>chk_status := Chk_retry, chk_completedAt := Some (m_now m), chk_qualityOnly := False\<rparr>) rows
       in if used \<ge> of_int mx - 1 / 10 ^ 9 \<and> s_status (m_session m) \<in> {Ready, Active, Paused, On_hold}
          then let m1 = addEvent ((evt Ev_identity_unverifiable
                          ([(''purpose'', JStr (purposeStr (chk_purpose chk))), (''attempts'', JReal used), (''lastReason'', JStr ''abandoned''),
                            (''abandoned'', JStr (howStr how)), (''qualityOnly'', JBool False)] @ details))
                          \<lparr>ei_source := Some Src_server_identity, ei_startedAt := Some (chk_issuedAt chk), ei_endedAt := Some (m_now m), ei_confidence := confidence\<rparr>) m;
                   m2 = (if chk_purpose chk = C_reconnect
                         then closeReplacedInstanceEvents (chk_clientInstanceId chk) (reconnectGapStart (m_session m1) chk) m1 else m1)
               in bindR (holdNow (holdFor H_identity_unverifiable
                    [(''purpose'', JStr (purposeStr (chk_purpose chk))), (''attempts'', JReal used), (''abandoned'', JStr (howStr how))]) m2)
                    (\<lambda>m3. Inr (rows1, m3))
          else Inr (rows1, m))"

text \<open>
  \<open>due\<close> selects the checks (all open ones, or the stale ones the sweeper found). Those with
  nothing held against the candidate expire without a penalty; the others are settled in order.
\<close>

definition expireUnjudged :: "(check_row \<Rightarrow> bool) \<Rightarrow> (ident \<Rightarrow> judgement) \<Rightarrow> ms \<Rightarrow> check_row list \<Rightarrow> check_row list" where
  "expireUnjudged due found now = map (\<lambda>r. if chk_status r = Chk_open \<and> due r \<and> judge found r = None
     then r\<lparr>chk_status := Chk_expired, chk_completedAt := Some now\<rparr> else r)"

definition judgedChecks :: "(check_row \<Rightarrow> bool) \<Rightarrow> (ident \<Rightarrow> judgement) \<Rightarrow> check_row list \<Rightarrow> (check_row \<times> real option \<times> jobj) list" where
  "judgedChecks due found rows =
     map (\<lambda>r. (r, the (judge found r))) (filter (\<lambda>r. chk_status r = Chk_open \<and> due r \<and> judge found r \<noteq> None) rows)"

fun settleAll :: "env \<Rightarrow> abandon_how \<Rightarrow> (check_row \<times> real option \<times> jobj) list \<Rightarrow> check_row list \<times> mutation \<Rightarrow> (check_row list \<times> mutation) result" where
  "settleAll e how [] w = Inr w"
| "settleAll e how ((chk, j) # cs) w = bindR (settleAbandoned e how chk j w) (settleAll e how cs)"

definition settleAbandonedChecks :: "env \<Rightarrow> abandon_how \<Rightarrow> (check_row \<Rightarrow> bool) \<Rightarrow> (ident \<Rightarrow> judgement) \<Rightarrow> check_row list \<times> mutation \<Rightarrow> (check_row list \<times> mutation) result" where
  "settleAbandonedChecks e how due found w =
     (case w of (rows, m) \<Rightarrow>
       bindR (settleAll e how (judgedChecks due found rows) (expireUnjudged due found (m_now m) rows, m)) (\<lambda>(rows', m'). Inr (rows', flush m')))"

end
