(* ===== verification/SP_Traffic.thy ===== *)
theory SP_Traffic
  imports SP_Steps SP_Settling
begin

text \<open>
  The invariant through the browser's own traffic: a check started (checks.ts), the
  concurrent-use record (instance-usage.ts), delivery of commands and the heartbeat
  in both forms (candidate-actions.ts).
\<close>

section \<open>Starting a check\<close>

lemma fold_enqueueCommand:
  "inv m \<Longrightarrow> inv (fold (\<lambda>t. enqueueCommand c (Some t)) ts m)"
  "m_session (fold (\<lambda>t. enqueueCommand c (Some t)) ts m) = m_session m"
  by (induction ts arbitrary: m) simp_all

lemma takeOver_session: "m_session (takeOver pol i r dev prev m) = (m_session m)\<lparr>s_activeInstanceId := Some i\<rparr>"
  by (simp add: takeOver_def Let_def fold_enqueueCommand)

lemma inv_takeOver: "inv m \<Longrightarrow> inv (takeOver pol i r dev prev m)"
  unfolding takeOver_def Let_def by (intro inv_setS fold_enqueueCommand(1)) (simp_all add: same_core_def)

lemma inv_openCheckIn: "inv m \<Longrightarrow> r = C_initial \<Longrightarrow> s_status (m_session m) = Invited \<Longrightarrow> inv (openCheckIn r m)"
  by (auto simp: openCheckIn_def inv_def rest_ok_def openPeriodRow_None_iff)

lemma inv_startCheck:
  assumes "inv m" "startCheck e i p dev prev maxPerHour (rows, m) = Inr (rows', m')"
  shows "inv m'"
proof -
  obtain r where r: "requiredCheckFor (m_session m) (Some i) = Some r" using assms(2) by (auto simp: startCheck_def Let_def split: option.splits)
  let ?m1 = "takeOver (effectivePolicy e (m_session m)) i r dev prev m"
  have m': "m' = flush (openCheckIn r (?m1\<lparr>m_fresh := Suc (m_fresh ?m1)\<rparr>))"
    using assms(2) unfolding startCheck_def Let_def prod.case r option.case bindR_Inr_iff by blast
  have "inv (?m1\<lparr>m_fresh := Suc (m_fresh ?m1)\<rparr>)" by (rule inv_primitives(5)[OF inv_takeOver[OF assms(1)]])
  then show ?thesis using inv_openCheckIn requiredCheck_status(3)[OF r] by (cases "r = C_initial") (auto simp: m' takeOver_session openCheckIn_def)
qed

section \<open>Completing and abandoning checks\<close>

lemma inv_performCheck: "inv m \<Longrightarrow> performCheck e c i f (rows, m) = Inr (out, rows', m') \<Longrightarrow> inv m'"
  by (auto simp: performCheck_def bindR_Inr_iff split: if_splits intro: inv_completeCheck inv_completeAttestCheck)

lemma inv_settleAbandoned:
  assumes "inv m" "settleAbandoned e how chk j (rows, m) = Inr (rows', m')"
  shows "inv m'"
proof (cases "m' = m")
  case False
  obtain c d where j: "j = (c, d)" by fastforce
  obtain i where i: "\<exists>h. bindR (holdNow h (if chk_purpose chk = C_reconnect
          then closeReplacedInstanceEvents (chk_clientInstanceId chk) (reconnectGapStart (m_session m) chk) (addEvent i m) else addEvent i m)) (\<lambda>m3. Inr (rows', m3)) = Inr (rows', m') \<and>
        \<not> ho_canReverify h" "\<not> ei_open i" and st: "s_status (m_session m) \<in> {Ready, Active, Paused, On_hold}"
    using assms(2) False unfolding settleAbandoned_def Let_def j prod.case
    by (fastforce simp: bindR_Inr_iff holdFor_def split: if_split_asm)
  have "mid m" using assms(1) st by (auto intro: inv_mid)
  then show ?thesis using i by (auto simp: bindR_Inr_iff split: if_splits intro: inv_holdNow[rotated 2])
qed (use assms in simp)

lemma inv_settleAll: "inv m \<Longrightarrow> settleAll e how js (rows, m) = Inr (rows', m') \<Longrightarrow> inv m'"
proof (induction js arbitrary: rows m)
  case (Cons c js)
  obtain chk j where c: "c = (chk, j)" by (cases c)
  then obtain rows1 m1 where w: "settleAbandoned e how chk j (rows, m) = Inr (rows1, m1)" "settleAll e how js (rows1, m1) = Inr (rows', m')"
    using Cons.prems(2) by (auto simp: bindR_Inr_iff)
  show ?case by (rule Cons.IH[OF inv_settleAbandoned[OF Cons.prems(1) w(1)] w(2)])
qed simp

lemma inv_settleAbandonedChecks: "inv m \<Longrightarrow> settleAbandonedChecks e how due found (rows, m) = Inr (rows', m') \<Longrightarrow> inv m'"
  by (auto simp: settleAbandonedChecks_def bindR_Inr_iff dest: inv_settleAll)

section \<open>Concurrent use and commands\<close>

lemma inv_applyInstanceUsage [simp]: "inv m \<Longrightarrow> inv (applyInstanceUsage i ob m)"
  by (auto simp: applyInstanceUsage_def Let_def same_core_def split: option.split intro!: inv_primitives inv_setS)

lemma inv_trackInstanceRequest: "inv m \<Longrightarrow> inv (trackInstanceRequest i ob m)"
  by (simp add: trackInstanceRequest_def split: option.split)

lemma inv_deliver: "inv m \<Longrightarrow> deliver b i m = (ds, m') \<Longrightarrow> inv m'"
  by (auto simp: deliver_def split: prod.splits)

lemma deliver_session: "deliver b i m = (ds, m') \<Longrightarrow> m_session m' = m_session m \<and> m_now m' = m_now m"
  by (auto simp: deliver_def split: prod.splits)

lemma inv_supersededHeartbeat: "inv m \<Longrightarrow> supersededHeartbeat i m = (r, m') \<Longrightarrow> inv m'"
  by (auto simp: supersededHeartbeat_def Let_def split: prod.splits if_splits dest: inv_deliver)

section \<open>The heartbeat\<close>

lemma inv_lateOutage: "inv m \<Longrightarrow> lateOutage e i m = Inr m' \<Longrightarrow> inv m'"
  by (auto simp: lateOutage_def Let_def bindR_Inr_iff split: if_splits intro: inv_applyOfflineLimit inv_recordReportingTimeout)

lemma inv_running:
  assumes "inv m" "s_status (m_session m) = Active" "s_runningSince (m_session m) = None"
  shows "inv (clockStartM t m)"
  using assms session_ok_clock(1)[of "m_session m" t] by (simp add: inv_def rest_ok_def)

lemma inv_markAlive [simp]: "inv m \<Longrightarrow> inv (markAlive i b m)"
  unfolding markAlive_def Let_def
  by (intro inv_setS) (auto simp: same_core_def intro!: inv_running inv_setS inv_primitives)

lemma inv_expireClock [simp]: "inv m \<Longrightarrow> inv (expireClock e m)"
  by (simp add: expireClock_def inv_finalizeSession)

lemma inv_open_event:
  assumes "inv m" "\<not> terminal (s_status (m_session m))" shows "inv (addEvent i m)"
  by (rule inv_same_core[OF assms(1)]) (use assms in \<open>simp_all add: inv_def same_core_def\<close>)

lemma inv_recordNoSamples: "inv m \<Longrightarrow> \<not> terminal (s_status (m_session m)) \<Longrightarrow> inv (recordNoSamples p b m)"
  by (simp add: recordNoSamples_def Let_def inv_open_event)

lemma inv_lockedHeartbeat:
  assumes "inv m" "lockedHeartbeat e i b client m = Inr (r, m')"
  shows "inv m'"
proof (cases "truthy (s_activeInstanceId (m_session m)) \<noteq> None \<and> s_activeInstanceId (m_session m) \<noteq> Some i")
  case True
  then show ?thesis using assms by (auto simp: lockedHeartbeat_def split: prod.splits dest: inv_supersededHeartbeat)
next
  case False
  then obtain m1 where m1: "lateOutage e i m = Inr m1" using assms(2) by (auto simp: lockedHeartbeat_def bindR_Inr_iff)
  define m3 where "m3 = (case client of Some c \<Rightarrow> applyInstanceUsage i (usageObservation c b (m_now m1)) | None \<Rightarrow> id)
      (setS (\<lambda>s. s\<lparr>s_lastHeartbeatAt := Some (m_now m1), s_lastHeartbeatInstanceId := Some i, s_connection := Online\<rparr>) m1)"
  define m5 where "m5 = expireClock e (if inControlLive (m_session m3) i then markAlive i b m3 else m3)"
  obtain ds m6 where m6: "deliver False i m5 = (ds, m6)" by fastforce
  let ?p = "pol_identity (effectivePolicy e (m_session m6))"
  have "m' = flush (if inControlLive (m_session m6) i \<and> noSamplesObservationDue (m_session m6) ?p b (m_now m1) then recordNoSamples ?p b m6 else m6)"
    using assms(2) False m1 m6 by (cases client) (auto simp: lockedHeartbeat_def bindR_Inr_iff Let_def m5_def m3_def split: if_splits)
  moreover have "inv m6"
  proof (rule inv_deliver[OF _ m6])
    have "inv m3" unfolding m3_def using inv_lateOutage[OF assms(1) m1]
      by (auto simp: same_core_def split: option.split intro!: inv_applyInstanceUsage inv_setS)
    then show "inv m5" by (simp add: m5_def)
  qed
  ultimately show ?thesis by (simp add: inv_recordNoSamples inControlLive_def)
qed

text \<open>What the fast path writes, when it applies and what it answers.\<close>

definition usageOf :: "session \<Rightarrow> ident \<Rightarrow> heartbeat_request \<Rightarrow> heartbeat_client option \<Rightarrow> ms \<Rightarrow> usage_verdict option" where
  "usageOf s i b client now = Option.bind client (\<lambda>c. evaluateInstanceUsage s i (usageObservation c b now))"

definition heardRow :: "session \<Rightarrow> ident \<Rightarrow> heartbeat_request \<Rightarrow> heartbeat_client option \<Rightarrow> ms \<Rightarrow> session" where
  "heardRow s i b client now =
     (let s1 = s\<lparr>s_lastHeartbeatAt := Some now, s_lastHeartbeatInstanceId := Some i, s_connection := Online\<rparr>;
          s2 = (case usageOf s i b client now of Some v \<Rightarrow> (if uv_changed v then s1\<lparr>s_instanceUsage := Some (uv_usage v)\<rparr> else s1) | None \<Rightarrow> s1)
      in (if inControlLive s i
          then s2\<lparr>s_lastVerifiedHeartbeatAt := Some now, s_monitoring := heartbeatMonitoring b now,
                 s_currentQuestionIndex := nullish (hb_currentQuestionIndex b) (s_currentQuestionIndex s2),
                 s_reportingInterruptedSince := reportingInterruptedSince b s now\<rparr>
          else s2)\<lparr>s_updatedAt := now\<rparr>)"

lemma fastHeartbeat_row:
  assumes "fastHeartbeat pol s i b client now = Some (s', r)"
  shows "s' = heardRow s i b client now"
    "r = heartbeatResponse s i now [] (if inControlLive s i then identitySampleRequest (s_status s) (Some (s_identityState s)) (pol_identity pol) now else None)"
    "\<not> (truthy (s_activeInstanceId s) \<noteq> None \<and> s_activeInstanceId s \<noteq> Some i)"
    "inControlLive s i \<Longrightarrow> s_reportingEventId s = None \<and> \<not> (s_status s = Active \<and> s_runningSince s = None) \<and>
       \<not> noSamplesObservationDue s (pol_identity pol) b now \<and> \<not> reportingTimedOut s pol now"
    "\<not> (s_status s \<in> {Active, Paused} \<and> clockExpired (sessionClock s) now)"
    "\<And>v. usageOf s i b client now = Some v \<Longrightarrow> uv_signal v = None"
proof -
  have if_Some: "(if c then None else x) = Some y \<longleftrightarrow> \<not> c \<and> x = Some y" for c and x :: "'z option" and y by simp
  note f = assms[unfolded fastHeartbeat_def Let_def if_Some option.inject prod.inject]
  note f2 = f[THEN conjunct2] and f4 = f[THEN conjunct2, THEN conjunct2, THEN conjunct2]
  note f6 = f4[THEN conjunct2, THEN conjunct2]
  show "s' = heardRow s i b client now" using f6[THEN conjunct2, THEN conjunct1] unfolding heardRow_def usageOf_def Let_def by (rule sym)
  show "r = heartbeatResponse s i now [] (if inControlLive s i then identitySampleRequest (s_status s) (Some (s_identityState s)) (pol_identity pol) now else None)"
    using f6[THEN conjunct2, THEN conjunct2] by (rule sym)
  show "\<not> (truthy (s_activeInstanceId s) \<noteq> None \<and> s_activeInstanceId s \<noteq> Some i)" by (rule f[THEN conjunct1])
  show "\<not> (s_status s \<in> {Active, Paused} \<and> clockExpired (sessionClock s) now)" by (rule f4[THEN conjunct1])
  show "inControlLive s i \<Longrightarrow> s_reportingEventId s = None \<and> \<not> (s_status s = Active \<and> s_runningSince s = None) \<and>
       \<not> noSamplesObservationDue s (pol_identity pol) b now \<and> \<not> reportingTimedOut s pol now"
    using f2[THEN conjunct1] f2[THEN conjunct2, THEN conjunct1] f4[THEN conjunct2, THEN conjunct1] by blast
  show "uv_signal v = None" if "usageOf s i b client now = Some v" for v
    using f6[THEN conjunct1] that unfolding usageOf_def by simp
qed

lemma fastHeartbeat_core:
  assumes "fastHeartbeat pol s i b client now = Some (s', r)"
  shows "same_core s s'" "s_lastHeartbeatAt s' = Some now"
  unfolding fastHeartbeat_row(1)[OF assms] heardRow_def Let_def by (simp_all add: same_core_def split: option.split)

text \<open>A heartbeat is the locked one, possibly after the fast path's update of columns no rule reads.\<close>

lemma heartbeat_cases:
  assumes "heartbeat e loaded i b client m = Inr (r, m')"
  obtains "lockedHeartbeat e i b client m = Inr (r, m')"
    | s' where "same_core (m_session m) s'" "m' = m\<lparr>m_session := s'\<rparr> \<or> lockedHeartbeat e i b client (m\<lparr>m_session := s'\<rparr>) = Inr (r, m')"
      "s_lastHeartbeatAt s' = Some (m_now m)"
proof -
  define f where "f = Option.bind loaded (\<lambda>(pol, s). fastHeartbeat (nullish pol DEFAULT_POLICY) s i b client (m_now m))"
  define k where "k = (case f of Some (s', r) \<Rightarrow> (if map_option snd loaded \<noteq> Some (m_session m) then lockedHeartbeat e i b client m
      else if list_all (\<lambda>c. \<not> deliverable False i c) (m_commands m) then Inr (r, m\<lparr>m_session := s'\<rparr>)
      else lockedHeartbeat e i b client (m\<lparr>m_session := s'\<rparr>)) | None \<Rightarrow> lockedHeartbeat e i b client m)"
  have "heartbeat e loaded i b client m = bindR (guardR (truthy (Some (hb_clientInstanceId b)) = None \<or> hb_clientInstanceId b = i) (badRequest ''instance_mismatch'')) (\<lambda>_. k)"
    unfolding heartbeat_def k_def f_def by (rule refl)
  note h = assms[unfolded this bindR_Inr_iff k_def]
  show ?thesis
  proof (cases f)
    case None
    then show ?thesis using h that(1) by auto
  next
    case (Some a)
    obtain s' r' where a: "a = (s', r')" by (cases a)
    show ?thesis
    proof (cases "map_option snd loaded = Some (m_session m)")
      case True
      then obtain pol where "fastHeartbeat pol (m_session m) i b client (m_now m) = Some (s', r')"
        using Some a by (auto simp: f_def bind_eq_Some_conv split: prod.splits)
      from that(2)[OF fastHeartbeat_core(1)[OF this] _ fastHeartbeat_core(2)[OF this]] show ?thesis using h True Some a by (auto split: if_splits)
    qed (use h Some a that(1) in auto)
  qed
qed

lemma inv_heartbeat:
  assumes "inv m" "heartbeat e loaded i b client m = Inr (r, m')"
  shows "inv m'"
  using assms(2)
proof (cases rule: heartbeat_cases)
  case 1
  then show ?thesis by (rule inv_lockedHeartbeat[OF assms(1)])
next
  case (2 s')
  have rw: "rows_wf m" using assms(1) by (simp add: inv_def)
  have "inv (m\<lparr>m_session := s'\<rparr>)"
    by (rule inv_same_core[OF assms(1)]) (use 2(1) rw in \<open>simp_all add: rows_wf_def openKinds_def pendings_def noOpenEvents_def\<close>)
  then show ?thesis using 2(2) inv_lockedHeartbeat by auto
qed

end
