(* ===== verification/SP_Machine.thy ===== *)
theory SP_Machine
  imports SP_Prelude
begin

text \<open>
  Runs of a labelled step relation and the two contracts the session model is proved
  against: an invariant every step keeps, and an abstract machine every step follows.
\<close>

section \<open>Runs\<close>

inductive run :: "('w \<Rightarrow> 'l \<Rightarrow> 'w \<Rightarrow> bool) \<Rightarrow> 'w \<Rightarrow> 'l list \<Rightarrow> 'w \<Rightarrow> bool" for step where
  stop [intro]: "run step w [] w"
| more [intro]: "step w l w' \<Longrightarrow> run step w' ls w'' \<Longrightarrow> run step w (l # ls) w''"

inductive_simps run_Nil [simp]: "run step w [] w'"
inductive_simps run_Cons: "run step w (l # ls) w''"

lemma run_append: "run step w ls w' \<Longrightarrow> run step w' ks w'' \<Longrightarrow> run step w (ls @ ks) w''"
  by (induction rule: run.induct) auto

lemma run_snoc: "run step w (ls @ [l]) w'' \<longleftrightarrow> (\<exists>w'. run step w ls w' \<and> step w' l w'')"
  by (induction ls arbitrary: w) (auto simp: run_Cons)

definition reachable :: "('w \<Rightarrow> bool) \<Rightarrow> ('w \<Rightarrow> 'l \<Rightarrow> 'w \<Rightarrow> bool) \<Rightarrow> 'w \<Rightarrow> bool" where
  "reachable init step w \<longleftrightarrow> (\<exists>w0 ls. init w0 \<and> run step w0 ls w)"

section \<open>Contracts\<close>

locale keeps_invariant =
  fixes init :: "'w \<Rightarrow> bool" and step :: "'w \<Rightarrow> 'l \<Rightarrow> 'w \<Rightarrow> bool" and holds :: "'w \<Rightarrow> bool"
  assumes starts: "init w \<Longrightarrow> holds w"
    and keeps: "step w l w' \<Longrightarrow> holds w \<Longrightarrow> holds w'"
begin

lemma run_holds: "run step w ls w' \<Longrightarrow> holds w \<Longrightarrow> holds w'"
  by (induction rule: run.induct) (auto intro: keeps)

lemma reachable_holds: "reachable init step w \<Longrightarrow> holds w"
  using starts run_holds by (auto simp: reachable_def)

end

text \<open>
  A step of the machine is a move of the abstract one or leaves the abstraction as it was;
  \<open>move\<close> sees the label, so the abstract machine can say who may make which move.
\<close>

locale follows = keeps_invariant +
  fixes abs :: "'a \<Rightarrow> 's" and move :: "'s \<Rightarrow> 'b \<Rightarrow> 's \<Rightarrow> bool"
  assumes simulates: "step w l w' \<Longrightarrow> holds w \<Longrightarrow> abs w' = abs w \<or> move (abs w) l (abs w')"
begin

lemma run_follows:
  "run step w ls w' \<Longrightarrow> holds w \<Longrightarrow> run (\<lambda>s l s'. s' = s \<or> move s l s') (abs w) ls (abs w')"
  by (induction rule: run.induct) (auto intro: keeps dest: simulates)

text \<open>A set of abstract states no move of these labels leaves is never left by them.\<close>

lemma run_stays:
  assumes "run step w ls w'" "holds w" "abs w \<in> A" "\<And>s l s'. l \<in> set ls \<Longrightarrow> s \<in> A \<Longrightarrow> move s l s' \<Longrightarrow> s' \<in> A"
  shows "abs w' \<in> A"
  using assms by (induction rule: run.induct) (metis keeps simulates list.set_intros(1) list.set_intros(2))+

end

end
