(* ===== verification/SP_System.thy ===== *)
theory SP_System
  imports SP_Traffic SP_Machine
begin

text \<open>
  The exam session as one state machine: every request of the candidate's browser, of staff and
  of the background jobs, each a transaction (\<open>withSession\<close>) on the session's rows. A request that
  fails is rolled back. What the handlers read of other tables (\<open>env\<close>) may differ at every step.
\<close>

type_synonym world = "check_row list \<times> mutation"

datatype request =
    R_acceptConsent string string
  | R_startCheck ident check_purpose device "device option" int
  | R_completeCheck ident ident check_facts
  | R_settleChecks abandon_how "check_row \<Rightarrow> bool" "ident \<Rightarrow> judgement"
  | R_reconnectLimits ident
  | R_startSession admission display_report ident
  | R_saveAnswer "question_form list" ident ident answer_request
  | R_requestPause ident "string option"
  | R_cancelPause ident
  | R_submit ident
  | R_heartbeat "(policy option \<times> session) option" ident heartbeat_request "heartbeat_client option"
  | R_track ident usage_observation
  | R_decidePause ident bool actor "string option"
  | R_hold actor "string option"
  | R_release actor release_opts
  | R_terminate actor string
  | R_staffSubmit actor "string option"
  | R_extendTime int actor "string option"
  | R_legalHold bool actor
  | R_reschedule actor bool session_window "string option"
  | R_reopen actor reopen_request
  | R_sweep
  | R_abandon int

text \<open>\<open>beginAt\<close>: a transaction starts on the committed rows, at its own time.\<close>

definition beginAt :: "ms \<Rightarrow> world \<Rightarrow> world" where
  "beginAt now w = (fst w, (snd w)\<lparr>m_now := now, m_dirty := False, m_droppedBursts := [], m_eraseAllUndecided := False\<rparr>)"

definition onSession :: "check_row list \<Rightarrow> mutation result \<Rightarrow> world result" where
  "onSession rows r = bindR r (\<lambda>m. Inr (rows, m))"

definition answered :: "check_row list \<Rightarrow> ('a \<times> mutation) result \<Rightarrow> world result" where
  "answered rows r = bindR r (\<lambda>am. Inr (rows, snd am))"

fun handle :: "env \<Rightarrow> request \<Rightarrow> world \<Rightarrow> world result" where
  "handle e (R_acceptConsent accepted v) (rows, m) = onSession rows (acceptConsent accepted v m)"
| "handle e (R_startCheck i p dev prev mx) w = startCheck e i p dev prev mx w"
| "handle e (R_completeCheck c i f) w = bindR (performCheck e c i f w) (\<lambda>r. Inr (snd r))"
| "handle e (R_settleChecks how due found) w = settleAbandonedChecks e how due found w"
| "handle e (R_reconnectLimits i) (rows, m) = answered rows (enforceReconnectLimits e i m)"
| "handle e (R_startSession ad report i) (rows, m) = answered rows (startSession e ad report i m)"
| "handle e (R_saveAnswer qs i q b) (rows, m) = answered rows (saveAnswer qs i q b m)"
| "handle e (R_requestPause i reason) (rows, m) = answered rows (requestPause e i reason m)"
| "handle e (R_cancelPause i) (rows, m) = onSession rows (cancelPauseRequest i m)"
| "handle e (R_submit i) (rows, m) = onSession rows (candidateSubmit e i m)"
| "handle e (R_heartbeat loaded i b client) (rows, m) = answered rows (heartbeat e loaded i b client m)"
| "handle e (R_track i ob) (rows, m) = Inr (rows, trackInstanceRequest i ob m)"
| "handle e (R_decidePause rid approve a note) (rows, m) = onSession rows (decidePauseRequest e rid approve a note m)"
| "handle e (R_hold a note) (rows, m) = onSession rows (holdSession a note m)"
| "handle e (R_release a opts) (rows, m) = onSession rows (releaseHold e a opts m)"
| "handle e (R_terminate a reason) (rows, m) = onSession rows (terminateSession e a reason m)"
| "handle e (R_staffSubmit a note) (rows, m) = onSession rows (staffSubmit e a note m)"
| "handle e (R_extendTime n a note) (rows, m) = onSession rows (extendSessionTime n a note m)"
| "handle e (R_legalHold b a) (rows, m) = onSession rows (setLegalHold b a m)"
| "handle e (R_reschedule a v w note) (rows, m) = onSession rows (rescheduleSession a v w note m)"
| "handle e (R_reopen a req) (rows, m) = onSession rows (reopenSession e a req m)"
| "handle e R_sweep (rows, m) = Inr (rows, sweepSession e m)"
| "handle e (R_abandon days) (rows, m) = Inr (rows, snd (closeAbandoned e days m))"

text \<open>Bounds the request schemas put on the numbers (staffActionSchemas in packages/shared).\<close>

definition request_ok :: "request \<Rightarrow> bool" where
  "request_ok q = (case q of R_reopen a req \<Rightarrow> 0 \<le> rr_addMinutes req | _ \<Rightarrow> True)"

text \<open>Time does not run backwards between the transactions of a session.\<close>

inductive session_step :: "world \<Rightarrow> env \<times> request \<times> ms \<Rightarrow> world \<Rightarrow> bool" where
  handled: "m_now (snd w) \<le> now \<Longrightarrow> env_ok e (m_session (snd w)) \<Longrightarrow> request_ok q \<Longrightarrow>
     handle e q (beginAt now w) = Inr w' \<Longrightarrow> session_step w (e, q, now) w'"
| refused: "m_now (snd w) \<le> now \<Longrightarrow> handle e q (beginAt now w) = Inl err \<Longrightarrow> session_step w (e, q, now) (beginAt now w)"

inductive_cases session_stepE [elim!]: "session_step w (e, q, now) w'"

definition created :: "world \<Rightarrow> bool" where
  "created w \<longleftrightarrow> (\<exists>e i org exam dur window now. fst w = [] \<and> 0 \<le> dur \<and> list_all (\<lambda>a. accommodationSpec_ok (acr_spec a)) (en_records e) \<and>
     snd w = emptyMutation (createExamSession e i org exam dur window now) now)"

section \<open>The invariant is kept by every step\<close>

lemma inv_beginAt [simp]: "inv (snd w) \<Longrightarrow> inv (snd (beginAt now w))"
  by (rule inv_same_core[of "snd w"])
    (simp_all add: beginAt_def inv_def same_core_def rows_wf_def openKinds_def pendings_def noOpenEvents_def)

lemma beginAt_session [simp]: "m_session (snd (beginAt now w)) = m_session (snd w)"
  by (simp add: beginAt_def)

lemma inv_created: "created w \<Longrightarrow> inv (snd w)"
proof -
  assume "created w"
  then obtain e i org exam dur window now where d: "0 \<le> dur" "list_all (\<lambda>a. accommodationSpec_ok (acr_spec a)) (en_records e)"
    and w: "snd w = emptyMutation (createExamSession e i org exam dur window now) now" by (auto simp: created_def)
  have x: "0 \<le> extraTimeMs (sessionSnapshot (applicableAccommodations e exam now) (dur * 1000) now)"
    by (rule snapshot_extra_nonneg) (use d in simp_all)
  let ?s = "createExamSession e i org exam dur window now"
  have "end_ok ?s" "hold_ok ?s" "started_ok ?s"
    by (simp_all add: createExamSession_def newSession_def Let_def end_ok_def hold_ok_def unheld_def started_ok_def inProgress_def notStarted_def)
  moreover have "clock_ok ?s" using x d(1)
    by (simp add: createExamSession_def newSession_def Let_def clock_ok_def wf_clock_def sessionClock_def baseDurationMs_def)
  ultimately show ?thesis
    by (simp add: w inv_def session_ok_def emptyMutation_def openKinds_def rows_wf_def rest_ok_def pendings_def createExamSession_def newSession_def Let_def)
qed

lemma onSession_Inr: "onSession rows r = Inr w \<longleftrightarrow> (\<exists>m. r = Inr m \<and> w = (rows, m))"
  by (auto simp: onSession_def bindR_Inr_iff)

lemma answered_Inr: "answered rows r = Inr w \<longleftrightarrow> (\<exists>a m. r = Inr (a, m) \<and> w = (rows, m))"
  by (auto simp: answered_def bindR_Inr_iff)

lemmas handled_simps = onSession_Inr answered_Inr bindR_Inr_iff request_ok_def

lemma inv_handle:
  assumes "inv m" "env_ok e (m_session m)" "request_ok q" "handle e q (rows, m) = Inr w'"
  shows "inv (snd w')"
proof (cases q)
  case (R_acceptConsent a v) then show ?thesis using assms(1,4) inv_acceptConsent by (auto simp: handled_simps)
next
  case (R_startCheck i p d d' n) then show ?thesis using assms(1,4) inv_startCheck by (cases w') (auto simp: handled_simps)
next
  case (R_completeCheck c i f) then show ?thesis using assms(1,4) inv_performCheck by (auto simp: handled_simps)
next
  case (R_settleChecks h d f) then show ?thesis using assms(1,4) inv_settleAbandonedChecks by (cases w') (auto simp: handled_simps)
next
  case (R_reconnectLimits i) then show ?thesis using assms(1,4) inv_enforceReconnectLimits by (auto simp: handled_simps)
next
  case (R_startSession ad r i) then show ?thesis using assms(1,4) inv_startSession[OF _ assms(2)] by (auto simp: handled_simps)
next
  case (R_saveAnswer qs i k b) then show ?thesis using assms(1,4) inv_saveAnswer by (auto simp: handled_simps)
next
  case (R_requestPause i r) then show ?thesis using assms(1,4) inv_requestPause by (auto simp: handled_simps)
next
  case (R_cancelPause i) then show ?thesis using assms(1,4) inv_cancelPauseRequest by (auto simp: handled_simps)
next
  case (R_submit i) then show ?thesis using assms(1,4) inv_candidateSubmit by (auto simp: handled_simps)
next
  case (R_heartbeat l i b c) then show ?thesis using assms(1,4) inv_heartbeat by (auto simp: handled_simps)
next
  case (R_track i ob) then show ?thesis using assms(1,4) inv_trackInstanceRequest by (auto simp: handled_simps)
next
  case (R_decidePause r b a n) then show ?thesis using assms(1,4) inv_decidePauseRequest by (auto simp: handled_simps)
next
  case (R_hold a n) then show ?thesis using assms(1,4) inv_holdSession by (auto simp: handled_simps)
next
  case (R_release a opts) then show ?thesis using assms(1,4) inv_releaseHold[OF _ assms(2)] by (auto simp: handled_simps)
next
  case (R_terminate a r) then show ?thesis using assms(1,4) inv_terminateSession by (auto simp: handled_simps)
next
  case (R_staffSubmit a n) then show ?thesis using assms(1,4) inv_staffSubmit by (auto simp: handled_simps)
next
  case (R_extendTime k a n) then show ?thesis using assms(1,4) inv_extendSessionTime by (auto simp: handled_simps)
next
  case (R_legalHold b a) then show ?thesis using assms(1,4) inv_setLegalHold by (auto simp: handled_simps)
next
  case (R_reschedule a v w n) then show ?thesis using assms(1,4) inv_rescheduleSession by (auto simp: handled_simps)
next
  case (R_reopen a r) then show ?thesis using assms(1,4) assms(3) inv_reopenSession by (auto simp: handled_simps)
next
  case R_sweep then show ?thesis using assms(1,4) inv_sweepSession by (auto simp: handled_simps)
next
  case (R_abandon d) then show ?thesis using assms(1,4) inv_closeAbandoned by (auto simp: handled_simps)
qed

lemma inv_step: "session_step w l w' \<Longrightarrow> inv (snd w) \<Longrightarrow> inv (snd w')"
proof (induction rule: session_step.induct)
  case (handled w now e q w')
  have "(fst w, snd (beginAt now w)) = beginAt now w" by (simp add: beginAt_def)
  then have "handle e q (fst w, snd (beginAt now w)) = Inr w'" using handled(4) by simp
  then show ?case using handled by (intro inv_handle[OF inv_beginAt[OF handled(5), of now]]) simp_all
qed simp

interpretation session_inv: keeps_invariant created session_step "\<lambda>w. inv (snd w)"
proof unfold_locales
  show "created w \<Longrightarrow> inv (snd w)" for w by (rule inv_created)
  show "session_step w l w' \<Longrightarrow> inv (snd w) \<Longrightarrow> inv (snd w')" for w l w' by (rule inv_step)
qed

end
