(* ===== verification/SP_Status.thy ===== *)
theory SP_Status
  imports SP_System
begin

text \<open>
  The status of a session as an abstract state machine, and the proof that the rows follow it:
  who may move a session from which status to which.
\<close>

abbreviation status :: "mutation \<Rightarrow> session_status" where
  "status m \<equiv> s_status (m_session m)"

section \<open>The abstract machine\<close>

fun mayMove :: "request \<Rightarrow> session_status \<Rightarrow> session_status \<Rightarrow> bool" where
  "mayMove (R_completeCheck _ _ _) s s' \<longleftrightarrow>
     (case s of Invited \<Rightarrow> s' \<in> {Ready, On_hold} | Ready \<Rightarrow> s' = On_hold | Active \<Rightarrow> s' = On_hold
        | Paused \<Rightarrow> s' \<in> {Active, On_hold} | On_hold \<Rightarrow> s' \<in> {Ready, Active} | _ \<Rightarrow> False)"
| "mayMove (R_settleChecks _ _ _) s s' \<longleftrightarrow> s \<in> {Ready, Active, Paused} \<and> s' = On_hold"
| "mayMove (R_reconnectLimits _) s s' \<longleftrightarrow> s = Active \<and> s' \<in> {On_hold, Submitted}"
| "mayMove (R_startSession _ _ _) s s' \<longleftrightarrow> s = Ready \<and> s' = Active"
| "mayMove (R_requestPause _ _) s s' \<longleftrightarrow> s = Active \<and> s' = Paused"
| "mayMove (R_decidePause _ _ _ _) s s' \<longleftrightarrow> s = Active \<and> s' = Paused"
| "mayMove (R_submit _) s s' \<longleftrightarrow> s = Active \<and> s' = Submitted"
| "mayMove (R_heartbeat _ _ _ _) s s' \<longleftrightarrow> s = Active \<and> s' \<in> {On_hold, Submitted} \<or> s = Paused \<and> s' = Submitted"
| "mayMove (R_hold _ _) s s' \<longleftrightarrow> \<not> terminal s \<and> s' = On_hold"
| "mayMove (R_release _ _) s s' \<longleftrightarrow> s = On_hold \<and> s' \<in> {Invited, Ready, Active}"
| "mayMove (R_terminate _ _) s s' \<longleftrightarrow> \<not> terminal s \<and> s' = Terminated"
| "mayMove (R_staffSubmit _ _) s s' \<longleftrightarrow> s \<in> {Active, Paused, On_hold} \<and> s' = Submitted"
| "mayMove (R_reopen _ _) s s' \<longleftrightarrow> terminal s \<and> s' \<in> {On_hold, Invited}"
| "mayMove R_sweep s s' \<longleftrightarrow> s = Active \<and> s' \<in> {On_hold, Submitted} \<or> s = Paused \<and> s' = Submitted"
| "mayMove (R_abandon _) s s' \<longleftrightarrow> \<not> terminal s \<and> s' = Terminated"
| "mayMove _ s s' \<longleftrightarrow> False"

section \<open>The transitions\<close>

lemma status_holdNow: "holdNow h m = Inr m' \<Longrightarrow> status m' = On_hold"
  unfolding holdNow_def Let_def by (auto simp: bindR_Inr_iff)

lemma status_endMarkers [simp]: "status (endMarkers r o' t m) = status m"
  by (simp add: endMarkers_simps)

lemma status_finalizeSession [simp]:
  "status (finalizeSession e r o' m) = (if terminal (status m) then status m else endStatus r)"
  by (simp add: finalizeSession_def Let_def)

lemma status_commit: "commit r = Inr m' \<Longrightarrow> (\<And>m. r = Inr m \<Longrightarrow> P (status m)) \<Longrightarrow> P (status m')"
  by (auto simp: commit_Inr)

lemma endStatus_simps [simp]:
  "endStatus E_time_expired = Submitted" "endStatus E_staff_submitted = Submitted" "endStatus E_resume_limit = Submitted"
  "endStatus E_candidate_submitted = Submitted" "endStatus E_abandoned = Terminated" "endStatus E_staff_terminated = Terminated"
  by (simp_all add: endStatus_def)

lemma status_applyResumeLimit:
  assumes "\<not> terminal (status m)" "applyResumeLimit e pol l m = Inr m'" shows "status m' \<in> {On_hold, Submitted}"
  using assms(2) status_holdNow assms(1)
  by (auto simp: applyResumeLimit_def Let_def split: if_splits)

lemma offlineLimit_active: "offlineLimit pol m = Some l \<Longrightarrow> status m = Active"
  by (auto simp: offlineLimit_def Let_def split: option.splits if_splits)

lemma status_applyOfflineLimit:
  assumes "applyOfflineLimit e pol m = Inr (b, m')"
  shows "status m' = status m \<or> status m = Active \<and> status m' \<in> {On_hold, Submitted}"
proof (cases "offlineLimit pol m")
  case (Some l)
  note a = offlineLimit_active[OF Some]
  show ?thesis using assms Some a status_applyResumeLimit[of m e pol l]
    by (auto simp: applyOfflineLimit_def bindR_Inr_iff)
qed (use assms in \<open>simp add: applyOfflineLimit_def\<close>)

lemma status_recordReportingTimeout [simp]: "status (recordReportingTimeout pol t d m) = status m"
  by (simp add: recordReportingTimeout_def Let_def)

lemma status_expireClock:
  "status (expireClock e m) = status m \<or> status m \<in> {Active, Paused} \<and> status (expireClock e m) = Submitted"
  by (auto simp: expireClock_def)

lemma status_markAlive [simp]: "status (markAlive i b m) = status m"
  by (simp add: markAlive_def Let_def)

lemma status_applyInstanceUsage [simp]: "status (applyInstanceUsage i ob m) = status m"
  by (simp add: applyInstanceUsage_def split: option.split)

lemma status_recordNoSamples [simp]: "status (recordNoSamples p b m) = status m"
  by (simp add: recordNoSamples_def Let_def)

lemma status_deliver: "deliver b i m = (ds, m') \<Longrightarrow> status m' = status m"
  by (simp add: deliver_session)

section \<open>Checks\<close>

lemma status_retryOrHold: "retryOrHold e rows chk i q why c d m = Inr (o', m') \<Longrightarrow> status m' = status m \<or> status m' = On_hold"
  unfolding retryOrHold_def Let_def by (auto simp: bindR_Inr_iff split: if_splits dest!: status_holdNow)

lemma status_applyInitial:
  assumes "status m = Invited" "applyInitial e rows chk i f m = Inr (o', m')"
  shows "status m' \<in> {Invited, Ready, On_hold}"
proof -
  have pass: "status (passInitial e i r c m) = Ready" for r c by (simp add: passInitial_def Let_def)
  have photo: "status m' \<in> {Ready, On_hold}" if "holdOnIdPhoto e d j (idPhotoEvents d' l c k (passInitial e i r ck m)) = Inr (o', m')" for d j d' l c k r ck
    using that pass by (auto simp: holdOnIdPhoto_def bindR_Inr_iff split: if_splits dest!: status_holdNow)
  show ?thesis
    using assms(2) pass photo unfolding applyInitial_def Let_def
    by (auto simp: assms(1) split: if_splits option.splits prod.splits dest!: status_retryOrHold)
qed

lemma status_resumeExam [simp]: "status (resumeExam chk ps sim m) = nextStatus (m_session m)"
  by (simp add: resumeExam_def Let_def)

lemma status_closeGapPeriods [simp]:
  "status (closeGapPeriods i chk cs gs m) = status m" "nextStatus (m_session (closeGapPeriods i chk cs gs m)) = nextStatus (m_session m)"
  by (auto simp: closeGapPeriods_def Let_def nextStatus_def split: option.split)

lemma status_keep [simp]: "status (keepContinuous m) = status m" "status (normaliseAfter f m) = status m"
  "nextStatus (m_session (keepContinuous m)) = nextStatus (m_session m)" "nextStatus (m_session (normaliseAfter f m)) = nextStatus (m_session m)"
  by (simp_all add: keepContinuous_def normaliseAfter_def Let_def nextStatus_def)

lemma nextStatus_frame [simp]:
  "nextStatus (m_session (countReconnect chk m)) = nextStatus (m_session m)" "nextStatus (m_session (connectedNow i m)) = nextStatus (m_session m)"
  "nextStatus (m_session (setIdentityState st m)) = nextStatus (m_session m)" "status (countReconnect chk m) = status m"
  "nextStatus (s\<lparr>s_identityState := st\<rparr>) = nextStatus s"
  by (simp_all add: nextStatus_def countReconnect_facts) (simp_all add: connectedNow_def)

lemma nextStatus_cases: "nextStatus s = Active \<or> s_status s = On_hold \<and> nextStatus s = Ready"
  by (simp add: nextStatus_def)

lemma status_continueAfterPass:
  assumes "continueAfterPass e chk i f m = Inr (o', m')"
  shows "status m = Ready \<and> status m' = Ready \<or> status m \<noteq> Ready \<and> (status m' \<in> {Active, On_hold} \<or> status m = On_hold \<and> status m' = Ready)"
  using assms nextStatus_cases[of "m_session m"] unfolding continueAfterPass_def Let_def holdLongPause_def
  by (auto simp: bindR_Inr_iff split: if_splits dest!: status_holdNow)

lemma status_mismatchHold: "mismatchHold chk i eid gs x m = Inr (o', m') \<Longrightarrow> status m' = On_hold"
  by (auto simp: mismatchHold_def bindR_Inr_iff dest!: status_holdNow)

lemma status_reEnrol [simp]: "status (reEnrol chk f m) = status m"
  by (simp add: reEnrol_def Let_def recordReferenceMismatch_def)

text \<open>What a continuation check may do to the status, by the status it started from.\<close>

definition continued :: "session_status \<Rightarrow> session_status \<Rightarrow> bool" where
  "continued s s' \<longleftrightarrow> s' = s \<or> s' = On_hold \<or> s = Paused \<and> s' = Active \<or> s = On_hold \<and> s' \<in> {Ready, Active}"

lemma status_applyContinuation:
  assumes "status m \<in> {Ready, Active, Paused, On_hold}" "applyContinuation e rows chk i f m = Inr (o', m')"
  shows "continued (status m) (status m')"
proof -
  have rec: "status (snd (recordReferenceMismatch chk s c d m)) = status m" for s c d by (simp add: recordReferenceMismatch_def)
  have pass: "continued (status m) (status m')" if "continueAfterPass e chk i f' m1 = Inr (o', m')" "status m1 = status m" for f' m1
    using status_continueAfterPass[OF that(1)] that(2) assms(1) by (auto simp: continued_def)
  have retry: "continued (status m) (status m')" if "retryOrHold e rows chk i q why c d m1 = Inr (o', m')" "status m1 = status m" for q why c d m1
    using status_retryOrHold[OF that(1)] that(2) by (auto simp: continued_def)
  have held: "continued (status m) (status m')" if "mismatchHold chk i eid gs x m1 = Inr (o', m')" for eid gs x m1
    using status_mismatchHold[OF that] by (simp add: continued_def)
  show ?thesis
    using assms(2) rec pass retry held unfolding applyContinuation_def Let_def case_prod_beta
    by (cases "cf_decision f") (auto split: if_splits)
qed

lemma status_attestInitial: "attestInitial e chk i m = Inr (o', m') \<Longrightarrow> status m' = On_hold"
  unfolding attestInitial_def Let_def by (auto simp: bindR_Inr_iff dest!: status_holdNow)

lemma status_attestContinuation:
  assumes "status m \<in> {Ready, Active, Paused, On_hold}" "attestContinuation e chk i m = Inr (o', m')"
  shows "continued (status m) (status m')"
  using assms nextStatus_cases[of "m_session m"] unfolding attestContinuation_def Let_def holdLongPause_def
  by (auto simp: bindR_Inr_iff continued_def split: if_splits dest!: status_holdNow)

lemma status_performCheck:
  assumes "performCheck e c i f (rows, m) = Inr (out, rows', m')"
  shows "status m' = status m \<or> mayMove (R_completeCheck c i f) (status m) (status m')"
proof (cases "m' = m")
  case False
  obtain chk o' where o': "completeCheck e rows chk i f m = Inr (o', m') \<or> completeAttestCheck e chk i m = Inr (o', m')"
    using assms False unfolding performCheck_def by (auto simp: bindR_Inr_iff split: if_splits)
  then have r: "requiredCheckFor (m_session m) (Some i) = Some (chk_purpose chk)"
    by (auto simp: completeCheck_def completeAttestCheck_def bindR_Inr_iff)
  have initial: "chk_purpose chk = C_initial \<longleftrightarrow> status m = Invited" by (rule requiredCheck_status(3)[OF r])
  show ?thesis
  proof (cases "status m = Invited")
    case True
    then show ?thesis using o' initial status_applyInitial[OF True] status_attestInitial
      by (fastforce simp: completeCheck_def completeAttestCheck_def bindR_Inr_iff split: check_facts.splits if_splits)
  next
    case n: False
    then have st: "status m \<in> {Ready, Active, Paused, On_hold}" using requiredCheck_status(1)[OF r] by auto
    have "continued (status m) (status m')"
      using o' initial n status_applyContinuation[OF st] status_attestContinuation[OF st]
      by (auto simp: completeCheck_def completeAttestCheck_def bindR_Inr_iff split: check_facts.splits if_splits)
    then show ?thesis using st by (auto simp: continued_def)
  qed
qed simp

lemma status_closeReplacedInstanceEvents [simp]: "status (closeReplacedInstanceEvents i t m) = status m"
  by simp

lemma status_settleAbandoned:
  assumes "settleAbandoned e how chk j (rows, m) = Inr (rows', m')"
  shows "status m' = status m \<or> status m \<in> {Ready, Active, Paused} \<and> status m' = On_hold"
  using assms unfolding settleAbandoned_def Let_def
  by (auto simp: bindR_Inr_iff split: if_splits prod.splits dest!: status_holdNow)

lemma status_settleAll:
  "settleAll e how js (rows, m) = Inr (rows', m') \<Longrightarrow> status m' = status m \<or> status m \<in> {Ready, Active, Paused} \<and> status m' = On_hold"
proof (induction js arbitrary: rows m)
  case (Cons c js)
  obtain chk j where c: "c = (chk, j)" by (cases c)
  then obtain rows1 m1 where w: "settleAbandoned e how chk j (rows, m) = Inr (rows1, m1)" "settleAll e how js (rows1, m1) = Inr (rows', m')"
    using Cons.prems by (auto simp: bindR_Inr_iff)
  show ?case using status_settleAbandoned[OF w(1)] Cons.IH[OF w(2)] by auto
qed simp

section \<open>The other requests\<close>

lemma status_trackInstanceRequest [simp]: "status (trackInstanceRequest i ob m) = status m"
  by (simp add: trackInstanceRequest_def split: option.split)

lemma status_startCheck: "startCheck e i p dev prev mx (rows, m) = Inr (rows', m') \<Longrightarrow> status m' = status m"
  unfolding startCheck_def Let_def
  by (auto simp: bindR_Inr_iff takeOver_session openCheckIn_def split: option.splits)

lemma status_refresh [simp]: "status (refreshSessionAccommodations e m) = status m"
  by (simp add: refreshSessionAccommodations_def Let_def)

lemma status_startSession:
  assumes "startSession e ad report i m = Inr (w, m')"
  shows "status m' = status m \<or> status m = Ready \<and> status m' = Active"
proof -
  have d: "status (snd d) = status m" if "examStartDeferral ad m = Some d" for d
    using that by (auto simp: examStartDeferral_def Let_def split: if_splits)
  have s: "status m1 = Active \<and> status m = Ready" if "startExam e report m = Inr m1" for m1
    using that unfolding startExam_def Let_def by (auto simp: bindR_Inr_iff assertStatus_def split: prod.splits if_splits)
  show ?thesis using assms d s unfolding startSession_def Let_def
    by (auto simp: bindR_Inr_iff commit_Inr split: option.splits if_splits)
qed

lemma status_pauseNow: "pauseNow e r q a m = Inr m' \<Longrightarrow> status m = Active \<and> status m' = Paused"
  unfolding pauseNow_def Let_def by (auto simp: bindR_Inr_iff assertStatus_def)

lemma status_requestPause:
  "requestPause e i r m = Inr (out, m') \<Longrightarrow> status m' = status m \<or> status m = Active \<and> status m' = Paused"
  unfolding requestPause_def Let_def by (auto simp: bindR_Inr_iff commit_Inr split: if_splits dest!: status_pauseNow)

lemma status_decideRequest [simp]: "status (decideRequest rid st a note m) = status m"
  by (simp add: decideRequest_def)

lemma status_decidePauseRequest:
  "decidePauseRequest e rid ap a note m = Inr m' \<Longrightarrow> status m' = status m \<or> status m = Active \<and> status m' = Paused"
  unfolding decidePauseRequest_def Let_def
  by (auto simp: commit_Inr bindR_Inr_iff split: option.splits if_splits dest!: status_pauseNow)

lemma status_releaseHold:
  "releaseHold e a opts m = Inr m' \<Longrightarrow> status m = On_hold \<and> status m' \<in> {On_hold, Invited, Ready, Active}"
  unfolding releaseHold_def Let_def
  by (auto simp: commit_Inr bindR_Inr_iff assertStatus_def releaseToCheckIn_def releaseBehindCheck_def releaseAtOnce_def Let_def
      recordVerification_def split: if_splits option.splits bool.splits prod.splits)

lemma status_reopenSession:
  assumes "reopenSession e a req m = Inr m'" shows "terminal (status m) \<and> status m' \<in> {On_hold, Invited}"
proof
  show "terminal (status m)" using assms reopenEligibility_allowed
    by (fastforce simp: reopenSession_def Let_def commit_Inr bindR_Inr_iff loadReopenEligibility_def)
  show "status m' \<in> {On_hold, Invited}" using assms
    unfolding reopenSession_def Let_def by (auto simp: commit_Inr bindR_Inr_iff reopenStarted_def reopenUnstarted_def Let_def)
qed

lemma status_closeAbandoned:
  "status (snd (closeAbandoned e days m)) = status m \<or> \<not> terminal (status m) \<and> status (snd (closeAbandoned e days m)) = Terminated"
  by (simp add: closeAbandoned_def Let_def)

section \<open>Traffic and jobs\<close>

definition ticked :: "session_status \<Rightarrow> session_status \<Rightarrow> bool" where
  "ticked s s' \<longleftrightarrow> s' = s \<or> s = Active \<and> s' \<in> {On_hold, Submitted} \<or> s = Paused \<and> s' = Submitted"

lemma ticked_trans: "ticked s s' \<Longrightarrow> ticked s' s'' \<Longrightarrow> ticked s s''"
  by (auto simp: ticked_def)

lemma status_lateOutage: "lateOutage e i m = Inr m' \<Longrightarrow> ticked (status m) (status m')"
  by (auto simp: lateOutage_def Let_def bindR_Inr_iff ticked_def split: if_splits dest!: status_applyOfflineLimit)

lemma status_lockedHeartbeat:
  assumes "lockedHeartbeat e i b client m = Inr (r, m')"
  shows "ticked (status m) (status m')"
proof (cases "truthy (s_activeInstanceId (m_session m)) \<noteq> None \<and> s_activeInstanceId (m_session m) \<noteq> Some i")
  case True
  then show ?thesis using assms
    by (auto simp: lockedHeartbeat_def supersededHeartbeat_def Let_def ticked_def split: prod.splits if_splits dest!: deliver_session)
next
  case False
  then obtain m1 where m1: "lateOutage e i m = Inr m1" using assms by (auto simp: lockedHeartbeat_def bindR_Inr_iff)
  define m3 where "m3 = (case client of Some c \<Rightarrow> applyInstanceUsage i (usageObservation c b (m_now m1)) | None \<Rightarrow> id)
      (setS (\<lambda>s. s\<lparr>s_lastHeartbeatAt := Some (m_now m1), s_lastHeartbeatInstanceId := Some i, s_connection := Online\<rparr>) m1)"
  define m4 where "m4 = (if inControlLive (m_session m3) i then markAlive i b m3 else m3)"
  obtain ds m6 where m6: "deliver False i (expireClock e m4) = (ds, m6)" by fastforce
  let ?p = "pol_identity (effectivePolicy e (m_session m6))"
  have m': "m' = flush (if inControlLive (m_session m6) i \<and> noSamplesObservationDue (m_session m6) ?p b (m_now m1) then recordNoSamples ?p b m6 else m6)"
    using assms False m1 m6 by (cases client) (auto simp: lockedHeartbeat_def bindR_Inr_iff Let_def m4_def m3_def split: if_splits)
  have "status m3 = status m1" by (cases client) (simp_all add: m3_def)
  then have m4: "status m4 = status m1" by (simp add: m4_def)
  have "status m' = status (expireClock e m4)" by (simp add: m' status_deliver[OF m6])
  then have "ticked (status m1) (status m')" using status_expireClock[of e m4] m4 by (auto simp: ticked_def)
  then show ?thesis using status_lateOutage[OF m1] ticked_trans by blast
qed

lemma status_heartbeat:
  assumes "heartbeat e loaded i b client m = Inr (r, m')"
  shows "ticked (status m) (status m')"
  using assms
proof (cases rule: heartbeat_cases)
  case 1
  then show ?thesis by (rule status_lockedHeartbeat)
next
  case (2 s')
  then show ?thesis using status_lockedHeartbeat[of e i b client "m\<lparr>m_session := s'\<rparr>" r m'] by (auto simp: same_core_def ticked_def)
qed

lemma status_sweepSession: "ticked (status m) (status (sweepSession e m))"
proof -
  define m1 where "m1 = (if sweepTimeoutDue (m_session m) (m_now m) then snd (sweepTimeout e m) else m)"
  define m2 where "m2 = (if sweepExpiryDue (m_session m1) (m_now m1) then snd (sweepExpiry e m1) else m1)"
  have "status m1 = status m" by (auto simp: m1_def sweepTimeout_def Let_def split: option.split)
  then have 2: "ticked (status m) (status m2)" by (auto simp: m2_def sweepExpiry_def ticked_def)
  have 3: "ticked (status m2) (status m3)" if "sweepOffline e m2 = Inr (b, m3)" for b m3
    using that status_applyResumeLimit[of m2] offlineLimit_active[of _ m2] unfolding sweepOffline_def Let_def
    by (fastforce simp: bindR_Inr_iff commit_Inr ticked_def split: option.splits if_splits)
  have "sweepSession e m = (if sweepOfflineDue (m_session m2) (m_now m2) then (case sweepOffline e m2 of Inl _ \<Rightarrow> m2 | Inr (_, m3) \<Rightarrow> m3) else m2)"
    unfolding sweepSession_def Let_def m2_def m1_def ..
  then show ?thesis using 2 3 ticked_trans[OF 2] by (auto split: sum.split)
qed

section \<open>The rows follow the abstract machine\<close>

lemma status_handle:
  assumes "handle e q (rows, m) = Inr (rows', m')"
  shows "status m' = status m \<or> mayMove q (status m) (status m')"
proof (cases q)
  case (R_acceptConsent a v) with assms show ?thesis by (auto simp: handled_simps acceptConsent_def commit_Inr split: if_splits)
next case (R_startCheck i p d d' n) with assms show ?thesis by (auto dest: status_startCheck)
next case (R_completeCheck c i f) with assms show ?thesis by (auto simp: handled_simps simp del: mayMove.simps dest!: status_performCheck)
next case (R_settleChecks h d f) with assms show ?thesis by (auto simp: handled_simps settleAbandonedChecks_def dest!: status_settleAll)
next case (R_reconnectLimits i) with assms show ?thesis
    by (auto simp: handled_simps enforceReconnectLimits_def Let_def commit_Inr split: option.splits if_splits dest!: status_applyResumeLimit[rotated])
next case (R_startSession ad r i) with assms show ?thesis by (auto simp: handled_simps dest!: status_startSession)
next case (R_saveAnswer qs i k b) with assms show ?thesis
    by (auto simp: handled_simps saveAnswer_def storeAnswer_def Let_def split: option.splits if_splits)
next case (R_requestPause i r) with assms show ?thesis by (auto simp: handled_simps dest!: status_requestPause)
next case (R_cancelPause i) with assms show ?thesis by (auto simp: handled_simps cancelPauseRequest_def commit_Inr split: option.splits)
next case (R_submit i) with assms show ?thesis by (auto simp: handled_simps candidateSubmit_def assertStatus_def commit_Inr split: if_splits)
next case (R_heartbeat l i b c) with assms show ?thesis by (auto simp: handled_simps ticked_def dest!: status_heartbeat)
next case (R_track i ob) with assms show ?thesis by auto
next case (R_decidePause r b a n) with assms show ?thesis by (auto simp: handled_simps dest!: status_decidePauseRequest)
next case (R_hold a n) with assms show ?thesis by (auto simp: handled_simps holdSession_def assertStatus_def commit_Inr dest!: status_holdNow)
next case (R_release a opts) with assms show ?thesis by (auto simp: handled_simps dest!: status_releaseHold)
next case (R_terminate a r) with assms show ?thesis by (auto simp: handled_simps terminateSession_def commit_Inr)
next case (R_staffSubmit a n) with assms show ?thesis by (auto simp: handled_simps staffSubmit_def assertStatus_def commit_Inr)
next case (R_extendTime k a n) with assms show ?thesis by (auto simp: handled_simps extendSessionTime_def Let_def commit_Inr)
next case (R_legalHold b a) with assms show ?thesis by (auto simp: handled_simps setLegalHold_def commit_Inr)
next case (R_reschedule a v w n) with assms show ?thesis by (auto simp: handled_simps elim!: rescheduleSession_cases)
next case (R_reopen a r) with assms show ?thesis by (auto simp: handled_simps dest!: status_reopenSession)
next case R_sweep with assms show ?thesis using status_sweepSession by (auto simp: ticked_def)
next case (R_abandon d) with assms show ?thesis using status_closeAbandoned by auto
qed

definition moved :: "session_status \<Rightarrow> env \<times> request \<times> ms \<Rightarrow> session_status \<Rightarrow> bool" where
  "moved s l s' \<longleftrightarrow> mayMove (fst (snd l)) s s'"

lemma status_step: "session_step w l w' \<Longrightarrow> status (snd w') = status (snd w) \<or> moved (status (snd w)) l (status (snd w'))"
proof (induction rule: session_step.induct)
  case (handled w now e q w')
  have "handle e q (fst w, snd (beginAt now w)) = Inr (fst w', snd w')" using handled(4) by (simp add: beginAt_def)
  from status_handle[OF this] show ?case by (simp add: moved_def)
qed simp

interpretation session_moves: follows created session_step "\<lambda>w. inv (snd w)" "\<lambda>w. status (snd w)" moved
proof unfold_locales
  show "session_step w l w' \<Longrightarrow> inv (snd w) \<Longrightarrow> status (snd w') = status (snd w) \<or> moved (status (snd w)) l (status (snd w'))" for w l w'
    by (rule status_step)
qed

text \<open>Only a staff reopening moves an ended session.\<close>

lemma ended_moves: "terminal s \<Longrightarrow> mayMove q s s' \<Longrightarrow> \<exists>a req. q = R_reopen a req"
  by (cases q) (auto simp: TERMINAL_STATUSES_def)

end
