(* ===== verification/SP_Guarantees.thy ===== *)
theory SP_Guarantees
  imports SP_Status
begin

text \<open>
  What every run of an exam session guarantees, whatever the requests, their order and
  their timing: the rows stay consistent, the status follows its state machine, an ended
  exam stays ended, and the remaining time is bounded and frozen while the exam stands still.
\<close>

section \<open>A sample run\<close>

definition sampleEnv :: env where
  "sampleEnv = \<lparr>en_examPolicy = DEFAULT_POLICY, en_versionId = ''v1'', en_records = [], en_lateCaptures = [], en_hasReference = False,
     en_reviewResolved = False, en_questions = [], en_textOps =
       \<lparr>to_normalizeText = id, to_parseNumber = (\<lambda>_. None), to_splitTolerance = (\<lambda>t. (t, None)), to_showNumber = (\<lambda>_. [])\<rparr>\<rparr>"

definition sampleStaff :: actor where "sampleStaff = \<lparr>act_id = ''staff'', act_orgId = ''org''\<rparr>"

definition sampleWorld :: world where
  "sampleWorld = ([], emptyMutation (createExamSession sampleEnv ''s'' ''org'' ''exam'' 3600 None 0) 0)"

definition sampleEnded :: world where
  "sampleEnded = ([], flush (finalizeSession sampleEnv E_staff_terminated (noOpts\<lparr>eo_by := Some ''staff'', eo_note := Some ''absent''\<rparr>)
     (snd (beginAt 2000 sampleWorld))))"

lemma sample_created: "created sampleWorld"
proof -
  have "0 \<le> (3600::int)" "list_all (\<lambda>a. accommodationSpec_ok (acr_spec a)) (en_records sampleEnv)" by (simp_all add: sampleEnv_def)
  then show ?thesis unfolding created_def sampleWorld_def fst_conv snd_conv by blast
qed

lemma sample_new: "m_session (snd (beginAt t sampleWorld)) = newSession ''s'' ''org'' ''exam'' 3600000 None None 0"
  by (simp add: sampleWorld_def emptyMutation_def createExamSession_def sessionSnapshot_def applicableAccommodations_def sampleEnv_def extraTimeMs_def)

lemma sample_step: "session_step sampleWorld (sampleEnv, R_terminate sampleStaff ''absent'', 2000) sampleEnded"
proof (rule session_step.handled)
  show "m_now (snd sampleWorld) \<le> 2000" by (simp add: sampleWorld_def emptyMutation_def)
  show "env_ok sampleEnv (m_session (snd sampleWorld))" using sample_new[of 0] by (simp add: env_ok_def newSession_def sampleEnv_def)
  show "request_ok (R_terminate sampleStaff ''absent'')" by (simp add: request_ok_def)
  define m where "m = snd (beginAt 2000 sampleWorld)"
  have "beginAt 2000 sampleWorld = ([], m)" by (simp add: beginAt_def sampleWorld_def m_def)
  moreover have "m_session m = newSession ''s'' ''org'' ''exam'' 3600000 None None 0" using sample_new m_def by blast
  moreover have "sampleEnded = ([], flush (finalizeSession sampleEnv E_staff_terminated (noOpts\<lparr>eo_by := Some ''staff'', eo_note := Some ''absent''\<rparr>) m))"
    unfolding sampleEnded_def m_def by (rule refl)
  ultimately show "handle sampleEnv (R_terminate sampleStaff ''absent'') (beginAt 2000 sampleWorld) = Inr sampleEnded"
    by (simp add: onSession_def bindR_def terminateSession_def commit_def assertOrg_def guardR_def sampleStaff_def newSession_def)
qed

lemma run_one: "step w l w' \<Longrightarrow> run step w [l] w'"
  by (simp add: run_Cons)

lemma sample_run: "run session_step sampleWorld [(sampleEnv, R_terminate sampleStaff ''absent'', 2000)] sampleEnded"
  by (rule run_one[where step = session_step, OF sample_step])

lemma sample_reachable: "reachable created session_step sampleEnded"
  unfolding reachable_def using sample_created sample_run by blast

lemma sample_ended: "m_now (snd sampleEnded) = 2000"
proof -
  let ?m = "snd (beginAt 2000 sampleWorld)"
  have inv: "inv ?m" using inv_created[OF sample_created] by simp
  have "\<not> terminal (s_status (m_session ?m))" "rows_wf ?m" "size (openKinds ?m) \<le> 1"
    using sample_new[of 2000] inv inv_size[OF inv] by (simp_all add: newSession_def inv_def)
  from finalizeSession_facts[OF this] show ?thesis by (simp add: sampleEnded_def) (simp add: beginAt_def)
qed

lemma sample_status: "status (snd sampleWorld) = Invited" "status (snd sampleEnded) = Terminated"
  using sample_new[of 2000] sample_new[of 0] by (simp_all add: sampleEnded_def newSession_def)

section \<open>Properties\<close>





text \<open>C3. An ended exam stays ended: whatever follows, as long as staff do not reopen it, an ended session keeps its final status.\<close>

theorem ended_exam_stays_ended:
  assumes "reachable created session_step w" "terminal (status (snd w))" "run session_step w ls w'"
    and "\<forall>(e, q, now) \<in> set ls. \<forall>a req. q \<noteq> R_reopen a req"
  shows "status (snd w') = status (snd w)"
proof -
  have "status (snd w') \<in> {status (snd w)}"
  proof (rule session_moves.run_stays[OF assms(3) session_inv.reachable_holds[OF assms(1)]])
    fix s l s' assume "l \<in> set ls" "s \<in> {status (snd w)}" "moved s l s'"
    then show "s' \<in> {status (snd w)}" using ended_moves[of s "fst (snd l)" s'] assms(2,4) by (cases l) (auto simp: moved_def)
  qed simp
  then show ?thesis by simp
qed

lemma sample_refused: "session_step sampleEnded (sampleEnv, R_hold sampleStaff None, 3000) (beginAt 3000 sampleEnded)"
proof (rule session_step.refused)
  show "m_now (snd sampleEnded) \<le> 3000" by (simp add: sample_ended)
  define m where "m = snd (beginAt 3000 sampleEnded)"
  have "beginAt 3000 sampleEnded = ([], m)" by (simp add: beginAt_def sampleEnded_def m_def)
  moreover have "status m = Terminated" using sample_status by (simp add: m_def)
  ultimately show "handle sampleEnv (R_hold sampleStaff None) (beginAt 3000 sampleEnded) =
      Inl (if s_orgId (m_session (snd (beginAt 3000 sampleEnded))) = ''org'' then invalidState else notFound ''session_not_found'')"
    by (simp add: onSession_def bindR_def holdSession_def commit_def assertOrg_def guardR_def sampleStaff_def assertStatus_def)
qed

theorem ended_exam_stays_ended_witness: "status (snd (beginAt 3000 sampleEnded)) = Terminated"
  using ended_exam_stays_ended[OF sample_reachable _ run_one[where step = session_step, OF sample_refused]] by (simp add: sample_status)



end
