(* ===== verification/SP_Gaps.thy ===== *)
theory SP_Gaps
  imports SP_Transitions
begin

text \<open>
  apps/server/src/services/reporting-gaps.ts: which reporting outages were not observed
  by anything, and the exam's periods with those outages cut out of the active ones, as
  the report, its totals and its timeline bar read them.
\<close>

section \<open>Unobserved outages\<close>

record outage =
  ou_id :: ident
  ou_startedAt :: ms
  ou_endedAt :: "ms option"
  ou_closedBy :: "string option"

record unobserved_outage =
  un_eventId :: ident
  un_start :: ms
  un_end :: ms
  un_ongoing :: bool
  un_closedBy :: "string option"

definition OUTAGE_RESUMED_BY :: string where "OUTAGE_RESUMED_BY = ''heartbeat_resumed''"
definition GAP_NOT_REPORTING :: string where "GAP_NOT_REPORTING = ''browser_not_reporting''"

definition unobservedOutage :: "span list \<Rightarrow> ms \<Rightarrow> outage \<Rightarrow> unobserved_outage option" where
  "unobservedOutage late endAt o' =
     (let span' = (ou_startedAt o', min (nullish (ou_endedAt o') endAt) endAt)
      in if ou_endedAt o' \<noteq> None \<and> ou_closedBy o' = Some OUTAGE_RESUMED_BY then None
         else if snd span' \<le> fst span' then None
         else if capturesWithin late span' \<noteq> [] then None
         else Some \<lparr>un_eventId = ou_id o', un_start = fst span', un_end = snd span', un_ongoing = (ou_endedAt o' = None), un_closedBy = ou_closedBy o'\<rparr>)"

definition unobservedOutages :: "outage list \<Rightarrow> span list \<Rightarrow> ms \<Rightarrow> unobserved_outage list" where
  "unobservedOutages outages late endAt = List.map_filter (unobservedOutage late endAt) outages"

section \<open>Cutting the outages out of the active periods\<close>

record cut =
  ct_outage :: unobserved_outage
  ct_a :: ms
  ct_b :: ms

definition cutsOf :: "period \<Rightarrow> unobserved_outage list \<Rightarrow> cut list" where
  "cutsOf p outages = sort_key ct_a (filter (\<lambda>c. ct_b c > ct_a c)
     (map (\<lambda>x. \<lparr>ct_outage = x, ct_a = max (pd_startedAt p) (un_start x),
                ct_b = (case pd_endedAt p of None \<Rightarrow> un_end x | Some e \<Rightarrow> min e (un_end x))\<rparr>) outages))"

definition activePiece :: "period \<Rightarrow> nat \<Rightarrow> ms \<Rightarrow> ms option \<Rightarrow> period" where
  "activePiece p pieces from till = p\<lparr>pd_id := (if pieces = 0 then pd_id p else pd_id p @ ''~'' @ showNat pieces), pd_startedAt := from, pd_endedAt := till\<rparr>"

definition outagePiece :: "period \<Rightarrow> cut \<Rightarrow> ms \<Rightarrow> bool \<Rightarrow> period" where
  "outagePiece p c from isOpen =
     \<lparr>pd_id = ''outage:'' @ un_eventId (ct_outage c) @ '':'' @ pd_id p, pd_kind = P_disconnected, pd_observed = False, pd_startedAt = from,
      pd_endedAt = (if isOpen then None else Some (ct_b c)),
      pd_reason = Some (if un_closedBy (ct_outage c) = Some ''session_end'' then GAP_NOT_RETURNED else GAP_NOT_REPORTING),
      pd_meta = [(''derivedFrom'', JStr ''reporting_interrupted''), (''eventId'', JStr (un_eventId (ct_outage c))), (''closedBy'', jstr (un_closedBy (ct_outage c)))]\<rparr>"

text \<open>The loop over the cuts: the cursor and the number of active pieces emitted so far.\<close>

fun cutPeriod :: "period \<Rightarrow> ms \<Rightarrow> nat \<Rightarrow> cut list \<Rightarrow> period list" where
  "cutPeriod p cursor pieces [] =
     (if (case pd_endedAt p of None \<Rightarrow> True | Some e \<Rightarrow> cursor < e) then [activePiece p pieces cursor (pd_endedAt p)] else [])"
| "cutPeriod p cursor pieces (c # cs) =
     (let a = max (ct_a c) cursor
      in if ct_b c \<le> a then cutPeriod p cursor pieces cs
         else let pre = (if a > cursor then [activePiece p pieces cursor (Some a)] else []);
                  isOpen = (un_ongoing (ct_outage c) \<and> pd_endedAt p = None \<and> ct_b c \<ge> un_end (ct_outage c))
              in pre @ [outagePiece p c a isOpen] @
                 (if isOpen then [] else cutPeriod p (ct_b c) (pieces + length pre) cs))"

definition cutActive :: "unobserved_outage list \<Rightarrow> period \<Rightarrow> period list" where
  "cutActive outages p =
     (if pd_kind p \<noteq> P_active then [p]
      else if cutsOf p outages = [] then [p]
      else cutPeriod p (pd_startedAt p) 0 (cutsOf p outages))"

definition withUnobservedOutages :: "period list \<Rightarrow> unobserved_outage list \<Rightarrow> period list" where
  "withUnobservedOutages periods outages =
     (if outages = [] then periods else sort_key pd_startedAt (concat (map (cutActive outages) periods)))"

section \<open>The pieces tile the period\<close>

text \<open>
  \<open>chained a b ps\<close>: the first period starts at \<open>a\<close>, every next one where the one before
  ended, none is empty, and the last ends at \<open>b\<close> (or is open when \<open>b\<close> is none).
\<close>

fun chained :: "ms \<Rightarrow> ms option \<Rightarrow> period list \<Rightarrow> bool" where
  "chained a b [] \<longleftrightarrow> b = Some a"
| "chained a b [p] \<longleftrightarrow> pd_startedAt p = a \<and> pd_endedAt p = b \<and> (case b of None \<Rightarrow> True | Some t \<Rightarrow> a < t)"
| "chained a b (p # q # ps) \<longleftrightarrow> pd_startedAt p = a \<and>
     (case pd_endedAt p of None \<Rightarrow> False | Some t \<Rightarrow> a < t \<and> chained t b (q # ps))"

lemma chained_Cons:
  assumes "pd_startedAt p = a" "pd_endedAt p = Some t" "a < t" "chained t b ps"
  shows "chained a b (p # ps)"
  using assms by (cases ps) auto

definition before :: "ms \<Rightarrow> ms option \<Rightarrow> bool" where
  "before t b \<longleftrightarrow> (case b of None \<Rightarrow> True | Some e \<Rightarrow> t \<le> e)"

definition good_cut :: "period \<Rightarrow> cut \<Rightarrow> bool" where
  "good_cut p c \<longleftrightarrow> ct_a c < ct_b c \<and> pd_startedAt p \<le> ct_a c \<and> un_start (ct_outage c) \<le> ct_a c \<and> ct_b c \<le> un_end (ct_outage c) \<and> before (ct_b c) (pd_endedAt p)"

lemma set_cutsOf: "c \<in> set (cutsOf p outages) \<Longrightarrow> good_cut p c \<and> ct_outage c \<in> set outages"
  by (auto simp: cutsOf_def good_cut_def before_def split: option.splits)

text \<open>\<open>inside t x\<close>: the instant \<open>t\<close> falls into the period \<open>x\<close>.\<close>

definition inside :: "ms \<Rightarrow> period \<Rightarrow> bool" where
  "inside t x \<longleftrightarrow> pd_startedAt x \<le> t \<and> (case pd_endedAt x of None \<Rightarrow> True | Some e \<Rightarrow> t < e)"

definition covers :: "unobserved_outage \<Rightarrow> ms \<Rightarrow> bool" where
  "covers u t \<longleftrightarrow> un_start u \<le> t \<and> t < un_end u"

lemma cut_exists:
  assumes "u \<in> set outages" "covers u t" "inside t p"
  shows "\<exists>c \<in> set (cutsOf p outages). ct_a c \<le> t \<and> t < ct_b c"
  using assms by (force simp: cutsOf_def covers_def inside_def split: option.splits)

lemma sorted_cutsOf: "sorted (map ct_a (cutsOf p outages))"
  by (simp add: cutsOf_def)

lemma chained_cutPeriod:
  assumes "list_all (good_cut p) cs" "before cursor (pd_endedAt p)"
  shows "chained cursor (pd_endedAt p) (cutPeriod p cursor n cs)"
  using assms
proof (induction p cursor n cs rule: cutPeriod.induct)
  case (1 p cursor n)
  then show ?case by (auto simp: before_def activePiece_def split: option.splits)
next
  case (2 p cursor n c cs)
  let ?a = "max (ct_a c) cursor"
  show ?case
  proof (cases "ct_b c \<le> ?a")
    case True
    then show ?thesis using 2 by simp
  next
    case False
    define isOpen where "isOpen \<longleftrightarrow> un_ongoing (ct_outage c) \<and> pd_endedAt p = None \<and> ct_b c \<ge> un_end (ct_outage c)"
    define pre where "pre = (if ?a > cursor then [activePiece p n cursor (Some ?a)] else [])"
    define rest where "rest = (if isOpen then [] else cutPeriod p (ct_b c) (n + length pre) cs)"
    have eq: "cutPeriod p cursor n (c # cs) = pre @ [outagePiece p c ?a isOpen] @ rest"
      using False unfolding cutPeriod.simps Let_def pre_def rest_def isOpen_def by simp
    have rest: "chained ?a (pd_endedAt p) ([outagePiece p c ?a isOpen] @ rest)"
    proof (cases isOpen)
      case True
      then show ?thesis by (simp add: rest_def outagePiece_def isOpen_def)
    next
      case False
      have "chained (ct_b c) (pd_endedAt p) rest"
        using 2(2)[of ?a pre isOpen] 2(3) \<open>\<not> ct_b c \<le> ?a\<close> False
        by (auto simp: rest_def pre_def isOpen_def good_cut_def)
      then show ?thesis using \<open>\<not> ct_b c \<le> ?a\<close> False by (auto intro!: chained_Cons simp: outagePiece_def)
    qed
    have "chained cursor (pd_endedAt p) (pre @ [outagePiece p c ?a isOpen] @ rest)"
      using rest by (auto simp: pre_def activePiece_def max_def split: if_splits intro!: chained_Cons)
    then show ?thesis unfolding eq .
  qed
qed

lemma chained_le: "chained a b ps \<Longrightarrow> before a b"
  by (induction a b ps rule: chained.induct) (auto simp: before_def split: option.splits)

lemma chained_inside:
  assumes "chained a b xs" "x \<in> set xs" "inside t x"
  shows "a \<le> t \<and> (case b of None \<Rightarrow> True | Some e \<Rightarrow> t < e)"
  using assms
proof (induction a b xs rule: chained.induct)
  case (3 a b p q ps)
  obtain u where u: "pd_startedAt p = a" "pd_endedAt p = Some u" "a < u" "chained u b (q # ps)" using 3(2) by (auto split: option.splits)
  show ?case
  proof (cases "x = p")
    case True
    then show ?thesis using 3(4) u chained_le[OF u(4)] by (cases b) (auto simp: inside_def before_def)
  next
    case False
    then show ?thesis using 3(1)[OF u(2) u(4)] 3(3,4) u(3) by auto
  qed
qed (auto simp: inside_def split: option.splits)

text \<open>An active piece meets no cut; an outage piece lies inside its outage.\<close>

lemma active_piece_avoids:
  assumes "sorted (map ct_a cs)" "x \<in> set (cutPeriod p cursor n cs)" "pd_kind x = P_active" "inside t x"
  shows "cursor \<le> t \<and> (\<forall>c \<in> set cs. \<not> (ct_a c \<le> t \<and> t < ct_b c))"
  using assms
proof (induction p cursor n cs rule: cutPeriod.induct)
  case (1 p cursor n)
  then show ?case by (auto simp: activePiece_def inside_def split: if_splits)
next
  case (2 p cursor n c cs)
  let ?a = "max (ct_a c) cursor"
  define isOpen where "isOpen \<longleftrightarrow> un_ongoing (ct_outage c) \<and> pd_endedAt p = None \<and> ct_b c \<ge> un_end (ct_outage c)"
  define pre where "pre = (if ?a > cursor then [activePiece p n cursor (Some ?a)] else [])"
  have later: "\<And>c'. c' \<in> set cs \<Longrightarrow> ct_a c \<le> ct_a c'" "sorted (map ct_a cs)" using 2(3) by auto
  consider "ct_b c \<le> ?a" | "\<not> ct_b c \<le> ?a" "x \<in> set pre" | "\<not> ct_b c \<le> ?a" "\<not> isOpen" "x \<in> set (cutPeriod p (ct_b c) (n + length pre) cs)"
    using 2(4,5) by (fastforce simp: Let_def pre_def isOpen_def outagePiece_def split: if_splits)
  then show ?case
  proof cases
    case 1
    then show ?thesis using 2(1)[OF refl] 2(4-6) later(2) by (auto simp: Let_def)
  next
    case 2
    then show ?thesis using later(1) \<open>inside t x\<close> by (fastforce simp: pre_def activePiece_def inside_def split: if_splits)
  next
    case 3
    have "ct_b c \<le> t \<and> (\<forall>c \<in> set cs. \<not> (ct_a c \<le> t \<and> t < ct_b c))"
      using 2(2)[of ?a pre isOpen] 3 later(2) \<open>pd_kind x = P_active\<close> \<open>inside t x\<close> by (simp add: pre_def isOpen_def)
    then show ?thesis using 3(1) by auto
  qed
qed

lemma outage_piece_covered:
  assumes "list_all (good_cut p) cs" "x \<in> set (cutPeriod p cursor n cs)" "pd_kind p = P_active" "pd_kind x \<noteq> P_active"
  shows "\<exists>c \<in> set cs. pd_kind x = P_disconnected \<and> \<not> pd_observed x \<and> un_start (ct_outage c) \<le> pd_startedAt x \<and>
    (case pd_endedAt x of None \<Rightarrow> un_ongoing (ct_outage c) | Some t \<Rightarrow> t \<le> un_end (ct_outage c))"
  using assms
proof (induction p cursor n cs rule: cutPeriod.induct)
  case (1 p cursor n)
  then show ?case by (auto simp: activePiece_def split: if_splits)
next
  case (2 p cursor n c cs)
  let ?a = "max (ct_a c) cursor"
  define isOpen where "isOpen \<longleftrightarrow> un_ongoing (ct_outage c) \<and> pd_endedAt p = None \<and> ct_b c \<ge> un_end (ct_outage c)"
  define pre where "pre = (if ?a > cursor then [activePiece p n cursor (Some ?a)] else [])"
  consider "ct_b c \<le> ?a" | "x = outagePiece p c ?a isOpen" | "\<not> ct_b c \<le> ?a" "\<not> isOpen" "x \<in> set (cutPeriod p (ct_b c) (n + length pre) cs)"
    using 2(4-6) by (fastforce simp: Let_def pre_def isOpen_def activePiece_def split: if_splits)
  then show ?case
  proof cases
    case 1
    then show ?thesis using 2(1)[OF refl] 2(3-6) by (auto simp: Let_def)
  next
    case b: 2
    then show ?thesis using 2(3) by (auto simp: outagePiece_def isOpen_def good_cut_def)
  next
    case 3
    then show ?thesis using 2(2)[of ?a pre isOpen] 2(3-6) by (auto simp: pre_def isOpen_def)
  qed
qed

section \<open>Properties\<close>

text \<open>C22. The report counts as observed exactly the active time no unobserved outage covers: cutting the outages out of
  an active period leaves consecutive pieces that tile it from its start to its end (or stay open with it), an active piece
  contains no instant of any of the outages, and every other piece is an unobserved 'disconnected' one inside an outage.\<close>

theorem outages_cut_out_of_active_time:
  assumes "pd_kind p = P_active" "case pd_endedAt p of None \<Rightarrow> True | Some e \<Rightarrow> pd_startedAt p < e"
  shows "chained (pd_startedAt p) (pd_endedAt p) (cutActive outages p) \<and>
     (\<forall>x \<in> set (cutActive outages p).
        (pd_kind x = P_active \<longrightarrow> (\<forall>t. inside t x \<longrightarrow> (\<forall>u \<in> set outages. \<not> covers u t))) \<and>
        (pd_kind x \<noteq> P_active \<longrightarrow> pd_kind x = P_disconnected \<and> \<not> pd_observed x \<and>
           (\<exists>u \<in> set outages. un_start u \<le> pd_startedAt x \<and> (case pd_endedAt x of None \<Rightarrow> un_ongoing u | Some t \<Rightarrow> t \<le> un_end u))))"
proof (cases "cutsOf p outages = []")
  case True
  then show ?thesis using assms cut_exists[of _ outages _ p] by (force simp: cutActive_def)
next
  case False
  have good: "list_all (good_cut p) (cutsOf p outages)" using set_cutsOf by (auto simp: list_all_iff)
  have c: "chained (pd_startedAt p) (pd_endedAt p) (cutActive outages p)"
    using chained_cutPeriod[OF good, of "pd_startedAt p" 0] assms False by (auto simp: cutActive_def before_def split: option.splits)
  have eq: "cutActive outages p = cutPeriod p (pd_startedAt p) 0 (cutsOf p outages)" using assms(1) False by (simp add: cutActive_def)
  have inner: "inside t p" if "x \<in> set (cutActive outages p)" "inside t x" for x t
    using chained_inside[OF c that] by (simp add: inside_def)
  have active: "\<not> covers u t" if "x \<in> set (cutActive outages p)" "pd_kind x = P_active" "inside t x" "u \<in> set outages" for x t u
    using active_piece_avoids[OF sorted_cutsOf that(1)[unfolded eq] that(2,3)] cut_exists[OF that(4) _ inner[OF that(1,3)]] by blast
  have outage: "\<exists>u \<in> set outages. pd_kind x = P_disconnected \<and> \<not> pd_observed x \<and> un_start u \<le> pd_startedAt x \<and>
      (case pd_endedAt x of None \<Rightarrow> un_ongoing u | Some t \<Rightarrow> t \<le> un_end u)" if "x \<in> set (cutActive outages p)" "pd_kind x \<noteq> P_active" for x
    using outage_piece_covered[OF good that(1)[unfolded eq] assms(1) that(2)] set_cutsOf by blast
  show ?thesis using c active outage by blast
qed

definition activeHour :: period where
  "activeHour = \<lparr>pd_id = ''p'', pd_kind = P_active, pd_observed = True, pd_startedAt = 0, pd_endedAt = Some 3600000, pd_reason = None, pd_meta = []\<rparr>"

theorem outages_cut_out_of_active_time_witness:
  "chained 0 (Some 3600000) (cutActive [\<lparr>un_eventId = ''e'', un_start = 600000, un_end = 900000, un_ongoing = False, un_closedBy = None\<rparr>] activeHour)"
  using outages_cut_out_of_active_time[of activeHour] by (simp add: activeHour_def)

end
