(* ===== verification/SP_Answers.thy ===== *)
theory SP_Answers
  imports SP_Candidate
begin

text \<open>
  What \<open>saveAnswer\<close> (candidate-actions.ts) promises the outbox of the browser: answers may be
  retried, duplicated and delivered in any order.
\<close>

text \<open>A save as it reaches the server: when, for which question, what.\<close>

type_synonym save = "ms \<times> ident \<times> answer_request"

fun saveAll :: "question_form list \<Rightarrow> ident \<Rightarrow> save list \<Rightarrow> mutation \<Rightarrow> mutation" where
  "saveAll qs i [] m = m"
| "saveAll qs i ((t, q, b) # saves) m =
     saveAll qs i saves (case saveAnswer qs i q b (m\<lparr>m_now := t\<rparr>) of Inr (_, m') \<Rightarrow> m' | Inl _ \<Rightarrow> m\<lparr>m_now := t\<rparr>)"

definition valid_save :: "question_form list \<Rightarrow> save \<Rightarrow> bool" where
  "valid_save qs sv \<longleftrightarrow> (case sv of (t, q, b) \<Rightarrow>
     (case find (\<lambda>f. qf_id f = q) qs of None \<Rightarrow> False | Some f \<Rightarrow> validateAnswer f (ar_value b) = Inr ()))"

definition content :: "answer \<Rightarrow> int \<times> answer_value option" where
  "content a = (an_clientSeq a, an_value a)"

text \<open>The contents competing for a question: what is stored and what arrives.\<close>

definition contents :: "question_form list \<Rightarrow> save list \<Rightarrow> mutation \<Rightarrow> ident \<Rightarrow> (int \<times> answer_value option) set" where
  "contents qs saves m q = content ` set_option (m_answers m q) \<union>
     {(ar_clientSeq b, ar_value b) | t b. (t, q, b) \<in> set saves \<and> valid_save qs (t, q, b)}"

lemma saveAnswer_session: "saveAnswer qs i q b m = Inr (r, m') \<Longrightarrow> m_session m' = m_session m"
  by (auto simp: saveAnswer_def storeAnswer_def Let_def bindR_Inr_iff split: option.splits if_splits)

text \<open>One save in an exam in progress: a newer sequence number replaces, anything else leaves the store.\<close>

lemma save_active:
  assumes "s_status (m_session m) = Active" "assertInControl (m_session m) i = Inr ()"
  shows "m_answers (case saveAnswer qs i q b (m\<lparr>m_now := t\<rparr>) of Inr (_, m') \<Rightarrow> m' | Inl _ \<Rightarrow> m\<lparr>m_now := t\<rparr>) =
     (if valid_save qs (t, q, b) \<and> (case m_answers m q of None \<Rightarrow> True | Some old \<Rightarrow> an_clientSeq old < ar_clientSeq b)
      then (m_answers m)(q \<mapsto> \<lparr>an_value = ar_value b, an_clientSeq = ar_clientSeq b, an_answeredAt = min (nullish (ar_answeredAt b) t) t, an_savedAt = t\<rparr>)
      else m_answers m)"
  using assms by (auto simp: saveAnswer_def valid_save_def storeAnswer_def Let_def bindR_def guardR_def validateAnswer_def split: option.split sum.split)

definition newest :: "(int \<times> answer_value option) set \<Rightarrow> answer option \<Rightarrow> bool" where
  "newest C a = (case a of None \<Rightarrow> C = {} | Some a \<Rightarrow> content a \<in> C \<and> (\<forall>c \<in> C. fst c \<le> an_clientSeq a))"

lemma newest_dominated:
  assumes "C \<subseteq> D" "\<forall>d \<in> D. \<exists>c \<in> C. fst d \<le> fst c" "newest C x" shows "newest D x"
  using assms by (cases x) (fastforce simp: newest_def content_def)+

lemma saveAll_newest:
  assumes "s_status (m_session m) = Active" "assertInControl (m_session m) i = Inr ()"
  shows "newest (contents qs saves m q) (m_answers (saveAll qs i saves m) q)"
  using assms
proof (induction saves arbitrary: m)
  case Nil
  then show ?case by (cases "m_answers m q") (simp_all add: newest_def contents_def content_def)
next
  case (Cons sv saves)
  obtain t k b where sv: "sv = (t, k, b)" by (cases sv)
  define m1 where "m1 = (case saveAnswer qs i k b (m\<lparr>m_now := t\<rparr>) of Inr (_, m') \<Rightarrow> m' | Inl _ \<Rightarrow> m\<lparr>m_now := t\<rparr>)"
  have s: "m_session m1 = m_session m"
    using saveAnswer_session[of qs i k b "m\<lparr>m_now := t\<rparr>"] by (auto simp: m1_def split: sum.split)
  have a: "m_answers m1 = (if valid_save qs (t, k, b) \<and> (case m_answers m k of None \<Rightarrow> True | Some old \<Rightarrow> an_clientSeq old < ar_clientSeq b)
      then (m_answers m)(k \<mapsto> \<lparr>an_value = ar_value b, an_clientSeq = ar_clientSeq b, an_answeredAt = min (nullish (ar_answeredAt b) t) t, an_savedAt = t\<rparr>)
      else m_answers m)" unfolding m1_def by (rule save_active[OF Cons.prems])
  have n: "newest (contents qs saves m1 q) (m_answers (saveAll qs i saves m1) q)" by (rule Cons.IH) (use Cons.prems s in simp_all)
  define R where "R = {(ar_clientSeq b, ar_value b) | t b. (t, q, b) \<in> set saves \<and> valid_save qs (t, q, b)}"
  define N where "N = (if k = q \<and> valid_save qs (t, k, b) then {(ar_clientSeq b, ar_value b)} else {})"
  have C1: "contents qs saves m1 q = content ` set_option (m_answers m1 q) \<union> R" by (simp add: contents_def R_def)
  have C: "contents qs (sv # saves) m q = content ` set_option (m_answers m q) \<union> R \<union> N"
    by (auto simp: contents_def R_def N_def sv)
  let ?A = "content ` set_option (m_answers m q)" and ?B = "content ` set_option (m_answers m1 q)"
  have sub: "?B \<subseteq> ?A \<union> N" and dom: "\<And>d. d \<in> ?A \<union> N \<Longrightarrow> \<exists>c \<in> ?B. fst d \<le> fst c"
    using a by (cases "m_answers m q"; auto simp: N_def content_def split: if_splits)+
  have "\<exists>c \<in> ?B \<union> R. fst d \<le> fst c" if "d \<in> ?A \<union> R \<union> N" for d
    using that dom[of d] by (cases "d \<in> R") (blast intro: order_refl)+
  then have "newest (contents qs (sv # saves) m q) (m_answers (saveAll qs i saves m1) q)"
    unfolding C using sub by (intro newest_dominated[OF _ _ n]) (unfold C1, blast+)
  then show ?case by (simp add: sv m1_def)
qed

lemma newest_unique:
  assumes "newest C x" "newest C y" "inj_on fst C" shows "map_option content x = map_option content y"
proof (cases x)
  case (Some a)
  then obtain b where b: "y = Some b" using assms by (cases y) (auto simp: newest_def)
  have "content a \<in> C" "content b \<in> C" "fst (content a) \<le> fst (content b)" "fst (content b) \<le> fst (content a)"
    using assms(1,2) Some b by (auto simp: newest_def content_def)
  then show ?thesis using Some b inj_onD[OF assms(3), of "content a" "content b"] by simp
qed (use assms in \<open>cases y; auto simp: newest_def\<close>)

section \<open>Properties\<close>

text \<open>A sitting with one question, answered three times; the newest save arrives in the middle.\<close>

definition sampleQuestions :: "question_form list" where
  "sampleQuestions = [\<lparr>qf_id = ''q'', qf_type = Short_text, qf_options = []\<rparr>]"

definition sampleSitting :: mutation where
  "sampleSitting = emptyMutation ((newSession ''s'' ''o'' ''x'' 3600000 None None 0)
     \<lparr>s_status := Active, s_activeInstanceId := Some ''tab'', s_verifiedInstanceId := Some ''tab''\<rparr>) 0"

definition sampleSaves :: "save list" where
  "sampleSaves = [(1, ''q'', \<lparr>ar_value = Some (Text ''a''), ar_clientSeq = 1, ar_answeredAt = None\<rparr>),
                  (2, ''q'', \<lparr>ar_value = Some (Text ''c''), ar_clientSeq = 3, ar_answeredAt = None\<rparr>),
                  (3, ''q'', \<lparr>ar_value = Some (Text ''b''), ar_clientSeq = 2, ar_answeredAt = None\<rparr>)]"

lemma sample_sitting: "s_status (m_session sampleSitting) = Active" "assertInControl (m_session sampleSitting) ''tab'' = Inr ()"
  by (simp_all add: sampleSitting_def emptyMutation_def assertInControl_def newSession_def)

lemma contents_code:
  "contents qs saves m q = content ` set_option (m_answers m q) \<union>
     set (map (\<lambda>(t, k, b). (ar_clientSeq b, ar_value b)) (filter (\<lambda>(t, k, b). k = q \<and> valid_save qs (t, k, b)) saves))"
  by (force simp: contents_def)

lemma sample_contents: "contents sampleQuestions sampleSaves sampleSitting ''q'' = {(1, Some (Text ''a'')), (3, Some (Text ''c'')), (2, Some (Text ''b''))}"
  by (simp add: contents_code sampleSitting_def emptyMutation_def sampleSaves_def valid_save_def sampleQuestions_def validateAnswer_def guardR_def)

text \<open>C5. The newest answer wins: while the candidate's verified browser sends answers in an exam in progress, whatever is
  retried, repeated or overtaken, each question ends up with the answer of the greatest sequence number among what was stored and the
  valid saves that arrived, and a question without any stays unanswered.\<close>

theorem newest_answer_wins:
  assumes "s_status (m_session m) = Active" "assertInControl (m_session m) i = Inr ()"
  shows "case m_answers (saveAll qs i saves m) q of
           None \<Rightarrow> contents qs saves m q = {}
         | Some a \<Rightarrow> content a \<in> contents qs saves m q \<and> (\<forall>c \<in> contents qs saves m q. fst c \<le> an_clientSeq a)"
  using saveAll_newest[OF assms] by (simp add: newest_def)

theorem newest_answer_wins_witness:
  "map_option content (m_answers (saveAll sampleQuestions ''tab'' sampleSaves sampleSitting) ''q'') = Some (3, Some (Text ''c''))"
  using newest_answer_wins[OF sample_sitting, of sampleQuestions sampleSaves "''q''"]
  by (auto simp: sample_contents content_def split: option.splits)

text \<open>C23. Delivery order does not matter: two deliveries of the same saves, in any order and with any repetitions, leave the same
  answers, provided the browser never gives one sequence number two different values.\<close>

theorem answers_in_any_order:
  assumes "s_status (m_session m) = Active" "assertInControl (m_session m) i = Inr ()"
    and "set saves = set saves'" "inj_on fst (contents qs saves m q)"
  shows "map_option content (m_answers (saveAll qs i saves m) q) = map_option content (m_answers (saveAll qs i saves' m) q)"
proof -
  have "contents qs saves' m q = contents qs saves m q" using assms(3) by (simp add: contents_def)
  with saveAll_newest[OF assms(1,2), of qs saves' q]
  show ?thesis using newest_unique[OF saveAll_newest[OF assms(1,2)] _ assms(4)] by simp
qed

theorem answers_in_any_order_witness:
  "map_option content (m_answers (saveAll sampleQuestions ''tab'' sampleSaves sampleSitting) ''q'') =
   map_option content (m_answers (saveAll sampleQuestions ''tab'' (rev sampleSaves @ sampleSaves) sampleSitting) ''q'')"
  by (rule answers_in_any_order[OF sample_sitting]) (simp_all add: sample_contents)

end
