(* ===== verification/Spec2Isabelle.thy ===== *)
theory Spec2Isabelle
  imports SP_Guarantees SP_Gaps SP_Answers
begin

text \<open>
  Verification library of the exam session core of SmartProctoring (packages/shared and apps/server).

  The program. A candidate takes an exam in a browser; the server keeps one row per exam session, its periods, events,
  pause requests, queued commands and answers. Every change runs in \<open>withSession\<close> (session-state.ts): the row is
  locked, a handler changes it through a \<open>SessionMutation\<close> and the result is committed, or an error rolls it back.
\<close>

end
